(* ===== verification/Prelude.thy ===== *)
theory Prelude
  imports Complex_Main "HOL-Library.AList"
begin

text \<open>
  Shared vocabulary of the development: the result type of operations that may raise, Python
  dictionaries as association lists in insertion order, and the loops "check every element"
  and "first element that".  Nothing here is about the program itself.
\<close>

named_theorems res_simps \<open>when an operation that may raise returns normally\<close>
named_theorems dict_simps \<open>lookups after dictionary updates\<close>

section \<open>Results: an exception or a value\<close>

definition bindR :: "'e + 'a \<Rightarrow> ('a \<Rightarrow> 'e + 'b) \<Rightarrow> 'e + 'b" where
  "bindR r f = (case r of Inl e \<Rightarrow> Inl e | Inr x \<Rightarrow> f x)"

definition ensure :: "bool \<Rightarrow> 'e \<Rightarrow> 'e + unit" where
  "ensure b e = (if b then Inr () else Inl e)"

definition is_ok :: "'e + 'a \<Rightarrow> bool" where
  "is_ok r = (case r of Inl _ \<Rightarrow> False | Inr _ \<Rightarrow> True)"

lemma bindR_simps [simp]: "bindR (Inl e) f = Inl e" "bindR (Inr x) f = f x"
  by (simp_all add: bindR_def)

lemma bindR_Inr_iff [res_simps, simp]: "bindR r f = Inr y \<longleftrightarrow> (\<exists>x. r = Inr x \<and> f x = Inr y)"
  by (cases r) simp_all

lemma bindR_Inl_iff: "bindR r f = Inl e \<longleftrightarrow> r = Inl e \<or> (\<exists>x. r = Inr x \<and> f x = Inl e)"
  by (cases r) simp_all

lemma ensure_Inr_iff [res_simps, simp]: "ensure b e = Inr u \<longleftrightarrow> b"
  by (simp add: ensure_def)

lemma ensure_Inl_iff: "ensure b e = Inl e' \<longleftrightarrow> \<not> b \<and> e = e'"
  by (auto simp: ensure_def)

lemma ensure_True [simp]: "ensure True e = Inr ()"
  by (simp add: ensure_def)

lemma ensure_False [simp]: "ensure False e = Inl e"
  by (simp add: ensure_def)

lemma is_ok_simps [simp]: "is_ok (Inr x)" "\<not> is_ok (Inl e)"
  by (simp_all add: is_ok_def)

lemma is_ok_iff: "is_ok r \<longleftrightarrow> (\<exists>x. r = Inr x)"
  by (cases r) simp_all

lemma is_ok_bindR [simp]: "is_ok (bindR r f) \<longleftrightarrow> (\<exists>x. r = Inr x \<and> is_ok (f x))"
  by (cases r) simp_all

lemma is_ok_ensure [simp]: "is_ok (ensure b e) \<longleftrightarrow> b"
  by (simp add: ensure_def)

lemma unit_result_eq: "(r :: 'e + unit) = Inr () \<longleftrightarrow> is_ok r"
  by (cases r) simp_all

text \<open>A condition on an optional value that holds when there is none.\<close>

definition opt_all :: "('a \<Rightarrow> bool) \<Rightarrow> 'a option \<Rightarrow> bool" where
  "opt_all P v = (case v of None \<Rightarrow> True | Some x \<Rightarrow> P x)"

lemma opt_all_simps [simp]: "opt_all P None" "opt_all P (Some x) = P x"
  by (simp_all add: opt_all_def)

lemma opt_all_mono: "opt_all P v \<Longrightarrow> (\<And>x. P x \<Longrightarrow> Q x) \<Longrightarrow> opt_all Q v"
  by (cases v) simp_all

lemma map_sum_snd_Inr [simp]: "map_sum id snd r = Inr y \<longleftrightarrow> (\<exists>x. r = Inr (x, y))"
  by (cases r) auto

text \<open>A loop whose body may raise: the first raise ends it.\<close>

primrec check_all :: "('a \<Rightarrow> 'e + unit) \<Rightarrow> 'a list \<Rightarrow> 'e + unit" where
  "check_all f [] = Inr ()"
| "check_all f (x # xs) = bindR (f x) (\<lambda>_. check_all f xs)"

lemma check_all_ok [res_simps, simp]: "check_all f xs = Inr u \<longleftrightarrow> (\<forall>x \<in> set xs. is_ok (f x))"
  by (induction xs) (auto simp: bindR_Inr_iff is_ok_iff)

lemma is_ok_check_all [simp]: "is_ok (check_all f xs) \<longleftrightarrow> (\<forall>x \<in> set xs. is_ok (f x))"
  by (metis check_all_ok unit_result_eq)

lemma check_all_first:
  "check_all f xs = Inl e \<Longrightarrow> \<exists>ys x zs. xs = ys @ x # zs \<and> (\<forall>y \<in> set ys. is_ok (f y)) \<and> f x = Inl e"
proof (induction xs)
  case Nil
  then show ?case by simp
next
  case (Cons a xs)
  show ?case
  proof (cases "f a")
    case (Inl e')
    with Cons.prems have "f a = Inl e" by simp
    then show ?thesis by (metis append_Nil empty_iff list.set(1))
  next
    case (Inr u)
    with Cons.prems have "check_all f xs = Inl e" by simp
    then obtain ys x zs where "xs = ys @ x # zs" "\<forall>y \<in> set ys. is_ok (f y)" "f x = Inl e"
      using Cons.IH by blast
    with Inr have "a # xs = (a # ys) @ x # zs" "\<forall>y \<in> set (a # ys). is_ok (f y)" "f x = Inl e"
      by (simp_all add: is_ok_iff)
    then show ?thesis by blast
  qed
qed

text \<open>A loop that threads a state through its body and may raise.\<close>

primrec foldR :: "('s \<Rightarrow> 'a \<Rightarrow> 'e + 's) \<Rightarrow> 's \<Rightarrow> 'a list \<Rightarrow> 'e + 's" where
  "foldR f s [] = Inr s"
| "foldR f s (x # xs) = bindR (f s x) (\<lambda>s'. foldR f s' xs)"

lemma foldR_invariant:
  assumes "foldR f s xs = Inr s'" and "P s"
    and "\<And>s x s'. x \<in> set xs \<Longrightarrow> P s \<Longrightarrow> f s x = Inr s' \<Longrightarrow> P s'"
  shows "P s'"
  using assms
proof (induction xs arbitrary: s)
  case Nil
  then show ?case by simp
next
  case (Cons x xs)
  from Cons.prems(1) obtain t where t: "f s x = Inr t" "foldR f t xs = Inr s'"
    by (auto simp: bindR_Inr_iff)
  have "P t" using Cons.prems(3)[of x s t] Cons.prems(2) t(1) by simp
  with t(2) show ?case
    by (rule Cons.IH) (use Cons.prems(3) in auto)
qed

section \<open>Dictionaries\<close>

text \<open>
  A Python dict keeps its keys in insertion order and holds each key once: an association
  list with distinct keys.  Assigning to a present key keeps its position; a new key goes last.
\<close>

type_synonym 'v dict = "(string \<times> 'v) list"

abbreviation dset :: "'k \<Rightarrow> 'v \<Rightarrow> ('k \<times> 'v) list \<Rightarrow> ('k \<times> 'v) list" where
  "dset \<equiv> AList.update"

abbreviation dpop :: "'k \<Rightarrow> ('k \<times> 'v) list \<Rightarrow> ('k \<times> 'v) list" where
  "dpop \<equiv> AList.delete"

abbreviation wf_dict :: "('k \<times> 'v) list \<Rightarrow> bool" where
  "wf_dict d \<equiv> distinct (map fst d)"

definition has_key :: "('k \<times> 'v) list \<Rightarrow> 'k \<Rightarrow> bool" where
  "has_key d k = (map_of d k \<noteq> None)"

text \<open>\<open>{**a, **b}\<close> and \<open>a.update(b)\<close>: every entry of \<open>b\<close> is assigned in turn.\<close>

definition dupdate :: "('k \<times> 'v) list \<Rightarrow> ('k \<times> 'v) list \<Rightarrow> ('k \<times> 'v) list" where
  "dupdate a b = fold (\<lambda>(k, v). dset k v) b a"

lemma has_key_iff: "has_key d k \<longleftrightarrow> k \<in> fst ` set d"
  by (simp add: has_key_def map_of_eq_None_iff)

lemma map_of_dset [dict_simps, simp]: "map_of (dset k v d) = (map_of d)(k \<mapsto> v)"
  by (rule update_conv')

lemma map_of_dpop [dict_simps, simp]: "map_of (dpop k d) = (map_of d)(k := None)"
  by (rule delete_conv')

lemma wf_dict_dset [simp]: "wf_dict d \<Longrightarrow> wf_dict (dset k v d)"
  by (rule distinct_update)

lemma wf_dict_dpop [simp]: "wf_dict d \<Longrightarrow> wf_dict (dpop k d)"
  by (rule distinct_delete)

lemma wf_dict_dupdate [simp]: "wf_dict a \<Longrightarrow> wf_dict (dupdate a b)"
  unfolding dupdate_def by (induction b arbitrary: a) (auto simp: distinct_update)

lemma map_of_dupdate:
  "wf_dict b \<Longrightarrow> map_of (dupdate a b) k = (case map_of b k of None \<Rightarrow> map_of a k | Some v \<Rightarrow> Some v)"
proof (induction b arbitrary: a)
  case Nil
  then show ?case by (simp add: dupdate_def)
next
  case (Cons p b)
  obtain k' v' where p: "p = (k', v')" by (cases p)
  have "map_of (dupdate a (p # b)) k = map_of (dupdate (dset k' v' a) b) k"
    by (simp add: dupdate_def p)
  also have "\<dots> = (case map_of b k of None \<Rightarrow> map_of (dset k' v' a) k | Some v \<Rightarrow> Some v)"
    using Cons by simp
  also have "\<dots> = (case map_of (p # b) k of None \<Rightarrow> map_of a k | Some v \<Rightarrow> Some v)"
  proof (cases "k = k'")
    case True
    with Cons.prems have "map_of b k = None" by (simp add: p map_of_eq_None_iff)
    with True show ?thesis by (simp add: p)
  next
    case False
    then show ?thesis by (simp add: p split: option.split)
  qed
  finally show ?case .
qed

lemma map_of_mem: "map_of d k = Some v \<Longrightarrow> (k, v) \<in> set d"
  by (rule map_of_SomeD)

lemma wf_dict_mem_iff: "wf_dict d \<Longrightarrow> map_of d k = Some v \<longleftrightarrow> (k, v) \<in> set d"
  by (rule map_of_eq_Some_iff)

lemma fst_set_dset: "fst ` set (dset k v d) = insert k (fst ` set d)"
  by (simp add: dom_update)

lemma map_of_filter_key:
  "map_of (filter (\<lambda>(k, v). P k) d) k = (if P k then map_of d k else None)"
  by (induction d) auto

lemma wf_dict_filter [simp]: "wf_dict d \<Longrightarrow> wf_dict (filter P d)"
  by (induction d) (auto simp: image_iff)

end
