(* ===== verification/Py_Json.thy ===== *)
theory Py_Json
  imports Prelude
begin

text \<open>
  The values a JSON column or a request body holds, as Python reads them, and the operations
  the program applies to them without knowing their type: equality, truth, membership.
  Python compares \<open>True\<close> with \<open>1\<close> and \<open>1\<close> with \<open>1.0\<close> as equal; dictionaries compare as sets
  of entries and lists position by position.  A float is the rational number it denotes
  (JSON has no infinities and no NaN); a string is a list of characters.
\<close>

section \<open>JSON values\<close>

datatype json =
    JNull
  | JBool bool
  | JInt int
  | JFloat rat
  | JStr string
  | JList "json list"
  | JObj "(string \<times> json) list"

fun num_of :: "json \<Rightarrow> rat option" where
  "num_of (JBool b) = Some (if b then 1 else 0)"
| "num_of (JInt i) = Some (of_int i)"
| "num_of (JFloat q) = Some q"
| "num_of _ = None"

fun is_null :: "json \<Rightarrow> bool" where
  "is_null JNull = True"
| "is_null _ = False"

fun is_bool :: "json \<Rightarrow> bool" where
  "is_bool (JBool _) = True"
| "is_bool _ = False"

fun is_str :: "json \<Rightarrow> bool" where
  "is_str (JStr _) = True"
| "is_str _ = False"

text \<open>\<open>isinstance(v, int) and not isinstance(v, bool)\<close>, and the same with \<open>(int, float)\<close>.\<close>

fun is_integer :: "json \<Rightarrow> bool" where
  "is_integer (JInt _) = True"
| "is_integer _ = False"

fun is_number :: "json \<Rightarrow> bool" where
  "is_number (JInt _) = True"
| "is_number (JFloat _) = True"
| "is_number _ = False"

fun truthy :: "json \<Rightarrow> bool" where
  "truthy JNull = False"
| "truthy (JBool b) = b"
| "truthy (JInt i) = (i \<noteq> 0)"
| "truthy (JFloat q) = (q \<noteq> 0)"
| "truthy (JStr s) = (s \<noteq> [])"
| "truthy (JList l) = (l \<noteq> [])"
| "truthy (JObj d) = (d \<noteq> [])"

section \<open>Equality\<close>

fun py_eq :: "json \<Rightarrow> json \<Rightarrow> bool"
  and py_eqs :: "json list \<Rightarrow> json list \<Rightarrow> bool" where
  "py_eq (JObj a) (JObj b) =
     (length a = length b \<and>
      list_all (\<lambda>(k, v). list_ex (\<lambda>(k', v'). k = k' \<and> py_eq v v') b) a)"
| "py_eq (JList a) (JList b) = py_eqs a b"
| "py_eq (JStr a) (JStr b) = (a = b)"
| "py_eq JNull JNull = True"
| "py_eq a b = (case (num_of a, num_of b) of (Some x, Some y) \<Rightarrow> x = y | _ \<Rightarrow> False)"
| "py_eqs [] [] = True"
| "py_eqs (x # xs) (y # ys) = (py_eq x y \<and> py_eqs xs ys)"
| "py_eqs _ _ = False"

lemma py_eq_num: "num_of a = Some x \<Longrightarrow> py_eq a b \<longleftrightarrow> num_of b = Some x"
  by (cases a; cases b) auto

lemma py_eq_str [simp]: "py_eq (JStr s) v \<longleftrightarrow> v = JStr s" "py_eq v (JStr s) \<longleftrightarrow> v = JStr s"
  by (cases v; auto)+

lemma py_eq_null [simp]: "py_eq JNull v \<longleftrightarrow> v = JNull" "py_eq v JNull \<longleftrightarrow> v = JNull"
  by (cases v; simp)+

lemma py_eq_refl [simp]: "py_eq v v"
proof (induction v)
  case (JList l)
  then have "py_eqs l l" by (induction l) auto
  then show ?case by simp
next
  case (JObj d)
  have "list_ex (\<lambda>(k', v'). k = k' \<and> py_eq v v') d" if "(k, v) \<in> set d" for k v
  proof -
    from JObj[OF that] have "py_eq v v" by simp
    with that show ?thesis by (auto simp: list_ex_iff)
  qed
  then show ?case by (auto simp: list_all_iff)
qed simp_all

section \<open>Dictionaries of JSON values\<close>

text \<open>\<open>d.get(k)\<close>: a missing key and a stored null both read as None.\<close>

definition pget :: "json dict \<Rightarrow> string \<Rightarrow> json" where
  "pget d k = (case map_of d k of None \<Rightarrow> JNull | Some v \<Rightarrow> v)"

text \<open>\<open>v or {}\<close>.\<close>

definition or_obj :: "json \<Rightarrow> json" where
  "or_obj v = (if truthy v then v else JObj [])"

lemma or_obj_simps [simp]: "or_obj JNull = JObj []" "or_obj (JObj d) = JObj d"
  by (simp_all add: or_obj_def)

lemma pget_Some [simp]: "map_of d k = Some v \<Longrightarrow> pget d k = v"
  by (simp add: pget_def)

lemma pget_None [simp]: "map_of d k = None \<Longrightarrow> pget d k = JNull"
  by (simp add: pget_def)

lemma pget_not_null: "pget d k \<noteq> JNull \<Longrightarrow> map_of d k = Some (pget d k)"
  by (auto simp: pget_def split: option.splits)

lemma pget_Nil [simp]: "pget [] k = JNull"
  by (simp add: pget_def)

lemma pget_Cons [simp]: "pget ((k', v) # d) k = (if k = k' then v else pget d k)"
  by (simp add: pget_def)

lemma pget_dset [dict_simps, simp]: "pget (dset k v d) k' = (if k' = k then v else pget d k')"
  by (simp add: pget_def)

lemma pget_dpop [dict_simps, simp]: "pget (dpop k d) k' = (if k' = k then JNull else pget d k')"
  by (simp add: pget_def)

text \<open>
  \<open>v in container\<close>: membership in a list compares with \<open>==\<close>, in a string looks for a
  substring, in a dict for a key; other containers raise TypeError (here None).
\<close>

definition is_substring :: "string \<Rightarrow> string \<Rightarrow> bool" where
  "is_substring s t = list_ex (\<lambda>n. take (length s) (drop n t) = s) [0..<Suc (length t)]"

fun py_in :: "json \<Rightarrow> json \<Rightarrow> bool option" where
  "py_in v (JList l) = Some (list_ex (py_eq v) l)"
| "py_in (JStr s) (JStr t) = Some (is_substring s t)"
| "py_in (JList _) (JObj d) = None"
| "py_in (JObj _) (JObj d) = None"
| "py_in v (JObj d) = Some (list_ex (\<lambda>(k, _). py_eq v (JStr k)) d)"
| "py_in _ _ = None"

text \<open>Python's \<open>%\<close>: the result has the sign of the divisor.\<close>

definition py_mod :: "rat \<Rightarrow> rat \<Rightarrow> rat" where
  "py_mod a b = a - b * of_int \<lfloor>a / b\<rfloor>"

lemma py_mod_eq_0_iff: "b \<noteq> 0 \<Longrightarrow> py_mod a b = 0 \<longleftrightarrow> (\<exists>n. a = b * of_int n)"
  by (auto simp: py_mod_def)

end
