(* ===== verification/Exceptions.thy ===== *)
theory Exceptions
  imports Py_Json
begin

text \<open>
  The exceptions of the program (\<open>exceptions.py\<close>): every API error is a class with a status
  code and a message.  A message is the template of the source's f-string with the values it
  interpolates, so two messages are equal when the source's templates and values are.
  The built-in exceptions the modelled code can meet, and FastAPI's \<open>HTTPException\<close>, stand
  beside them.
\<close>

datatype message = Msg string "json list"

datatype err_class =
    APIError
  | IoTBackendAPIError
  | InvalidInputError
  | ValidationError
  | ModuleConfigNotSupported
  | InvalidCredentials
  | UnmatchedDependency
  | SEMSError
  | InsufficientPermissions
  | InsufficientPermissionsOrResourceNotFound
  | UserNotFound
  | InvalidUserRole
  | EdgeModuleAPIError
  | RequestTimeout
  | SEMSTemplateError
  | SEMSFirmwareError
  | ModuleNotFound
  | ConfigAlreadyExists
  | UploadError
  | BlobError
  | ConfigGenerationError
  | AuthImplementationError

fun base_class :: "err_class \<Rightarrow> err_class option" where
  "base_class APIError = None"
| "base_class UserNotFound = Some InsufficientPermissions"
| "base_class _ = Some APIError"

fun is_subclass :: "err_class \<Rightarrow> err_class \<Rightarrow> bool" where
  "is_subclass c APIError = True"
| "is_subclass UserNotFound InsufficientPermissions = True"
| "is_subclass c d = (c = d)"

datatype exn =
    Api err_class message nat
  | HTTPException nat message
  | ValueError message
  | TypeError
  | AttributeError
  | KeyError string
  | ZeroDivisionError
  | RuntimeError message
  | IntegrityError
  | SchemaError message
  | OtherError message

type_synonym 'a res = "exn + 'a"

text \<open>The two classes with a fixed message.\<close>

definition user_not_found :: "nat \<Rightarrow> exn" where
  "user_not_found status = Api UserNotFound (Msg ''User ID not found in auth context.'' []) status"

definition auth_implementation_error :: exn where
  "auth_implementation_error = Api AuthImplementationError (Msg ''Internal Api Error'' []) 500"

text \<open>\<open>InsufficientPermissions(..., status_code=403)\<close> and a plain \<open>APIError\<close>.\<close>

abbreviation forbidden :: "string \<Rightarrow> json list \<Rightarrow> exn" where
  "forbidden t args \<equiv> Api InsufficientPermissions (Msg t args) 403"

abbreviation api_error :: "string \<Rightarrow> json list \<Rightarrow> nat \<Rightarrow> exn" where
  "api_error t args status \<equiv> Api APIError (Msg t args) status"

fun status_of :: "exn \<Rightarrow> nat option" where
  "status_of (Api _ _ n) = Some n"
| "status_of (HTTPException n _) = Some n"
| "status_of _ = None"

fun is_value_error :: "exn \<Rightarrow> bool" where
  "is_value_error (ValueError _) = True"
| "is_value_error _ = False"

text \<open>\<open>except ValueError as exc: raise C(str(exc), status)\<close>.\<close>

fun rewrap_value_error :: "(message \<Rightarrow> exn) \<Rightarrow> exn + 'a \<Rightarrow> exn + 'a" where
  "rewrap_value_error f (Inl (ValueError m)) = Inl (f m)"
| "rewrap_value_error f r = r"

lemma is_subclass_refl [simp]: "is_subclass c c"
  by (cases c) simp_all

lemma is_subclass_base: "base_class c = Some d \<Longrightarrow> is_subclass c d"
  by (cases c) auto

lemma is_ok_rewrap [simp]: "is_ok (rewrap_value_error f r) = is_ok r"
  by (cases "(f, r)" rule: rewrap_value_error.cases) simp_all

lemma rewrap_Inr_iff [res_simps, simp]: "rewrap_value_error f r = Inr x \<longleftrightarrow> r = Inr x"
  by (cases "(f, r)" rule: rewrap_value_error.cases) simp_all

end
