(* ===== verification/Py_String.thy ===== *)
theory Py_String
  imports Exceptions
begin

text \<open>
  The string methods of Python that the program uses.  A string is a list of characters; a
  character is a code point below 256, and the case mappings are those of ASCII.  A regular
  expression of the source is a character class and a length test, or, for the two that find
  \<open>{name}\<close> placeholders, the scan below.
\<close>

section \<open>Characters\<close>

definition is_upper_letter :: "char \<Rightarrow> bool" where
  "is_upper_letter c = ((65 :: nat) \<le> of_char c \<and> (of_char c :: nat) \<le> 90)"

definition is_lower_letter :: "char \<Rightarrow> bool" where
  "is_lower_letter c = ((97 :: nat) \<le> of_char c \<and> (of_char c :: nat) \<le> 122)"

definition is_digit :: "char \<Rightarrow> bool" where
  "is_digit c = ((48 :: nat) \<le> of_char c \<and> (of_char c :: nat) \<le> 57)"

definition is_letter :: "char \<Rightarrow> bool" where
  "is_letter c = (is_upper_letter c \<or> is_lower_letter c)"

definition is_alnum :: "char \<Rightarrow> bool" where
  "is_alnum c = (is_letter c \<or> is_digit c)"

definition is_space :: "char \<Rightarrow> bool" where
  "is_space c = (of_char c \<in> {9, 10, 11, 12, 13, 28, 29, 30, 31, 32, 133, 160 :: nat})"

definition lower_char :: "char \<Rightarrow> char" where
  "lower_char c = (if is_upper_letter c then char_of (of_char c + 32 :: nat) else c)"

definition upper_char :: "char \<Rightarrow> char" where
  "upper_char c = (if is_lower_letter c then char_of (of_char c - 32 :: nat) else c)"

text \<open>The same classes on the bits of a character, for evaluation.\<close>

lemma of_char_bits:
  "(of_char (Char b0 b1 b2 b3 b4 b5 b6 b7) :: nat) =
     of_bool b0 + 2 * of_bool b1 + 4 * of_bool b2 + 8 * of_bool b3 + 16 * of_bool b4 + 32 * of_bool b5 +
     64 * of_bool b6 + 128 * of_bool b7"
  by (simp add: of_char_def horner_sum_simps algebra_simps)

lemma is_upper_letter_bits [code]:
  "is_upper_letter (Char b0 b1 b2 b3 b4 b5 b6 b7) =
     (\<not> b7 \<and> b6 \<and> \<not> b5 \<and> (b4 \<or> b3 \<or> b2 \<or> b1 \<or> b0) \<and> \<not> (b4 \<and> b3 \<and> (b2 \<or> b1 \<and> b0)))"
  unfolding is_upper_letter_def of_char_bits of_bool_def by auto

lemma is_lower_letter_bits [code]:
  "is_lower_letter (Char b0 b1 b2 b3 b4 b5 b6 b7) =
     (\<not> b7 \<and> b6 \<and> b5 \<and> (b4 \<or> b3 \<or> b2 \<or> b1 \<or> b0) \<and> \<not> (b4 \<and> b3 \<and> (b2 \<or> b1 \<and> b0)))"
  unfolding is_lower_letter_def of_char_bits of_bool_def by auto

lemma is_digit_bits [code]:
  "is_digit (Char b0 b1 b2 b3 b4 b5 b6 b7) = (\<not> b7 \<and> \<not> b6 \<and> b5 \<and> b4 \<and> \<not> (b3 \<and> (b2 \<or> b1)))"
  unfolding is_digit_def of_char_bits of_bool_def by auto

lemma of_char_eq_small: "(n :: nat) < 256 \<Longrightarrow> (of_char c = n) = (c = char_of n)"
  by (metis char_of_char of_char_of mod_less)

lemma is_space_chars [code]:
  "is_space c = (c \<in> set [CHR 0x09, CHR 0x0A, CHR 0x0B, CHR 0x0C, CHR 0x0D, CHR 0x1C, CHR 0x1D, CHR 0x1E, CHR 0x1F,
     CHR '' '', CHR 0x85, CHR 0xA0])"
  by (simp add: is_space_def of_char_eq_small char_of_def bit_iff_odd)

lemma case_change_bits:
  "char_of (of_char (Char b0 b1 b2 b3 b4 False b6 b7) + 32 :: nat) = Char b0 b1 b2 b3 b4 True b6 b7"
  "char_of (of_char (Char b0 b1 b2 b3 b4 True b6 b7) - 32 :: nat) = Char b0 b1 b2 b3 b4 False b6 b7"
proof -
  have "of_char (Char b0 b1 b2 b3 b4 True b6 b7) = (of_char (Char b0 b1 b2 b3 b4 False b6 b7) + 32 :: nat)"
    by (simp only: of_char_bits) simp
  then show "char_of (of_char (Char b0 b1 b2 b3 b4 False b6 b7) + 32 :: nat) = Char b0 b1 b2 b3 b4 True b6 b7"
    "char_of (of_char (Char b0 b1 b2 b3 b4 True b6 b7) - 32 :: nat) = Char b0 b1 b2 b3 b4 False b6 b7"
    by (metis char_of_char, metis add_diff_cancel_right' char_of_char)
qed

lemma lower_char_bits [code]:
  "lower_char (Char b0 b1 b2 b3 b4 b5 b6 b7) =
     Char b0 b1 b2 b3 b4 (b5 \<or> is_upper_letter (Char b0 b1 b2 b3 b4 b5 b6 b7)) b6 b7"
  by (cases b5; cases "is_upper_letter (Char b0 b1 b2 b3 b4 b5 b6 b7)")
    (simp_all only: lower_char_def case_change_bits simp_thms if_False if_True is_upper_letter_bits)

lemma upper_char_bits [code]:
  "upper_char (Char b0 b1 b2 b3 b4 b5 b6 b7) =
     Char b0 b1 b2 b3 b4 (b5 \<and> \<not> is_lower_letter (Char b0 b1 b2 b3 b4 b5 b6 b7)) b6 b7"
  by (cases b5; cases "is_lower_letter (Char b0 b1 b2 b3 b4 b5 b6 b7)")
    (simp_all only: upper_char_def case_change_bits simp_thms if_False if_True is_lower_letter_bits)

section \<open>Methods of str\<close>

definition str_lower :: "string \<Rightarrow> string" where
  "str_lower = map lower_char"

definition str_upper :: "string \<Rightarrow> string" where
  "str_upper = map upper_char"

definition starts_with :: "string \<Rightarrow> string \<Rightarrow> bool" where
  "starts_with s p = (take (length p) s = p)"

definition ends_with :: "string \<Rightarrow> string \<Rightarrow> bool" where
  "ends_with s p = starts_with (rev s) (rev p)"

text \<open>\<open>lstrip\<close>, \<open>rstrip\<close> and \<open>strip\<close> of the characters of a class; \<open>strip()\<close> strips white space.\<close>

definition rstrip_chars :: "(char \<Rightarrow> bool) \<Rightarrow> string \<Rightarrow> string" where
  "rstrip_chars P s = rev (dropWhile P (rev s))"

definition strip_chars :: "(char \<Rightarrow> bool) \<Rightarrow> string \<Rightarrow> string" where
  "strip_chars P s = rstrip_chars P (dropWhile P s)"

definition str_strip :: "string \<Rightarrow> string" where
  "str_strip = strip_chars is_space"

text \<open>\<open>s.strip() == ""\<close>.\<close>

definition blank :: "string \<Rightarrow> bool" where
  "blank s = list_all is_space s"

fun split_on :: "char \<Rightarrow> string \<Rightarrow> string list" where
  "split_on d [] = [[]]"
| "split_on d (c # s) =
     (if c = d then [] # split_on d s
      else case split_on d s of [] \<Rightarrow> [[c]] | w # ws \<Rightarrow> (c # w) # ws)"

text \<open>\<open>s.partition(d)\<close> and \<open>s.rpartition(d)\<close>: the two sides, and whether \<open>d\<close> was there.\<close>

definition partition_on :: "char \<Rightarrow> string \<Rightarrow> string \<times> bool \<times> string" where
  "partition_on d s = (takeWhile (\<lambda>c. c \<noteq> d) s, d \<in> set s, tl (dropWhile (\<lambda>c. c \<noteq> d) s))"

definition rpartition_on :: "char \<Rightarrow> string \<Rightarrow> string \<times> bool \<times> string" where
  "rpartition_on d s =
     (if d \<in> set s
      then (rev (tl (dropWhile (\<lambda>c. c \<noteq> d) (rev s))), True, rev (takeWhile (\<lambda>c. c \<noteq> d) (rev s)))
      else ([], False, s))"

text \<open>The decimal numeral of an ASCII digit string, and \<open>str(n)\<close>.\<close>

definition digit_value :: "char \<Rightarrow> nat" where
  "digit_value c = of_char c - 48"

definition nat_of_digits :: "string \<Rightarrow> nat" where
  "nat_of_digits s = foldl (\<lambda>n c. 10 * n + digit_value c) 0 s"

fun digits_of :: "nat \<Rightarrow> string" where
  "digits_of n = (if n < 10 then [char_of (n + 48)] else digits_of (n div 10) @ [char_of (n mod 10 + 48)])"

declare digits_of.simps [simp del]

lemma digit_char: "char_of (m + 48) = ''0123456789'' ! m" if "m < 10" for m :: nat
proof -
  have "m \<in> {0, 1, 2, 3, 4, 5, 6, 7, 8, 9}" using that by auto
  then show ?thesis by (elim insertE emptyE) (simp_all add: char_of_eq_iff)
qed

lemma digits_of_code [code]:
  "digits_of n = (if n < 10 then [''0123456789'' ! n]
     else digits_of (n div 10) @ [''0123456789'' ! (n mod 10)])"
  by (subst digits_of.simps) (simp add: digit_char)

section \<open>Placeholders\<close>

text \<open>
  \<open>re.compile("{([^{}]*)}")\<close> and \<open>re.compile("{([^}]+)}")\<close>: a brace opens a placeholder when the
  longest run of characters of the class after it is long enough and ends at a closing brace;
  a shorter run ends at a character of the class, which is not a closing brace.
\<close>

datatype path_token = Lit char | Hole string

function path_tokens :: "(char \<Rightarrow> bool) \<Rightarrow> nat \<Rightarrow> string \<Rightarrow> path_token list" where
  "path_tokens P m [] = []"
| "path_tokens P m (c # s) =
     (if c = CHR ''{'' \<and> dropWhile P s \<noteq> [] \<and> hd (dropWhile P s) = CHR ''}'' \<and> m \<le> length (takeWhile P s)
      then Hole (takeWhile P s) # path_tokens P m (tl (dropWhile P s))
      else Lit c # path_tokens P m s)"
  by pat_completeness auto
termination
proof (relation "measure (\<lambda>(P, m, s). length s)")
  fix P m c s
  have "length (dropWhile P s) \<le> length s" by (rule length_dropWhile_le)
  then show "((P, m, tl (dropWhile P s)), P, m, c # s) \<in> measure (\<lambda>(P, m, s). length s)" by simp
qed auto

fun hole_name :: "path_token \<Rightarrow> string option" where
  "hole_name (Hole n) = Some n"
| "hole_name (Lit _) = None"

fun lit_char :: "path_token \<Rightarrow> char option" where
  "lit_char (Lit c) = Some c"
| "lit_char (Hole _) = None"

text \<open>\<open>re.findall\<close> and \<open>re.sub("", s)\<close>.\<close>

definition holes :: "path_token list \<Rightarrow> string list" where
  "holes = List.map_filter hole_name"

definition literals :: "path_token list \<Rightarrow> string" where
  "literals = List.map_filter lit_char"

definition not_brace :: "char \<Rightarrow> bool" where
  "not_brace c = (c \<noteq> CHR ''{'' \<and> c \<noteq> CHR ''}'')"

definition not_close :: "char \<Rightarrow> bool" where
  "not_close c = (c \<noteq> CHR ''}'')"

abbreviation brace_tokens :: "string \<Rightarrow> path_token list" where
  "brace_tokens \<equiv> path_tokens not_brace 0"

abbreviation param_tokens :: "string \<Rightarrow> path_token list" where
  "param_tokens \<equiv> path_tokens not_close 1"

section \<open>Lemmas\<close>

lemma holes_simps [simp]:
  "holes [] = []" "holes (Lit c # ts) = holes ts" "holes (Hole n # ts) = n # holes ts"
  by (simp_all add: holes_def List.map_filter_def)

lemma literals_simps [simp]:
  "literals [] = []" "literals (Lit c # ts) = c # literals ts" "literals (Hole n # ts) = literals ts"
  by (simp_all add: literals_def List.map_filter_def)

lemma takeWhile_not_close:
  assumes "dropWhile not_brace s \<noteq> []" "hd (dropWhile not_brace s) = CHR ''}''"
  shows "takeWhile not_close s = takeWhile not_brace s \<and> dropWhile not_close s = dropWhile not_brace s"
  using assms
proof (induction s)
  case Nil
  then show ?case by simp
next
  case (Cons c s)
  show ?case
  proof (cases "not_brace c")
    case True
    then have "not_close c" by (simp add: not_brace_def not_close_def)
    with True Cons show ?thesis by simp
  next
    case False
    with Cons.prems have "c = CHR ''}''" by simp
    then show ?thesis by (simp add: not_brace_def not_close_def)
  qed
qed

text \<open>On a string without stray braces and empty placeholders the two expressions agree.\<close>

lemma tokens_agree:
  assumes "CHR ''{'' \<notin> set (literals (brace_tokens s))" and "[] \<notin> set (holes (brace_tokens s))"
  shows "param_tokens s = brace_tokens s"
  using assms
proof (induction s rule: length_induct)
  case (1 s)
  show ?case
  proof (cases s)
    case Nil
    then show ?thesis by simp
  next
    case (Cons c t)
    let ?d = "dropWhile not_brace t"
    show ?thesis
    proof (cases "c = CHR ''{'' \<and> ?d \<noteq> [] \<and> hd ?d = CHR ''}''")
      case True
      have "length (tl ?d) < length s"
        using Cons length_dropWhile_le[of not_brace t] by simp
      moreover have b: "brace_tokens s = Hole (takeWhile not_brace t) # brace_tokens (tl ?d)"
        using True Cons by simp
      ultimately have "param_tokens (tl ?d) = brace_tokens (tl ?d)"
        using 1 by simp
      moreover have "takeWhile not_brace t \<noteq> []" using 1(3) b by auto
      ultimately show ?thesis
        using True Cons takeWhile_not_close[of t] b by (simp add: Suc_le_eq)
    next
      case False
      then have b: "brace_tokens s = Lit c # brace_tokens t" using Cons by auto
      with 1(2) have "c \<noteq> CHR ''{''" by auto
      moreover have "param_tokens t = brace_tokens t" using 1 b Cons by auto
      ultimately show ?thesis using b Cons by simp
    qed
  qed
qed

lemma split_on_not_Nil [simp]: "split_on d s \<noteq> []"
  by (induction s) (auto split: list.split)

lemma split_on_simps [simp]:
  "split_on d (d # s) = [] # split_on d s"
  "c \<noteq> d \<Longrightarrow> split_on d (c # s) = (c # hd (split_on d s)) # tl (split_on d s)"
  by (auto split: list.split)

declare split_on.simps(2) [simp del]

lemma split_on_append_free: "d \<notin> set s \<Longrightarrow> split_on d (s @ t) = (s @ hd (split_on d t)) # tl (split_on d t)"
  by (induction s) auto

lemma split_on_free: "d \<notin> set s \<Longrightarrow> split_on d s = [s]"
  using split_on_append_free[of d s "[]"] by simp

lemma split_on_append_sep: "split_on d (s @ d # t) = split_on d s @ split_on d t"
  by (induction s rule: split_on.induct) (auto simp: split_on.simps(2) split: list.split)

text \<open>Reading back the decimal numeral of a number.\<close>

lemma nat_of_digits_snoc: "nat_of_digits (s @ [c]) = 10 * nat_of_digits s + digit_value c"
  by (simp add: nat_of_digits_def)

lemma digit_value_char_of [simp]: "n < 10 \<Longrightarrow> digit_value (char_of (n + 48)) = n"
  by (simp add: digit_value_def)

lemma nat_of_digits_of: "nat_of_digits (digits_of n) = n"
proof (induction n rule: digits_of.induct)
  case (1 n)
  show ?case
  proof (cases "n < 10")
    case True
    then show ?thesis
      by (subst digits_of.simps) (simp add: nat_of_digits_def)
  next
    case False
    with 1 have "nat_of_digits (digits_of (n div 10)) = n div 10" by simp
    with False show ?thesis
      by (subst digits_of.simps) (simp add: nat_of_digits_snoc)
  qed
qed

lemma is_digit_char_of: "(n :: nat) < 10 \<Longrightarrow> is_digit (char_of (n + 48))"
  by (simp add: is_digit_def)

lemma digits_of_digits: "list_all is_digit (digits_of n) \<and> digits_of n \<noteq> []"
proof (induction n rule: digits_of.induct)
  case (1 n)
  then show ?case by (subst (1 2) digits_of.simps) (auto simp: is_digit_char_of)
qed

lemma digits_of_inj: "digits_of m = digits_of n \<Longrightarrow> m = n"
  using nat_of_digits_of by metis

end
