(* ===== verification/Permission_Types.thy ===== *)
theory Permission_Types
  imports Py_String
begin

text \<open>
  The permissions of the program (\<open>authorization/permission_types.py\<close>) and their synchronisation
  with the \<open>actions\<close> table at start-up (\<open>authorization/sync_permissions.py\<close>).  A resource type is a
  Python class read through \<open>vars\<close>: its attributes in order, of which the upper-case strings are
  the permission names.
\<close>

section \<open>Resource types\<close>

datatype class_attr =
    AStr string
  | AStrs "string list"
  | ABool bool
  | ADict "string dict"

record resource_type =
  rt_name :: string
  rt_vars :: "class_attr dict"

definition platform_permissions :: resource_type where
  "platform_permissions =
     \<lparr>rt_name = ''Platform'', rt_vars = [
        (''AUTHORIZATION_READ'', AStr ''platform.authorization.read''),
        (''AUTHORIZATION_WRITE'', AStr ''platform.authorization.write''),
        (''CONFIG_READ'', AStr ''platform.config.read''),
        (''CONFIG_WRITE'', AStr ''platform.config.write''),
        (''ReadPermissions'', AStrs [''platform.authorization.read'', ''platform.config.read'']),
        (''EditPermissions'', AStrs [''platform.authorization.write'', ''platform.config.write'']),
        (''_is_global'', ABool True),
        (''_descriptions'', ADict [
          (''platform.authorization.read'', ''Read platform authorization data (users, teams, roles, permissions)''),
          (''platform.authorization.write'', ''Write platform authorization data (users, teams, roles, permissions)''),
          (''platform.config.read'', ''Read platform configuration (templates, endpoint types, services, metadata keys)''),
          (''platform.config.write'', ''Write platform configuration (templates, endpoint types, services, metadata keys)'')])]\<rparr>"

definition device_permissions :: resource_type where
  "device_permissions =
     \<lparr>rt_name = ''Device'', rt_vars = [
        (''READ'', AStr ''device.read''),
        (''CREATE'', AStr ''device.create''),
        (''DELETE'', AStr ''device.delete''),
        (''METADATA_WRITE'', AStr ''device.metadata.write''),
        (''DEPLOYMENT_WRITE'', AStr ''device.deployment.write''),
        (''MODULE_EXECUTE_METHOD'', AStr ''device.module.execute_method''),
        (''NETWORK_WRITE'', AStr ''device.network.write''),
        (''SMARTEMS_TEMPLATE_APPLY'', AStr ''device.sems_template.apply''),
        (''PASSWORD_READ'', AStr ''device.password.read''),
        (''PASSWORD_WRITE'', AStr ''device.password.write''),
        (''MODULE_TWIN_CONFIG_WRITE'', AStr ''device.module_twin_config.write''),
        (''NETWORK_DISCOVER'', AStr ''device.network.discover''),
        (''LINE_WRITE'', AStr ''device.line.write''),
        (''ENDPOINT_READ'', AStr ''device.endpoint.read''),
        (''ENDPOINT_WRITE'', AStr ''device.endpoint.write''),
        (''ReadPermissions'', AStrs [''device.read'', ''device.password.read'',
          ''device.endpoint.read'']),
        (''EditPermissions'', AStrs [''device.create'', ''device.delete'', ''device.metadata.write'',
          ''device.deployment.write'', ''device.network.write'', ''device.module.execute_method'',
          ''device.module_twin_config.write'', ''device.network.discover'', ''device.line.write'',
          ''device.password.write'', ''device.sems_template.apply'', ''device.endpoint.write'']),
        (''_is_global'', ABool False),
        (''_descriptions'', ADict [
          (''device.read'', ''Read device details''),
          (''device.create'', ''Create (register) a device''),
          (''device.delete'', ''Delete a device''),
          (''device.metadata.write'', ''Update device metadata''),
          (''device.deployment.write'', ''Create or update device deployments''),
          (''device.module.execute_method'', ''Execute direct methods on a device module''),
          (''device.network.write'', ''Update device network settings''),
          (''device.sems_template.apply'', ''Apply the default Smart EMS template to a device''),
          (''device.password.read'', ''Read a device password''),
          (''device.password.write'', ''Update a device password''),
          (''device.module_twin_config.write'', ''Update device module twin configuration''),
          (''device.network.discover'', ''Run device network discovery''),
          (''device.line.write'', ''Update device line settings''),
          (''device.endpoint.read'', ''Read device endpoints, services and their types''),
          (''device.endpoint.write'', ''Create, update or delete device endpoints, services and their types'')])]\<rparr>"

definition extension_permissions :: resource_type where
  "extension_permissions =
     \<lparr>rt_name = ''Extension'', rt_vars = [
        (''READ'', AStr ''extension.read''),
        (''REGISTER'', AStr ''extension.register''),
        (''DEREGISTER'', AStr ''extension.deregister''),
        (''ReadPermissions'', AStrs [''extension.read'']),
        (''EditPermissions'', AStrs [''extension.register'', ''extension.deregister'']),
        (''_is_global'', ABool True),
        (''_descriptions'', ADict [
          (''extension.read'', ''List and view registered extensions''),
          (''extension.register'', ''Register, replace, enable extensions and rotate their internal key''),
          (''extension.deregister'', ''Deregister and disable extensions'')])]\<rparr>"

definition resource_types :: "resource_type list" where
  "resource_types = [platform_permissions, device_permissions, extension_permissions]"

text \<open>\<open>str.isupper\<close> on ASCII: some letter, and no lower-case one.\<close>

definition isupper :: "string \<Rightarrow> bool" where
  "isupper s = (list_ex is_upper_letter s \<and> \<not> list_ex is_lower_letter s)"

fun attr_str :: "class_attr \<Rightarrow> string option" where
  "attr_str (AStr s) = Some s"
| "attr_str _ = None"

definition get_permission_names :: "resource_type \<Rightarrow> string dict" where
  "get_permission_names rt =
     List.map_filter (\<lambda>(n, a). if isupper n then map_option (Pair n) (attr_str a) else None) (rt_vars rt)"

definition descriptions_of :: "resource_type \<Rightarrow> string dict" where
  "descriptions_of rt = (case map_of (rt_vars rt) ''_descriptions'' of Some (ADict d) \<Rightarrow> d | _ \<Rightarrow> [])"

definition is_global_type :: "resource_type \<Rightarrow> bool" where
  "is_global_type rt = (map_of (rt_vars rt) ''_is_global'' = Some (ABool True))"

record permission =
  pm_name :: string
  pm_description :: string
  pm_is_global :: bool

definition permissions_of :: "resource_type \<Rightarrow> permission list" where
  "permissions_of rt = map (\<lambda>(_, n).
     \<lparr>pm_name = n,
      pm_description = (case map_of (descriptions_of rt) n of None \<Rightarrow> [] | Some d \<Rightarrow> d),
      pm_is_global = is_global_type rt\<rparr>) (get_permission_names rt)"

definition all_permissions_of :: "resource_type list \<Rightarrow> permission list" where
  "all_permissions_of rts = concat (map permissions_of rts)"

definition get_all_permissions :: "permission list" where
  "get_all_permissions = all_permissions_of resource_types"

definition check_unique_name ::
  "string \<Rightarrow> (string \<times> string) dict \<Rightarrow> string \<times> string \<Rightarrow> (string \<times> string) dict res" where
  "check_unique_name type_name seen = (\<lambda>(attribute_name, permission_name).
     case map_of seen permission_name of
       Some (group_name, attribute) \<Rightarrow>
         Inl (ValueError (Msg ''Duplicate permission name {} found in {}.{} and {}.{}''
           [JStr permission_name, JStr group_name, JStr attribute, JStr type_name, JStr attribute_name]))
     | None \<Rightarrow> Inr (dset permission_name (type_name, attribute_name) seen))"

definition check_type_names ::
  "(string \<times> string) dict \<Rightarrow> resource_type \<Rightarrow> (string \<times> string) dict res" where
  "check_type_names seen rt = foldR (check_unique_name (rt_name rt)) seen (get_permission_names rt)"

definition validate_unique_permission_names :: "resource_type list \<Rightarrow> unit res" where
  "validate_unique_permission_names rts = bindR (foldR check_type_names [] rts) (\<lambda>_. Inr ())"

definition global_permissions :: "string list" where
  "global_permissions = map pm_name (filter pm_is_global get_all_permissions)"

section \<open>The actions table\<close>

record action_row =
  ac_description :: string
  ac_is_global :: bool

definition action_of :: "permission \<Rightarrow> string \<times> action_row" where
  "action_of p = (pm_name p, \<lparr>ac_description = pm_description p, ac_is_global = pm_is_global p\<rparr>)"

text \<open>\<open>session.add_all\<close> and commit: a repeated primary key fails the whole insert.\<close>

definition insert_actions :: "action_row dict \<Rightarrow> action_row dict \<Rightarrow> action_row dict res" where
  "insert_actions new_actions actions =
     bindR (ensure (wf_dict (actions @ new_actions)) IntegrityError) (\<lambda>_. Inr (actions @ new_actions))"

definition sync_permissions_to_db :: "permission list \<Rightarrow> action_row dict \<Rightarrow> action_row dict res" where
  "sync_permissions_to_db all_permissions actions =
     (let new_actions = map action_of (filter (\<lambda>p. \<not> has_key actions (pm_name p)) all_permissions) in
      if new_actions \<noteq> [] then insert_actions new_actions actions else Inr actions)"

section \<open>Lemmas\<close>

lemma image_minus_disjoint: "A \<inter> f ` {x \<in> B. f x \<notin> A} = {}"
  by auto

lemma new_names_iff:
  "(d1 \<and> (\<forall>n \<in> A. f n = None)) \<and> d2 \<and> (\<forall>n \<in> B. n \<notin> dom f \<union> A) \<longleftrightarrow>
     (d1 \<and> d2 \<and> A \<inter> B = {}) \<and> (\<forall>n \<in> A \<union> B. f n = None)"
  by auto

lemma foldR_check_unique_dom:
  "foldR (check_unique_name tn) seen ps = Inr s \<Longrightarrow> dom (map_of s) = dom (map_of seen) \<union> snd ` set ps"
proof (induction ps arbitrary: seen)
  case (Cons e ps)
  then show ?case
    by (cases e) (auto simp: check_unique_name_def split: option.splits)
qed simp

lemma foldR_check_unique:
  "is_ok (foldR (check_unique_name tn) seen ps) \<longleftrightarrow>
     distinct (map snd ps) \<and> (\<forall>n \<in> set (map snd ps). map_of seen n = None)"
proof (induction ps arbitrary: seen)
  case (Cons e ps)
  then show ?case
    by (cases e) (auto simp: check_unique_name_def split: option.splits prod.splits)
qed simp

lemma names_of_permissions: "map pm_name (permissions_of rt) = map snd (get_permission_names rt)"
  by (auto simp: permissions_of_def)

lemma foldR_check_types:
  "is_ok (foldR check_type_names seen rts) \<longleftrightarrow>
     distinct (map pm_name (all_permissions_of rts)) \<and>
     (\<forall>n \<in> set (map pm_name (all_permissions_of rts)). map_of seen n = None)"
proof (induction rts arbitrary: seen)
  case Nil
  then show ?case by (simp add: all_permissions_of_def)
next
  case (Cons rt rts)
  let ?A = "set (map snd (get_permission_names rt))"
  let ?B = "map pm_name (all_permissions_of rts)"
  have "is_ok (foldR check_type_names seen (rt # rts)) \<longleftrightarrow>
      (\<exists>s. check_type_names seen rt = Inr s \<and> distinct ?B \<and> (\<forall>n \<in> set ?B. map_of s n = None))"
    unfolding foldR.simps is_ok_bindR Cons.IH ..
  also have "\<dots> \<longleftrightarrow> is_ok (check_type_names seen rt) \<and> distinct ?B \<and>
      (\<forall>n \<in> set ?B. n \<notin> dom (map_of seen) \<union> ?A)"
  proof (cases "check_type_names seen rt")
    case (Inr s)
    then have "dom (map_of s) = dom (map_of seen) \<union> ?A"
      unfolding check_type_names_def by (simp add: foldR_check_unique_dom)
    then have "map_of s n = None \<longleftrightarrow> n \<notin> dom (map_of seen) \<union> ?A" for n
      by (metis domIff)
    with Inr show ?thesis by simp
  qed simp
  also have "\<dots> \<longleftrightarrow> distinct (map snd (get_permission_names rt) @ ?B) \<and>
      (\<forall>n \<in> ?A \<union> set ?B. map_of seen n = None)"
    unfolding check_type_names_def foldR_check_unique distinct_append by (rule new_names_iff)
  also have "map snd (get_permission_names rt) @ ?B = map pm_name (all_permissions_of (rt # rts))"
    by (simp add: all_permissions_of_def names_of_permissions)
  also have "?A \<union> set ?B = set (map pm_name (all_permissions_of (rt # rts)))"
    by (simp only: all_permissions_of_def list.map concat.simps map_append set_append names_of_permissions)
  finally show ?case .
qed

lemma unique_permission_names_iff:
  "validate_unique_permission_names rts = Inr () \<longleftrightarrow> distinct (map pm_name (all_permissions_of rts))"
  using foldR_check_types[of "[]" rts] by (simp add: validate_unique_permission_names_def is_ok_iff)

text \<open>The check that runs on import passes on the program's own types.\<close>

lemma program_permissions_unique: "validate_unique_permission_names resource_types = Inr ()"
  by code_simp

text \<open>The values of the two lists that the tables are built from, which evaluation uses.\<close>

lemma get_all_permissions_value [code]:
  "get_all_permissions =
      [\<lparr>pm_name = ''platform.authorization.read'', pm_description = ''Read platform authorization data (users, teams, roles, permissions)'', pm_is_global = True\<rparr>,
       \<lparr>pm_name = ''platform.authorization.write'', pm_description = ''Write platform authorization data (users, teams, roles, permissions)'', pm_is_global = True\<rparr>,
       \<lparr>pm_name = ''platform.config.read'', pm_description = ''Read platform configuration (templates, endpoint types, services, metadata keys)'', pm_is_global = True\<rparr>,
       \<lparr>pm_name = ''platform.config.write'', pm_description = ''Write platform configuration (templates, endpoint types, services, metadata keys)'', pm_is_global = True\<rparr>,
       \<lparr>pm_name = ''device.read'', pm_description = ''Read device details'', pm_is_global = False\<rparr>,
       \<lparr>pm_name = ''device.create'', pm_description = ''Create (register) a device'', pm_is_global = False\<rparr>,
       \<lparr>pm_name = ''device.delete'', pm_description = ''Delete a device'', pm_is_global = False\<rparr>,
       \<lparr>pm_name = ''device.metadata.write'', pm_description = ''Update device metadata'', pm_is_global = False\<rparr>,
       \<lparr>pm_name = ''device.deployment.write'', pm_description = ''Create or update device deployments'', pm_is_global = False\<rparr>,
       \<lparr>pm_name = ''device.module.execute_method'', pm_description = ''Execute direct methods on a device module'', pm_is_global = False\<rparr>,
       \<lparr>pm_name = ''device.network.write'', pm_description = ''Update device network settings'', pm_is_global = False\<rparr>,
       \<lparr>pm_name = ''device.sems_template.apply'', pm_description = ''Apply the default Smart EMS template to a device'', pm_is_global = False\<rparr>,
       \<lparr>pm_name = ''device.password.read'', pm_description = ''Read a device password'', pm_is_global = False\<rparr>,
       \<lparr>pm_name = ''device.password.write'', pm_description = ''Update a device password'', pm_is_global = False\<rparr>,
       \<lparr>pm_name = ''device.module_twin_config.write'', pm_description = ''Update device module twin configuration'', pm_is_global = False\<rparr>,
       \<lparr>pm_name = ''device.network.discover'', pm_description = ''Run device network discovery'', pm_is_global = False\<rparr>,
       \<lparr>pm_name = ''device.line.write'', pm_description = ''Update device line settings'', pm_is_global = False\<rparr>,
       \<lparr>pm_name = ''device.endpoint.read'', pm_description = ''Read device endpoints, services and their types'', pm_is_global = False\<rparr>,
       \<lparr>pm_name = ''device.endpoint.write'', pm_description = ''Create, update or delete device endpoints, services and their types'', pm_is_global = False\<rparr>,
       \<lparr>pm_name = ''extension.read'', pm_description = ''List and view registered extensions'', pm_is_global = True\<rparr>,
       \<lparr>pm_name = ''extension.register'', pm_description = ''Register, replace, enable extensions and rotate their internal key'', pm_is_global = True\<rparr>,
       \<lparr>pm_name = ''extension.deregister'', pm_description = ''Deregister and disable extensions'', pm_is_global = True\<rparr>]"
  by code_simp

lemma global_permissions_value [code]:
  "global_permissions = [''platform.authorization.read'', ''platform.authorization.write'',
     ''platform.config.read'', ''platform.config.write'', ''extension.read'', ''extension.register'',
     ''extension.deregister'']"
  by code_simp

section \<open>Synchronisation\<close>

lemma map_of_missing:
  "map_of (map action_of (filter (\<lambda>p. \<not> has_key actions (pm_name p)) ps)) n =
     (if has_key actions n then None else map_of (map action_of ps) n)"
proof (induction ps)
  case (Cons p ps)
  obtain row where "action_of p = (pm_name p, row)" by (simp add: action_of_def)
  with Cons show ?case by auto
qed simp

text \<open>
  At start-up the synchronisation adds exactly the missing permissions: it never fails on a
  set of resource types that passed the import-time uniqueness check, an existing row is kept
  unchanged, a missing permission gets its description and global flag, no other row appears, and
  running it again changes nothing.
\<close>

theorem sync_permissions_adds_missing:
  assumes "validate_unique_permission_names rts = Inr ()" and "wf_dict actions"
  shows "\<exists>actions'. sync_permissions_to_db (all_permissions_of rts) actions = Inr actions' \<and>
    wf_dict actions' \<and>
    (\<forall>n. map_of actions' n = (case map_of actions n of Some row \<Rightarrow> Some row
       | None \<Rightarrow> map_of (map action_of (all_permissions_of rts)) n)) \<and>
    sync_permissions_to_db (all_permissions_of rts) actions' = Inr actions'"
proof -
  let ?ps = "all_permissions_of rts"
  let ?new = "filter (\<lambda>p. \<not> has_key actions (pm_name p)) ?ps"
  have fst: "map fst (map action_of ps) = map pm_name ps" for ps
    by (simp add: action_of_def)
  have d: "distinct (map pm_name ?new)"
    using assms(1) by (simp add: unique_permission_names_iff distinct_map_filter)
  have "set (map fst actions) \<inter> set (map pm_name ?new) = {}"
    unfolding set_map set_filter has_key_iff by (rule image_minus_disjoint)
  then have wf: "wf_dict (actions @ map action_of ?new)"
    using assms(2) d unfolding map_append distinct_append fst by blast
  let ?a = "actions @ map action_of ?new"
  have first: "sync_permissions_to_db ?ps actions = Inr ?a"
    using wf by (auto simp: sync_permissions_to_db_def insert_actions_def Let_def simp del: map_append)
  note new = map_of_missing[of actions ?ps]
  have look: "map_of ?a n = (case map_of actions n of Some row \<Rightarrow> Some row
       | None \<Rightarrow> map_of (map action_of ?ps) n)" for n
    by (simp only: map_of_append map_add_def new) (simp add: has_key_def split: option.split)
  have "has_key ?a (pm_name p)" if "p \<in> set ?ps" for p
  proof -
    have "map_of (map action_of ?ps) (pm_name p) \<noteq> None"
      using that by (simp add: map_of_eq_None_iff image_image action_of_def)
    then have "map_of ?a (pm_name p) \<noteq> None"
      unfolding look by (auto split: option.split)
    then show ?thesis unfolding has_key_def .
  qed
  then have "filter (\<lambda>p. \<not> has_key ?a (pm_name p)) ?ps = []"
    by (simp only: filter_empty_conv) blast
  then have "sync_permissions_to_db ?ps ?a = Inr ?a"
    by (simp only: sync_permissions_to_db_def) simp
  with first wf look show ?thesis by blast
qed

theorem sync_permissions_adds_missing_witness:
  "\<exists>actions'. sync_permissions_to_db get_all_permissions
       [(''device.read'', \<lparr>ac_description = ''old'', ac_is_global = False\<rparr>)] = Inr actions' \<and>
     map_of actions' ''device.read'' = Some \<lparr>ac_description = ''old'', ac_is_global = False\<rparr> \<and>
     sync_permissions_to_db get_all_permissions actions' = Inr actions'"
  using sync_permissions_adds_missing[OF program_permissions_unique,
      of "[(''device.read'', \<lparr>ac_description = ''old'', ac_is_global = False\<rparr>)]"]
  by (auto simp: get_all_permissions_def)

end
