(* ===== verification/Field_Validation.thy ===== *)
theory Field_Validation
  imports Exceptions
begin

text \<open>
  \<open>field_validation.py\<close> and the field models of \<open>routers/schemas.py\<close>: what a field of a
  device, endpoint or service type may look like, and the check of one value against it.
  A field definition reaches the check as a plain dict.  The regular-expression engine is
  Python's \<open>re\<close>: \<open>rx p s\<close> is the outcome of \<open>re.fullmatch(p, s)\<close> and \<open>rx_ok p\<close> says
  that \<open>re.compile(p)\<close> accepts the pattern; both are parameters.
\<close>

type_synonym field_def = "json dict"
type_synonym regex_engine = "string \<Rightarrow> string \<Rightarrow> bool res"

section \<open>One value against a field definition\<close>

definition as_dict :: "json \<Rightarrow> json dict res" where
  "as_dict v = (case v of JObj d \<Rightarrow> Inr d | _ \<Rightarrow> Inl AttributeError)"

text \<open>An ordering comparison of a number with a JSON value: TypeError unless it is one.\<close>

definition cmp :: "(rat \<Rightarrow> rat \<Rightarrow> bool) \<Rightarrow> rat \<Rightarrow> json \<Rightarrow> bool res" where
  "cmp f x v = (case num_of v of None \<Rightarrow> Inl TypeError | Some y \<Rightarrow> Inr (f x y))"

definition verr :: "string \<Rightarrow> json list \<Rightarrow> exn" where
  "verr t args = ValueError (Msg t args)"

text \<open>\<open>isinstance\<close> checks for the integer, number and string types.\<close>

definition check_field_type :: "string \<Rightarrow> json \<Rightarrow> json \<Rightarrow> unit res" where
  "check_field_type name ftype value =
     (if ftype = JStr ''integer'' then
        ensure (is_integer value) (verr ''{} must be an integer'' [JStr name])
      else if ftype = JStr ''number'' then
        ensure (is_number value) (verr ''{} must be a number'' [JStr name])
      else if ftype = JStr ''string'' then
        ensure (is_str value) (verr ''{} must be a string'' [JStr name])
      else Inr ())"

definition str_of :: "json \<Rightarrow> string" where
  "str_of v = (case v of JStr s \<Rightarrow> s | _ \<Rightarrow> [])"

definition check_string_rules ::
  "regex_engine \<Rightarrow> string \<Rightarrow> json \<Rightarrow> json dict \<Rightarrow> unit res" where
  "check_string_rules rx name value validation =
     (let s = str_of value; n = of_nat (length s);
          pattern = pget validation ''pattern'';
          min_length = pget validation ''min_length'';
          max_length = pget validation ''max_length'' in
      bindR (if pattern = JNull then Inr ()
             else case pattern of
                 JStr p \<Rightarrow> bindR (rx p s) (\<lambda>m.
                   ensure m (verr ''{} does not match the required pattern'' [JStr name]))
               | _ \<Rightarrow> Inl TypeError) (\<lambda>_.
      bindR (if min_length = JNull then Inr ()
             else bindR (cmp (<) n min_length) (\<lambda>lt.
               ensure (\<not> lt) (verr ''{} must be at least {} characters long''
                                   [JStr name, min_length]))) (\<lambda>_.
      (if max_length = JNull then Inr ()
       else bindR (cmp (>) n max_length) (\<lambda>gt.
         ensure (\<not> gt) (verr ''{} must be at most {} characters long''
                             [JStr name, max_length]))))))"

definition check_number_rules :: "string \<Rightarrow> json \<Rightarrow> json dict \<Rightarrow> unit res" where
  "check_number_rules name value validation =
     (let x = (case num_of value of Some q \<Rightarrow> q | None \<Rightarrow> 0);
          minimum = pget validation ''minimum'';
          maximum = pget validation ''maximum'';
          multiple_of = pget validation ''multiple_of'' in
      bindR (if minimum = JNull then Inr ()
             else if truthy (pget validation ''exclusive_minimum'') then
               bindR (cmp (\<le>) x minimum) (\<lambda>b.
                 ensure (\<not> b) (verr ''{} must be greater than {}'' [JStr name, minimum]))
             else
               bindR (cmp (<) x minimum) (\<lambda>b.
                 ensure (\<not> b) (verr ''{} must be at least {}'' [JStr name, minimum]))) (\<lambda>_.
      bindR (if maximum = JNull then Inr ()
             else if truthy (pget validation ''exclusive_maximum'') then
               bindR (cmp (\<ge>) x maximum) (\<lambda>b.
                 ensure (\<not> b) (verr ''{} must be less than {}'' [JStr name, maximum]))
             else
               bindR (cmp (>) x maximum) (\<lambda>b.
                 ensure (\<not> b) (verr ''{} must be at most {}'' [JStr name, maximum]))) (\<lambda>_.
      (if multiple_of = JNull then Inr ()
       else case num_of multiple_of of
           None \<Rightarrow> Inl TypeError
         | Some m \<Rightarrow>
             (if m = 0 then Inl ZeroDivisionError
              else ensure (py_mod x m = 0)
                     (verr ''{} must be a multiple of {}'' [JStr name, multiple_of]))))))"

definition check_options :: "string \<Rightarrow> json \<Rightarrow> json \<Rightarrow> unit res" where
  "check_options name value options =
     (if options = JNull then Inr ()
      else case py_in value options of
          None \<Rightarrow> Inl TypeError
        | Some b \<Rightarrow> ensure b (verr ''{} must be one of {}'' [JStr name, options]))"

definition validate_value :: "regex_engine \<Rightarrow> string \<Rightarrow> json \<Rightarrow> field_def \<Rightarrow> unit res" where
  "validate_value rx field_name value field_def =
     (let field_type = pget field_def ''type'';
          validation = or_obj (pget field_def ''validation'') in
      if field_type = JStr ''boolean'' then
        ensure (is_bool value) (verr ''{} must be a boolean'' [JStr field_name])
      else
        bindR (check_field_type field_name field_type value) (\<lambda>_.
        bindR (if field_type = JStr ''string'' then
                 bindR (as_dict validation) (check_string_rules rx field_name value)
               else if field_type = JStr ''integer'' \<or> field_type = JStr ''number'' then
                 bindR (as_dict validation) (check_number_rules field_name value)
               else Inr ()) (\<lambda>_.
        check_options field_name value (pget field_def ''options''))))"

section \<open>The field models\<close>

datatype field_type = FString | FBoolean | FInteger | FNumber

fun type_name :: "field_type \<Rightarrow> string" where
  "type_name FString = ''string''"
| "type_name FBoolean = ''boolean''"
| "type_name FInteger = ''integer''"
| "type_name FNumber = ''number''"

datatype ui_widget =
  Input | Textarea | Password | NumberInput | Slider | Select | Radio | Toggle | Checkbox

fun widget_name :: "ui_widget \<Rightarrow> string" where
  "widget_name Input = ''input''"
| "widget_name Textarea = ''textarea''"
| "widget_name Password = ''password''"
| "widget_name NumberInput = ''number''"
| "widget_name Slider = ''slider''"
| "widget_name Select = ''select''"
| "widget_name Radio = ''radio''"
| "widget_name Toggle = ''toggle''"
| "widget_name Checkbox = ''checkbox''"

fun ui_widgets_by_type :: "field_type \<Rightarrow> ui_widget list" where
  "ui_widgets_by_type FString = [Input, Textarea, Password, Select, Radio]"
| "ui_widgets_by_type FBoolean = [Toggle, Checkbox]"
| "ui_widgets_by_type FInteger = [NumberInput, Slider]"
| "ui_widgets_by_type FNumber = [NumberInput, Slider]"

fun default_ui_by_type :: "field_type \<Rightarrow> ui_widget" where
  "default_ui_by_type FString = Input"
| "default_ui_by_type FBoolean = Toggle"
| "default_ui_by_type FInteger = NumberInput"
| "default_ui_by_type FNumber = NumberInput"

definition options_widgets :: "ui_widget list" where
  "options_widgets = [Select, Radio]"

record field_validation =
  fv_pattern :: "string option"
  fv_min_length :: "int option"
  fv_max_length :: "int option"
  fv_minimum :: "rat option"
  fv_maximum :: "rat option"
  fv_exclusive_minimum :: bool
  fv_exclusive_maximum :: bool
  fv_multiple_of :: "rat option"

text \<open>The \<open>ge=0\<close> and \<open>gt=0\<close> constraints of the attributes.\<close>

definition validation_attributes_ok :: "field_validation \<Rightarrow> bool" where
  "validation_attributes_ok v =
     (pred_option (\<lambda>n. 0 \<le> n) (fv_min_length v) \<and> pred_option (\<lambda>n. 0 \<le> n) (fv_max_length v) \<and>
      pred_option (\<lambda>m. 0 < m) (fv_multiple_of v))"

definition check_bounds :: "(string \<Rightarrow> bool) \<Rightarrow> field_validation \<Rightarrow> unit res" where
  "check_bounds rx_ok v =
     bindR (case fv_pattern v of None \<Rightarrow> Inr ()
            | Some p \<Rightarrow> ensure (rx_ok p) (verr ''Invalid regex pattern: {}'' [JStr p])) (\<lambda>_.
     bindR (case (fv_min_length v, fv_max_length v) of
              (Some a, Some b) \<Rightarrow>
                ensure (\<not> a > b) (verr ''min_length cannot be greater than max_length'' [])
            | _ \<Rightarrow> Inr ()) (\<lambda>_.
     (case (fv_minimum v, fv_maximum v) of
        (Some a, Some b) \<Rightarrow> ensure (\<not> a > b) (verr ''minimum cannot be greater than maximum'' [])
      | _ \<Rightarrow> Inr ())))"

record field_definition =
  fd_type :: field_type
  fd_label :: string
  fd_description :: "string option"
  fd_required :: bool
  fd_validation :: "field_validation option"
  fd_ui :: "ui_widget option"
  fd_options :: "string list option"
  fd_default :: json
  fd_changeable :: bool
  fd_show_in_list :: bool

text \<open>\<open>model_dump()\<close>: every attribute under its name, in declaration order.\<close>

definition jopt :: "('a \<Rightarrow> json) \<Rightarrow> 'a option \<Rightarrow> json" where
  "jopt f v = (case v of None \<Rightarrow> JNull | Some x \<Rightarrow> f x)"

definition dump_validation :: "field_validation \<Rightarrow> json dict" where
  "dump_validation v =
     [(''pattern'', jopt JStr (fv_pattern v)),
      (''min_length'', jopt JInt (fv_min_length v)),
      (''max_length'', jopt JInt (fv_max_length v)),
      (''minimum'', jopt JFloat (fv_minimum v)),
      (''maximum'', jopt JFloat (fv_maximum v)),
      (''exclusive_minimum'', JBool (fv_exclusive_minimum v)),
      (''exclusive_maximum'', JBool (fv_exclusive_maximum v)),
      (''multiple_of'', jopt JFloat (fv_multiple_of v))]"

definition dump_field :: "field_definition \<Rightarrow> field_def" where
  "dump_field d =
     [(''type'', JStr (type_name (fd_type d))),
      (''label'', JStr (fd_label d)),
      (''description'', jopt JStr (fd_description d)),
      (''required'', JBool (fd_required d)),
      (''validation'', jopt (JObj \<circ> dump_validation) (fd_validation d)),
      (''ui'', jopt (JStr \<circ> widget_name) (fd_ui d)),
      (''options'', jopt (JList \<circ> map JStr) (fd_options d)),
      (''default'', fd_default d),
      (''changeable'', JBool (fd_changeable d)),
      (''show_in_list'', JBool (fd_show_in_list d))]"

text \<open>\<open>label\<close> and \<open>options\<close> are non-empty when present.\<close>

definition field_attributes_ok :: "field_definition \<Rightarrow> bool" where
  "field_attributes_ok d =
     (fd_label d \<noteq> [] \<and> pred_option (\<lambda>os. os \<noteq> []) (fd_options d) \<and>
      pred_option validation_attributes_ok (fd_validation d))"

definition check_ui :: "field_definition \<Rightarrow> field_definition res" where
  "check_ui d =
     (case fd_ui d of
        None \<Rightarrow> Inr (d\<lparr>fd_ui := Some (default_ui_by_type (fd_type d))\<rparr>)
      | Some w \<Rightarrow>
          bindR (ensure (w \<in> set (ui_widgets_by_type (fd_type d)))
                   (verr ''ui={} is not valid for type={}''
                      [JStr (widget_name w), JStr (type_name (fd_type d))]))
            (\<lambda>_. Inr d))"

definition check_options_widget :: "field_definition \<Rightarrow> unit res" where
  "check_options_widget d =
     (case fd_options d of
        Some os \<Rightarrow>
          bindR (ensure (fd_type d = FString)
                   (verr ''options is only supported for type=string'' [])) (\<lambda>_.
          bindR (ensure (the (fd_ui d) \<in> set options_widgets)
                   (verr ''options requires ui to be select or radio'' [])) (\<lambda>_.
          ensure (distinct os) (verr ''options must not contain duplicate values'' [])))
      | None \<Rightarrow>
          ensure (the (fd_ui d) \<notin> set options_widgets)
            (verr ''ui={} requires options to be set'' [JStr (widget_name (the (fd_ui d)))]))"

definition check_validation_applies :: "field_definition \<Rightarrow> unit res" where
  "check_validation_applies d =
     (case fd_validation d of None \<Rightarrow> Inr ()
      | Some v \<Rightarrow>
          (case fd_type d of
             FString \<Rightarrow>
               ensure (fv_minimum v = None \<and> fv_maximum v = None \<and> fv_multiple_of v = None)
                 (verr ''minimum/maximum/multiple_of are not valid for type=string'' [])
           | FBoolean \<Rightarrow> Inl (verr ''validation is not supported for type=boolean'' [])
           | _ \<Rightarrow>
               ensure (fv_pattern v = None \<and> fv_min_length v = None \<and> fv_max_length v = None)
                 (verr ''pattern/min_length/max_length are not valid for a number type'' [])))"

definition check_slider :: "field_definition \<Rightarrow> unit res" where
  "check_slider d =
     (if fd_ui d = Some Slider then
        ensure (case fd_validation d of None \<Rightarrow> False
                | Some v \<Rightarrow> fv_minimum v \<noteq> None \<and> fv_maximum v \<noteq> None)
          (verr ''ui=slider requires validation.minimum and validation.maximum'' [])
      else Inr ())"

definition check_consistency :: "regex_engine \<Rightarrow> field_definition \<Rightarrow> field_definition res" where
  "check_consistency rx d =
     bindR (check_ui d) (\<lambda>d.
     bindR (check_options_widget d) (\<lambda>_.
     bindR (check_validation_applies d) (\<lambda>_.
     bindR (check_slider d) (\<lambda>_.
     bindR (if fd_default d \<noteq> JNull
            then validate_value rx ''default'' (fd_default d) (dump_field d)
            else Inr ()) (\<lambda>_.
     Inr d)))))"

text \<open>What the request model accepts: attribute constraints, then the two validators.\<close>

definition accept_field ::
  "(string \<Rightarrow> bool) \<Rightarrow> regex_engine \<Rightarrow> field_definition \<Rightarrow> field_definition res" where
  "accept_field rx_ok rx d =
     bindR (ensure (field_attributes_ok d) (verr ''attribute constraint violated'' [])) (\<lambda>_.
     bindR (case fd_validation d of None \<Rightarrow> Inr () | Some v \<Rightarrow> check_bounds rx_ok v) (\<lambda>_.
     check_consistency rx d))"

section \<open>Lemmas\<close>

text \<open>The check reads four attributes only, and None like a missing key.\<close>

lemma validate_value_cong:
  assumes "\<And>k. k \<in> {''type'', ''validation'', ''options''} \<Longrightarrow> pget d k = pget d' k"
  shows "validate_value rx n v d = validate_value rx n v d'"
proof -
  have "pget d ''type'' = pget d' ''type''" "pget d ''validation'' = pget d' ''validation''"
    "pget d ''options'' = pget d' ''options''"
    using assms by simp_all
  then show ?thesis by (simp only: validate_value_def)
qed

lemma jopt_simps [simp]: "jopt f None = JNull" "jopt f (Some x) = f x"
  by (simp_all add: jopt_def)

lemma jopt_null_iff: "(\<And>x. f x \<noteq> JNull) \<Longrightarrow> jopt f v = JNull \<longleftrightarrow> v = None"
  by (cases v) simp_all

lemma type_name_inj [simp]: "type_name a = type_name b \<longleftrightarrow> a = b"
  by (cases a; cases b) simp_all

lemma pget_dump_field [simp]:
  "pget (dump_field d) ''type'' = JStr (type_name (fd_type d))"
  "pget (dump_field d) ''validation'' = jopt (JObj \<circ> dump_validation) (fd_validation d)"
  "pget (dump_field d) ''options'' = jopt (JList \<circ> map JStr) (fd_options d)"
  "pget (dump_field d) ''required'' = JBool (fd_required d)"
  "pget (dump_field d) ''default'' = fd_default d"
  "pget (dump_field d) ''changeable'' = JBool (fd_changeable d)"
  by (simp_all add: dump_field_def)

lemma pget_dump_validation [simp]:
  "pget (dump_validation v) ''pattern'' = jopt JStr (fv_pattern v)"
  "pget (dump_validation v) ''min_length'' = jopt JInt (fv_min_length v)"
  "pget (dump_validation v) ''max_length'' = jopt JInt (fv_max_length v)"
  "pget (dump_validation v) ''minimum'' = jopt JFloat (fv_minimum v)"
  "pget (dump_validation v) ''maximum'' = jopt JFloat (fv_maximum v)"
  "pget (dump_validation v) ''exclusive_minimum'' = JBool (fv_exclusive_minimum v)"
  "pget (dump_validation v) ''exclusive_maximum'' = JBool (fv_exclusive_maximum v)"
  "pget (dump_validation v) ''multiple_of'' = jopt JFloat (fv_multiple_of v)"
  by (simp_all add: dump_validation_def)

lemma or_obj_dump [simp]:
  "or_obj (jopt (JObj \<circ> dump_validation) v) =
     JObj (case v of None \<Rightarrow> [] | Some x \<Rightarrow> dump_validation x)"
  by (cases v) (simp_all add: or_obj_def dump_validation_def)

section \<open>The typed reading of the check\<close>

text \<open>When a value conforms to a field definition, said over the model's attributes.\<close>

definition string_rules :: "regex_engine \<Rightarrow> field_validation \<Rightarrow> string \<Rightarrow> bool" where
  "string_rules rx v s =
     (pred_option (\<lambda>p. rx p s = Inr True) (fv_pattern v) \<and>
      pred_option (\<lambda>n. n \<le> int (length s)) (fv_min_length v) \<and>
      pred_option (\<lambda>n. int (length s) \<le> n) (fv_max_length v))"

definition number_rules :: "field_validation \<Rightarrow> rat \<Rightarrow> bool" where
  "number_rules v x =
     (pred_option (\<lambda>a. if fv_exclusive_minimum v then a < x else a \<le> x) (fv_minimum v) \<and>
      pred_option (\<lambda>b. if fv_exclusive_maximum v then x < b else x \<le> b) (fv_maximum v) \<and>
      pred_option (\<lambda>m. \<exists>k. x = m * of_int k) (fv_multiple_of v))"

definition conforms :: "regex_engine \<Rightarrow> field_definition \<Rightarrow> json \<Rightarrow> bool" where
  "conforms rx d value =
     (case (fd_type d, value) of
        (FBoolean, JBool _) \<Rightarrow> True
      | (FInteger, JInt i) \<Rightarrow> pred_option (\<lambda>v. number_rules v (of_int i)) (fd_validation d)
      | (FNumber, JInt i) \<Rightarrow> pred_option (\<lambda>v. number_rules v (of_int i)) (fd_validation d)
      | (FNumber, JFloat q) \<Rightarrow> pred_option (\<lambda>v. number_rules v q) (fd_validation d)
      | (FString, JStr s) \<Rightarrow>
          pred_option (\<lambda>v. string_rules rx v s) (fd_validation d) \<and>
          pred_option (\<lambda>os. s \<in> set os) (fd_options d)
      | _ \<Rightarrow> False)"

text \<open>A check that fails with ValueError only, whatever its input.\<close>

definition clean :: "unit res \<Rightarrow> bool" where
  "clean r = (case r of Inl e \<Rightarrow> is_value_error e | Inr _ \<Rightarrow> True)"

lemma clean_simps [simp]:
  "clean (Inr u)" "clean (Inl e) = is_value_error e" "clean (ensure b (verr t as))"
  "is_value_error (verr t as)"
  by (simp_all add: clean_def ensure_def verr_def)

lemma clean_bindR: "clean r \<Longrightarrow> (\<And>x. r = Inr x \<Longrightarrow> clean (f x)) \<Longrightarrow> clean (bindR r f)"
  by (cases r) simp_all

lemma num_of_jopt [simp]:
  "num_of (jopt JInt (Some i)) = Some (of_int i)" "num_of (jopt JFloat (Some q)) = Some q"
  by simp_all

lemma string_rules_checked:
  assumes total: "\<And>p. fv_pattern v = Some p \<Longrightarrow> \<exists>b. rx p s = Inr b"
  shows "clean (check_string_rules rx name (JStr s) (dump_validation v))"
    and "is_ok (check_string_rules rx name (JStr s) (dump_validation v)) \<longleftrightarrow> string_rules rx v s"
proof -
  have len: "(of_int i :: rat) \<le> of_nat n \<longleftrightarrow> i \<le> int n" "(of_nat n :: rat) \<le> of_int i \<longleftrightarrow> int n \<le> i"
    for i n by (metis of_int_le_iff of_int_of_nat_eq)+
  show "clean (check_string_rules rx name (JStr s) (dump_validation v))"
    using total by (cases "fv_pattern v"; cases "fv_min_length v"; cases "fv_max_length v")
      (force simp: check_string_rules_def str_of_def cmp_def Let_def intro!: clean_bindR)+
  show "is_ok (check_string_rules rx name (JStr s) (dump_validation v)) \<longleftrightarrow> string_rules rx v s"
    using total by (cases "fv_pattern v"; cases "fv_min_length v"; cases "fv_max_length v")
      (auto simp: check_string_rules_def str_of_def cmp_def Let_def string_rules_def len not_less)
qed

lemma number_rules_checked:
  assumes num: "num_of value = Some x"
    and pos: "\<And>m. fv_multiple_of v = Some m \<Longrightarrow> 0 < m"
  shows "clean (check_number_rules name value (dump_validation v))"
    and "is_ok (check_number_rules name value (dump_validation v)) \<longleftrightarrow> number_rules v x"
proof -
  show "clean (check_number_rules name value (dump_validation v))"
    using num pos by (cases "fv_minimum v"; cases "fv_maximum v"; cases "fv_multiple_of v")
      (force simp: check_number_rules_def cmp_def Let_def intro!: clean_bindR)+
  show "is_ok (check_number_rules name value (dump_validation v)) \<longleftrightarrow> number_rules v x"
    using num pos by (cases "fv_minimum v"; cases "fv_maximum v"; cases "fv_multiple_of v")
      (auto simp: check_number_rules_def cmp_def Let_def number_rules_def not_less not_le
        py_mod_eq_0_iff)
qed

text \<open>What the two validators establish about an accepted definition.\<close>

definition wf_field :: "(string \<Rightarrow> bool) \<Rightarrow> field_definition \<Rightarrow> bool" where
  "wf_field rx_ok d =
     ((fd_options d \<noteq> None \<longrightarrow> fd_type d = FString) \<and>
      (case fd_validation d of None \<Rightarrow> True
       | Some v \<Rightarrow> fd_type d \<noteq> FBoolean \<and> pred_option rx_ok (fv_pattern v) \<and>
           pred_option (\<lambda>m. 0 < m) (fv_multiple_of v)))"

lemma check_ui_Inr:
  "check_ui d = Inr d' \<Longrightarrow>
     fd_ui d' \<noteq> None \<and> the (fd_ui d') \<in> set (ui_widgets_by_type (fd_type d')) \<and>
     d' = d\<lparr>fd_ui := fd_ui d'\<rparr>"
  by (cases "fd_type d") (auto simp: check_ui_def split: option.splits if_splits)

lemma accept_field_wf:
  assumes "accept_field rx_ok rx d = Inr d'"
  shows "wf_field rx_ok d'"
proof -
  from assms obtain d1 where d1: "check_ui d = Inr d1" "d' = d1"
    and o: "is_ok (check_options_widget d1)" and a: "is_ok (check_validation_applies d1)"
    by (auto simp: accept_field_def check_consistency_def bindR_Inr_iff is_ok_iff)
  have same: "fd_validation d1 = fd_validation d" "fd_options d1 = fd_options d"
    using check_ui_Inr[OF d1(1)] by (metis field_definition.select_convs field_definition.update_convs(6)
      field_definition.surjective)+
  from assms have attrs: "field_attributes_ok d"
    and b: "\<And>v. fd_validation d = Some v \<Longrightarrow> is_ok (check_bounds rx_ok v)"
    by (auto simp: accept_field_def bindR_Inr_iff is_ok_iff)
  show ?thesis
    using o a attrs b unfolding d1(2) wf_field_def
    by (auto simp: same check_options_widget_def check_validation_applies_def field_attributes_ok_def
        validation_attributes_ok_def check_bounds_def split: option.splits field_type.splits)
qed

lemma validate_value_field:
  assumes wf: "wf_field rx_ok d"
    and rx: "\<And>p s. rx_ok p \<Longrightarrow> \<exists>b. rx p s = Inr b"
  shows "clean (validate_value rx name value (dump_field d))"
    and "is_ok (validate_value rx name value (dump_field d)) \<longleftrightarrow> conforms rx d value"
proof -
  have opts: "clean (check_options name (JStr s) (jopt (JList \<circ> map JStr) os))"
    "is_ok (check_options name (JStr s) (jopt (JList \<circ> map JStr) os)) \<longleftrightarrow> pred_option (\<lambda>os. s \<in> set os) os"
    for s os by (cases os; auto simp: check_options_def list_ex_iff)+
  have none: "check_options name w JNull = Inr ()" for w by (simp add: check_options_def)
  have str: "string_rules rx v s \<longleftrightarrow> is_ok (check_string_rules rx name (JStr s) (dump_validation v))"
    "clean (check_string_rules rx name (JStr s) (dump_validation v))"
    if v: "fd_validation d = Some v" for s v
  proof -
    have total: "\<exists>b. rx p s = Inr b" if "fv_pattern v = Some p" for p
      using wf v that rx by (simp add: wf_field_def)
    show "string_rules rx v s \<longleftrightarrow> is_ok (check_string_rules rx name (JStr s) (dump_validation v))"
      using string_rules_checked(2)[of v rx s name] total by blast
    show "clean (check_string_rules rx name (JStr s) (dump_validation v))"
      using string_rules_checked(1)[of v rx s name] total by blast
  qed
  have num: "number_rules v x \<longleftrightarrow> is_ok (check_number_rules name w (dump_validation v))"
    "clean (check_number_rules name w (dump_validation v))"
    if v: "fd_validation d = Some v" and x: "num_of w = Some x" for v x w
  proof -
    have pos: "0 < m" if "fv_multiple_of v = Some m" for m
      using wf v that by (simp add: wf_field_def)
    show "number_rules v x \<longleftrightarrow> is_ok (check_number_rules name w (dump_validation v))"
      using number_rules_checked(2)[of w x v name] x pos by blast
    show "clean (check_number_rules name w (dump_validation v))"
      using number_rules_checked(1)[of w x v name] x pos by blast
  qed
  have nov: "check_string_rules rx name (JStr s) [] = Inr ()" "check_number_rules name w [] = Inr ()" for s w
    by (simp_all add: check_string_rules_def check_number_rules_def)
  have num': "is_ok (check_number_rules name (JInt i) (dump_validation v)) \<longleftrightarrow> number_rules v (of_int i)"
    "is_ok (check_number_rules name (JFloat q) (dump_validation v)) \<longleftrightarrow> number_rules v q"
    if "fd_validation d = Some v" for v i q
    using num(1)[OF that, of "JInt i"] num(1)[OF that, of "JFloat q"] by simp_all
  have o: "fd_type d \<noteq> FString \<Longrightarrow> fd_options d = None"
    using wf by (auto simp: wf_field_def)
  show "clean (validate_value rx name value (dump_field d))"
    by (cases "fd_type d"; cases "value"; cases "fd_validation d")
      (auto simp: validate_value_def check_field_type_def as_dict_def Let_def nov o none opts str num
        intro!: clean_bindR)
  show "is_ok (validate_value rx name value (dump_field d)) \<longleftrightarrow> conforms rx d value"
    by (cases "fd_type d"; cases "value"; cases "fd_validation d")
      (auto simp: validate_value_def check_field_type_def as_dict_def Let_def nov o none opts str num'
        conforms_def unit_result_eq)
qed

lemma accept_field_default:
  assumes "accept_field rx_ok rx d = Inr d'" and "fd_default d' \<noteq> JNull"
  shows "validate_value rx ''default'' (fd_default d') (dump_field d') = Inr ()"
proof -
  from assms(1) obtain d1 where d1: "check_ui d = Inr d1" "d' = d1"
    and v: "fd_default d1 \<noteq> JNull \<longrightarrow>
      is_ok (validate_value rx ''default'' (fd_default d1) (dump_field d1))"
    by (auto simp: accept_field_def check_consistency_def is_ok_iff split: if_splits)
  with assms(2) show ?thesis by (simp add: unit_result_eq)
qed


text \<open>A number field from 1 to 10 in steps of one half, with default 5.\<close>

definition sample_field :: field_definition where
  "sample_field =
     \<lparr>fd_type = FNumber, fd_label = ''Rate'', fd_description = None, fd_required = True,
      fd_validation = Some \<lparr>fv_pattern = None, fv_min_length = None, fv_max_length = None,
        fv_minimum = Some 1, fv_maximum = Some 10, fv_exclusive_minimum = False,
        fv_exclusive_maximum = False, fv_multiple_of = Some (1 / 2)\<rparr>,
      fd_ui = Some Slider, fd_options = None, fd_default = JInt 5, fd_changeable = True,
      fd_show_in_list = True\<rparr>"

definition no_regex :: regex_engine where
  "no_regex p s = Inr (p = s)"

lemma sample_field_accepted:
  "accept_field (\<lambda>_. True) no_regex sample_field = Inr sample_field"
  by (simp add: accept_field_def sample_field_def field_attributes_ok_def validation_attributes_ok_def
      check_bounds_def check_consistency_def check_ui_def check_options_widget_def options_widgets_def
      check_validation_applies_def check_slider_def validate_value_def check_field_type_def
      check_number_rules_def cmp_def check_options_def as_dict_def dump_validation_def py_mod_def)


end
