(* ===== verification/Merge.thy ===== *)
theory Merge
  imports Field_Validation
begin

text \<open>
  \<open>db/merge.py\<close>: resolving an instance's data against its type, validating it, and applying
  patches.  A type's fields are a dict from field keys to field definitions; a patch maps a key
  to a value, with None (here \<open>JNull\<close>, or the \<open>None\<close> of a field patch) for removal.
\<close>

section \<open>Operations\<close>

record resolved_field =
  rf_value :: json
  rf_field :: "field_def option"

definition resolve_fields :: "json dict \<Rightarrow> field_def dict \<Rightarrow> resolved_field dict" where
  "resolve_fields instance_data type_fields =
     map (\<lambda>(field_key, fd).
            let v = pget instance_data field_key in
            (field_key, \<lparr>rf_value = (if v = JNull then pget fd ''default'' else v),
                         rf_field = Some fd\<rparr>)) type_fields
     @ map (\<lambda>(data_key, v). (data_key, \<lparr>rf_value = v, rf_field = None\<rparr>))
         (filter (\<lambda>(data_key, _). \<not> has_key type_fields data_key) instance_data)"

definition merge_type_fields :: "field_def dict \<Rightarrow> field_def dict \<Rightarrow> field_def dict" where
  "merge_type_fields base_fields override_fields = dupdate base_fields override_fields"

definition validate_instance_field :: "regex_engine \<Rightarrow> json dict \<Rightarrow> string \<times> field_def \<Rightarrow> unit res" where
  "validate_instance_field rx data = (\<lambda>(field_key, fd).
     let v = pget data field_key in
     if v = JNull then
       (if truthy (pget fd ''required'')
        then Inl (Api ValidationError (Msg ''{} is required'' [JStr field_key]) 422)
        else Inr ())
     else rewrap_value_error (\<lambda>m. Api ValidationError m 422) (validate_value rx field_key v fd))"

definition validate_instance_data :: "regex_engine \<Rightarrow> json dict \<Rightarrow> field_def dict \<Rightarrow> unit res" where
  "validate_instance_data rx data type_fields =
     check_all (validate_instance_field rx data) type_fields"

text \<open>\<open>field_def.get("changeable", True)\<close>.\<close>

definition changeable :: "field_def \<Rightarrow> bool" where
  "changeable fd = (case map_of fd ''changeable'' of None \<Rightarrow> True | Some c \<Rightarrow> truthy c)"

definition check_changeable :: "json dict \<Rightarrow> field_def dict \<Rightarrow> string \<times> json \<Rightarrow> unit res" where
  "check_changeable current_data type_fields = (\<lambda>(field_key, new_value).
     case map_of type_fields field_key of
       None \<Rightarrow> Inr ()
     | Some fd \<Rightarrow>
         if changeable fd then Inr ()
         else ensure (\<not> (pget current_data field_key \<noteq> JNull \<and>
                         \<not> py_eq new_value (pget current_data field_key)))
                (Api ValidationError (Msg ''{} is not changeable once set'' [JStr field_key]) 422))"

definition reject_non_changeable_updates ::
  "json dict \<Rightarrow> json dict \<Rightarrow> field_def dict \<Rightarrow> unit res" where
  "reject_non_changeable_updates current_data data_patch type_fields =
     check_all (check_changeable current_data type_fields) data_patch"

definition patch_field :: "string \<times> field_def option \<Rightarrow> field_def dict \<Rightarrow> field_def dict" where
  "patch_field = (\<lambda>(field_key, field_patch) result.
     case field_patch of
       None \<Rightarrow> dpop field_key result
     | Some p \<Rightarrow>
         dset field_key
           (dupdate (case map_of result field_key of None \<Rightarrow> [] | Some fd \<Rightarrow> fd)
              (filter (\<lambda>(_, v). v \<noteq> JNull) p)) result)"

definition patch_fields :: "field_def dict \<Rightarrow> field_def option dict \<Rightarrow> field_def dict" where
  "patch_fields current_fields field_patches = fold patch_field field_patches current_fields"

definition patch_entry :: "string \<times> json \<Rightarrow> json dict \<Rightarrow> json dict" where
  "patch_entry = (\<lambda>(k, v) result. if v = JNull then dpop k result else dset k v result)"

definition patch_data :: "json dict \<Rightarrow> json dict \<Rightarrow> json dict" where
  "patch_data current_data data_patch = fold patch_entry data_patch current_data"

section \<open>Patching\<close>

lemma wf_dict_patch_data [simp]: "wf_dict d \<Longrightarrow> wf_dict (patch_data d p)"
  unfolding patch_data_def
  by (induction p arbitrary: d) (auto simp: patch_entry_def distinct_update distinct_delete)

lemma patch_data_Cons: "patch_data d (e # p) = patch_data (patch_entry e d) p"
  by (simp add: patch_data_def)

lemma map_of_patch_data:
  "wf_dict p \<Longrightarrow> map_of (patch_data d p) k =
     (case map_of p k of None \<Rightarrow> map_of d k | Some v \<Rightarrow> if v = JNull then None else Some v)"
proof (induction p arbitrary: d)
  case Nil
  then show ?case by (simp add: patch_data_def)
next
  case (Cons e p)
  obtain k' v' where e: "e = (k', v')" by (cases e)
  from Cons.prems have new: "map_of p k' = None"
    by (simp add: e map_of_eq_None_iff)
  show ?case
    using Cons.IH[of "patch_entry e d"] Cons.prems new
    by (auto simp: patch_data_Cons e patch_entry_def split: option.splits)
qed

lemma pget_patch_data:
  "wf_dict p \<Longrightarrow> pget (patch_data d p) k = (case map_of p k of None \<Rightarrow> pget d k | Some v \<Rightarrow> v)"
  by (auto simp: pget_def map_of_patch_data split: option.splits)

lemma patch_fields_Cons: "patch_fields d (e # p) = patch_fields (patch_field e d) p"
  by (simp add: patch_fields_def)

lemma map_of_patch_fields:
  "wf_dict p \<Longrightarrow> map_of (patch_fields d p) k =
     (case map_of p k of
        None \<Rightarrow> map_of d k
      | Some None \<Rightarrow> None
      | Some (Some q) \<Rightarrow>
          Some (dupdate (case map_of d k of None \<Rightarrow> [] | Some fd \<Rightarrow> fd) (filter (\<lambda>(_, v). v \<noteq> JNull) q)))"
proof (induction p arbitrary: d)
  case Nil
  then show ?case by (simp add: patch_fields_def)
next
  case (Cons e p)
  obtain k' v' where e: "e = (k', v')" by (cases e)
  from Cons.prems have new: "map_of p k' = None"
    by (simp add: e map_of_eq_None_iff)
  show ?case
  proof (cases "k = k'")
    case True
    have "map_of (patch_fields d (e # p)) k' = map_of (patch_field e d) k'"
      using Cons.IH[of "patch_field e d"] Cons.prems new True by (simp add: patch_fields_Cons)
    with True show ?thesis
      by (simp add: e patch_field_def split: option.split)
  next
    case False
    then have same: "map_of (patch_field e d) k = map_of d k"
      by (simp add: e patch_field_def split: option.split)
    with False show ?thesis
      using Cons.IH[of "patch_field e d"] Cons.prems
      unfolding patch_fields_Cons same by (auto simp: e)
  qed
qed

lemma wf_dict_patch_fields [simp]: "wf_dict d \<Longrightarrow> wf_dict (patch_fields d p)"
  unfolding patch_fields_def
  by (induction p arbitrary: d)
    (auto simp: patch_field_def distinct_update distinct_delete split: option.split)

section \<open>Resolving\<close>

lemma map_of_map_snd: "map_of (map (\<lambda>(k, v). (k, f k v)) d) k = map_option (f k) (map_of d k)"
  by (induction d) auto

lemma map_of_resolve_fields:
  "map_of (resolve_fields data tfs) k =
     (case map_of tfs k of
        Some fd \<Rightarrow> Some \<lparr>rf_value = (if pget data k = JNull then pget fd ''default'' else pget data k),
                        rf_field = Some fd\<rparr>
      | None \<Rightarrow> map_option (\<lambda>v. \<lparr>rf_value = v, rf_field = None\<rparr>) (map_of data k))"
proof -
  let ?f = "\<lambda>k fd. \<lparr>rf_value = (if pget data k = JNull then pget fd ''default'' else pget data k),
    rf_field = Some fd\<rparr>"
  let ?g = "\<lambda>k v. \<lparr>rf_value = v, rf_field = None\<rparr>"
  have r: "resolve_fields data tfs = map (\<lambda>(k, fd). (k, ?f k fd)) tfs
      @ map (\<lambda>(k, v). (k, ?g k v)) (filter (\<lambda>(k, _). \<not> has_key tfs k) data)"
    by (simp add: resolve_fields_def Let_def case_prod_unfold)
  have l: "map_of (map (\<lambda>(k, fd). (k, ?f k fd)) tfs) k = map_option (?f k) (map_of tfs k)"
    by (rule map_of_map_snd)
  have g: "map_of (map (\<lambda>(k, v). (k, ?g k v)) (filter (\<lambda>(k, _). \<not> has_key tfs k) data)) k =
      map_option (?g k) (if has_key tfs k then None else map_of data k)"
    by (simp only: map_of_map_snd[of ?g] map_of_filter_key[of "\<lambda>k. \<not> has_key tfs k" data k])
      simp
  show ?thesis
    unfolding r map_of_append map_add_def l g
    by (simp add: has_key_def split: option.split)
qed

lemma keys_resolve_fields:
  "map fst (resolve_fields data tfs) = map fst tfs @ filter (\<lambda>k. \<not> has_key tfs k) (map fst data)"
  by (simp add: resolve_fields_def Let_def case_prod_unfold comp_def filter_map)

lemma wf_dict_resolve_fields:
  "wf_dict data \<Longrightarrow> wf_dict tfs \<Longrightarrow> wf_dict (resolve_fields data tfs)"
  unfolding keys_resolve_fields by (auto simp: has_key_iff)

section \<open>Validation\<close>

lemma validate_instance_data_ok:
  "validate_instance_data rx data tfs = Inr () \<longleftrightarrow>
     (\<forall>(k, fd) \<in> set tfs.
        if pget data k = JNull then \<not> truthy (pget fd ''required'')
        else is_ok (validate_value rx k (pget data k) fd))"
  by (auto simp: validate_instance_data_def validate_instance_field_def Let_def)

text \<open>Validation looks only at the values of the type's own fields.\<close>

lemma validate_instance_data_cong:
  assumes "\<And>k. k \<in> fst ` set tfs \<Longrightarrow> pget data k = pget data' k"
  shows "validate_instance_data rx data tfs = validate_instance_data rx data' tfs"
  unfolding validate_instance_data_def
  using assms by (induction tfs) (auto simp: validate_instance_field_def)

text \<open>Which updates pass the \<open>changeable\<close> check.\<close>

lemma check_changeable_ok [simp]:
  "is_ok (check_changeable current tfs (k, v)) \<longleftrightarrow>
     (\<forall>fd. map_of tfs k = Some fd \<and> \<not> changeable fd \<and> pget current k \<noteq> JNull \<longrightarrow>
        py_eq v (pget current k))"
  by (auto simp: check_changeable_def split: option.split)

lemma reject_non_changeable_ok:
  "reject_non_changeable_updates current patch tfs = Inr () \<longleftrightarrow>
     (\<forall>(k, v) \<in> set patch. \<forall>fd. map_of tfs k = Some fd \<and> \<not> changeable fd \<and>
        pget current k \<noteq> JNull \<longrightarrow> py_eq v (pget current k))"
  unfolding reject_non_changeable_updates_def check_all_ok by (intro ball_cong) auto

text \<open>After a patch that passed, a set field that is not changeable keeps its value, up to
  Python's equality; removing it is refused.\<close>

lemma reject_non_changeable_keeps:
  assumes "reject_non_changeable_updates current patch tfs = Inr ()"
    and "wf_dict patch" "map_of tfs k = Some fd" "\<not> changeable fd" "pget current k \<noteq> JNull"
  shows "py_eq (pget (patch_data current patch) k) (pget current k)"
  using assms(1,3-) map_of_mem[of patch k]
  by (auto simp: reject_non_changeable_ok pget_patch_data[OF assms(2)] split: option.split)

text \<open>Patching twice with the same patch changes nothing more.\<close>

lemma pget_patch_data_idem:
  "wf_dict p \<Longrightarrow> pget (patch_data (patch_data d p) p) k = pget (patch_data d p) k"
  by (simp add: pget_patch_data split: option.split)

end
