(* ===== verification/Abac.thy ===== *)
theory Abac
  imports Permission_Types Merge
begin

text \<open>
  The permission checks (\<open>authorization/abac_permission_check.py\<close>, \<open>authorization/device_access.py\<close>)
  and the claims they read from a token (\<open>auth.py\<close>).  A check is a function of the decoded token,
  the request and two repository lookups: what a user may do (\<open>get_teams_with_roles_and_scopes\<close>)
  and a device's stored metadata (\<open>get_device_meta_raw\<close>); the checks that find a device through an
  endpoint or service use two more.  The lookups are the interface of the locale \<open>abac_store\<close>,
  which the tables of the program interpret later.
\<close>

section \<open>What a user may do\<close>

datatype access_rule = RuleAll | RuleAny

record scope_view =
  sc_attr :: "json dict"
  sc_rule :: access_rule

record role_view =
  rv_name :: string
  rv_allowed_actions :: "string list"

record team_view =
  tv_name :: string
  tv_scope :: "scope_view option"
  tv_roles :: "role_view list"

record user_view =
  uv_id :: string
  uv_is_admin :: bool
  uv_teams :: "team_view list"

definition key_matches :: "string \<Rightarrow> json \<Rightarrow> json dict \<Rightarrow> bool" where
  "key_matches key scope_value device_meta =
     (let device_value = pget device_meta key in
      if device_value = JNull then False
      else case scope_value of JList l \<Rightarrow> list_ex (py_eq device_value) l
           | _ \<Rightarrow> py_eq device_value scope_value)"

definition matches_scope :: "json dict \<Rightarrow> access_rule \<Rightarrow> json dict \<Rightarrow> bool" where
  "matches_scope scope_attr rule device_meta =
     (if scope_attr = [] then True
      else case rule of
          RuleAll \<Rightarrow> list_all (\<lambda>(k, v). key_matches k v device_meta) scope_attr
        | RuleAny \<Rightarrow> list_ex (\<lambda>(k, v). key_matches k v device_meta) scope_attr)"

definition team_grants :: "string \<Rightarrow> team_view \<Rightarrow> bool" where
  "team_grants permission team =
     list_ex (\<lambda>role. permission \<in> set (rv_allowed_actions role)) (tv_roles team)"

definition teams_with_permission :: "string \<Rightarrow> user_view \<Rightarrow> team_view list" where
  "teams_with_permission permission user_data = filter (team_grants permission) (uv_teams user_data)"

definition evaluate_permission :: "string \<Rightarrow> user_view \<Rightarrow> json dict option \<Rightarrow> bool" where
  "evaluate_permission permission user_data device_meta =
     (if uv_is_admin user_data then True
      else let granting = teams_with_permission permission user_data in
        if granting = [] then False
        else case device_meta of
            None \<Rightarrow> True
          | Some meta \<Rightarrow>
              if list_ex (\<lambda>team. tv_scope team = None) granting then True
              else list_ex (\<lambda>team. case tv_scope team of
                       Some s \<Rightarrow> matches_scope (sc_attr s) (sc_rule s) meta
                     | None \<Rightarrow> False) granting)"

section \<open>The token and the request\<close>

text \<open>\<open>a or b or ...\<close> over claims: the first truthy one, else the last.\<close>

fun first_claim :: "json dict \<Rightarrow> string list \<Rightarrow> json" where
  "first_claim auth_context [] = JNull"
| "first_claim auth_context [c] = pget auth_context c"
| "first_claim auth_context (c # cs) =
     (if truthy (pget auth_context c) then pget auth_context c else first_claim auth_context cs)"

definition token_user_id :: "json dict \<Rightarrow> json" where
  "token_user_id auth_context = first_claim auth_context [''oid'', ''sub'']"

definition get_current_user :: "json dict \<Rightarrow> json res" where
  "get_current_user auth_context =
     (let user = first_claim auth_context [''name'', ''preferred_username'', ''email'', ''oid'', ''sub''] in
      if truthy user then Inr user
      else Inl (HTTPException 401 (Msg ''token does not contain a recognizable user identity claim'' [])))"

text \<open>\<open>rq_body\<close> is None when the body is not valid JSON.\<close>

record request =
  rq_path_params :: "string dict"
  rq_query_params :: "string dict"
  rq_body :: "json option"

record abac_result =
  ar_user_id :: json
  ar_user_name :: json
  ar_permission :: string
  ar_device_id :: "string option"

type_synonym user_lookup = "json \<Rightarrow> user_view option"
type_synonym meta_lookup = "string \<Rightarrow> json dict option"

section \<open>The shared evaluation\<close>

definition require_user :: "json dict \<Rightarrow> user_lookup \<Rightarrow> (json \<times> json \<times> user_view) res" where
  "require_user auth_context users =
     (let user_id = token_user_id auth_context in
      bindR (get_current_user auth_context) (\<lambda>user_name.
      bindR (ensure (truthy user_id) (forbidden ''User identifier missing from token'' [])) (\<lambda>_.
      case users user_id of
        None \<Rightarrow> Inl (forbidden ''User not found'' [])
      | Some user_data \<Rightarrow> Inr (user_id, user_name, user_data))))"

text \<open>The role check of \<open>_authorize\<close>; it answers whether scopes have to be looked at.\<close>

definition check_roles :: "string \<Rightarrow> user_view \<Rightarrow> bool res" where
  "check_roles permission user_data =
     (if uv_is_admin user_data then Inr False
      else bindR (ensure (uv_teams user_data \<noteq> []) (forbidden ''User has no team assignments'' [])) (\<lambda>_.
        let granting = teams_with_permission permission user_data in
        bindR (ensure (granting \<noteq> []) (forbidden ''No role grants permission {}'' [JStr permission])) (\<lambda>_.
        Inr (\<not> list_ex (\<lambda>team. tv_scope team = None) granting))))"

definition authorize ::
  "string \<Rightarrow> json dict \<Rightarrow> user_lookup \<Rightarrow> meta_lookup \<Rightarrow> string option \<Rightarrow> bool \<Rightarrow>
     (json dict \<Rightarrow> json dict) option \<Rightarrow> string option res option \<Rightarrow> abac_result res" where
  "authorize permission auth_context users device_meta_raw device_id require_device resulting_meta resolve_device =
     bindR (require_user auth_context users) (\<lambda>(user_id, user_name, user_data).
     bindR (check_roles permission user_data) (\<lambda>scope_required.
     bindR (case resolve_device of None \<Rightarrow> Inr device_id | Some r \<Rightarrow> r) (\<lambda>device_id.
     bindR (ensure (\<not> (scope_required \<and> device_id = None \<and> require_device))
              (forbidden ''Device identifier could not be resolved'' [])) (\<lambda>_.
     bindR (case device_id of
              Some d \<Rightarrow>
                if scope_required then
                  (case device_meta_raw d of
                     None \<Rightarrow> Inl (forbidden ''Device {} not found'' [JStr d])
                   | Some meta \<Rightarrow> Inr (Some meta))
                else Inr None
            | None \<Rightarrow> Inr None) (\<lambda>device_meta.
     bindR (ensure (evaluate_permission permission user_data device_meta)
              (forbidden ''Device is not within any assigned scope'' [])) (\<lambda>_.
     bindR (case (resulting_meta, device_meta) of
              (Some f, Some meta) \<Rightarrow>
                ensure (evaluate_permission permission user_data (Some (f meta)))
                  (forbidden ''Resulting device metadata would be outside the assigned scope'' [])
            | _ \<Rightarrow> Inr ()) (\<lambda>_.
     Inr \<lparr>ar_user_id = user_id, ar_user_name = user_name, ar_permission = permission,
          ar_device_id = device_id\<rparr>)))))))"

section \<open>The checks\<close>

text \<open>\<open>ABACPermissionCheck\<close>.\<close>

record permission_check =
  pc_permission :: string
  pc_device_path :: "string option"
  pc_in_query :: bool

definition truthy_str :: "string option \<Rightarrow> bool" where
  "truthy_str s = (case s of None \<Rightarrow> False | Some t \<Rightarrow> t \<noteq> [])"

definition abac_permission_check ::
  "permission_check \<Rightarrow> request \<Rightarrow> json dict \<Rightarrow> user_lookup \<Rightarrow> meta_lookup \<Rightarrow> abac_result res" where
  "abac_permission_check check request auth_context users device_meta_raw =
     (let device_id = (case pc_device_path check of
            Some p \<Rightarrow> if p = [] then None
              else if pc_in_query check then map_of (rq_query_params request) p
              else map_of (rq_path_params request) p
          | None \<Rightarrow> None) in
      bindR (ensure (\<not> (truthy_str (pc_device_path check) \<and> \<not> truthy_str device_id \<and>
                        pc_permission check \<notin> set global_permissions))
               (forbidden ''Device identifier could not be resolved'' [])) (\<lambda>_.
      authorize (pc_permission check) auth_context users device_meta_raw device_id False None None))"

text \<open>\<open>await request.json()\<close> and the check that it is an object.\<close>

definition json_object_body :: "request \<Rightarrow> json dict res" where
  "json_object_body request =
     (case rq_body request of
        None \<Rightarrow> Inl (api_error ''Request body must be valid JSON'' [] 400)
      | Some (JObj body) \<Rightarrow> Inr body
      | Some _ \<Rightarrow> Inl (api_error ''Request body must be a JSON object'' [] 400))"

definition abac_metadata_patch_check ::
  "string \<Rightarrow> string \<Rightarrow> request \<Rightarrow> json dict \<Rightarrow> user_lookup \<Rightarrow> meta_lookup \<Rightarrow> abac_result res" where
  "abac_metadata_patch_check permission device_path request auth_context users device_meta_raw =
     (case map_of (rq_path_params request) device_path of
        None \<Rightarrow> Inl (forbidden ''Device identifier could not be resolved'' [])
      | Some device_id \<Rightarrow>
          bindR (json_object_body request) (\<lambda>body.
          authorize permission auth_context users device_meta_raw (Some device_id) False
            (Some (\<lambda>current. patch_data current body)) None))"

datatype owner = OwnerDevice | OwnerEndpoint | OwnerService

fun owner_name :: "owner \<Rightarrow> string" where
  "owner_name OwnerDevice = ''Device''"
| "owner_name OwnerEndpoint = ''Endpoint''"
| "owner_name OwnerService = ''Service''"

text \<open>\<open>request.path_params.get(p) or request.query_params.get(p)\<close>.\<close>

definition any_param :: "request \<Rightarrow> string \<Rightarrow> string option" where
  "any_param request p =
     (if truthy_str (map_of (rq_path_params request) p) then map_of (rq_path_params request) p
      else map_of (rq_query_params request) p)"

definition resolve_device_id ::
  "owner \<Rightarrow> (string \<Rightarrow> string option) \<Rightarrow> (string \<Rightarrow> string option) \<Rightarrow> string \<Rightarrow> string option" where
  "resolve_device_id owner endpoint_device service_device v =
     (case owner of OwnerDevice \<Rightarrow> Some v | OwnerEndpoint \<Rightarrow> endpoint_device v
      | OwnerService \<Rightarrow> service_device v)"

definition resolve_device ::
  "owner \<Rightarrow> string \<Rightarrow> request \<Rightarrow> (string \<Rightarrow> string option) \<Rightarrow> (string \<Rightarrow> string option) \<Rightarrow> string option res" where
  "resolve_device owner param request endpoint_device service_device =
     (case any_param request param of
        None \<Rightarrow> Inr None
      | Some v \<Rightarrow>
          if v = [] then Inr None
          else case resolve_device_id owner endpoint_device service_device v of
              None \<Rightarrow> Inl (api_error ''{} {} not found'' [JStr (owner_name owner), JStr v] 404)
            | Some d \<Rightarrow> Inr (Some d))"

definition abac_resolved_device_check ::
  "string \<Rightarrow> owner \<Rightarrow> string \<Rightarrow> request \<Rightarrow> json dict \<Rightarrow> user_lookup \<Rightarrow> meta_lookup \<Rightarrow>
     (string \<Rightarrow> string option) \<Rightarrow> (string \<Rightarrow> string option) \<Rightarrow> abac_result res" where
  "abac_resolved_device_check permission owner param request auth_context users device_meta_raw
     endpoint_device service_device =
     authorize permission auth_context users device_meta_raw None True None
       (Some (resolve_device owner param request endpoint_device service_device))"

definition meta_of_body :: "json dict \<Rightarrow> json dict res" where
  "meta_of_body body =
     (case pget body ''meta'' of
        JNull \<Rightarrow> Inr []
      | JObj meta \<Rightarrow> Inr meta
      | _ \<Rightarrow> Inl (api_error ''meta must be a JSON object'' [] 400))"

definition abac_device_create_check ::
  "string \<Rightarrow> request \<Rightarrow> json dict \<Rightarrow> user_lookup \<Rightarrow> abac_result res" where
  "abac_device_create_check permission request auth_context users =
     bindR (require_user auth_context users) (\<lambda>(user_id, user_name, user_data).
     bindR (if uv_is_admin user_data then Inr ()
            else bindR (ensure (uv_teams user_data \<noteq> []) (forbidden ''User has no team assignments'' [])) (\<lambda>_.
              bindR (ensure (evaluate_permission permission user_data None)
                       (forbidden ''No role grants permission {}'' [JStr permission])) (\<lambda>_.
              bindR (json_object_body request) (\<lambda>body.
              bindR (meta_of_body body) (\<lambda>meta.
              ensure (evaluate_permission permission user_data (Some meta))
                (forbidden ''Device metadata is not within any assigned scope'' [])))))) (\<lambda>_.
     Inr \<lparr>ar_user_id = user_id, ar_user_name = user_name, ar_permission = permission,
          ar_device_id = map_of (rq_path_params request) ''device_id''\<rparr>))"

definition abac_any_permission_check ::
  "string list \<Rightarrow> json dict \<Rightarrow> user_lookup \<Rightarrow> abac_result res" where
  "abac_any_permission_check permissions auth_context users =
     bindR (require_user auth_context users) (\<lambda>(user_id, user_name, user_data).
     bindR (if uv_is_admin user_data then Inr (hd permissions)
            else bindR (ensure (uv_teams user_data \<noteq> []) (forbidden ''User has no team assignments'' [])) (\<lambda>_.
              case List.find (\<lambda>p. evaluate_permission p user_data None) permissions of
                None \<Rightarrow> Inl (forbidden ''No role grants any of: {}'' [JList (map JStr permissions)])
              | Some p \<Rightarrow> Inr p)) (\<lambda>granted.
     Inr \<lparr>ar_user_id = user_id, ar_user_name = user_name, ar_permission = granted, ar_device_id = None\<rparr>))"

record list_filter =
  lf_user_id :: json
  lf_user_name :: json
  lf_permission :: string
  lf_is_unrestricted :: bool
  lf_scopes :: "scope_view list"

definition filter_device :: "list_filter \<Rightarrow> json dict \<Rightarrow> bool" where
  "filter_device f device_meta =
     (if lf_is_unrestricted f then True
      else list_ex (\<lambda>s. matches_scope (sc_attr s) (sc_rule s) device_meta) (lf_scopes f))"

definition abac_device_list_filter :: "string \<Rightarrow> json dict \<Rightarrow> user_lookup \<Rightarrow> list_filter res" where
  "abac_device_list_filter permission auth_context users =
     bindR (require_user auth_context users) (\<lambda>(user_id, user_name, user_data).
     bindR (check_roles permission user_data) (\<lambda>scope_required.
     Inr \<lparr>lf_user_id = user_id, lf_user_name = user_name, lf_permission = permission,
          lf_is_unrestricted = \<not> scope_required,
          lf_scopes = (if scope_required
                       then List.map_filter tv_scope (teams_with_permission permission user_data) else [])\<rparr>))"

section \<open>Per-device access\<close>

definition require_device_permission ::
  "string \<Rightarrow> string \<Rightarrow> json \<Rightarrow> user_lookup \<Rightarrow> meta_lookup \<Rightarrow> unit res" where
  "require_device_permission permission device_id user_id users device_meta_raw =
     (case users user_id of
        None \<Rightarrow> Inl (forbidden ''User not found'' [])
      | Some user_data \<Rightarrow>
          if uv_is_admin user_data then Inr ()
          else let granting = teams_with_permission permission user_data in
            bindR (ensure (granting \<noteq> []) (forbidden ''No role grants permission {}'' [JStr permission])) (\<lambda>_.
            if list_ex (\<lambda>team. tv_scope team = None) granting then Inr ()
            else case device_meta_raw device_id of
                None \<Rightarrow> Inl (forbidden ''Device {} not found'' [JStr device_id])
              | Some meta \<Rightarrow>
                  ensure (evaluate_permission permission user_data (Some meta))
                    (forbidden ''Device is not within any assigned scope'' [])))"

text \<open>The dependency of \<open>device_access(permission)\<close>, then \<open>DeviceAccess.check(device_id)\<close>.\<close>

definition device_access ::
  "string \<Rightarrow> request \<Rightarrow> json dict \<Rightarrow> user_lookup \<Rightarrow> meta_lookup \<Rightarrow> (string \<Rightarrow> unit res) res" where
  "device_access permission request auth_context users device_meta_raw =
     bindR (abac_permission_check \<lparr>pc_permission = permission, pc_device_path = None, pc_in_query = False\<rparr>
              request auth_context users device_meta_raw) (\<lambda>auth.
     Inr (\<lambda>device_id. require_device_permission permission device_id (ar_user_id auth) users device_meta_raw))"

end
