(* ===== verification/Abac_Properties.thy ===== *)
theory Abac_Properties
  imports Abac
begin

text \<open>
  What the permission checks decide, said without their control flow: a user holds a permission
  on a device's metadata when some team grants the action and that team is unscoped or its scope
  matches.  Each check is then characterised by that relation, and the checks agree with each other.
\<close>

section \<open>The relation\<close>

definition holds_on :: "string \<Rightarrow> user_view \<Rightarrow> json dict \<Rightarrow> bool" where
  "holds_on permission user_data meta =
     (uv_is_admin user_data \<or>
      (\<exists>team \<in> set (uv_teams user_data). team_grants permission team \<and>
         (case tv_scope team of None \<Rightarrow> True | Some s \<Rightarrow> matches_scope (sc_attr s) (sc_rule s) meta)))"

definition holds_somewhere :: "string \<Rightarrow> user_view \<Rightarrow> bool" where
  "holds_somewhere permission user_data =
     (uv_is_admin user_data \<or> (\<exists>team \<in> set (uv_teams user_data). team_grants permission team))"

definition holds_everywhere :: "string \<Rightarrow> user_view \<Rightarrow> bool" where
  "holds_everywhere permission user_data =
     (uv_is_admin user_data \<or>
      (\<exists>team \<in> set (uv_teams user_data). team_grants permission team \<and> tv_scope team = None))"

lemma holds_everywhere_on: "holds_everywhere p u \<Longrightarrow> holds_on p u m"
  by (force simp: holds_everywhere_def holds_on_def)

lemma holds_on_somewhere: "holds_on p u m \<Longrightarrow> holds_somewhere p u"
  by (auto simp: holds_somewhere_def holds_on_def)

lemma teams_with_permission_iff:
  "team \<in> set (teams_with_permission p u) \<longleftrightarrow> team \<in> set (uv_teams u) \<and> team_grants p team"
  by (auto simp: teams_with_permission_def)

lemma teams_with_permission_Nil:
  "teams_with_permission p u = [] \<longleftrightarrow> (\<forall>team \<in> set (uv_teams u). \<not> team_grants p team)"
  by (simp add: teams_with_permission_def filter_empty_conv)

lemma evaluate_None: "evaluate_permission p u None \<longleftrightarrow> holds_somewhere p u"
  by (auto simp: evaluate_permission_def Let_def holds_somewhere_def teams_with_permission_Nil)

lemma evaluate_Some: "evaluate_permission p u (Some m) \<longleftrightarrow> holds_on p u m"
proof (cases "uv_is_admin u \<or> teams_with_permission p u = []")
  case True
  then show ?thesis
    by (auto simp: evaluate_permission_def holds_on_def teams_with_permission_Nil)
next
  case False
  then have "evaluate_permission p u (Some m) \<longleftrightarrow>
      (\<exists>team \<in> set (teams_with_permission p u). tv_scope team = None \<or>
         (case tv_scope team of Some s \<Rightarrow> matches_scope (sc_attr s) (sc_rule s) m | None \<Rightarrow> False))"
    by (auto simp: evaluate_permission_def Let_def list_ex_iff)
  with False show ?thesis
    by (auto simp: holds_on_def teams_with_permission_iff split: option.splits)
qed

lemma check_roles_iff:
  "check_roles p u = Inr b \<longleftrightarrow> holds_somewhere p u \<and> b = (\<not> holds_everywhere p u)"
  by (auto simp: check_roles_def Let_def holds_somewhere_def holds_everywhere_def list_ex_iff
      teams_with_permission_iff teams_with_permission_Nil)

lemma require_user_iff:
  "require_user ctx users = Inr (i, n, u) \<longleftrightarrow>
     i = token_user_id ctx \<and> get_current_user ctx = Inr n \<and> truthy i \<and> users i = Some u"
  by (auto simp: require_user_def Let_def split: option.splits)

text \<open>The caller of a check: the user the token names.\<close>

definition caller :: "json dict \<Rightarrow> user_lookup \<Rightarrow> user_view \<Rightarrow> bool" where
  "caller ctx users u = (\<exists>i n. require_user ctx users = Inr (i, n, u))"

lemma caller_iff: "caller ctx users u \<Longrightarrow> caller ctx users u' \<longleftrightarrow> u' = u"
  by (auto simp: caller_def)

section \<open>The shared evaluation\<close>

text \<open>One lemma for the device given up front, one for the device resolved on the way.\<close>

lemma authorize_device:
  "is_ok (authorize p ctx users metas (Some d) rd rm None) \<longleftrightarrow>
     (\<exists>u. caller ctx users u \<and>
        (holds_everywhere p u \<or>
         (\<exists>m. metas d = Some m \<and> holds_on p u m \<and>
            (case rm of None \<Rightarrow> True | Some f \<Rightarrow> holds_on p u (f m)))))"
proof (cases "\<exists>u. caller ctx users u")
  case False
  then have "\<nexists>x. require_user ctx users = Inr x" by (auto simp: caller_def)
  with False show ?thesis by (simp add: authorize_def)
next
  case True
  then obtain i n u where r: "require_user ctx users = Inr (i, n, u)" by (auto simp: caller_def)
  then have c: "caller ctx users u' \<longleftrightarrow> u' = u" for u' by (auto simp: caller_def)
  show ?thesis
  proof (cases "holds_everywhere p u")
    case e: True
    then have "check_roles p u = Inr False"
      using holds_on_somewhere[OF holds_everywhere_on] by (simp add: check_roles_iff)
    moreover have "evaluate_permission p u None"
      using e holds_on_somewhere[OF holds_everywhere_on] by (simp add: evaluate_None)
    ultimately show ?thesis
      by (simp add: authorize_def r c e split: option.split)
  next
    case e: False
    show ?thesis
    proof (cases "holds_somewhere p u")
      case True
      with e have "check_roles p u = Inr True" by (simp add: check_roles_iff)
      with e show ?thesis
        by (cases "metas d"; cases rm) (auto simp: authorize_def r c evaluate_Some)
    next
      case False
      then have "check_roles p u \<noteq> Inr b" for b by (simp add: check_roles_iff)
      with False e show ?thesis
        using holds_on_somewhere by (auto simp: authorize_def r c)
    qed
  qed
qed

lemma authorize_no_device:
  "is_ok (authorize p ctx users metas None False rm None) \<longleftrightarrow>
     (\<exists>u. caller ctx users u \<and> holds_somewhere p u)"
  by (auto simp: authorize_def caller_def check_roles_iff evaluate_None split: option.split)

lemma authorize_resolved_ok:
  "authorize p ctx users metas None True None (Some rd) = Inr r \<Longrightarrow>
     \<exists>u d. caller ctx users u \<and> rd = Inr d \<and> holds_somewhere p u \<and>
       (holds_everywhere p u \<or> (\<exists>dev m. d = Some dev \<and> metas dev = Some m \<and> holds_on p u m))"
  by (auto simp: authorize_def caller_def check_roles_iff evaluate_Some split: option.splits if_splits)

section \<open>The check of a device permission\<close>

definition sample_team :: team_view where
  "sample_team = \<lparr>tv_name = ''plant A'',
     tv_scope = Some \<lparr>sc_attr = [(''site'', JList [JStr ''A'', JStr ''B''])], sc_rule = RuleAll\<rparr>,
     tv_roles = [\<lparr>rv_name = ''operator'', rv_allowed_actions = [''device.read'', ''device.metadata.write'']\<rparr>]\<rparr>"

definition sample_user :: user_view where
  "sample_user = \<lparr>uv_id = ''u1'', uv_is_admin = False, uv_teams = [sample_team]\<rparr>"

definition sample_users :: user_lookup where
  "sample_users i = (if i = JStr ''u1'' then Some sample_user else None)"

definition sample_metas :: meta_lookup where
  "sample_metas d = (if d = ''d1'' then Some [(''site'', JStr ''A'')] else None)"

definition sample_token :: "json dict" where
  "sample_token = [(''oid'', JStr ''u1''), (''name'', JStr ''Una'')]"

definition sample_request :: request where
  "sample_request = \<lparr>rq_path_params = [(''device_id'', ''d1'')], rq_query_params = [], rq_body = None\<rparr>"

definition sample_check :: permission_check where
  "sample_check = \<lparr>pc_permission = ''device.read'', pc_device_path = Some ''device_id'', pc_in_query = False\<rparr>"

lemma permission_check_iff:
  assumes "pc_device_path check = Some path" "path \<noteq> []" "pc_permission check \<notin> set global_permissions"
  shows "is_ok (abac_permission_check check request ctx users metas) \<longleftrightarrow>
    (\<exists>u d. caller ctx users u \<and> d \<noteq> [] \<and>
       map_of (if pc_in_query check then rq_query_params request else rq_path_params request) path = Some d \<and>
       (holds_everywhere (pc_permission check) u \<or>
        (\<exists>m. metas d = Some m \<and> holds_on (pc_permission check) u m)))"
proof -
  let ?d = "map_of (if pc_in_query check then rq_query_params request else rq_path_params request) path"
  have "is_ok (abac_permission_check check request ctx users metas) \<longleftrightarrow>
      truthy_str ?d \<and> is_ok (authorize (pc_permission check) ctx users metas ?d False None None)"
    using assms by (simp add: abac_permission_check_def Let_def truthy_str_def[of "Some path"])
  also have "\<dots> \<longleftrightarrow> (\<exists>d. ?d = Some d \<and> d \<noteq> [] \<and>
      is_ok (authorize (pc_permission check) ctx users metas (Some d) False None None))"
    by (cases ?d) (auto simp: truthy_str_def)
  finally show ?thesis by (auto simp: authorize_device)
qed

text \<open>
  C5: The check of a device permission lets a request through exactly when the token names a known
  user, the route's device parameter is present, and the user holds the permission: as an admin,
  through an unscoped team, or through a team whose scope matches the stored metadata of that
  device, which must exist.
\<close>

theorem permission_check_exact:
  assumes "pc_device_path check = Some path" "path \<noteq> []" "pc_permission check \<notin> set global_permissions"
  shows "is_ok (abac_permission_check check request ctx users metas) \<longleftrightarrow>
    (\<exists>u d. caller ctx users u \<and> d \<noteq> [] \<and>
       map_of (if pc_in_query check then rq_query_params request else rq_path_params request) path = Some d \<and>
       (holds_everywhere (pc_permission check) u \<or>
        (\<exists>m. metas d = Some m \<and> holds_on (pc_permission check) u m)))"
  using assms by (rule permission_check_iff)

theorem permission_check_exact_witness:
  "is_ok (abac_permission_check sample_check sample_request sample_token sample_users sample_metas) \<and>
   holds_on ''device.read'' sample_user [(''site'', JStr ''A'')]"
proof -
  have ok: "is_ok (abac_permission_check sample_check sample_request sample_token sample_users sample_metas)"
    by code_simp
  have "pc_device_path sample_check = Some ''device_id''" "(''device_id'' :: string) \<noteq> []"
    "pc_permission sample_check \<notin> set global_permissions"
    by (simp_all add: sample_check_def global_permissions_value)
  from permission_check_exact[OF this] ok obtain u m where
    u: "caller sample_token sample_users u" and
    m: "holds_everywhere ''device.read'' u \<or> (sample_metas ''d1'' = Some m \<and> holds_on ''device.read'' u m)"
    by (auto simp: sample_check_def sample_request_def)
  have "u = sample_user"
    using u by (auto simp: caller_def require_user_iff sample_users_def split: if_splits)
  with m holds_everywhere_on have "holds_on ''device.read'' sample_user [(''site'', JStr ''A'')]"
    by (auto simp: sample_metas_def)
  with ok show ?thesis by blast
qed

section \<open>The checks agree\<close>

lemma list_ex_map_filter:
  "list_ex P (List.map_filter g xs) \<longleftrightarrow> (\<exists>x \<in> set xs. \<exists>y. g x = Some y \<and> P y)"
  by (induction xs) (auto simp: List.map_filter_simps split: option.splits)

lemma holds_on_scoped:
  assumes "\<not> holds_everywhere p u"
  shows "holds_on p u m \<longleftrightarrow>
    list_ex (\<lambda>s. matches_scope (sc_attr s) (sc_rule s) m) (List.map_filter tv_scope (teams_with_permission p u))"
proof -
  have eq: "(team_grants p team \<and>
        (case tv_scope team of None \<Rightarrow> True | Some s \<Rightarrow> matches_scope (sc_attr s) (sc_rule s) m)) =
      (team_grants p team \<and> (\<exists>s. tv_scope team = Some s \<and> matches_scope (sc_attr s) (sc_rule s) m))"
    if "team \<in> set (uv_teams u)" for team
    using assms that by (cases "tv_scope team") (auto simp: holds_everywhere_def)
  have na: "uv_is_admin u = False" using assms by (simp add: holds_everywhere_def)
  have "holds_on p u m \<longleftrightarrow> (\<exists>team \<in> set (uv_teams u). team_grants p team \<and>
      (\<exists>s. tv_scope team = Some s \<and> matches_scope (sc_attr s) (sc_rule s) m))"
    unfolding holds_on_def na simp_thms by (rule bex_cong[OF refl eq])
  then show ?thesis
    unfolding list_ex_map_filter by (simp add: Bex_def teams_with_permission_iff conj_assoc)
qed

lemma list_filter_spec:
  assumes "abac_device_list_filter p ctx users = Inr f"
  shows "\<exists>u. caller ctx users u \<and> holds_somewhere p u \<and> (\<forall>m. filter_device f m \<longleftrightarrow> holds_on p u m)"
proof -
  from assms obtain i n u where u: "require_user ctx users = Inr (i, n, u)" "holds_somewhere p u"
    and f: "f = \<lparr>lf_user_id = i, lf_user_name = n, lf_permission = p, lf_is_unrestricted = holds_everywhere p u,
      lf_scopes = (if \<not> holds_everywhere p u
        then List.map_filter tv_scope (teams_with_permission p u) else [])\<rparr>"
    unfolding abac_device_list_filter_def bindR_Inr_iff split_paired_Ex split_conv check_roles_iff by auto
  have "filter_device f m \<longleftrightarrow> holds_on p u m" for m
    using holds_everywhere_on[of p u m] holds_on_scoped[of p u m]
    by (cases "holds_everywhere p u") (simp_all add: filter_device_def f)
  with u show ?thesis unfolding caller_def by blast
qed

lemma path_check_authorize:
  "d \<noteq> [] \<Longrightarrow>
     abac_permission_check \<lparr>pc_permission = p, pc_device_path = Some ''device_id'', pc_in_query = False\<rparr>
       \<lparr>rq_path_params = [(''device_id'', d)], rq_query_params = [], rq_body = None\<rparr> ctx users metas =
     authorize p ctx users metas (Some d) False None None"
  by (simp add: abac_permission_check_def truthy_str_def)

text \<open>
  C6: The filter of the list endpoints and the check of a single device agree: with the same
  token, the filter keeps the metadata of a stored device exactly when the single check of that
  permission lets the caller through to the device.
\<close>

theorem list_filter_agrees:
  assumes "abac_device_list_filter p ctx users = Inr f" and "metas d = Some m" and "d \<noteq> []"
  shows "filter_device f m \<longleftrightarrow>
    is_ok (abac_permission_check \<lparr>pc_permission = p, pc_device_path = Some ''device_id'', pc_in_query = False\<rparr>
      \<lparr>rq_path_params = [(''device_id'', d)], rq_query_params = [], rq_body = None\<rparr> ctx users metas)"
proof -
  from list_filter_spec[OF assms(1)] obtain u where u: "caller ctx users u"
    and f: "filter_device f m \<longleftrightarrow> holds_on p u m" by blast
  have "is_ok (authorize p ctx users metas (Some d) False None None) \<longleftrightarrow> holds_on p u m"
    unfolding authorize_device caller_iff[OF u] using holds_everywhere_on[of p u m] assms(2) by auto
  then show ?thesis by (simp only: path_check_authorize[OF assms(3)] f)
qed

theorem list_filter_agrees_witness:
  "\<exists>f. abac_device_list_filter ''device.read'' sample_token sample_users = Inr f \<and>
     filter_device f [(''site'', JStr ''A'')]"
proof -
  have "is_ok (abac_device_list_filter ''device.read'' sample_token sample_users)" by code_simp
  then obtain f where f: "abac_device_list_filter ''device.read'' sample_token sample_users = Inr f"
    by (auto simp: is_ok_iff)
  have m: "sample_metas ''d1'' = Some [(''site'', JStr ''A'')]" by (simp add: sample_metas_def)
  have "is_ok (abac_permission_check
      \<lparr>pc_permission = ''device.read'', pc_device_path = Some ''device_id'', pc_in_query = False\<rparr>
      \<lparr>rq_path_params = [(''device_id'', ''d1'')], rq_query_params = [], rq_body = None\<rparr>
      sample_token sample_users sample_metas)"
    by code_simp
  with list_filter_agrees[where metas = sample_metas and d = "''d1''", OF f m] f show ?thesis by simp
qed

text \<open>
  \<open>DeviceAccess\<close> mirrors the permission check: authenticating without a device and then
  asking for device \<open>d\<close> lets the caller through exactly when the check with \<open>d\<close> in the path
  would have.
\<close>

theorem device_access_mirrors:
  assumes "d \<noteq> []"
  shows "(\<exists>check. device_access p request ctx users metas = Inr check \<and> is_ok (check d)) \<longleftrightarrow>
    is_ok (abac_permission_check \<lparr>pc_permission = p, pc_device_path = Some ''device_id'', pc_in_query = False\<rparr>
      \<lparr>rq_path_params = [(''device_id'', d)], rq_query_params = [], rq_body = None\<rparr> ctx users metas)"
proof -
  have single: "is_ok (require_device_permission p d i users metas) \<longleftrightarrow>
      (holds_everywhere p u \<or> (\<exists>m. metas d = Some m \<and> holds_on p u m))" if "users i = Some u" for i u
    using that by (auto simp: require_device_permission_def Let_def holds_everywhere_def evaluate_Some
        holds_on_def teams_with_permission_Nil list_ex_iff teams_with_permission_iff split: option.splits)
  have auth: "abac_permission_check \<lparr>pc_permission = p, pc_device_path = None, pc_in_query = False\<rparr>
      request ctx users metas = authorize p ctx users metas None False None None"
    by (simp add: abac_permission_check_def truthy_str_def)
  have "(\<exists>check. device_access p request ctx users metas = Inr check \<and> is_ok (check d)) \<longleftrightarrow>
      (\<exists>r. authorize p ctx users metas None False None None = Inr r \<and>
         is_ok (require_device_permission p d (ar_user_id r) users metas))"
    by (auto simp: device_access_def auth)
  also have "\<dots> \<longleftrightarrow> (\<exists>u. caller ctx users u \<and> holds_somewhere p u \<and>
      (holds_everywhere p u \<or> (\<exists>m. metas d = Some m \<and> holds_on p u m)))"
    using single
    by (fastforce simp: authorize_def caller_def check_roles_iff evaluate_None require_user_iff)
  also have "\<dots> \<longleftrightarrow> is_ok (authorize p ctx users metas (Some d) False None None)"
    using holds_on_somewhere holds_everywhere_on unfolding authorize_device by fastforce
  finally show ?thesis by (simp only: path_check_authorize[OF assms])
qed

theorem device_access_mirrors_witness:
  "\<exists>check. device_access ''device.read'' sample_request sample_token sample_users sample_metas = Inr check \<and>
     is_ok (check ''d1'')"
proof -
  have "is_ok (abac_permission_check
      \<lparr>pc_permission = ''device.read'', pc_device_path = Some ''device_id'', pc_in_query = False\<rparr>
      \<lparr>rq_path_params = [(''device_id'', ''d1'')], rq_query_params = [], rq_body = None\<rparr>
      sample_token sample_users sample_metas)"
    by code_simp
  then show ?thesis using device_access_mirrors[of "''d1''"] by blast
qed

section \<open>The interface to the stores\<close>

text \<open>
  What the checks rely on: an endpoint's or a service's device exists, and a user is found under
  its own id.  \<open>'s\<close> is the program's store and \<open>ok\<close> its invariant.
\<close>

locale abac_store =
  fixes ok :: "'s \<Rightarrow> bool"
    and users :: "'s \<Rightarrow> user_lookup"
    and device_meta :: "'s \<Rightarrow> meta_lookup"
    and endpoint_device :: "'s \<Rightarrow> string \<Rightarrow> string option"
    and service_device :: "'s \<Rightarrow> string \<Rightarrow> string option"
  assumes endpoint_owner: "ok s \<Longrightarrow> endpoint_device s e = Some d \<Longrightarrow> device_meta s d \<noteq> None"
    and service_owner: "ok s \<Longrightarrow> service_device s v = Some d \<Longrightarrow> device_meta s d \<noteq> None"
    and user_key: "users s i = Some u \<Longrightarrow> i = JStr (uv_id u)"
begin

definition resolved :: "'s \<Rightarrow> owner \<Rightarrow> string \<Rightarrow> string option" where
  "resolved s owner v = resolve_device_id owner (endpoint_device s) (service_device s) v"

lemma resolved_exists:
  "ok s \<Longrightarrow> owner \<noteq> OwnerDevice \<Longrightarrow> resolved s owner v = Some d \<Longrightarrow> \<exists>m. device_meta s d = Some m"
  using endpoint_owner service_owner
  by (cases owner) (auto simp: resolved_def resolve_device_id_def)

text \<open>A passed check of an endpoint or service is a permission on the metadata of its device.\<close>

lemma resolved_check_sound:
  assumes "ok s" "owner \<noteq> OwnerDevice" "any_param request param = Some v" "v \<noteq> []"
    and "abac_resolved_device_check p owner param request ctx (users s) (device_meta s)
           (endpoint_device s) (service_device s) = Inr r"
  shows "\<exists>u d m. caller ctx (users s) u \<and> resolved s owner v = Some d \<and> device_meta s d = Some m \<and>
    holds_on p u m"
proof -
  let ?rd = "resolve_device owner param request (endpoint_device s) (service_device s)"
  from assms(5) obtain u d where u: "caller ctx (users s) u" "?rd = Inr d"
    "holds_everywhere p u \<or> (\<exists>dev m. d = Some dev \<and> device_meta s dev = Some m \<and> holds_on p u m)"
    unfolding abac_resolved_device_check_def by (blast dest: authorize_resolved_ok)
  from u(2) assms(3,4) obtain dev where dev: "resolved s owner v = Some dev" "d = Some dev"
    by (auto simp: resolve_device_def resolved_def split: option.splits)
  from resolved_exists[OF assms(1,2) dev(1)] obtain m where "device_meta s dev = Some m" ..
  with u dev holds_everywhere_on show ?thesis by fastforce
qed

text \<open>The caller of a check is the user whose id the token carries.\<close>

lemma caller_id: "caller ctx (users s) u \<Longrightarrow> token_user_id ctx = JStr (uv_id u)"
  using user_key by (auto simp: caller_def require_user_iff)

end

end
