(* ===== verification/Type_Roles.thy ===== *)
theory Type_Roles
  imports Merge
begin

text \<open>
  \<open>db/type_roles.py\<close>: a type's mapping gives roles to its fields.  \<open>validate_type_mapping\<close> walks
  the mapping once, with a dict of the roles seen so far.
\<close>

section \<open>Operations\<close>

type_synonym role_types = "string dict"
type_synonym role_mapping = "string dict"

definition endpoint_role_types :: role_types where
  "endpoint_role_types = [(''ip'', ''string''), (''name'', ''string'')]"

definition service_role_types :: role_types where
  "service_role_types = [(''port'', ''integer'')]"

definition mapping_error :: "string \<Rightarrow> json list \<Rightarrow> exn" where
  "mapping_error t args = Api ValidationError (Msg t args) 422"

definition check_role ::
  "field_def dict \<Rightarrow> role_types \<Rightarrow> string dict \<Rightarrow> string \<times> string \<Rightarrow> string dict res" where
  "check_role type_fields role_types seen_roles = (\<lambda>(field_key, role).
     case map_of role_types role of
       None \<Rightarrow> Inl (mapping_error ''Unknown role {} on field {} (allowed: {})''
                      [JStr role, JStr field_key, JList (map (JStr \<circ> fst) role_types)])
     | Some expected_type \<Rightarrow>
        (case map_of seen_roles role of
           Some first \<Rightarrow>
             Inl (mapping_error ''Role {} is assigned to more than one field ({}, {})''
                    [JStr role, JStr first, JStr field_key])
         | None \<Rightarrow>
            (case map_of type_fields field_key of
               None \<Rightarrow>
                 Inl (mapping_error ''Role {} is mapped to {}, which is not a field on this type''
                        [JStr role, JStr field_key])
             | Some fd \<Rightarrow>
                 if py_eq (pget fd ''type'') (JStr expected_type)
                 then Inr (dset role field_key seen_roles)
                 else Inl (mapping_error ''Role {} needs a field of type {}, but {} is {}''
                             [JStr role, JStr expected_type, JStr field_key, pget fd ''type'']))))"

definition validate_type_mapping ::
  "field_def dict \<Rightarrow> role_mapping \<Rightarrow> role_types \<Rightarrow> unit res" where
  "validate_type_mapping type_fields mapping role_types =
     bindR (foldR (check_role type_fields role_types) [] mapping) (\<lambda>_. Inr ())"

definition drop_roles_of_missing_fields :: "role_mapping \<Rightarrow> field_def dict \<Rightarrow> role_mapping" where
  "drop_roles_of_missing_fields mapping type_fields =
     filter (\<lambda>(field_key, _). has_key type_fields field_key) mapping"

section \<open>What the walk establishes\<close>

text \<open>The contract: each role known and used once, each mapped key a field of the right type.\<close>

definition valid_mapping :: "field_def dict \<Rightarrow> role_types \<Rightarrow> role_mapping \<Rightarrow> bool" where
  "valid_mapping type_fields role_types mapping =
     (distinct (map snd mapping) \<and>
      list_all (\<lambda>(field_key, role).
        case (map_of role_types role, map_of type_fields field_key) of
          (Some t, Some fd) \<Rightarrow> pget fd ''type'' = JStr t
        | _ \<Rightarrow> False) mapping)"

lemma check_role_Inr:
  "check_role tfs rts seen (k, r) = Inr seen' \<longleftrightarrow>
     map_of seen r = None \<and> seen' = dset r k seen \<and>
     (\<exists>t fd. map_of rts r = Some t \<and> map_of tfs k = Some fd \<and> pget fd ''type'' = JStr t)"
  by (auto simp: check_role_def split: option.splits)

lemma foldR_check_role:
  "(\<exists>s. foldR (check_role tfs rts) seen m = Inr s) \<longleftrightarrow>
     valid_mapping tfs rts m \<and> (\<forall>r \<in> set (map snd m). map_of seen r = None)"
proof (induction m arbitrary: seen)
  case Nil
  then show ?case by (simp add: valid_mapping_def)
next
  case (Cons e m)
  obtain k r where e: "e = (k, r)" by (cases e)
  have "(\<exists>s. foldR (check_role tfs rts) seen (e # m) = Inr s) \<longleftrightarrow>
      (\<exists>seen'. check_role tfs rts seen (k, r) = Inr seen' \<and>
         (\<exists>s. foldR (check_role tfs rts) seen' m = Inr s))"
    by (auto simp: e)
  also have "\<dots> \<longleftrightarrow> map_of seen r = None \<and>
      (\<exists>t fd. map_of rts r = Some t \<and> map_of tfs k = Some fd \<and> pget fd ''type'' = JStr t) \<and>
      valid_mapping tfs rts m \<and> (\<forall>r' \<in> set (map snd m). map_of (dset r k seen) r' = None)"
    unfolding check_role_Inr Cons.IH by blast
  also have "\<dots> \<longleftrightarrow> valid_mapping tfs rts (e # m) \<and> (\<forall>r \<in> set (map snd (e # m)). map_of seen r = None)"
    by (auto simp: e valid_mapping_def split: option.splits if_splits)
  finally show ?case .
qed

lemma validate_type_mapping_iff:
  "validate_type_mapping tfs m rts = Inr () \<longleftrightarrow> valid_mapping tfs rts m"
  using foldR_check_role[of tfs rts "[]" m] by (simp add: validate_type_mapping_def)

lemma valid_mapping_iff:
  "valid_mapping tfs rts m \<longleftrightarrow> distinct (map snd m) \<and>
     (\<forall>k r. (k, r) \<in> set m \<longrightarrow>
        (\<exists>t fd. map_of rts r = Some t \<and> map_of tfs k = Some fd \<and> pget fd ''type'' = JStr t))"
  by (fastforce simp: valid_mapping_def list_all_iff split: option.splits)

lemma valid_mapping_role_unique:
  "valid_mapping tfs rts m \<Longrightarrow> (k, r) \<in> set m \<Longrightarrow> (k', r) \<in> set m \<Longrightarrow> k = k'"
  unfolding valid_mapping_def
  by (induction m) (auto simp: image_iff)

lemma drop_roles_keys:
  "(k, r) \<in> set (drop_roles_of_missing_fields m tfs) \<longleftrightarrow> (k, r) \<in> set m \<and> has_key tfs k"
  by (auto simp: drop_roles_of_missing_fields_def)

text \<open>Removing fields and then dropping their roles keeps a valid mapping valid, when the
  fields that stay keep their data type.\<close>

lemma valid_mapping_drop:
  assumes m: "valid_mapping tfs rts m"
    and types: "\<And>k fd fd'. map_of tfs k = Some fd \<Longrightarrow> map_of tfs' k = Some fd' \<Longrightarrow>
           pget fd' ''type'' = pget fd ''type''"
  shows "valid_mapping tfs' rts (drop_roles_of_missing_fields m tfs')"
  unfolding valid_mapping_iff
proof (intro conjI allI impI)
  show "distinct (map snd (drop_roles_of_missing_fields m tfs'))"
    using m by (simp add: drop_roles_of_missing_fields_def valid_mapping_def distinct_map_filter)
next
  fix k r assume "(k, r) \<in> set (drop_roles_of_missing_fields m tfs')"
  then obtain fd' where "(k, r) \<in> set m" "map_of tfs' k = Some fd'"
    by (auto simp: drop_roles_keys has_key_def)
  with m types show "\<exists>t fd. map_of rts r = Some t \<and> map_of tfs' k = Some fd \<and> pget fd ''type'' = JStr t"
    unfolding valid_mapping_iff by metis
qed

end
