(* ===== verification/Database.thy ===== *)
theory Database
  imports Type_Roles
begin

text \<open>
  The relational store behind the device, endpoint and service repositories (\<open>db/models/\<close>): six
  tables keyed by their primary key, in insertion order, and the constraints the schema declares
  on them: primary keys, unique labels, foreign keys with and without \<open>ON DELETE CASCADE\<close>.
  The timestamp columns, which no operation reads, are left out.
\<close>

section \<open>Tables\<close>

record type_row =
  ty_label :: string
  ty_description :: "string option"
  ty_fields :: "field_def dict"

record role_type_row = type_row +
  ty_mapping :: role_mapping

record service_type_row = role_type_row +
  ty_browser_kind :: "string option"

record device_row =
  dv_type_id :: string
  dv_data :: "json dict"

record endpoint_row =
  ep_device_id :: string
  ep_type_id :: string
  ep_data :: "json dict"

record service_row =
  sv_endpoint_id :: string
  sv_type_id :: string
  sv_data :: "json dict"

record catalog =
  device_types :: "type_row dict"
  devices :: "device_row dict"
  endpoint_types :: "role_type_row dict"
  endpoints :: "endpoint_row dict"
  service_types :: "service_type_row dict"
  services :: "service_row dict"

section \<open>Statements\<close>

text \<open>\<open>result.scalar_one_or_none()\<close>.\<close>

definition scalar_one_or_none :: "'a list \<Rightarrow> 'a option res" where
  "scalar_one_or_none rows =
     (case rows of [] \<Rightarrow> Inr None | [x] \<Rightarrow> Inr (Some x)
      | _ \<Rightarrow> Inl (OtherError (Msg ''MultipleResultsFound'' [])))"

text \<open>\<open>UPDATE ... WHERE key = k\<close>.\<close>

definition sql_update :: "string \<Rightarrow> ('a \<Rightarrow> 'a) \<Rightarrow> 'a dict \<Rightarrow> 'a dict" where
  "sql_update k f = map (\<lambda>(k', row). (k', if k' = k then f row else row))"

text \<open>The unique constraint on the label column of a type table.\<close>

definition labels :: "('a type_row_scheme) dict \<Rightarrow> string list" where
  "labels = map (\<lambda>(_, row). ty_label row)"

definition insert_type ::
  "string \<Rightarrow> 'a type_row_scheme \<Rightarrow> 'a type_row_scheme dict \<Rightarrow> 'a type_row_scheme dict res" where
  "insert_type type_id row types =
     bindR (ensure (\<not> has_key types type_id \<and> ty_label row \<notin> set (labels types)) IntegrityError)
       (\<lambda>_. Inr (types @ [(type_id, row)]))"

definition update_type ::
  "string \<Rightarrow> ('a type_row_scheme \<Rightarrow> 'a type_row_scheme) \<Rightarrow> 'a type_row_scheme dict \<Rightarrow>
     'a type_row_scheme dict res" where
  "update_type type_id f types =
     (let types' = sql_update type_id f types in
      bindR (ensure (distinct (labels types')) IntegrityError) (\<lambda>_. Inr types'))"

text \<open>\<open>except IntegrityError: ... raise e\<close>.\<close>

fun on_integrity_error :: "exn \<Rightarrow> 'a res \<Rightarrow> 'a res" where
  "on_integrity_error e (Inl IntegrityError) = Inl e"
| "on_integrity_error e r = r"

text \<open>Deleting endpoints deletes their services; deleting a device, its endpoints.\<close>

definition delete_endpoints_where :: "(string \<Rightarrow> endpoint_row \<Rightarrow> bool) \<Rightarrow> catalog \<Rightarrow> catalog" where
  "delete_endpoints_where P db =
     (let gone = map fst (filter (\<lambda>(k, ep). P k ep) (endpoints db)) in
      db\<lparr>endpoints := filter (\<lambda>(k, ep). \<not> P k ep) (endpoints db),
         services := filter (\<lambda>(_, sv). sv_endpoint_id sv \<notin> set gone) (services db)\<rparr>)"

definition delete_device_cascade :: "string \<Rightarrow> catalog \<Rightarrow> catalog" where
  "delete_device_cascade device_id db =
     (delete_endpoints_where (\<lambda>_ ep. ep_device_id ep = device_id) db)
       \<lparr>devices := dpop device_id (devices db)\<rparr>"

section \<open>Looking up a type\<close>

definition get_type_or_raise :: "string \<Rightarrow> string \<Rightarrow> 'a dict \<Rightarrow> 'a res" where
  "get_type_or_raise kind type_id types =
     (case map_of types type_id of
        None \<Rightarrow> Inl (api_error ''{} {} not found'' [JStr kind, JStr type_id] 404)
      | Some row \<Rightarrow> Inr row)"

definition label_exists :: "string \<Rightarrow> json \<Rightarrow> exn" where
  "label_exists kind label = api_error ''{} label {} already exists'' [JStr kind, label] 409"

definition raise_if_label_taken ::
  "string \<Rightarrow> string \<Rightarrow> string option \<Rightarrow> ('a type_row_scheme) dict \<Rightarrow> unit res" where
  "raise_if_label_taken kind label exclude_type_id types =
     bindR (scalar_one_or_none
              (filter (\<lambda>(k, row). ty_label row = label \<and> exclude_type_id \<noteq> Some k) types)) (\<lambda>found.
     ensure (found = None) (label_exists kind (JStr label)))"

text \<open>\<open>values["..."] = x\<close> when the argument was sent, as one update of the row.\<close>

definition sent :: "'b option \<Rightarrow> 'b \<Rightarrow> 'b" where
  "sent v old = (case v of None \<Rightarrow> old | Some x \<Rightarrow> x)"

section \<open>The schema's constraints as an invariant\<close>

definition types_ok :: "('a type_row_scheme) dict \<Rightarrow> bool" where
  "types_ok types = (wf_dict types \<and> distinct (labels types))"

definition roles_ok :: "role_types \<Rightarrow> ('a role_type_row_scheme) dict \<Rightarrow> bool" where
  "roles_ok rts types = list_all (\<lambda>(_, row). valid_mapping (ty_fields row) rts (ty_mapping row)) types"

definition references_ok :: "catalog \<Rightarrow> bool" where
  "references_ok db =
     (list_all (\<lambda>(_, dv). has_key (device_types db) (dv_type_id dv)) (devices db) \<and>
      list_all (\<lambda>(_, ep). has_key (devices db) (ep_device_id ep) \<and>
                          has_key (endpoint_types db) (ep_type_id ep)) (endpoints db) \<and>
      list_all (\<lambda>(_, sv). has_key (endpoints db) (sv_endpoint_id sv) \<and>
                          has_key (service_types db) (sv_type_id sv)) (services db))"

definition catalog_ok :: "catalog \<Rightarrow> bool" where
  "catalog_ok db =
     (types_ok (device_types db) \<and> wf_dict (devices db) \<and>
      types_ok (endpoint_types db) \<and> roles_ok endpoint_role_types (endpoint_types db) \<and>
      wf_dict (endpoints db) \<and>
      types_ok (service_types db) \<and> roles_ok service_role_types (service_types db) \<and>
      wf_dict (services db) \<and> references_ok db)"

section \<open>Lemmas\<close>

lemma on_integrity_error_Inr [res_simps, simp]: "on_integrity_error e r = Inr x \<longleftrightarrow> r = Inr x"
  by (cases "(e, r)" rule: on_integrity_error.cases) simp_all

lemma get_type_or_raise_Inr [res_simps, simp]:
  "get_type_or_raise kind tid types = Inr row \<longleftrightarrow> map_of types tid = Some row"
  by (simp add: get_type_or_raise_def split: option.split)

lemma scalar_one_or_none_None [simp]: "scalar_one_or_none rows = Inr None \<longleftrightarrow> rows = []"
  by (simp add: scalar_one_or_none_def split: list.split)

lemma raise_if_label_taken_ok [res_simps, simp]:
  "raise_if_label_taken kind label ex types = Inr u \<longleftrightarrow>
     (\<forall>(k, row) \<in> set types. ty_label row = label \<longrightarrow> ex = Some k)"
  by (auto simp: raise_if_label_taken_def filter_empty_conv)

lemma sent_simps [simp]: "sent None old = old" "sent (Some x) old = x"
  by (simp_all add: sent_def)

lemma keys_sql_update [simp]: "map fst (sql_update k f tbl) = map fst tbl"
  by (simp add: sql_update_def case_prod_unfold comp_def)

lemma map_of_sql_update:
  "map_of (sql_update k f tbl) k' = (if k' = k then map_option f (map_of tbl k) else map_of tbl k')"
  by (induction tbl) (auto simp: sql_update_def)

lemma has_key_sql_update [simp]: "has_key (sql_update k f tbl) k' = has_key tbl k'"
  by (simp add: has_key_def map_of_sql_update split: option.split)

lemma list_all_sql_update:
  assumes "list_all (\<lambda>(k, row). P row) tbl" and "\<And>row. P row \<Longrightarrow> P (f row)"
  shows "list_all (\<lambda>(k, row). P row) (sql_update k f tbl)"
  using assms by (auto simp: list_all_iff sql_update_def)

lemma list_all_sql_update_at:
  assumes "wf_dict tbl" "map_of tbl k = Some row" "P (f row)" "list_all (\<lambda>(k, row). P row) tbl"
  shows "list_all (\<lambda>(k, row). P row) (sql_update k f tbl)"
proof -
  have "r = row" if "(k, r) \<in> set tbl" for r
    using that assms(1,2) by (metis map_of_eq_Some_iff option.inject)
  with assms(3,4) show ?thesis
    by (auto simp: list_all_iff sql_update_def)
qed

lemma has_key_append [simp]: "has_key (xs @ ys) k \<longleftrightarrow> has_key xs k \<or> has_key ys k"
  by (auto simp: has_key_iff image_Un)

lemma has_key_Cons [simp]: "has_key ((k', v) # xs) k \<longleftrightarrow> k = k' \<or> has_key xs k"
  by (auto simp: has_key_iff)

lemma has_key_Nil [simp]: "\<not> has_key [] k"
  by (simp add: has_key_iff)

lemma has_key_filter: "has_key (filter (\<lambda>(k, v). P k v) d) k \<longleftrightarrow> (\<exists>v. (k, v) \<in> set d \<and> P k v)"
  by (force simp: has_key_iff)

lemma has_key_dpop [simp]: "has_key (dpop k' d) k \<longleftrightarrow> k \<noteq> k' \<and> has_key d k"
  by (simp add: has_key_def)

lemma wf_dict_append_new: "wf_dict tbl \<Longrightarrow> \<not> has_key tbl k \<Longrightarrow> wf_dict (tbl @ [(k, row)])"
  by (auto simp: has_key_iff)

lemma insert_type_Inr [res_simps]:
  "insert_type tid row types = Inr types' \<longleftrightarrow>
     \<not> has_key types tid \<and> ty_label row \<notin> set (labels types) \<and> types' = types @ [(tid, row)]"
  by (auto simp: insert_type_def)

lemma update_type_Inr [res_simps]:
  "update_type tid f types = Inr types' \<longleftrightarrow>
     distinct (labels (sql_update tid f types)) \<and> types' = sql_update tid f types"
  by (auto simp: update_type_def Let_def)

lemma types_ok_insert: "types_ok types \<Longrightarrow> insert_type tid row types = Inr types' \<Longrightarrow> types_ok types'"
  by (auto simp: types_ok_def insert_type_Inr wf_dict_append_new labels_def has_key_iff)

lemma types_ok_update: "types_ok types \<Longrightarrow> update_type tid f types = Inr types' \<Longrightarrow> types_ok types'"
  by (auto simp: types_ok_def update_type_Inr)

lemma types_ok_dpop: "types_ok types \<Longrightarrow> types_ok (dpop tid types)"
  by (auto simp: types_ok_def labels_def AList.delete_eq distinct_delete distinct_map_filter)

lemma list_all_dpop: "list_all P tbl \<Longrightarrow> list_all P (dpop k tbl)"
  by (auto simp: list_all_iff AList.delete_eq)

lemma wf_dict_unique: "wf_dict tbl \<Longrightarrow> (k, a) \<in> set tbl \<Longrightarrow> (k, b) \<in> set tbl \<Longrightarrow> a = b"
  by (metis map_of_eq_Some_iff option.inject)

lemma delete_endpoints_where_simps [simp]:
  "device_types (delete_endpoints_where P db) = device_types db"
  "devices (delete_endpoints_where P db) = devices db"
  "endpoint_types (delete_endpoints_where P db) = endpoint_types db"
  "service_types (delete_endpoints_where P db) = service_types db"
  "endpoints (delete_endpoints_where P db) = filter (\<lambda>(k, ep). \<not> P k ep) (endpoints db)"
  by (simp_all add: delete_endpoints_where_def Let_def)

lemma catalog_ok_delete_endpoints:
  assumes "catalog_ok db"
  shows "catalog_ok (delete_endpoints_where P db)"
proof -
  have "has_key (filter (\<lambda>(k, ep). \<not> P k ep) (endpoints db)) k"
    if "has_key (endpoints db) k" and "k \<notin> fst ` {x \<in> set (endpoints db). case x of (k, ep) \<Rightarrow> P k ep}" for k
    using that by (force simp: has_key_iff)
  with assms show ?thesis
    by (auto simp: catalog_ok_def references_ok_def list_all_iff delete_endpoints_where_def Let_def)
qed

lemma wf_dict_dpop_iff: "wf_dict tbl \<Longrightarrow> (k', v) \<in> set (dpop k tbl) \<longleftrightarrow> (k', v) \<in> set tbl \<and> k' \<noteq> k"
  by (auto simp: AList.delete_eq)

lemma catalog_ok_dpop_device:
  assumes ok: "catalog_ok db" and unused: "list_all (\<lambda>(_, ep). ep_device_id ep \<noteq> d) (endpoints db)"
  shows "catalog_ok (db\<lparr>devices := dpop d (devices db)\<rparr>)"
proof -
  have "list_all (\<lambda>(_, ep). has_key (dpop d (devices db)) (ep_device_id ep) \<and>
      has_key (endpoint_types db) (ep_type_id ep)) (endpoints db)"
    using ok unused by (auto simp: catalog_ok_def references_ok_def list_all_iff)
  with ok show ?thesis
    by (simp add: catalog_ok_def references_ok_def list_all_dpop)
qed

lemma catalog_ok_delete_device:
  assumes "catalog_ok db"
  shows "catalog_ok (delete_device_cascade d db)"
proof -
  let ?P = "\<lambda>_ ep. ep_device_id ep = d"
  have "catalog_ok ((delete_endpoints_where ?P db)\<lparr>devices := dpop d (devices (delete_endpoints_where ?P db))\<rparr>)"
    using catalog_ok_delete_endpoints[OF assms] by (rule catalog_ok_dpop_device) (auto simp: list_all_iff)
  then show ?thesis by (simp add: delete_device_cascade_def)
qed

end
