(* ===== verification/Iam.thy ===== *)
theory Iam
  imports Abac_Properties Database "HOL-Library.List_Lexorder" "HOL-Library.Char_ord"
begin

text \<open>
  Users, teams, roles, scopes and actions: the tables (\<open>db/models/\<close>), their repositories
  (\<open>db/sqlalchemy/user.py\<close>, \<open>team.py\<close>, \<open>role.py\<close>, \<open>scope.py\<close>, \<open>action.py\<close>) and the handlers of the
  authorization router (\<open>routers/auth/routes/\<close>).  The association tables are lists of pairs.  A
  handler returns its answer with the new tables, or an exception with the tables as before.
\<close>

section \<open>Tables\<close>

record user_row =
  us_username :: string
  us_is_admin :: bool
  us_is_new :: bool

record scope_row =
  sp_name :: string
  sp_description :: "string option"
  sp_attr :: "json dict"
  sp_rule :: access_rule

record role_row =
  rl_name :: string
  rl_description :: "string option"

record team_row =
  tm_name :: string
  tm_scope_id :: "string option"

record iam =
  im_users :: "user_row dict"
  im_scopes :: "scope_row dict"
  im_actions :: "action_row dict"
  im_roles :: "role_row dict"
  im_role_actions :: "(string \<times> string) list"
  im_teams :: "team_row dict"
  im_team_roles :: "(string \<times> string) list"
  im_team_users :: "(string \<times> string) list"

definition linked :: "('a \<times> 'b) list \<Rightarrow> 'a \<Rightarrow> 'b list" where
  "linked pairs a = map snd (filter (\<lambda>p. fst p = a) pairs)"

definition unique_on :: "('a \<Rightarrow> 'b) \<Rightarrow> 'a dict \<Rightarrow> bool" where
  "unique_on f tbl = distinct (map (f \<circ> snd) tbl)"

section \<open>Users\<close>

definition ensure_exists :: "string \<Rightarrow> string \<Rightarrow> bool \<Rightarrow> iam \<Rightarrow> iam" where
  "ensure_exists user_id preferred_username is_admin db =
     db\<lparr>im_users := (case map_of (im_users db) user_id of
          None \<Rightarrow> im_users db @ [(user_id, \<lparr>us_username = preferred_username, us_is_admin = is_admin,
                                       us_is_new = \<not> is_admin\<rparr>)]
        | Some u \<Rightarrow> sql_update user_id (\<lambda>_. u\<lparr>us_is_admin := is_admin,
                       us_is_new := (if is_admin then False else us_is_new u)\<rparr>) (im_users db))\<rparr>"

definition view_role :: "iam \<Rightarrow> string \<Rightarrow> role_view option" where
  "view_role db role_id = map_option (\<lambda>r. \<lparr>rv_name = rl_name r,
     rv_allowed_actions = linked (im_role_actions db) role_id\<rparr>) (map_of (im_roles db) role_id)"

definition view_scope :: "iam \<Rightarrow> string option \<Rightarrow> scope_view option" where
  "view_scope db scope_id = (case scope_id of None \<Rightarrow> None
     | Some s \<Rightarrow> map_option (\<lambda>s. \<lparr>sc_attr = sp_attr s, sc_rule = sp_rule s\<rparr>) (map_of (im_scopes db) s))"

definition view_team :: "iam \<Rightarrow> string \<Rightarrow> team_view option" where
  "view_team db team_id = map_option (\<lambda>t. \<lparr>tv_name = tm_name t, tv_scope = view_scope db (tm_scope_id t),
     tv_roles = List.map_filter (view_role db) (linked (im_team_roles db) team_id)\<rparr>) (map_of (im_teams db) team_id)"

definition get_teams_with_roles_and_scopes :: "string \<Rightarrow> iam \<Rightarrow> user_view option" where
  "get_teams_with_roles_and_scopes user_id db = map_option (\<lambda>u. \<lparr>uv_id = user_id, uv_is_admin = us_is_admin u,
     uv_teams = List.map_filter (view_team db) (linked (im_team_users db) user_id)\<rparr>) (map_of (im_users db) user_id)"

text \<open>The lookup the permission checks get; a claim that is not a string matches no row.\<close>

definition user_lookup_of :: "iam \<Rightarrow> user_lookup" where
  "user_lookup_of db user_id =
     (case user_id of JStr u \<Rightarrow> get_teams_with_roles_and_scopes u db | _ \<Rightarrow> None)"

definition admin_role :: string where
  "admin_role = ''user.admin''"

text \<open>\<open>auth.py\<close>: provisioning on first access, and the admin guard.  \<open>roles\<close> is a claim.\<close>

definition claimed_admin :: "json dict \<Rightarrow> bool res" where
  "claimed_admin auth_context =
     (let roles = pget auth_context ''roles'' in
      if \<not> truthy roles then Inr False
      else case py_in (JStr admin_role) roles of None \<Rightarrow> Inl TypeError | Some b \<Rightarrow> Inr b)"

definition ensure_user_exists :: "json dict \<Rightarrow> iam \<Rightarrow> (json dict \<times> iam) res" where
  "ensure_user_exists auth_context db =
     (let user_oid = token_user_id auth_context;
          username = first_claim auth_context [''preferred_username'', ''email'', ''name''] in
      bindR (ensure (truthy user_oid)
               (HTTPException 401 (Msg ''token is missing user identifier (oid/sub)'' []))) (\<lambda>_.
      bindR (claimed_admin auth_context) (\<lambda>is_admin.
      case (user_oid, if truthy username then username else user_oid) of
        (JStr i, JStr n) \<Rightarrow> Inr (auth_context, ensure_exists i n is_admin db)
      | _ \<Rightarrow> Inl TypeError)))"

definition require_admin :: "json dict \<Rightarrow> iam \<Rightarrow> (json dict \<times> iam) res" where
  "require_admin auth_context db =
     bindR (ensure_user_exists auth_context db) (\<lambda>(ctx, db').
     bindR (claimed_admin ctx) (\<lambda>is_admin.
     bindR (ensure is_admin (forbidden ''Administrator role required'' [])) (\<lambda>_. Inr (ctx, db'))))"

section \<open>Roles\<close>

record role_dict =
  rd_id :: string
  rd_name :: string
  rd_description :: "string option"
  rd_actions :: "string list"

definition role_to_dict :: "iam \<Rightarrow> string \<Rightarrow> role_row \<Rightarrow> role_dict" where
  "role_to_dict db role_id r = \<lparr>rd_id = role_id, rd_name = rl_name r, rd_description = rl_description r,
     rd_actions = sort (linked (im_role_actions db) role_id)\<rparr>"

definition actions_named :: "string list \<Rightarrow> iam \<Rightarrow> string list" where
  "actions_named names db = filter (\<lambda>n. n \<in> set names) (map fst (im_actions db))"

definition role_by_name :: "string \<Rightarrow> iam \<Rightarrow> (string \<times> role_row) option res" where
  "role_by_name name db = scalar_one_or_none (filter (\<lambda>(_, r). rl_name r = name) (im_roles db))"

definition create_role :: "string \<Rightarrow> string \<Rightarrow> string option \<Rightarrow> string list \<Rightarrow> iam \<Rightarrow> (role_dict \<times> iam) res" where
  "create_role new_id name description action_names db =
     (let row = \<lparr>rl_name = name, rl_description = description\<rparr>;
          roles = im_roles db @ [(new_id, row)];
          db' = db\<lparr>im_roles := roles,
                   im_role_actions := im_role_actions db @ map (Pair new_id) (actions_named action_names db)\<rparr> in
      bindR (ensure (wf_dict roles \<and> unique_on rl_name roles) IntegrityError) (\<lambda>_.
      Inr (role_to_dict db' new_id row, db')))"

definition update_role ::
  "string \<Rightarrow> string \<Rightarrow> string option \<Rightarrow> string list \<Rightarrow> iam \<Rightarrow> (role_dict option \<times> iam) res" where
  "update_role role_id name description action_names db =
     (case map_of (im_roles db) role_id of
        None \<Rightarrow> Inr (None, db)
      | Some _ \<Rightarrow>
          let row = \<lparr>rl_name = name, rl_description = description\<rparr>;
              roles = sql_update role_id (\<lambda>_. row) (im_roles db);
              db' = db\<lparr>im_roles := roles,
                       im_role_actions := filter (\<lambda>p. fst p \<noteq> role_id) (im_role_actions db)
                         @ map (Pair role_id) (actions_named action_names db)\<rparr> in
          bindR (ensure (unique_on rl_name roles) IntegrityError) (\<lambda>_.
          Inr (Some (role_to_dict db' role_id row), db')))"

definition remove_action_from_role :: "string \<Rightarrow> string \<Rightarrow> iam \<Rightarrow> role_dict option \<times> iam" where
  "remove_action_from_role role_id action_name db =
     (case map_of (im_roles db) role_id of
        None \<Rightarrow> (None, db)
      | Some r \<Rightarrow>
          let db' = db\<lparr>im_role_actions := removeAll (role_id, action_name) (im_role_actions db)\<rparr> in
          (Some (role_to_dict db' role_id r), db'))"

definition delete_role_row :: "string \<Rightarrow> iam \<Rightarrow> iam" where
  "delete_role_row role_id db =
     db\<lparr>im_roles := dpop role_id (im_roles db),
        im_role_actions := filter (\<lambda>p. fst p \<noteq> role_id) (im_role_actions db),
        im_team_roles := filter (\<lambda>p. snd p \<noteq> role_id) (im_team_roles db)\<rparr>"

definition missing_names :: "string list \<Rightarrow> string list \<Rightarrow> string list" where
  "missing_names names found = sort (remdups (filter (\<lambda>n. n \<notin> set found) names))"

definition check_actions :: "string list \<Rightarrow> iam \<Rightarrow> unit res" where
  "check_actions actions db =
     bindR (ensure (distinct actions) (api_error ''Duplicate action names in request'' [] 400)) (\<lambda>_.
     let missing = missing_names actions (actions_named actions db) in
     ensure (missing = []) (api_error ''Actions not found: {}'' [JList (map JStr missing)] 404))"

definition post_role :: "string \<Rightarrow> string \<Rightarrow> string option \<Rightarrow> string list \<Rightarrow> iam \<Rightarrow> (role_dict \<times> iam) res" where
  "post_role new_id name description actions db =
     bindR (check_actions actions db) (\<lambda>_.
     on_integrity_error (api_error ''Role with name {} already exists'' [JStr name] 409)
       (create_role new_id name description actions db))"

definition role_not_found :: "string \<Rightarrow> exn" where
  "role_not_found role_id = api_error ''Role {} was not found'' [JStr role_id] 404"

definition put_role_by_id ::
  "string \<Rightarrow> string \<Rightarrow> string option \<Rightarrow> string list \<Rightarrow> iam \<Rightarrow> (role_dict \<times> iam) res" where
  "put_role_by_id role_id role_name description actions db =
     bindR (ensure (has_key (im_roles db) role_id) (role_not_found role_id)) (\<lambda>_.
     bindR (role_by_name role_name db) (\<lambda>existing_role.
     bindR (ensure (case existing_role of None \<Rightarrow> True | Some (i, _) \<Rightarrow> i = role_id)
              (api_error ''Role name {} already exists'' [JStr role_name] 409)) (\<lambda>_.
     bindR (check_actions actions db) (\<lambda>_.
     bindR (update_role role_id role_name description actions db) (\<lambda>(updated_role, db').
     case updated_role of None \<Rightarrow> Inl (role_not_found role_id) | Some r \<Rightarrow> Inr (r, db'))))))"

definition delete_role :: "string \<Rightarrow> iam \<Rightarrow> iam res" where
  "delete_role role_id db =
     bindR (ensure (has_key (im_roles db) role_id) (role_not_found role_id)) (\<lambda>_.
     Inr (delete_role_row role_id db))"

section \<open>Scopes\<close>

definition teams_of_scope :: "string \<Rightarrow> iam \<Rightarrow> team_row dict" where
  "teams_of_scope scope_id db =
     sort_key (\<lambda>(_, t). tm_name t) (filter (\<lambda>(_, t). tm_scope_id t = Some scope_id) (im_teams db))"

definition create_scope :: "string \<Rightarrow> scope_row \<Rightarrow> iam \<Rightarrow> iam res" where
  "create_scope new_id row db =
     (let scopes = im_scopes db @ [(new_id, row)] in
      on_integrity_error (api_error ''Scope with name {} already exists'' [JStr (sp_name row)] 409)
        (bindR (ensure (wf_dict scopes \<and> unique_on sp_name scopes) IntegrityError) (\<lambda>_.
         Inr (db\<lparr>im_scopes := scopes\<rparr>))))"

definition scope_not_found :: "string \<Rightarrow> exn" where
  "scope_not_found scope_id = api_error ''Scope {} was not found'' [JStr scope_id] 404"

definition update_scope :: "string \<Rightarrow> scope_row \<Rightarrow> iam \<Rightarrow> iam res" where
  "update_scope scope_id row db =
     bindR (ensure (\<not> blank (sp_name row)) (api_error ''Field name must not be empty'' [] 400)) (\<lambda>_.
     bindR (ensure (has_key (im_scopes db) scope_id) (scope_not_found scope_id)) (\<lambda>_.
     let scopes = sql_update scope_id (\<lambda>_. row) (im_scopes db) in
     on_integrity_error (api_error ''Scope with name {} already exists'' [JStr (sp_name row)] 409)
       (bindR (ensure (unique_on sp_name scopes) IntegrityError) (\<lambda>_. Inr (db\<lparr>im_scopes := scopes\<rparr>)))))"

definition delete_scope :: "string \<Rightarrow> iam \<Rightarrow> iam res" where
  "delete_scope scope_id db =
     bindR (ensure (has_key (im_scopes db) scope_id) (scope_not_found scope_id)) (\<lambda>_.
     let teams = teams_of_scope scope_id db in
     bindR (ensure (teams = [])
              (api_error ''Scope is assigned to {} team(s) and cannot be deleted. Teams: {}''
                 [JInt (int (length teams)), JList (map (\<lambda>(_, t). JStr (tm_name t)) teams)] 409)) (\<lambda>_.
     Inr (db\<lparr>im_scopes := dpop scope_id (im_scopes db)\<rparr>)))"

section \<open>Teams\<close>

definition check_scope_id :: "string option \<Rightarrow> iam \<Rightarrow> unit res" where
  "check_scope_id scope_id db = (case scope_id of None \<Rightarrow> Inr ()
     | Some s \<Rightarrow> ensure (has_key (im_scopes db) s) (scope_not_found s))"

definition check_role_ids :: "string list \<Rightarrow> iam \<Rightarrow> unit res" where
  "check_role_ids role_ids db =
     bindR (ensure (distinct role_ids) (api_error ''Duplicate role IDs in request'' [] 400)) (\<lambda>_.
     let missing = sort (filter (\<lambda>r. \<not> has_key (im_roles db) r) role_ids) in
     ensure (missing = []) (api_error ''Roles not found: {}'' [JList (map JStr missing)] 404))"

text \<open>The insert of a team with its association rows, under the constraints of the schema.\<close>

definition create_team_row :: "string \<Rightarrow> string \<Rightarrow> string option \<Rightarrow> string list \<Rightarrow> iam \<Rightarrow> iam res" where
  "create_team_row new_id name scope_id role_ids db =
     (let teams = im_teams db @ [(new_id, \<lparr>tm_name = name, tm_scope_id = scope_id\<rparr>)] in
      bindR (ensure (wf_dict teams \<and> unique_on tm_name teams \<and> distinct role_ids \<and>
                     opt_all (has_key (im_scopes db)) scope_id \<and>
                     list_all (has_key (im_roles db)) role_ids) IntegrityError) (\<lambda>_.
      Inr (db\<lparr>im_teams := teams, im_team_roles := im_team_roles db @ map (Pair new_id) role_ids\<rparr>)))"

definition create_team :: "string \<Rightarrow> string \<Rightarrow> string option \<Rightarrow> string list \<Rightarrow> iam \<Rightarrow> iam res" where
  "create_team new_id name scope_id role_ids db =
     bindR (check_scope_id scope_id db) (\<lambda>_.
     bindR (check_role_ids role_ids db) (\<lambda>_.
     on_integrity_error (api_error ''Team with name {} already exists'' [JStr name] 409)
       (create_team_row new_id name scope_id role_ids db)))"

definition team_not_found :: "string \<Rightarrow> exn" where
  "team_not_found team_id = api_error ''Team {} was not found'' [JStr team_id] 404"

definition update_team_row :: "string \<Rightarrow> string \<Rightarrow> string option \<Rightarrow> string list \<Rightarrow> iam \<Rightarrow> iam res" where
  "update_team_row team_id name scope_id role_ids db =
     (let teams = sql_update team_id (\<lambda>_. \<lparr>tm_name = name, tm_scope_id = scope_id\<rparr>) (im_teams db);
          found = filter (\<lambda>r. r \<in> set role_ids) (map fst (im_roles db)) in
      bindR (ensure (unique_on tm_name teams \<and> opt_all (has_key (im_scopes db)) scope_id)
               IntegrityError) (\<lambda>_.
      Inr (db\<lparr>im_teams := teams,
              im_team_roles := filter (\<lambda>p. fst p \<noteq> team_id) (im_team_roles db)
                @ map (Pair team_id) found\<rparr>)))"

definition update_team :: "string \<Rightarrow> string \<Rightarrow> string option \<Rightarrow> string list \<Rightarrow> iam \<Rightarrow> iam res" where
  "update_team team_id name scope_id role_ids db =
     bindR (ensure (has_key (im_teams db) team_id) (team_not_found team_id)) (\<lambda>_.
     bindR (check_scope_id scope_id db) (\<lambda>_.
     bindR (check_role_ids role_ids db) (\<lambda>_.
     on_integrity_error (api_error ''Team with name {} already exists'' [JStr name] 409)
       (update_team_row team_id name scope_id role_ids db))))"

definition add_user_to_team :: "string \<Rightarrow> string \<Rightarrow> iam \<Rightarrow> iam res" where
  "add_user_to_team team_id user_id db =
     bindR (ensure (has_key (im_teams db) team_id) (team_not_found team_id)) (\<lambda>_.
     case map_of (im_users db) user_id of
       None \<Rightarrow> Inl (api_error ''User {} was not found'' [JStr user_id] 404)
     | Some u \<Rightarrow>
         bindR (ensure ((user_id, team_id) \<notin> set (im_team_users db))
                  (api_error ''User {} already belongs to team {}'' [JStr user_id, JStr team_id] 409)) (\<lambda>_.
         Inr (db\<lparr>im_team_users := im_team_users db @ [(user_id, team_id)],
                 im_users := sql_update user_id (\<lambda>_. u\<lparr>us_is_new := False\<rparr>) (im_users db)\<rparr>)))"

definition remove_user_from_team :: "string \<Rightarrow> string \<Rightarrow> iam \<Rightarrow> iam res" where
  "remove_user_from_team team_id user_id db =
     bindR (ensure (has_key (im_teams db) team_id) (team_not_found team_id)) (\<lambda>_.
     bindR (ensure ((user_id, team_id) \<in> set (im_team_users db))
              (api_error ''User {} is not assigned to team {}'' [JStr user_id, JStr team_id] 404)) (\<lambda>_.
     Inr (db\<lparr>im_team_users := removeAll (user_id, team_id) (im_team_users db)\<rparr>)))"

definition delete_team :: "string \<Rightarrow> iam \<Rightarrow> iam res" where
  "delete_team team_id db =
     bindR (ensure (has_key (im_teams db) team_id) (team_not_found team_id)) (\<lambda>_.
     let assigned = filter (\<lambda>p. snd p = team_id) (im_team_users db) in
     bindR (ensure (assigned = []) (api_error ''Team has {} assigned user(s) and cannot be deleted''
              [JInt (int (length assigned))] 409)) (\<lambda>_.
     Inr (db\<lparr>im_teams := dpop team_id (im_teams db),
             im_team_roles := filter (\<lambda>p. fst p \<noteq> team_id) (im_team_roles db)\<rparr>)))"

section \<open>The permission lists of a user\<close>

definition class_list :: "resource_type \<Rightarrow> string \<Rightarrow> string list" where
  "class_list rt attr = (case map_of (rt_vars rt) attr of Some (AStrs l) \<Rightarrow> l | _ \<Rightarrow> [])"

definition http_user :: "json dict \<Rightarrow> user_lookup \<Rightarrow> user_view res" where
  "http_user auth_context users =
     (let user_id = token_user_id auth_context in
      bindR (ensure (truthy user_id) (HTTPException 403 (Msg ''User identifier missing from token'' []))) (\<lambda>_.
      case users user_id of None \<Rightarrow> Inl (HTTPException 403 (Msg ''User not found'' [])) | Some u \<Rightarrow> Inr u))"

definition get_platform_permissions :: "json dict \<Rightarrow> user_lookup \<Rightarrow> string list res" where
  "get_platform_permissions auth_context users =
     bindR (http_user auth_context users) (\<lambda>user_data.
     Inr (filter (\<lambda>p. evaluate_permission p user_data None)
            (concat (map (\<lambda>rt. class_list rt ''ReadPermissions'' @ class_list rt ''EditPermissions'')
               (filter is_global_type resource_types)))))"

definition get_device_permissions :: "string \<Rightarrow> json dict \<Rightarrow> user_lookup \<Rightarrow> meta_lookup \<Rightarrow> string list res" where
  "get_device_permissions device_id auth_context users device_meta_raw =
     bindR (http_user auth_context users) (\<lambda>user_data.
     case device_meta_raw device_id of
       None \<Rightarrow> Inl (HTTPException 404 (Msg ''Device {} not found'' [JStr device_id]))
     | Some meta \<Rightarrow>
         Inr (filter (\<lambda>p. evaluate_permission p user_data (Some meta))
                (class_list device_permissions ''ReadPermissions''
                 @ class_list device_permissions ''EditPermissions'')))"

end
