(* ===== verification/Iam_Properties.thy ===== *)
theory Iam_Properties
  imports Iam
begin

text \<open>
  The tables of users, teams, roles, scopes and actions as a transition system: their constraints
  are an invariant, permissions are what the association tables say, and which operations can
  extend what a user may do.
\<close>

section \<open>Committed operations\<close>

datatype iam_op =
    EnsureExists string string bool
  | SyncPermissions
  | PostRole string string "string option" "string list"
  | PutRole string string "string option" "string list"
  | RemoveAction string string
  | DeleteRole string
  | CreateScope string scope_row
  | UpdateScope string scope_row
  | DeleteScope string
  | CreateTeam string string "string option" "string list"
  | UpdateTeam string string "string option" "string list"
  | AddUser string string
  | RemoveUser string string
  | DeleteTeam string

fun run_iam :: "iam_op \<Rightarrow> iam \<Rightarrow> iam res" where
  "run_iam (EnsureExists i n a) db = Inr (ensure_exists i n a db)"
| "run_iam SyncPermissions db =
     bindR (sync_permissions_to_db get_all_permissions (im_actions db)) (\<lambda>acts. Inr (db\<lparr>im_actions := acts\<rparr>))"
| "run_iam (PostRole i n d acts) db = map_sum id snd (post_role i n d acts db)"
| "run_iam (PutRole i n d acts) db = map_sum id snd (put_role_by_id i n d acts db)"
| "run_iam (RemoveAction i a) db = Inr (snd (remove_action_from_role i a db))"
| "run_iam (DeleteRole i) db = delete_role i db"
| "run_iam (CreateScope i s) db = create_scope i s db"
| "run_iam (UpdateScope i s) db = update_scope i s db"
| "run_iam (DeleteScope i) db = delete_scope i db"
| "run_iam (CreateTeam i n s rs) db = create_team i n s rs db"
| "run_iam (UpdateTeam i n s rs) db = update_team i n s rs db"
| "run_iam (AddUser t u) db = add_user_to_team t u db"
| "run_iam (RemoveUser t u) db = remove_user_from_team t u db"
| "run_iam (DeleteTeam t) db = delete_team t db"

definition empty_iam :: iam where
  "empty_iam = \<lparr>im_users = [], im_scopes = [], im_actions = [], im_roles = [], im_role_actions = [],
     im_teams = [], im_team_roles = [], im_team_users = []\<rparr>"

inductive iam_reachable :: "iam \<Rightarrow> bool" where
  initial: "iam_reachable empty_iam"
| step: "iam_reachable db \<Longrightarrow> run_iam op db = Inr db' \<Longrightarrow> iam_reachable db'"

section \<open>The constraints\<close>

definition iam_ok :: "iam \<Rightarrow> bool" where
  "iam_ok db =
     (wf_dict (im_users db) \<and> wf_dict (im_actions db) \<and>
      wf_dict (im_scopes db) \<and> unique_on sp_name (im_scopes db) \<and>
      wf_dict (im_roles db) \<and> unique_on rl_name (im_roles db) \<and>
      wf_dict (im_teams db) \<and> unique_on tm_name (im_teams db) \<and>
      distinct (im_role_actions db) \<and> distinct (im_team_roles db) \<and> distinct (im_team_users db) \<and>
      (\<forall>(r, a) \<in> set (im_role_actions db). has_key (im_roles db) r \<and> has_key (im_actions db) a) \<and>
      (\<forall>(t, r) \<in> set (im_team_roles db). has_key (im_teams db) t \<and> has_key (im_roles db) r) \<and>
      (\<forall>(u, t) \<in> set (im_team_users db). has_key (im_users db) u \<and> has_key (im_teams db) t) \<and>
      (\<forall>(t, row) \<in> set (im_teams db). opt_all (has_key (im_scopes db)) (tm_scope_id row)))"

lemma set_linked: "b \<in> set (linked ps a) \<longleftrightarrow> (a, b) \<in> set ps"
  by (force simp: linked_def)

lemma distinct_append_pairs:
  "distinct ps \<Longrightarrow> (\<forall>p \<in> set ps. fst p \<noteq> a) \<Longrightarrow> distinct bs \<Longrightarrow> distinct (ps @ map (Pair a) bs)"
  by (auto simp: distinct_map inj_on_def)

lemma unique_on_dpop: "unique_on f tbl \<Longrightarrow> unique_on f (dpop k tbl)"
  by (simp add: unique_on_def AList.delete_eq distinct_map_filter)

lemma unique_on_same:
  assumes "wf_dict tbl" "map_of tbl k = Some row" "f row' = f row"
  shows "unique_on f (sql_update k (\<lambda>_. row') tbl) = unique_on f tbl"
proof -
  have "map (f \<circ> snd) (sql_update k (\<lambda>_. row') tbl) = map (f \<circ> snd) tbl"
    using assms by (auto simp: sql_update_def dest: wf_dict_unique map_of_SomeD)
  then show ?thesis by (simp only: unique_on_def)
qed

lemma set_sql_update:
  "(k', r) \<in> set (sql_update k (\<lambda>_. row) tbl) \<Longrightarrow> (k', r) \<in> set tbl \<or> (k' = k \<and> r = row)"
  by (auto simp: sql_update_def split: if_splits)

lemma actions_named_facts:
  "wf_dict (im_actions db) \<Longrightarrow> distinct (actions_named ns db)"
  "a \<in> set (actions_named ns db) \<longleftrightarrow> a \<in> set ns \<and> has_key (im_actions db) a"
  by (auto simp: actions_named_def has_key_iff)

lemma ensure_exists_ok: "iam_ok db \<Longrightarrow> iam_ok (ensure_exists i n a db)"
  by (auto simp: iam_ok_def ensure_exists_def wf_dict_append_new has_key_def[of _ i]
      simp del: map_append split: option.splits)

lemma sync_ok:
  assumes "iam_ok db" "run_iam SyncPermissions db = Inr db'"
  shows "iam_ok db'"
proof -
  obtain acts where acts: "sync_permissions_to_db get_all_permissions (im_actions db) = Inr acts"
    "db' = db\<lparr>im_actions := acts\<rparr>" using assms(2) by auto
  have "wf_dict acts \<and> (\<forall>a. has_key (im_actions db) a \<longrightarrow> has_key acts a)"
    using acts(1) assms(1)
    by (auto simp: sync_permissions_to_db_def insert_actions_def iam_ok_def Let_def simp del: map_append split: if_splits)
  with assms(1) acts(2) show ?thesis by (auto simp: iam_ok_def)
qed

lemma post_role_ok:
  assumes ok: "iam_ok db" and r: "post_role i n d acts db = Inr (r, db')"
  shows "iam_ok db'"
proof -
  let ?row = "\<lparr>rl_name = n, rl_description = d\<rparr>"
  from r have u: "wf_dict (im_roles db @ [(i, ?row)])" "unique_on rl_name (im_roles db @ [(i, ?row)])"
    and db': "db' = db\<lparr>im_roles := im_roles db @ [(i, ?row)],
       im_role_actions := im_role_actions db @ map (Pair i) (actions_named acts db)\<rparr>"
    by (auto simp: post_role_def create_role_def Let_def simp del: map_append)
  have new: "\<not> has_key (im_roles db) i" using u(1) by (auto simp: has_key_iff)
  then have "\<forall>p \<in> set (im_role_actions db). fst p \<noteq> i" using ok by (auto simp: iam_ok_def)
  then have "distinct (im_role_actions db @ map (Pair i) (actions_named acts db))"
    using ok by (intro distinct_append_pairs) (auto simp: iam_ok_def actions_named_facts)
  then show ?thesis
    using ok u by (auto simp: iam_ok_def db' actions_named_facts simp del: map_append)
qed

lemma put_role_ok:
  assumes ok: "iam_ok db" and r: "put_role_by_id i n d acts db = Inr (r, db')"
  shows "iam_ok db'"
proof -
  let ?row = "\<lparr>rl_name = n, rl_description = d\<rparr>"
  from r have u: "has_key (im_roles db) i" "unique_on rl_name (sql_update i (\<lambda>_. ?row) (im_roles db))"
    and db': "db' = db\<lparr>im_roles := sql_update i (\<lambda>_. ?row) (im_roles db),
       im_role_actions := filter (\<lambda>p. fst p \<noteq> i) (im_role_actions db) @ map (Pair i) (actions_named acts db)\<rparr>"
    by (auto simp: put_role_by_id_def update_role_def Let_def split: option.splits)
  have "distinct (filter (\<lambda>p. fst p \<noteq> i) (im_role_actions db) @ map (Pair i) (actions_named acts db))"
    using ok by (intro distinct_append_pairs) (auto simp: iam_ok_def actions_named_facts)
  then show ?thesis
    using ok u by (auto simp: iam_ok_def db' actions_named_facts)
qed

lemma remove_action_ok: "iam_ok db \<Longrightarrow> iam_ok (snd (remove_action_from_role i a db))"
  by (auto simp: iam_ok_def remove_action_from_role_def Let_def distinct_removeAll split: option.splits)

lemma delete_role_ok: "iam_ok db \<Longrightarrow> delete_role i db = Inr db' \<Longrightarrow> iam_ok db'"
  by (auto simp: iam_ok_def delete_role_def delete_role_row_def unique_on_dpop)

lemma iam_ok_scopes:
  assumes ok: "iam_ok db" and s: "wf_dict scopes" "unique_on sp_name scopes"
    and k: "\<And>k. has_key (im_scopes db) k \<Longrightarrow> has_key scopes k"
  shows "iam_ok (db\<lparr>im_scopes := scopes\<rparr>)"
proof -
  have "opt_all (has_key scopes) (tm_scope_id row)" if "(t, row) \<in> set (im_teams db)" for t row
    using ok that k by (auto simp: iam_ok_def intro: opt_all_mono)
  with ok s show ?thesis by (auto simp: iam_ok_def)
qed

lemma create_scope_ok: "iam_ok db \<Longrightarrow> create_scope i s db = Inr db' \<Longrightarrow> iam_ok db'"
  by (auto simp: create_scope_def Let_def simp del: map_append intro: iam_ok_scopes)

lemma update_scope_ok: "iam_ok db \<Longrightarrow> update_scope i s db = Inr db' \<Longrightarrow> iam_ok db'"
  by (auto simp: update_scope_def Let_def intro!: iam_ok_scopes) (simp add: iam_ok_def)

lemma delete_scope_ok:
  assumes ok: "iam_ok db" and d: "delete_scope i db = Inr db'"
  shows "iam_ok db'"
proof -
  from d have db': "db' = db\<lparr>im_scopes := dpop i (im_scopes db)\<rparr>" and t: "teams_of_scope i db = []"
    by (auto simp: delete_scope_def Let_def)
  from t have "filter (\<lambda>(_, t). tm_scope_id t = Some i) (im_teams db) = []"
    unfolding teams_of_scope_def by (metis length_0_conv length_sort)
  then have unused: "tm_scope_id row \<noteq> Some i" if "(k, row) \<in> set (im_teams db)" for k row
    using that by (auto simp: filter_empty_conv)
  have "opt_all (has_key (dpop i (im_scopes db))) (tm_scope_id row)"
    if "(k, row) \<in> set (im_teams db)" for k row
    using ok that unused[OF that] by (cases "tm_scope_id row") (auto simp: iam_ok_def)
  with ok show ?thesis by (auto simp: iam_ok_def db' unique_on_dpop)
qed

lemma create_team_ok:
  assumes ok: "iam_ok db" and c: "create_team i n s rs db = Inr db'"
  shows "iam_ok db'"
proof -
  let ?row = "\<lparr>tm_name = n, tm_scope_id = s\<rparr>"
  from c have u: "wf_dict (im_teams db @ [(i, ?row)])" "unique_on tm_name (im_teams db @ [(i, ?row)])"
    "distinct rs" "opt_all (has_key (im_scopes db)) s" "list_all (has_key (im_roles db)) rs"
    and db': "db' = db\<lparr>im_teams := im_teams db @ [(i, ?row)],
       im_team_roles := im_team_roles db @ map (Pair i) rs\<rparr>"
    by (auto simp: create_team_def create_team_row_def Let_def simp del: map_append)
  have new: "\<not> has_key (im_teams db) i" using u(1) by (auto simp: has_key_iff)
  then have "\<forall>p \<in> set (im_team_roles db). fst p \<noteq> i" using ok by (auto simp: iam_ok_def)
  then have "distinct (im_team_roles db @ map (Pair i) rs)"
    using ok u(3) by (intro distinct_append_pairs) (auto simp: iam_ok_def)
  then show ?thesis
    using ok u by (auto simp: iam_ok_def db' list_all_iff simp del: map_append)
qed

lemma update_team_ok:
  assumes ok: "iam_ok db" and c: "update_team i n s rs db = Inr db'"
  shows "iam_ok db'"
proof -
  let ?row = "\<lparr>tm_name = n, tm_scope_id = s\<rparr>"
  define found where "found = filter (\<lambda>r. r \<in> set rs) (map fst (im_roles db))"
  from c have u: "has_key (im_teams db) i" "unique_on tm_name (sql_update i (\<lambda>_. ?row) (im_teams db))"
    "opt_all (has_key (im_scopes db)) s"
    and db': "db' = db\<lparr>im_teams := sql_update i (\<lambda>_. ?row) (im_teams db),
       im_team_roles := filter (\<lambda>p. fst p \<noteq> i) (im_team_roles db) @ map (Pair i) found\<rparr>"
    by (auto simp: update_team_def update_team_row_def Let_def found_def)
  have f: "distinct found" "\<And>r. r \<in> set found \<Longrightarrow> has_key (im_roles db) r"
    using ok by (auto simp: found_def iam_ok_def has_key_iff)
  have "distinct (filter (\<lambda>p. fst p \<noteq> i) (im_team_roles db) @ map (Pair i) found)"
    using ok f by (intro distinct_append_pairs) (auto simp: iam_ok_def)
  moreover have "opt_all (has_key (im_scopes db)) (tm_scope_id row)"
    if "(t, row) \<in> set (sql_update i (\<lambda>_. ?row) (im_teams db))" for t row
    using ok u(3) set_sql_update[OF that] by (auto simp: iam_ok_def)
  ultimately show ?thesis
    using ok u f by (auto simp: iam_ok_def db')
qed

lemma add_user_ok: "iam_ok db \<Longrightarrow> add_user_to_team t u db = Inr db' \<Longrightarrow> iam_ok db'"
  by (auto simp: iam_ok_def add_user_to_team_def has_key_def[of _ u] split: option.splits)

lemma remove_user_ok: "iam_ok db \<Longrightarrow> remove_user_from_team t u db = Inr db' \<Longrightarrow> iam_ok db'"
  by (auto simp: iam_ok_def remove_user_from_team_def distinct_removeAll)

lemma in_dpop: "x \<in> set (dpop k tbl) \<Longrightarrow> x \<in> set tbl"
  by (auto simp: AList.delete_eq)

lemma delete_team_ok:
  assumes ok: "iam_ok db" and d: "delete_team t db = Inr db'"
  shows "iam_ok db'"
proof -
  from d have u: "\<forall>p \<in> set (im_team_users db). snd p \<noteq> t"
    and db': "db' = db\<lparr>im_teams := dpop t (im_teams db),
       im_team_roles := filter (\<lambda>p. fst p \<noteq> t) (im_team_roles db)\<rparr>"
    by (auto simp: delete_team_def Let_def filter_empty_conv)
  from ok u show ?thesis
    by (auto simp: iam_ok_def db' unique_on_dpop dest: in_dpop)
qed

lemmas iam_raising_ok =
  post_role_ok put_role_ok delete_role_ok create_scope_ok update_scope_ok delete_scope_ok
  create_team_ok update_team_ok add_user_ok remove_user_ok delete_team_ok

lemma run_iam_ok:
  assumes "iam_ok db" "run_iam op db = Inr db'"
  shows "iam_ok db'"
proof (cases op)
  case SyncPermissions
  with assms show ?thesis using sync_ok by blast
qed (use assms in \<open>auto simp: ensure_exists_ok remove_action_ok dest: iam_raising_ok\<close>)

lemma iam_reachable_ok: "iam_reachable db \<Longrightarrow> iam_ok db"
proof (induction rule: iam_reachable.induct)
  case initial
  show ?case by (simp add: iam_ok_def empty_iam_def unique_on_def)
qed (rule run_iam_ok)

section \<open>What a user may do, in the tables\<close>

definition scope_allows :: "iam \<Rightarrow> string option \<Rightarrow> json dict \<Rightarrow> bool" where
  "scope_allows db scope_id meta =
     (case view_scope db scope_id of None \<Rightarrow> True | Some s \<Rightarrow> matches_scope (sc_attr s) (sc_rule s) meta)"

definition granted_by :: "iam \<Rightarrow> string \<Rightarrow> string \<Rightarrow> string \<Rightarrow> bool" where
  "granted_by db user_id team_id permission =
     ((user_id, team_id) \<in> set (im_team_users db) \<and>
      (\<exists>r. (team_id, r) \<in> set (im_team_roles db) \<and> (r, permission) \<in> set (im_role_actions db)))"

lemma set_map_filter: "set (List.map_filter f xs) = {y. \<exists>x \<in> set xs. f x = Some y}"
  by (force simp: List.map_filter_def)

lemma view_team_grants:
  assumes "iam_ok db" "view_team db t = Some tv"
  shows "team_grants p tv \<longleftrightarrow> (\<exists>r. (t, r) \<in> set (im_team_roles db) \<and> (r, p) \<in> set (im_role_actions db))"
proof -
  have "\<exists>rv. view_role db r = Some rv" if "(t, r) \<in> set (im_team_roles db)" for r
  proof -
    have "has_key (im_roles db) r" using assms(1) that by (auto simp: iam_ok_def)
    then show ?thesis by (auto simp: view_role_def has_key_def)
  qed
  moreover have "p \<in> set (rv_allowed_actions rv) \<longleftrightarrow> (r, p) \<in> set (im_role_actions db)"
    if "view_role db r = Some rv" for r rv
    using that by (auto simp: view_role_def set_linked)
  ultimately show ?thesis
    using assms(2) by (fastforce simp: view_team_def team_grants_def list_ex_iff set_map_filter set_linked)
qed

text \<open>The relation of the checks, read off the association tables.\<close>

lemma holds_on_tables:
  assumes ok: "iam_ok db" and u: "get_teams_with_roles_and_scopes i db = Some u"
  shows "holds_on p u meta \<longleftrightarrow>
    (\<exists>row. map_of (im_users db) i = Some row \<and> us_is_admin row) \<or>
    (\<exists>t row. map_of (im_teams db) t = Some row \<and> granted_by db i t p \<and> scope_allows db (tm_scope_id row) meta)"
proof -
  from u obtain row where row: "map_of (im_users db) i = Some row"
    and u0: "uv_is_admin u = us_is_admin row"
      "uv_teams u = List.map_filter (view_team db) (linked (im_team_users db) i)"
    by (auto simp: get_teams_with_roles_and_scopes_def)
  have u': "uv_is_admin u = us_is_admin row"
      "set (uv_teams u) = {tv. \<exists>t. (i, t) \<in> set (im_team_users db) \<and> view_team db t = Some tv}"
    unfolding u0 set_map_filter set_linked[symmetric] by auto
  have sc: "(case tv_scope tv of None \<Rightarrow> True | Some s \<Rightarrow> matches_scope (sc_attr s) (sc_rule s) meta) \<longleftrightarrow>
      (\<exists>row. map_of (im_teams db) t = Some row \<and> scope_allows db (tm_scope_id row) meta)"
    if "view_team db t = Some tv" for t tv
    using that by (auto simp: view_team_def scope_allows_def)
  have "(\<exists>tv \<in> set (uv_teams u). team_grants p tv \<and>
      (case tv_scope tv of None \<Rightarrow> True | Some s \<Rightarrow> matches_scope (sc_attr s) (sc_rule s) meta)) \<longleftrightarrow>
    (\<exists>t tv. (i, t) \<in> set (im_team_users db) \<and> view_team db t = Some tv \<and> granted_by db i t p \<and>
       (\<exists>row. map_of (im_teams db) t = Some row \<and> scope_allows db (tm_scope_id row) meta))"
    (is "_ \<longleftrightarrow> ?R")
  proof -
    have "(\<exists>tv \<in> set (uv_teams u). team_grants p tv \<and> S tv) \<longleftrightarrow>
      (\<exists>t tv. (i, t) \<in> set (im_team_users db) \<and> view_team db t = Some tv \<and> team_grants p tv \<and> S tv)" for S
      unfolding u' by blast
    also have "(\<exists>t tv. (i, t) \<in> set (im_team_users db) \<and> view_team db t = Some tv \<and> team_grants p tv \<and>
        (case tv_scope tv of None \<Rightarrow> True | Some s \<Rightarrow> matches_scope (sc_attr s) (sc_rule s) meta)) \<longleftrightarrow> ?R"
      by (simp add: view_team_grants[OF ok] sc granted_by_def cong: conj_cong)
    finally show ?thesis .
  qed
  also have "\<dots> \<longleftrightarrow> (\<exists>t row. map_of (im_teams db) t = Some row \<and> granted_by db i t p \<and>
      scope_allows db (tm_scope_id row) meta)"
    by (auto simp: granted_by_def view_team_def)
  finally show ?thesis
    unfolding holds_on_def using row u'(1) by simp
qed

section \<open>Properties\<close>

text \<open>A plant operator: a scoped team with one role, and one member.\<close>

definition sample_iam_ops :: "iam_op list" where
  "sample_iam_ops =
     [SyncPermissions,
      EnsureExists ''u1'' ''una'' False,
      PostRole ''r1'' ''operator'' None [''device.read'', ''device.metadata.write''],
      CreateScope ''s1'' \<lparr>sp_name = ''plant A'', sp_description = None,
        sp_attr = [(''site'', JStr ''A'')], sp_rule = RuleAll\<rparr>,
      CreateTeam ''t1'' ''ops'' (Some ''s1'') [''r1''],
      AddUser ''t1'' ''u1'']"

definition sample_iam :: iam where
  "sample_iam = (case foldR (\<lambda>db op. run_iam op db) empty_iam sample_iam_ops of Inr db \<Rightarrow> db | Inl _ \<Rightarrow> empty_iam)"

lemma foldR_iam_reachable:
  "iam_reachable db \<Longrightarrow> foldR (\<lambda>db op. run_iam op db) db ops = Inr db' \<Longrightarrow> iam_reachable db'"
  by (induction ops arbitrary: db) (auto intro: iam_reachable.step simp del: run_iam.simps)

lemma sample_iam_run:
  "foldR (\<lambda>db op. run_iam op db) empty_iam sample_iam_ops = Inr
     \<lparr>im_users = [(''u1'', \<lparr>us_username = ''una'', us_is_admin = False, us_is_new = False\<rparr>)],
      im_scopes = [(''s1'', \<lparr>sp_name = ''plant A'', sp_description = None,
        sp_attr = [(''site'', JStr ''A'')], sp_rule = RuleAll\<rparr>)],
      im_actions = map (\<lambda>p. (pm_name p,
        \<lparr>ac_description = pm_description p, ac_is_global = pm_is_global p\<rparr>)) get_all_permissions,
      im_roles = [(''r1'', \<lparr>rl_name = ''operator'', rl_description = None\<rparr>)],
      im_role_actions = [(''r1'', ''device.read''), (''r1'', ''device.metadata.write'')],
      im_teams = [(''t1'', \<lparr>tm_name = ''ops'', tm_scope_id = Some ''s1''\<rparr>)],
      im_team_roles = [(''t1'', ''r1'')], im_team_users = [(''u1'', ''t1'')]\<rparr>"
  by code_simp

lemma sample_iam_value [code]:
  "sample_iam =
     \<lparr>im_users = [(''u1'', \<lparr>us_username = ''una'', us_is_admin = False, us_is_new = False\<rparr>)],
      im_scopes = [(''s1'', \<lparr>sp_name = ''plant A'', sp_description = None,
        sp_attr = [(''site'', JStr ''A'')], sp_rule = RuleAll\<rparr>)],
      im_actions = map (\<lambda>p. (pm_name p,
        \<lparr>ac_description = pm_description p, ac_is_global = pm_is_global p\<rparr>)) get_all_permissions,
      im_roles = [(''r1'', \<lparr>rl_name = ''operator'', rl_description = None\<rparr>)],
      im_role_actions = [(''r1'', ''device.read''), (''r1'', ''device.metadata.write'')],
      im_teams = [(''t1'', \<lparr>tm_name = ''ops'', tm_scope_id = Some ''s1''\<rparr>)],
      im_team_roles = [(''t1'', ''r1'')], im_team_users = [(''u1'', ''t1'')]\<rparr>"
  unfolding sample_iam_def sample_iam_run by simp

lemma sample_iam_reachable: "iam_reachable sample_iam"
  using foldR_iam_reachable[OF iam_reachable.initial sample_iam_run] by (simp add: sample_iam_value)

text \<open>
  C7: A permission check asks what the association tables say: for a user of a reachable store,
  the view the repository builds holds a permission on a device's metadata exactly when the user
  is an admin or belongs to a team that has a role allowing the action and whose scope, if it has
  one, matches the metadata.
\<close>

theorem view_reflects_tables:
  assumes "iam_reachable db" and "user_lookup_of db (JStr i) = Some u"
  shows "evaluate_permission p u (Some meta) \<longleftrightarrow>
    (\<exists>row. map_of (im_users db) i = Some row \<and> us_is_admin row) \<or>
    (\<exists>t row. map_of (im_teams db) t = Some row \<and> granted_by db i t p \<and> scope_allows db (tm_scope_id row) meta)"
  using holds_on_tables[OF iam_reachable_ok[OF assms(1)]] assms(2)
  unfolding evaluate_Some by (simp add: user_lookup_of_def)

theorem view_reflects_tables_witness:
  "\<exists>u. user_lookup_of sample_iam (JStr ''u1'') = Some u \<and>
     evaluate_permission ''device.read'' u (Some [(''site'', JStr ''A'')]) \<and> granted_by sample_iam ''u1'' ''t1'' ''device.read''"
proof -
  have "\<exists>u. user_lookup_of sample_iam (JStr ''u1'') = Some u"
    unfolding not_None_eq[symmetric] by code_simp
  then obtain u where u: "user_lookup_of sample_iam (JStr ''u1'') = Some u" ..
  have r: "(''u1'', ''t1'') \<in> set (im_team_users sample_iam) \<and> (''t1'', ''r1'') \<in> set (im_team_roles sample_iam) \<and>
      (''r1'', ''device.read'') \<in> set (im_role_actions sample_iam)"
    by code_simp
  then have g: "granted_by sample_iam ''u1'' ''t1'' ''device.read''" unfolding granted_by_def by blast
  have t: "map_of (im_teams sample_iam) ''t1'' = Some \<lparr>tm_name = ''ops'', tm_scope_id = Some ''s1''\<rparr>"
    by code_simp
  have s: "scope_allows sample_iam (Some ''s1'') [(''site'', JStr ''A'')]" by code_simp
  from u g t s view_reflects_tables[OF sample_iam_reachable u, of "''device.read''" "[(''site'', JStr ''A'')]"]
  show ?thesis by fastforce
qed

text \<open>Only these operations can extend what some user may do.\<close>

fun may_grant :: "iam_op \<Rightarrow> bool" where
  "may_grant (EnsureExists i n a) = True"
| "may_grant (PutRole i n d acts) = True"
| "may_grant (UpdateScope i s) = True"
| "may_grant (UpdateTeam i n s rs) = True"
| "may_grant (AddUser t u) = True"
| "may_grant _ = False"

lemma scope_allows_mono:
  assumes "\<And>s. map_of (im_scopes db) s \<noteq> None \<Longrightarrow> map_of (im_scopes db') s = map_of (im_scopes db) s"
    and "opt_all (has_key (im_scopes db)) sid"
  shows "scope_allows db' sid m = scope_allows db sid m"
  using assms by (cases sid) (auto simp: scope_allows_def view_scope_def has_key_def)

definition no_new_grants :: "iam \<Rightarrow> iam \<Rightarrow> bool" where
  "no_new_grants db db' =
     (im_users db' = im_users db \<and>
      (\<forall>i t p. granted_by db' i t p \<longrightarrow> granted_by db i t p) \<and>
      (\<forall>i t p row. granted_by db' i t p \<and> map_of (im_teams db') t = Some row \<longrightarrow>
         map_of (im_teams db) t = Some row) \<and>
      (\<forall>t row m. map_of (im_teams db) t = Some row \<and> map_of (im_teams db') t = Some row \<longrightarrow>
         scope_allows db' (tm_scope_id row) m = scope_allows db (tm_scope_id row) m))"

lemma no_new_grantsI:
  assumes "im_users db' = im_users db"
    and "\<And>i t p. granted_by db' i t p \<Longrightarrow> granted_by db i t p"
    and "\<And>i t p row. granted_by db' i t p \<Longrightarrow> map_of (im_teams db') t = Some row \<Longrightarrow> map_of (im_teams db) t = Some row"
    and "\<And>t row s. map_of (im_teams db) t = Some row \<Longrightarrow> tm_scope_id row = Some s \<Longrightarrow>
           map_of (im_teams db') t = Some row \<Longrightarrow> map_of (im_scopes db') s = map_of (im_scopes db) s"
  shows "no_new_grants db db'"
proof -
  have "scope_allows db' (tm_scope_id row) m = scope_allows db (tm_scope_id row) m"
    if "map_of (im_teams db) t = Some row" "map_of (im_teams db') t = Some row" for t row m
    using assms(4)[OF that(1) _ that(2)] by (cases "tm_scope_id row") (auto simp: scope_allows_def view_scope_def)
  with assms(1-3) show ?thesis unfolding no_new_grants_def by blast
qed

lemma post_role_no_grants:
  assumes ok: "iam_ok db" and r: "post_role i n d acts db = Inr (r, db')"
  shows "no_new_grants db db'"
proof (rule no_new_grantsI)
  from r have new: "\<not> has_key (im_roles db) i"
    and db': "im_users db' = im_users db" "im_team_users db' = im_team_users db" "im_team_roles db' = im_team_roles db"
      "im_role_actions db' = im_role_actions db @ map (Pair i) (actions_named acts db)"
      "im_teams db' = im_teams db" "im_scopes db' = im_scopes db"
    by (auto simp: post_role_def create_role_def Let_def has_key_iff)
  show "granted_by db j t p" if "granted_by db' j t p" for j t p
    using that ok new by (fastforce simp: granted_by_def db' iam_ok_def)
qed (use r in \<open>auto simp: post_role_def create_role_def Let_def\<close>)

lemma create_team_no_grants:
  assumes ok: "iam_ok db" and r: "create_team i n s rs db = Inr db'"
  shows "no_new_grants db db'"
proof (rule no_new_grantsI)
  from r have new: "\<not> has_key (im_teams db) i"
    and db': "im_users db' = im_users db" "im_team_users db' = im_team_users db"
      "im_team_roles db' = im_team_roles db @ map (Pair i) rs" "im_role_actions db' = im_role_actions db"
      "im_teams db' = im_teams db @ [(i, \<lparr>tm_name = n, tm_scope_id = s\<rparr>)]" "im_scopes db' = im_scopes db"
    by (auto simp: create_team_def create_team_row_def Let_def has_key_iff)
  have member: "t \<noteq> i" if "(j, t) \<in> set (im_team_users db)" for j t
    using ok new that by (auto simp: iam_ok_def)
  show "granted_by db j t p" if "granted_by db' j t p" for j t p
    using that member by (auto simp: granted_by_def db')
  show "map_of (im_teams db) t = Some row"
    if "granted_by db' j t p" "map_of (im_teams db') t = Some row" for j t p row
    using that member by (auto simp: granted_by_def db' map_add_def split: option.splits if_splits)
qed (use r in \<open>auto simp: create_team_def create_team_row_def Let_def\<close>)

lemma delete_scope_no_grants:
  assumes d: "delete_scope i db = Inr db'"
  shows "no_new_grants db db'"
proof (rule no_new_grantsI)
  from d have db': "db' = db\<lparr>im_scopes := dpop i (im_scopes db)\<rparr>" and t: "teams_of_scope i db = []"
    by (auto simp: delete_scope_def Let_def)
  from t have "filter (\<lambda>(_, t). tm_scope_id t = Some i) (im_teams db) = []"
    unfolding teams_of_scope_def by (metis length_0_conv length_sort)
  then have unused: "tm_scope_id row \<noteq> Some i" if "map_of (im_teams db) t = Some row" for t row
    using map_of_mem[OF that] by (auto simp: filter_empty_conv)
  show "map_of (im_scopes db') s = map_of (im_scopes db) s"
    if "map_of (im_teams db) t = Some row" "tm_scope_id row = Some s" for t row s
    using unused[OF that(1)] that(2) by (auto simp: db')
qed (use d in \<open>auto simp: delete_scope_def Let_def granted_by_def\<close>)

lemma create_scope_no_grants:
  assumes ok: "iam_ok db" and c: "create_scope i sc db = Inr db'"
  shows "no_new_grants db db'"
proof (rule no_new_grantsI)
  from c have db': "db' = db\<lparr>im_scopes := im_scopes db @ [(i, sc)]\<rparr>"
    by (auto simp: create_scope_def Let_def)
  show "map_of (im_scopes db') s = map_of (im_scopes db) s"
    if "map_of (im_teams db) t = Some row" "tm_scope_id row = Some s" for t row s
  proof -
    have "has_key (im_scopes db) s" using ok map_of_mem[OF that(1)] that(2) by (auto simp: iam_ok_def)
    then show ?thesis by (auto simp: db' has_key_def map_add_def split: option.splits)
  qed
qed (use c in \<open>auto simp: create_scope_def Let_def granted_by_def\<close>)

lemma delete_role_no_grants: "delete_role i db = Inr db' \<Longrightarrow> no_new_grants db db'"
  by (rule no_new_grantsI) (auto simp: delete_role_def delete_role_row_def granted_by_def)

lemma remove_action_no_grants: "no_new_grants db (snd (remove_action_from_role i a db))"
  by (rule no_new_grantsI)
    (auto simp: remove_action_from_role_def Let_def granted_by_def split: option.splits)

lemma remove_user_no_grants: "remove_user_from_team t u db = Inr db' \<Longrightarrow> no_new_grants db db'"
  by (rule no_new_grantsI) (auto simp: remove_user_from_team_def granted_by_def)

lemma delete_team_no_grants: "delete_team t db = Inr db' \<Longrightarrow> no_new_grants db db'"
  by (rule no_new_grantsI) (auto simp: delete_team_def Let_def granted_by_def split: if_splits)

lemma run_iam_no_grants:
  assumes "iam_ok db" "run_iam op db = Inr db'" "\<not> may_grant op"
  shows "no_new_grants db db'"
proof (cases op)
  case SyncPermissions
  with assms show ?thesis by (auto intro!: no_new_grantsI simp: granted_by_def)
qed (use assms in \<open>auto simp: remove_action_no_grants dest: post_role_no_grants create_team_no_grants
      delete_scope_no_grants create_scope_no_grants delete_role_no_grants remove_user_no_grants
      delete_team_no_grants\<close>)

text \<open>
  C8: No silent escalation: creating a role, a scope or a team, synchronising the permissions, and
  every deletion (of a role, an action of a role, a scope, a team or a membership) never gives any
  user a permission on any device that the user did not hold before.
\<close>

theorem no_escalation:
  assumes "iam_reachable db" and run: "run_iam op db = Inr db'" and "\<not> may_grant op"
    and u': "user_lookup_of db' (JStr i) = Some u'" and p: "evaluate_permission p u' (Some meta)"
  shows "\<exists>u. user_lookup_of db (JStr i) = Some u \<and> evaluate_permission p u (Some meta)"
proof -
  note ok = iam_reachable_ok[OF assms(1)]
  note ok' = run_iam_ok[OF ok run]
  have n: "no_new_grants db db'" by (rule run_iam_no_grants[OF ok run assms(3)])
  have v': "get_teams_with_roles_and_scopes i db' = Some u'" using u' by (simp add: user_lookup_of_def)
  have "map_of (im_users db') i \<noteq> None" using v' by (auto simp: get_teams_with_roles_and_scopes_def)
  with n obtain u where v: "get_teams_with_roles_and_scopes i db = Some u"
    by (auto simp: no_new_grants_def get_teams_with_roles_and_scopes_def)
  have "holds_on p u meta"
    using p n unfolding evaluate_Some holds_on_tables[OF ok' v'] holds_on_tables[OF ok v] no_new_grants_def
    by metis
  with v show ?thesis by (auto simp: user_lookup_of_def evaluate_Some)
qed

definition second_scope :: scope_row where
  "second_scope = \<lparr>sp_name = ''plant B'', sp_description = None, sp_attr = [(''site'', JStr ''B'')], sp_rule = RuleAny\<rparr>"

definition after_create :: iam where
  "after_create = sample_iam\<lparr>im_scopes := im_scopes sample_iam @ [(''s2'', second_scope)]\<rparr>"

theorem no_escalation_witness:
  "run_iam (CreateScope ''s2'' second_scope) sample_iam = Inr after_create \<and>
   (\<exists>u'. user_lookup_of after_create (JStr ''u1'') = Some u' \<and>
      evaluate_permission ''device.read'' u' (Some [(''site'', JStr ''A'')])) \<and>
   (\<exists>u. user_lookup_of sample_iam (JStr ''u1'') = Some u \<and>
      evaluate_permission ''device.read'' u (Some [(''site'', JStr ''A'')]))"
proof -
  have r: "run_iam (CreateScope ''s2'' second_scope) sample_iam = Inr after_create" by code_simp
  have e: "(case user_lookup_of after_create (JStr ''u1'') of None \<Rightarrow> False
      | Some u \<Rightarrow> evaluate_permission ''device.read'' u (Some [(''site'', JStr ''A'')]))"
    by code_simp
  then obtain u' where u': "user_lookup_of after_create (JStr ''u1'') = Some u'"
    "evaluate_permission ''device.read'' u' (Some [(''site'', JStr ''A'')])"
    by (auto split: option.splits)
  have g: "\<not> may_grant (CreateScope ''s2'' second_scope)" by simp
  from no_escalation[OF sample_iam_reachable r g u'] r u' show ?thesis by blast
qed

end
