(* ===== verification/Endpoint_Repo.thy ===== *)
theory Endpoint_Repo
  imports Database
begin

text \<open>
  The endpoint repository (\<open>db/sqlalchemy/endpoint.py\<close>) and the type repository behaviour it
  shares with services.  An operation returns its answer with the new store, or an exception, in
  which case the session is rolled back and the store is as before.  A fresh primary key
  (\<open>uuid4\<close>) is an argument of the operations that insert.
\<close>

section \<open>Types with roles\<close>

definition create_role_type ::
  "string \<Rightarrow> role_types \<Rightarrow> string \<Rightarrow> ('a role_type_row_scheme) \<Rightarrow>
     ('a role_type_row_scheme) dict \<Rightarrow> ('a role_type_row_scheme) dict res" where
  "create_role_type kind role_types new_id row types =
     bindR (raise_if_label_taken kind (ty_label row) None types) (\<lambda>_.
     bindR (validate_type_mapping (ty_fields row) (ty_mapping row) role_types) (\<lambda>_.
     on_integrity_error (label_exists kind (JStr (ty_label row))) (insert_type new_id row types)))"

definition new_mapping ::
  "role_mapping option \<Rightarrow> role_mapping \<Rightarrow> field_def dict \<Rightarrow> role_mapping" where
  "new_mapping mapping stored merged_fields =
     (case mapping of Some m \<Rightarrow> m | None \<Rightarrow> drop_roles_of_missing_fields stored merged_fields)"

text \<open>
  The row an update of a type stores: the columns that were sent, and, when the fields or the
  mapping were sent, the merged fields with the mapping recomputed against them.
\<close>

definition patch_type_row ::
  "string option \<Rightarrow> string option \<Rightarrow> field_def option dict option \<Rightarrow> role_mapping option \<Rightarrow>
     ('a role_type_row_scheme) \<Rightarrow> ('a role_type_row_scheme)" where
  "patch_type_row label description field_patches mapping et =
     (let merged_fields = (case field_patches of None \<Rightarrow> ty_fields et
                           | Some p \<Rightarrow> patch_fields (ty_fields et) p) in
      et\<lparr>ty_label := sent label (ty_label et),
         ty_description := (case description of None \<Rightarrow> ty_description et | Some d \<Rightarrow> Some d),
         ty_fields := merged_fields,
         ty_mapping := (if field_patches \<noteq> None \<or> mapping \<noteq> None
                        then new_mapping mapping (ty_mapping et) merged_fields
                        else ty_mapping et)\<rparr>)"

text \<open>\<open>extra\<close> updates further columns (the \<open>browser_kind\<close> of a service type).\<close>

definition update_role_type ::
  "string \<Rightarrow> role_types \<Rightarrow> string \<Rightarrow> string option \<Rightarrow> string option \<Rightarrow> field_def option dict option \<Rightarrow>
     role_mapping option \<Rightarrow> (('a role_type_row_scheme) \<Rightarrow> ('a role_type_row_scheme)) \<Rightarrow>
     ('a role_type_row_scheme) dict \<Rightarrow> ('a role_type_row_scheme \<times> ('a role_type_row_scheme) dict) res" where
  "update_role_type kind role_types type_id label description field_patches mapping extra types =
     bindR (get_type_or_raise kind type_id types) (\<lambda>et.
     bindR (case label of None \<Rightarrow> Inr ()
            | Some l \<Rightarrow> raise_if_label_taken kind l (Some type_id) types) (\<lambda>_.
     let row = patch_type_row label description field_patches mapping et in
     bindR (if field_patches \<noteq> None \<or> mapping \<noteq> None
            then validate_type_mapping (ty_fields row) (ty_mapping row) role_types
            else Inr ()) (\<lambda>_.
     bindR (on_integrity_error (label_exists kind (jopt JStr label))
              (update_type type_id (\<lambda>_. extra row) types)) (\<lambda>types'.
     Inr (extra row, types')))))"

section \<open>The answer for an instance\<close>

record resolved_entity =
  re_id :: string
  re_parent :: string
  re_type_id :: string
  re_type_label :: string
  re_type_description :: "string option"
  re_data :: "resolved_field dict"
  re_raw_data :: "json dict"

definition serialize_resolved ::
  "string \<Rightarrow> string \<Rightarrow> string \<Rightarrow> json dict \<Rightarrow> ('a type_row_scheme) \<Rightarrow> resolved_entity" where
  "serialize_resolved entity_id parent_id type_id data entity_type =
     \<lparr>re_id = entity_id, re_parent = parent_id, re_type_id = type_id,
      re_type_label = ty_label entity_type, re_type_description = ty_description entity_type,
      re_data = resolve_fields data (ty_fields entity_type), re_raw_data = data\<rparr>"

section \<open>Endpoint types\<close>

definition get_endpoint_type :: "string \<Rightarrow> catalog \<Rightarrow> role_type_row option" where
  "get_endpoint_type type_id db = map_of (endpoint_types db) type_id"

definition create_endpoint_type ::
  "string \<Rightarrow> string \<Rightarrow> string option \<Rightarrow> field_def dict \<Rightarrow> role_mapping option \<Rightarrow> catalog \<Rightarrow>
     (role_type_row \<times> catalog) res" where
  "create_endpoint_type new_id label description type_fields mapping db =
     (let et = \<lparr>ty_label = label, ty_description = description, ty_fields = type_fields,
                ty_mapping = (case mapping of None \<Rightarrow> [] | Some m \<Rightarrow> m)\<rparr> in
      bindR (create_role_type ''EndpointType'' endpoint_role_types new_id et (endpoint_types db)) (\<lambda>types.
      Inr (et, db\<lparr>endpoint_types := types\<rparr>)))"

definition update_endpoint_type ::
  "string \<Rightarrow> string option \<Rightarrow> string option \<Rightarrow> field_def option dict option \<Rightarrow> role_mapping option \<Rightarrow>
     catalog \<Rightarrow> (role_type_row \<times> catalog) res" where
  "update_endpoint_type type_id label description field_patches mapping db =
     bindR (update_role_type ''EndpointType'' endpoint_role_types type_id label description
              field_patches mapping (\<lambda>row. row) (endpoint_types db)) (\<lambda>(et, types).
     Inr (et, db\<lparr>endpoint_types := types\<rparr>))"

definition delete_endpoint_type :: "string \<Rightarrow> bool \<Rightarrow> catalog \<Rightarrow> catalog res" where
  "delete_endpoint_type type_id cascade db =
     bindR (get_type_or_raise ''EndpointType'' type_id (endpoint_types db)) (\<lambda>_.
     bindR (if cascade then Inr (delete_endpoints_where (\<lambda>_ ep. ep_type_id ep = type_id) db)
            else bindR (ensure (\<not> list_ex (\<lambda>(_, ep). ep_type_id ep = type_id) (endpoints db))
                          (api_error ''EndpointType {} is still in use by one or more endpoints''
                             [JStr type_id] 409)) (\<lambda>_. Inr db)) (\<lambda>db.
     bindR (ensure (\<not> list_ex (\<lambda>(_, ep). ep_type_id ep = type_id) (endpoints db)) IntegrityError) (\<lambda>_.
     Inr (db\<lparr>endpoint_types := dpop type_id (endpoint_types db)\<rparr>))))"

section \<open>Endpoints\<close>

definition get_endpoints :: "string \<Rightarrow> string option \<Rightarrow> catalog \<Rightarrow> resolved_entity list" where
  "get_endpoints device_id type_id db =
     concat (map (\<lambda>(k, ep).
       case map_of (endpoint_types db) (ep_type_id ep) of
         None \<Rightarrow> []
       | Some et \<Rightarrow> [serialize_resolved k (ep_device_id ep) (ep_type_id ep) (ep_data ep) et])
       (filter (\<lambda>(_, ep). ep_device_id ep = device_id \<and>
                          (case type_id of None \<Rightarrow> True | Some t \<Rightarrow> ep_type_id ep = t)) (endpoints db)))"

definition get_endpoint_device_id :: "string \<Rightarrow> catalog \<Rightarrow> string option" where
  "get_endpoint_device_id endpoint_id db = map_option ep_device_id (map_of (endpoints db) endpoint_id)"

definition get_endpoint :: "string \<Rightarrow> catalog \<Rightarrow> resolved_entity option" where
  "get_endpoint endpoint_id db =
     (case map_of (endpoints db) endpoint_id of
        None \<Rightarrow> None
      | Some ep \<Rightarrow>
          map_option (serialize_resolved endpoint_id (ep_device_id ep) (ep_type_id ep) (ep_data ep))
            (map_of (endpoint_types db) (ep_type_id ep)))"

definition create_endpoint ::
  "regex_engine \<Rightarrow> string \<Rightarrow> string \<Rightarrow> string \<Rightarrow> json dict \<Rightarrow> catalog \<Rightarrow> (resolved_entity \<times> catalog) res" where
  "create_endpoint rx new_id device_id type_id endpoint_data db =
     bindR (get_type_or_raise ''EndpointType'' type_id (endpoint_types db)) (\<lambda>et.
     bindR (validate_instance_data rx endpoint_data (ty_fields et)) (\<lambda>_.
     bindR (ensure (\<not> has_key (endpoints db) new_id \<and> has_key (devices db) device_id) IntegrityError) (\<lambda>_.
     Inr (serialize_resolved new_id device_id type_id endpoint_data et,
          db\<lparr>endpoints := endpoints db @
               [(new_id, \<lparr>ep_device_id = device_id, ep_type_id = type_id, ep_data = endpoint_data\<rparr>)]\<rparr>))))"

definition retained_type_row ::
  "regex_engine \<Rightarrow> endpoint_row \<Rightarrow> json dict \<Rightarrow> json dict \<Rightarrow> catalog \<Rightarrow> endpoint_row res" where
  "retained_type_row rx ep patch merged_data db =
     bindR (get_type_or_raise ''EndpointType'' (ep_type_id ep) (endpoint_types db)) (\<lambda>et.
     bindR (reject_non_changeable_updates (ep_data ep) patch (ty_fields et)) (\<lambda>_.
     bindR (validate_instance_data rx merged_data (ty_fields et)) (\<lambda>_.
     Inr (ep\<lparr>ep_data := merged_data\<rparr>))))"

text \<open>The row \<open>update_endpoint\<close> stores: with a new type, the data is merged and checked against
  it; with the type kept, \<open>changeable\<close> is enforced too.\<close>

definition updated_endpoint_row ::
  "regex_engine \<Rightarrow> endpoint_row \<Rightarrow> json dict \<Rightarrow> string option \<Rightarrow> catalog \<Rightarrow> endpoint_row res" where
  "updated_endpoint_row rx ep patch type_id db =
     (let merged_data = patch_data (ep_data ep) patch in
      case type_id of
        Some new_type \<Rightarrow>
          if new_type \<noteq> ep_type_id ep then
            bindR (get_type_or_raise ''EndpointType'' new_type (endpoint_types db)) (\<lambda>new_et.
            bindR (validate_instance_data rx merged_data (ty_fields new_et)) (\<lambda>_.
            Inr (ep\<lparr>ep_type_id := new_type, ep_data := merged_data\<rparr>)))
          else retained_type_row rx ep patch merged_data db
      | None \<Rightarrow> retained_type_row rx ep patch merged_data db)"

definition update_endpoint ::
  "regex_engine \<Rightarrow> string \<Rightarrow> json dict option \<Rightarrow> string option \<Rightarrow> catalog \<Rightarrow>
     (resolved_entity option \<times> catalog) res" where
  "update_endpoint rx endpoint_id endpoint_data type_id db =
     (case map_of (endpoints db) endpoint_id of
        None \<Rightarrow> Inr (None, db)
      | Some ep \<Rightarrow>
          bindR (updated_endpoint_row rx ep (sent endpoint_data []) type_id db) (\<lambda>row.
          let db' = db\<lparr>endpoints := sql_update endpoint_id (\<lambda>_. row) (endpoints db)\<rparr> in
          Inr (get_endpoint endpoint_id db', db')))"

definition delete_endpoint :: "string \<Rightarrow> catalog \<Rightarrow> catalog" where
  "delete_endpoint endpoint_id db = delete_endpoints_where (\<lambda>k _. k = endpoint_id) db"

section \<open>Type tables stay well-formed\<close>

lemma valid_mapping_cong: "tfs = tfs' \<Longrightarrow> m = m' \<Longrightarrow> valid_mapping tfs r m = valid_mapping tfs' r m'"
  by simp

lemma create_role_type_Inr:
  assumes "create_role_type kind rts new_id row types = Inr types'"
  shows "valid_mapping (ty_fields row) rts (ty_mapping row)"
    and "insert_type new_id row types = Inr types'"
  using assms unfolding create_role_type_def
  by (auto simp: validate_type_mapping_iff unit_result_eq[symmetric])

lemma create_role_type_ok:
  assumes "create_role_type kind rts new_id row types = Inr types'" "types_ok types" "roles_ok rts types"
  shows "types_ok types' \<and> roles_ok rts types' \<and> types' = types @ [(new_id, row)]"
  using create_role_type_Inr[OF assms(1)] types_ok_insert[OF assms(2)] assms(3)
  by (auto simp: roles_ok_def insert_type_Inr)

lemma update_role_type_Inr:
  "update_role_type kind rts tid label description patches mapping extra types = Inr (row, types') \<Longrightarrow>
     \<exists>et. map_of types tid = Some et \<and> row = extra (patch_type_row label description patches mapping et) \<and>
       update_type tid (\<lambda>_. row) types = Inr types' \<and>
       (patches = None \<and> mapping = None \<or>
        valid_mapping (ty_fields (patch_type_row label description patches mapping et)) rts
          (ty_mapping (patch_type_row label description patches mapping et)))"
  by (auto simp: update_role_type_def Let_def validate_type_mapping_iff split: if_splits)

lemma update_role_type_ok:
  assumes upd: "update_role_type kind rts tid label description patches mapping extra types = Inr (row, types')"
    and extra: "\<And>row. ty_fields (extra row) = ty_fields row \<and> ty_mapping (extra row) = ty_mapping row"
    and ok: "types_ok types" "roles_ok rts types"
  shows "types_ok types' \<and> roles_ok rts types' \<and> map fst types' = map fst types"
proof -
  let ?V = "\<lambda>row. valid_mapping (ty_fields row) rts (ty_mapping row)"
  from update_role_type_Inr[OF upd] obtain et where et: "map_of types tid = Some et"
    and row: "row = extra (patch_type_row label description patches mapping et)"
    and t: "update_type tid (\<lambda>_. row) types = Inr types'"
    and v: "patches = None \<and> mapping = None \<or> ?V (patch_type_row label description patches mapping et)"
    by blast
  have "?V et"
    using ok(2) map_of_mem[OF et] by (auto simp: roles_ok_def list_all_iff)
  then have "?V row"
    using v by (auto simp: row extra patch_type_row_def Let_def)
  then have "roles_ok rts (sql_update tid (\<lambda>_. row) types)"
    using ok et unfolding roles_ok_def types_ok_def
    by (intro list_all_sql_update_at[where P = ?V]) auto
  then show ?thesis
    using t types_ok_update[OF ok(1) t] by (simp add: update_type_Inr)
qed

lemma roles_ok_dpop: "roles_ok rts types \<Longrightarrow> roles_ok rts (dpop k types)"
  unfolding roles_ok_def by (rule list_all_dpop)

section \<open>Every operation keeps the schema's constraints\<close>

lemma map_fst_has_key: "map fst a = map fst b \<Longrightarrow> has_key a k = has_key b k"
  by (metis has_key_iff list.set_map)

lemma create_endpoint_type_ok:
  assumes "catalog_ok db" "create_endpoint_type new_id l d fs m db = Inr (et, db')"
  shows "catalog_ok db'"
proof -
  from assms(2) obtain types where
    c: "create_role_type ''EndpointType'' endpoint_role_types new_id et (endpoint_types db) = Inr types"
    and db': "db' = db\<lparr>endpoint_types := types\<rparr>"
    by (auto simp: create_endpoint_type_def Let_def)
  from assms(1) have "types_ok types \<and> roles_ok endpoint_role_types types \<and>
      types = endpoint_types db @ [(new_id, et)]"
    by (intro create_role_type_ok[OF c]) (simp_all add: catalog_ok_def)
  with assms(1) show ?thesis
    by (auto simp: db' catalog_ok_def references_ok_def list_all_iff)
qed

lemma update_endpoint_type_ok:
  assumes "catalog_ok db" "update_endpoint_type tid l d fs m db = Inr (et, db')"
  shows "catalog_ok db'"
proof -
  from assms(2) obtain types where u: "update_role_type ''EndpointType'' endpoint_role_types tid l d fs m
      (\<lambda>row. row) (endpoint_types db) = Inr (et, types)" "db' = db\<lparr>endpoint_types := types\<rparr>"
    by (auto simp: update_endpoint_type_def)
  have "types_ok types \<and> roles_ok endpoint_role_types types \<and> map fst types = map fst (endpoint_types db)"
    using assms(1) by (intro update_role_type_ok[OF u(1)]) (simp_all add: catalog_ok_def)
  with assms(1) show ?thesis
    by (simp add: u(2) catalog_ok_def references_ok_def map_fst_has_key[of types "endpoint_types db"])
qed

lemma delete_endpoint_type_ok:
  assumes "catalog_ok db" "delete_endpoint_type tid cascade db = Inr db'"
  shows "catalog_ok db'"
proof -
  from assms(2) obtain db1 where db1: "db1 = (if cascade
      then delete_endpoints_where (\<lambda>_ ep. ep_type_id ep = tid) db else db)"
    and unused: "\<not> list_ex (\<lambda>(_, ep). ep_type_id ep = tid) (endpoints db1)"
    and db': "db' = db1\<lparr>endpoint_types := dpop tid (endpoint_types db1)\<rparr>"
    by (auto simp: delete_endpoint_type_def split: if_splits)
  have ok: "catalog_ok db1"
    using assms(1) catalog_ok_delete_endpoints by (simp add: db1)
  have "list_all (\<lambda>(_, ep). has_key (devices db1) (ep_device_id ep) \<and>
      has_key (dpop tid (endpoint_types db1)) (ep_type_id ep)) (endpoints db1)"
    using ok unused by (auto simp: catalog_ok_def references_ok_def list_all_iff list_ex_iff)
  with ok show ?thesis
    by (simp add: db' catalog_ok_def references_ok_def types_ok_dpop roles_ok_dpop)
qed

lemma create_endpoint_ok:
  assumes "catalog_ok db" "create_endpoint rx new_id did tid data db = Inr (r, db')"
  shows "catalog_ok db'"
proof -
  from assms(2) obtain et where et: "map_of (endpoint_types db) tid = Some et"
    "\<not> has_key (endpoints db) new_id" "has_key (devices db) did"
    and db': "db' = db\<lparr>endpoints := endpoints db @
               [(new_id, \<lparr>ep_device_id = did, ep_type_id = tid, ep_data = data\<rparr>)]\<rparr>"
    by (auto simp: create_endpoint_def)
  have "list_all (\<lambda>(_, sv). has_key (endpoints db') (sv_endpoint_id sv) \<and>
      has_key (service_types db) (sv_type_id sv)) (services db)"
    using assms(1) by (auto simp: catalog_ok_def references_ok_def list_all_iff db')
  moreover have "has_key (endpoint_types db) tid" using et(1) by (simp add: has_key_def)
  ultimately show ?thesis
    using assms(1) et(2,3) unfolding catalog_ok_def references_ok_def
    by (simp add: db' has_key_iff[symmetric] del: map_append) (simp add: wf_dict_append_new del: map_append)
qed

text \<open>What an accepted update of an endpoint stored.\<close>

lemma updated_endpoint_row_Inr:
  assumes "updated_endpoint_row rx ep patch new_type db = Inr row"
  shows "ep_device_id row = ep_device_id ep \<and> ep_type_id row = sent new_type (ep_type_id ep) \<and>
    ep_data row = patch_data (ep_data ep) patch \<and>
    (\<exists>et. map_of (endpoint_types db) (ep_type_id row) = Some et \<and>
       validate_instance_data rx (ep_data row) (ty_fields et) = Inr () \<and>
       (ep_type_id row = ep_type_id ep \<longrightarrow>
          reject_non_changeable_updates (ep_data ep) patch (ty_fields et) = Inr ()))"
  using assms
  by (auto simp: updated_endpoint_row_def retained_type_row_def Let_def
      simp del: check_all_ok split: option.splits if_splits)

lemma update_endpoint_Inr:
  "update_endpoint rx eid data new_type db = Inr (r, db') \<longleftrightarrow>
     (case map_of (endpoints db) eid of
        None \<Rightarrow> r = None \<and> db' = db
      | Some ep \<Rightarrow> \<exists>row. updated_endpoint_row rx ep (sent data []) new_type db = Inr row \<and>
          db' = db\<lparr>endpoints := sql_update eid (\<lambda>_. row) (endpoints db)\<rparr> \<and> r = get_endpoint eid db')"
  by (auto simp: update_endpoint_def Let_def split: option.splits)

lemma update_endpoint_ok:
  assumes ok: "catalog_ok db" and u: "update_endpoint rx eid data new_type db = Inr (r, db')"
  shows "catalog_ok db'"
proof (cases "map_of (endpoints db) eid")
  case None
  with u ok show ?thesis by (simp add: update_endpoint_Inr)
next
  case (Some ep)
  with u obtain row where row: "updated_endpoint_row rx ep (sent data []) new_type db = Inr row"
    and db': "db' = db\<lparr>endpoints := sql_update eid (\<lambda>_. row) (endpoints db)\<rparr>"
    by (auto simp: update_endpoint_Inr)
  let ?R = "\<lambda>ep. has_key (devices db) (ep_device_id ep) \<and> has_key (endpoint_types db) (ep_type_id ep)"
  have "?R ep"
    using ok map_of_mem[OF Some] by (auto simp: catalog_ok_def references_ok_def list_all_iff)
  with updated_endpoint_row_Inr[OF row] have "?R row" by (auto simp: has_key_def)
  then have "list_all (\<lambda>(_, ep). ?R ep) (sql_update eid (\<lambda>_. row) (endpoints db))"
    using ok Some unfolding catalog_ok_def references_ok_def
    by (intro list_all_sql_update_at) auto
  with ok show ?thesis
    by (simp add: db' catalog_ok_def references_ok_def)
qed

lemma delete_endpoint_ok: "catalog_ok db \<Longrightarrow> catalog_ok (delete_endpoint eid db)"
  unfolding delete_endpoint_def by (rule catalog_ok_delete_endpoints)

end
