(* ===== verification/Service_Repo.thy ===== *)
theory Service_Repo
  imports Endpoint_Repo
begin

text \<open>
  The service repository (\<open>db/sqlalchemy/service.py\<close>): service types carry a mapping with the
  \<open>port\<close> role and a \<open>browser_kind\<close>; services belong to endpoints.  The \<open>UNSET\<close> default of
  \<open>browser_kind\<close> is \<open>None\<close>, and \<open>Some None\<close> the explicit null that clears the column.
\<close>

section \<open>Service types\<close>

definition get_service_type :: "string \<Rightarrow> catalog \<Rightarrow> service_type_row option" where
  "get_service_type type_id db = map_of (service_types db) type_id"

definition create_service_type ::
  "string \<Rightarrow> string \<Rightarrow> string option \<Rightarrow> field_def dict \<Rightarrow> string option \<Rightarrow> role_mapping option \<Rightarrow>
     catalog \<Rightarrow> (service_type_row \<times> catalog) res" where
  "create_service_type new_id label description type_fields browser_kind mapping db =
     (let st = \<lparr>ty_label = label, ty_description = description, ty_fields = type_fields,
                ty_mapping = (case mapping of None \<Rightarrow> [] | Some m \<Rightarrow> m),
                ty_browser_kind = browser_kind\<rparr> in
      bindR (create_role_type ''ServiceType'' service_role_types new_id st (service_types db)) (\<lambda>types.
      Inr (st, db\<lparr>service_types := types\<rparr>)))"

definition update_service_type ::
  "string \<Rightarrow> string option \<Rightarrow> string option \<Rightarrow> field_def option dict option \<Rightarrow>
     string option option \<Rightarrow> role_mapping option \<Rightarrow> catalog \<Rightarrow> (service_type_row \<times> catalog) res" where
  "update_service_type type_id label description field_patches browser_kind mapping db =
     bindR (update_role_type ''ServiceType'' service_role_types type_id label description field_patches
              mapping (\<lambda>row. row\<lparr>ty_browser_kind := sent browser_kind (ty_browser_kind row)\<rparr>)
              (service_types db)) (\<lambda>(st, types).
     Inr (st, db\<lparr>service_types := types\<rparr>))"

definition delete_service_type :: "string \<Rightarrow> bool \<Rightarrow> catalog \<Rightarrow> catalog res" where
  "delete_service_type type_id cascade db =
     bindR (get_type_or_raise ''ServiceType'' type_id (service_types db)) (\<lambda>_.
     bindR (if cascade
            then Inr (db\<lparr>services := filter (\<lambda>(_, sv). sv_type_id sv \<noteq> type_id) (services db)\<rparr>)
            else bindR (ensure (\<not> list_ex (\<lambda>(_, sv). sv_type_id sv = type_id) (services db))
                          (api_error ''ServiceType {} is still in use by one or more services''
                             [JStr type_id] 409)) (\<lambda>_. Inr db)) (\<lambda>db.
     bindR (ensure (\<not> list_ex (\<lambda>(_, sv). sv_type_id sv = type_id) (services db)) IntegrityError) (\<lambda>_.
     Inr (db\<lparr>service_types := dpop type_id (service_types db)\<rparr>))))"

section \<open>Services\<close>

definition get_services :: "string \<Rightarrow> string option \<Rightarrow> catalog \<Rightarrow> resolved_entity list" where
  "get_services endpoint_id type_id db =
     concat (map (\<lambda>(k, sv).
       case map_of (service_types db) (sv_type_id sv) of
         None \<Rightarrow> []
       | Some st \<Rightarrow> [serialize_resolved k (sv_endpoint_id sv) (sv_type_id sv) (sv_data sv) st])
       (filter (\<lambda>(_, sv). sv_endpoint_id sv = endpoint_id \<and>
                          (case type_id of None \<Rightarrow> True | Some t \<Rightarrow> sv_type_id sv = t)) (services db)))"

definition get_service_device_id :: "string \<Rightarrow> catalog \<Rightarrow> string option" where
  "get_service_device_id service_id db =
     (case map_of (services db) service_id of
        None \<Rightarrow> None
      | Some sv \<Rightarrow> map_option ep_device_id (map_of (endpoints db) (sv_endpoint_id sv)))"

definition get_service :: "string \<Rightarrow> catalog \<Rightarrow> resolved_entity option" where
  "get_service service_id db =
     (case map_of (services db) service_id of
        None \<Rightarrow> None
      | Some sv \<Rightarrow>
          map_option (serialize_resolved service_id (sv_endpoint_id sv) (sv_type_id sv) (sv_data sv))
            (map_of (service_types db) (sv_type_id sv)))"

definition create_service ::
  "regex_engine \<Rightarrow> string \<Rightarrow> string \<Rightarrow> string \<Rightarrow> json dict \<Rightarrow> catalog \<Rightarrow> (resolved_entity \<times> catalog) res" where
  "create_service rx new_id endpoint_id type_id service_data db =
     bindR (get_type_or_raise ''ServiceType'' type_id (service_types db)) (\<lambda>service_type.
     bindR (validate_instance_data rx service_data (ty_fields service_type)) (\<lambda>_.
     bindR (ensure (\<not> has_key (services db) new_id \<and> has_key (endpoints db) endpoint_id) IntegrityError) (\<lambda>_.
     Inr (serialize_resolved new_id endpoint_id type_id service_data service_type,
          db\<lparr>services := services db @
               [(new_id, \<lparr>sv_endpoint_id = endpoint_id, sv_type_id = type_id, sv_data = service_data\<rparr>)]\<rparr>))))"

definition update_service ::
  "regex_engine \<Rightarrow> string \<Rightarrow> json dict \<Rightarrow> catalog \<Rightarrow> (resolved_entity option \<times> catalog) res" where
  "update_service rx service_id service_data db =
     (case map_of (services db) service_id of
        None \<Rightarrow> Inr (None, db)
      | Some sv \<Rightarrow>
          bindR (get_type_or_raise ''ServiceType'' (sv_type_id sv) (service_types db)) (\<lambda>service_type.
          let merged_data = patch_data (sv_data sv) service_data in
          bindR (validate_instance_data rx merged_data (ty_fields service_type)) (\<lambda>_.
          let db' = db\<lparr>services := sql_update service_id (\<lambda>_. sv\<lparr>sv_data := merged_data\<rparr>) (services db)\<rparr> in
          Inr (get_service service_id db', db'))))"

definition delete_service :: "string \<Rightarrow> catalog \<Rightarrow> catalog" where
  "delete_service service_id db = db\<lparr>services := dpop service_id (services db)\<rparr>"

section \<open>Every operation keeps the schema's constraints\<close>

lemma create_service_type_ok:
  assumes "catalog_ok db" "create_service_type new_id l d fs b m db = Inr (st, db')"
  shows "catalog_ok db'"
proof -
  from assms(2) obtain types where
    c: "create_role_type ''ServiceType'' service_role_types new_id st (service_types db) = Inr types"
    and db': "db' = db\<lparr>service_types := types\<rparr>"
    by (auto simp: create_service_type_def Let_def)
  from assms(1) have "types_ok types \<and> roles_ok service_role_types types \<and>
      types = service_types db @ [(new_id, st)]"
    by (intro create_role_type_ok[OF c]) (simp_all add: catalog_ok_def)
  with assms(1) show ?thesis
    by (auto simp: db' catalog_ok_def references_ok_def list_all_iff)
qed

lemma update_service_type_ok:
  assumes "catalog_ok db" "update_service_type tid l d fs b m db = Inr (st, db')"
  shows "catalog_ok db'"
proof -
  from assms(2) obtain types where u: "update_role_type ''ServiceType'' service_role_types tid l d fs m
      (\<lambda>row. row\<lparr>ty_browser_kind := sent b (ty_browser_kind row)\<rparr>) (service_types db) = Inr (st, types)"
    "db' = db\<lparr>service_types := types\<rparr>"
    by (auto simp: update_service_type_def)
  have "types_ok types \<and> roles_ok service_role_types types \<and> map fst types = map fst (service_types db)"
    using assms(1) by (intro update_role_type_ok[OF u(1)]) (simp_all add: catalog_ok_def)
  with assms(1) show ?thesis
    by (simp add: u(2) catalog_ok_def references_ok_def map_fst_has_key[of types "service_types db"])
qed

lemma catalog_ok_filter_services:
  "catalog_ok db \<Longrightarrow> catalog_ok (db\<lparr>services := filter P (services db)\<rparr>)"
  by (simp add: catalog_ok_def references_ok_def list_all_iff)

lemma delete_service_type_ok:
  assumes "catalog_ok db" "delete_service_type tid cascade db = Inr db'"
  shows "catalog_ok db'"
proof -
  from assms(2) obtain db1 where db1: "db1 = (if cascade
      then db\<lparr>services := filter (\<lambda>(_, sv). sv_type_id sv \<noteq> tid) (services db)\<rparr> else db)"
    and unused: "\<not> list_ex (\<lambda>(_, sv). sv_type_id sv = tid) (services db1)"
    and db': "db' = db1\<lparr>service_types := dpop tid (service_types db1)\<rparr>"
    by (auto simp: delete_service_type_def split: if_splits)
  have ok: "catalog_ok db1"
    using assms(1) catalog_ok_filter_services by (simp add: db1)
  have "list_all (\<lambda>(_, sv). has_key (endpoints db1) (sv_endpoint_id sv) \<and>
      has_key (dpop tid (service_types db1)) (sv_type_id sv)) (services db1)"
    using ok unused by (auto simp: catalog_ok_def references_ok_def list_all_iff list_ex_iff)
  with ok show ?thesis
    by (simp add: db' catalog_ok_def references_ok_def types_ok_dpop roles_ok_dpop)
qed

lemma create_service_ok:
  assumes "catalog_ok db" "create_service rx new_id eid tid data db = Inr (r, db')"
  shows "catalog_ok db'"
proof -
  from assms(2) obtain st where st: "map_of (service_types db) tid = Some st"
    "\<not> has_key (services db) new_id" "has_key (endpoints db) eid"
    and db': "db' = db\<lparr>services := services db @
               [(new_id, \<lparr>sv_endpoint_id = eid, sv_type_id = tid, sv_data = data\<rparr>)]\<rparr>"
    by (auto simp: create_service_def)
  have "has_key (service_types db) tid" using st(1) by (simp add: has_key_def)
  then show ?thesis
    using assms(1) st(2,3) unfolding catalog_ok_def references_ok_def
    by (simp add: db' has_key_iff[symmetric] del: map_append) (simp add: wf_dict_append_new del: map_append)
qed

lemma update_service_Inr:
  "update_service rx sid data db = Inr (r, db') \<longleftrightarrow>
     (case map_of (services db) sid of
        None \<Rightarrow> r = None \<and> db' = db
      | Some sv \<Rightarrow> \<exists>st. map_of (service_types db) (sv_type_id sv) = Some st \<and>
          validate_instance_data rx (patch_data (sv_data sv) data) (ty_fields st) = Inr () \<and>
          db' = db\<lparr>services := sql_update sid (\<lambda>_. sv\<lparr>sv_data := patch_data (sv_data sv) data\<rparr>) (services db)\<rparr> \<and>
          r = get_service sid db')"
  by (auto simp: update_service_def Let_def simp del: check_all_ok split: option.splits)

lemma update_service_ok:
  assumes ok: "catalog_ok db" and u: "update_service rx sid data db = Inr (r, db')"
  shows "catalog_ok db'"
proof (cases "map_of (services db) sid")
  case None
  with u ok show ?thesis by (simp add: update_service_Inr)
next
  case (Some sv)
  with u obtain d where db': "db' = db\<lparr>services := sql_update sid (\<lambda>_. sv\<lparr>sv_data := d\<rparr>) (services db)\<rparr>"
    by (auto simp: update_service_Inr)
  let ?R = "\<lambda>sv. has_key (endpoints db) (sv_endpoint_id sv) \<and> has_key (service_types db) (sv_type_id sv)"
  have "?R (sv\<lparr>sv_data := d\<rparr>)"
    using ok map_of_mem[OF Some] by (auto simp: catalog_ok_def references_ok_def list_all_iff)
  then have "list_all (\<lambda>(_, sv). ?R sv) (sql_update sid (\<lambda>_. sv\<lparr>sv_data := d\<rparr>) (services db))"
    using ok Some unfolding catalog_ok_def references_ok_def
    by (intro list_all_sql_update_at) auto
  with ok show ?thesis
    by (simp add: db' catalog_ok_def references_ok_def)
qed

lemma delete_service_ok: "catalog_ok db \<Longrightarrow> catalog_ok (delete_service sid db)"
  by (simp add: delete_service_def catalog_ok_def references_ok_def list_all_dpop)

end
