(* ===== verification/Device_Repo.thy ===== *)
theory Device_Repo
  imports Service_Repo
begin

text \<open>
  Device types and devices (\<open>db/sqlalchemy/device_type.py\<close>, \<open>db/sqlalchemy/device.py\<close>).  The fields
  of the type \<open>default\<close> apply to every device type: a device is read and checked against the
  default fields overlaid with its type's own.  \<open>as_text\<close> is PostgreSQL's \<open>->>\<close> on a value that
  is neither null nor a string, \<open>le\<close> its collation; both are parameters.
\<close>

section \<open>Device types\<close>

definition default_type_id :: string where
  "default_type_id = ''default''"

definition default_type_fields :: "catalog \<Rightarrow> field_def dict" where
  "default_type_fields db =
     (case map_of (device_types db) default_type_id of Some dt \<Rightarrow> ty_fields dt | None \<Rightarrow> [])"

text \<open>A device type is served with the fields it inherits.\<close>

definition serialize_with_mirroring :: "catalog \<Rightarrow> string \<Rightarrow> type_row \<Rightarrow> type_row" where
  "serialize_with_mirroring db type_id dt =
     (if type_id = default_type_id then dt
      else dt\<lparr>ty_fields := merge_type_fields (default_type_fields db) (ty_fields dt)\<rparr>)"

definition get_device_types :: "catalog \<Rightarrow> type_row dict" where
  "get_device_types db = map (\<lambda>(k, dt). (k, serialize_with_mirroring db k dt)) (device_types db)"

definition get_device_type :: "string \<Rightarrow> catalog \<Rightarrow> type_row option" where
  "get_device_type type_id db =
     map_option (serialize_with_mirroring db type_id) (map_of (device_types db) type_id)"

definition create_device_type ::
  "string \<Rightarrow> string \<Rightarrow> string option \<Rightarrow> field_def dict \<Rightarrow> catalog \<Rightarrow> (type_row \<times> catalog) res" where
  "create_device_type new_id label description type_fields db =
     bindR (raise_if_label_taken ''DeviceType'' label None (device_types db)) (\<lambda>_.
     let dt = \<lparr>ty_label = label, ty_description = description, ty_fields = type_fields\<rparr> in
     bindR (on_integrity_error (label_exists ''DeviceType'' (JStr label))
              (insert_type new_id dt (device_types db))) (\<lambda>types.
     let db' = db\<lparr>device_types := types\<rparr> in
     Inr (serialize_with_mirroring db' new_id dt, db')))"

definition update_device_type ::
  "string \<Rightarrow> string option \<Rightarrow> string option \<Rightarrow> field_def option dict option \<Rightarrow> catalog \<Rightarrow>
     (type_row \<times> catalog) res" where
  "update_device_type type_id label description field_patches db =
     bindR (get_type_or_raise ''DeviceType'' type_id (device_types db)) (\<lambda>dt.
     bindR (case label of None \<Rightarrow> Inr ()
            | Some l \<Rightarrow> raise_if_label_taken ''DeviceType'' l (Some type_id) (device_types db)) (\<lambda>_.
     let row = dt\<lparr>ty_label := sent label (ty_label dt),
                  ty_description := (case description of None \<Rightarrow> ty_description dt | Some d \<Rightarrow> Some d),
                  ty_fields := (case field_patches of None \<Rightarrow> ty_fields dt
                                | Some p \<Rightarrow> patch_fields (ty_fields dt) p)\<rparr> in
     bindR (on_integrity_error (label_exists ''DeviceType'' (jopt JStr label))
              (update_type type_id (\<lambda>_. row) (device_types db))) (\<lambda>types.
     let db' = db\<lparr>device_types := types\<rparr> in
     Inr (serialize_with_mirroring db' type_id row, db'))))"

definition delete_device_type :: "string \<Rightarrow> catalog \<Rightarrow> catalog res" where
  "delete_device_type type_id db =
     bindR (ensure (type_id \<noteq> default_type_id)
              (api_error ''The default device type cannot be deleted'' [] 400)) (\<lambda>_.
     bindR (get_type_or_raise ''DeviceType'' type_id (device_types db)) (\<lambda>_.
     bindR (ensure (\<not> list_ex (\<lambda>(_, dv). dv_type_id dv = type_id) (devices db)) IntegrityError) (\<lambda>_.
     Inr (db\<lparr>device_types := dpop type_id (device_types db)\<rparr>))))"

section \<open>Devices\<close>

definition effective_fields_for :: "catalog \<Rightarrow> string \<Rightarrow> type_row \<Rightarrow> field_def dict" where
  "effective_fields_for db type_id device_type =
     (if type_id = default_type_id then ty_fields device_type
      else merge_type_fields (default_type_fields db) (ty_fields device_type))"

record device_view =
  dw_device_id :: string
  dw_type_id :: string
  dw_metadata :: "resolved_field dict"

definition get_device_metadata :: "string \<Rightarrow> catalog \<Rightarrow> device_view option res" where
  "get_device_metadata device_id db =
     (case map_of (devices db) device_id of
        None \<Rightarrow> Inr None
      | Some dv \<Rightarrow>
          bindR (get_type_or_raise ''DeviceType'' (dv_type_id dv) (device_types db)) (\<lambda>dt.
          Inr (Some \<lparr>dw_device_id = device_id, dw_type_id = dv_type_id dv,
                     dw_metadata = resolve_fields (dv_data dv)
                       (effective_fields_for db (dv_type_id dv) dt)\<rparr>)))"

text \<open>The list view looks the type up in a dict of all types, with no fields when it is absent.\<close>

definition fields_by_type :: "catalog \<Rightarrow> field_def dict dict" where
  "fields_by_type db = map (\<lambda>(k, dt). (k, effective_fields_for db k dt)) (device_types db)"

definition get_devices_metadata :: "catalog \<Rightarrow> device_view list" where
  "get_devices_metadata db =
     map (\<lambda>(k, dv).
       \<lparr>dw_device_id = k, dw_type_id = dv_type_id dv,
        dw_metadata = resolve_fields (dv_data dv)
          (case map_of (fields_by_type db) (dv_type_id dv) of None \<Rightarrow> [] | Some fs \<Rightarrow> fs)\<rparr>) (devices db)"

definition update_device_metadata ::
  "regex_engine \<Rightarrow> string \<Rightarrow> json \<Rightarrow> catalog \<Rightarrow> (device_view option \<times> catalog) res" where
  "update_device_metadata rx device_id metadata db =
     (case metadata of
        JObj patch \<Rightarrow>
          (case map_of (devices db) device_id of
             None \<Rightarrow> Inr (None, db)
           | Some dv \<Rightarrow>
               bindR (get_type_or_raise ''DeviceType'' (dv_type_id dv) (device_types db)) (\<lambda>dt.
               let merged_data = patch_data (dv_data dv) patch in
               bindR (validate_instance_data rx merged_data
                        (effective_fields_for db (dv_type_id dv) dt)) (\<lambda>_.
               let db' = db\<lparr>devices := sql_update device_id (\<lambda>_. dv\<lparr>dv_data := merged_data\<rparr>) (devices db)\<rparr> in
               bindR (get_device_metadata device_id db') (\<lambda>view.
               Inr (view, db')))))
      | _ \<Rightarrow> Inl (ValueError (Msg ''deviceMetadata must be a dictionary'' [])))"

definition device_exists :: "string \<Rightarrow> catalog \<Rightarrow> bool" where
  "device_exists device_id db = has_key (devices db) device_id"

definition create_device_row ::
  "regex_engine \<Rightarrow> string \<Rightarrow> json dict \<Rightarrow> string \<Rightarrow> catalog \<Rightarrow> (device_row \<times> catalog) res" where
  "create_device_row rx device_id metadata type_id db =
     bindR (get_type_or_raise ''DeviceType'' type_id (device_types db)) (\<lambda>dt.
     bindR (validate_instance_data rx metadata (effective_fields_for db type_id dt)) (\<lambda>_.
     bindR (ensure (\<not> has_key (devices db) device_id) IntegrityError) (\<lambda>_.
     let dv = \<lparr>dv_type_id = type_id, dv_data = metadata\<rparr> in
     Inr (dv, db\<lparr>devices := devices db @ [(device_id, dv)]\<rparr>))))"

definition delete_device_row :: "string \<Rightarrow> catalog \<Rightarrow> catalog" where
  "delete_device_row device_id db = delete_device_cascade device_id db"

definition get_device_meta_raw :: "string \<Rightarrow> catalog \<Rightarrow> json dict option" where
  "get_device_meta_raw device_id db = map_option dv_data (map_of (devices db) device_id)"

subsection \<open>Filters\<close>

definition astext :: "(json \<Rightarrow> string) \<Rightarrow> json \<Rightarrow> string option" where
  "astext as_text v = (case v of JNull \<Rightarrow> None | JStr s \<Rightarrow> Some s | _ \<Rightarrow> Some (as_text v))"

text \<open>\<open>btrim(s)\<close> strips spaces, and only spaces, from both ends.\<close>

definition btrim :: "string \<Rightarrow> string" where
  "btrim s = rev (dropWhile (\<lambda>c. c = CHR '' '') (rev (dropWhile (\<lambda>c. c = CHR '' '') s)))"

definition matches_metadata_filter ::
  "(json \<Rightarrow> string) \<Rightarrow> json dict \<Rightarrow> string \<times> string option \<Rightarrow> bool" where
  "matches_metadata_filter as_text data = (\<lambda>(key, expected_value).
     let meta_text = astext as_text (pget data key) in
     case expected_value of
       None \<Rightarrow> has_key data key \<and> btrim (case meta_text of None \<Rightarrow> [] | Some t \<Rightarrow> t) \<noteq> []
     | Some v \<Rightarrow> meta_text = Some v)"

definition get_device_ids_by_metadata_filters ::
  "(json \<Rightarrow> string) \<Rightarrow> (string \<times> string option) list \<Rightarrow> catalog \<Rightarrow> string list" where
  "get_device_ids_by_metadata_filters as_text metadata_filters db =
     (if metadata_filters = [] then []
      else map fst (filter (\<lambda>(_, dv). list_all (matches_metadata_filter as_text (dv_data dv)) metadata_filters)
                      (devices db)))"

definition devices_with_data_condition ::
  "catalog \<Rightarrow> string list \<Rightarrow> string list \<Rightarrow> string \<times> device_row \<Rightarrow> bool" where
  "devices_with_data_condition db device_fields endpoint_fields = (\<lambda>(device_id, dv).
     list_ex (\<lambda>key. pget (dv_data dv) key \<noteq> JNull) device_fields \<or>
     endpoint_fields \<noteq> [] \<and>
     list_ex (\<lambda>(_, ep). ep_device_id ep = device_id \<and>
                        list_ex (\<lambda>key. pget (ep_data ep) key \<noteq> JNull) endpoint_fields) (endpoints db))"

definition count_devices_with_data :: "string list \<Rightarrow> string list \<Rightarrow> catalog \<Rightarrow> nat" where
  "count_devices_with_data device_fields endpoint_fields db =
     length (filter (devices_with_data_condition db device_fields endpoint_fields) (devices db))"

text \<open>\<open>ORDER BY\<close> as a stable insertion by the order \<open>before\<close> of the rows.\<close>

fun insert_by :: "('a \<Rightarrow> 'a \<Rightarrow> bool) \<Rightarrow> 'a \<Rightarrow> 'a list \<Rightarrow> 'a list" where
  "insert_by before x [] = [x]"
| "insert_by before x (y # ys) = (if before x y then x # y # ys else y # insert_by before x ys)"

definition order_rows :: "('a \<Rightarrow> 'a \<Rightarrow> bool) \<Rightarrow> 'a list \<Rightarrow> 'a list" where
  "order_rows before rows = foldr (insert_by before) rows []"

definition page_of :: "nat option \<Rightarrow> nat \<Rightarrow> 'a list \<Rightarrow> 'a list" where
  "page_of limit offset rows =
     (case limit of None \<Rightarrow> drop offset rows | Some n \<Rightarrow> take n (drop offset rows))"

text \<open>\<open>before\<close> compares two rows the way the requested \<open>order_by\<close> and direction say.\<close>

definition get_rows_with_data ::
  "(string \<times> device_row \<Rightarrow> string \<times> device_row \<Rightarrow> bool) \<Rightarrow> string list \<Rightarrow> string list \<Rightarrow>
     nat option \<Rightarrow> nat \<Rightarrow> catalog \<Rightarrow> device_row dict" where
  "get_rows_with_data before device_fields endpoint_fields limit offset db =
     page_of limit offset
       (order_rows before (filter (devices_with_data_condition db device_fields endpoint_fields) (devices db)))"

definition get_endpoints_with_fields ::
  "string list \<Rightarrow> string list \<Rightarrow> catalog \<Rightarrow> (string \<times> endpoint_row) list dict" where
  "get_endpoints_with_fields device_ids endpoint_fields db =
     (if device_ids = [] \<or> endpoint_fields = [] then []
      else fold (\<lambda>(k, ep) grouped.
             dset (ep_device_id ep)
               ((case map_of grouped (ep_device_id ep) of None \<Rightarrow> [] | Some l \<Rightarrow> l) @ [(k, ep)]) grouped)
           (filter (\<lambda>(_, ep). ep_device_id ep \<in> set device_ids \<and>
                              list_ex (\<lambda>key. pget (ep_data ep) key \<noteq> JNull) endpoint_fields) (endpoints db)) [])"

section \<open>Every operation keeps the schema's constraints\<close>

lemma catalog_ok_device_types:
  assumes "catalog_ok db" "types_ok types" "\<And>k. has_key (device_types db) k \<Longrightarrow> has_key types k"
  shows "catalog_ok (db\<lparr>device_types := types\<rparr>)"
  using assms by (auto simp: catalog_ok_def references_ok_def list_all_iff)

lemma create_device_type_ok:
  assumes "catalog_ok db" "create_device_type new_id l d fs db = Inr (r, db')"
  shows "catalog_ok db'"
proof -
  from assms(2) obtain dt types where t: "insert_type new_id dt (device_types db) = Inr types"
    and db': "db' = db\<lparr>device_types := types\<rparr>"
    by (auto simp: create_device_type_def Let_def)
  have "types_ok types"
    using assms(1) t by (intro types_ok_insert[OF _ t]) (simp add: catalog_ok_def)
  with assms(1) show ?thesis
    unfolding db' using t by (intro catalog_ok_device_types) (auto simp: insert_type_Inr)
qed

lemma update_device_type_ok:
  assumes "catalog_ok db" "update_device_type tid l d fs db = Inr (r, db')"
  shows "catalog_ok db'"
proof -
  from assms(2) obtain row types where t: "update_type tid (\<lambda>_. row) (device_types db) = Inr types"
    and db': "db' = db\<lparr>device_types := types\<rparr>"
    by (auto simp: update_device_type_def Let_def)
  have "types_ok types"
    using assms(1) t by (intro types_ok_update[OF _ t]) (simp add: catalog_ok_def)
  with assms(1) show ?thesis
    unfolding db' using t by (intro catalog_ok_device_types) (auto simp: update_type_Inr)
qed

lemma delete_device_type_ok:
  assumes "catalog_ok db" "delete_device_type tid db = Inr db'"
  shows "catalog_ok db'"
proof -
  from assms(2) have unused: "\<not> list_ex (\<lambda>(_, dv). dv_type_id dv = tid) (devices db)"
    and db': "db' = db\<lparr>device_types := dpop tid (device_types db)\<rparr>"
    by (auto simp: delete_device_type_def)
  have "list_all (\<lambda>(_, dv). has_key (dpop tid (device_types db)) (dv_type_id dv)) (devices db)"
    using assms(1) unused by (auto simp: catalog_ok_def references_ok_def list_all_iff list_ex_iff)
  with assms(1) show ?thesis
    by (simp add: db' catalog_ok_def references_ok_def types_ok_dpop)
qed

lemma create_device_row_ok:
  assumes "catalog_ok db" "create_device_row rx did meta tid db = Inr (r, db')"
  shows "catalog_ok db'"
proof -
  from assms(2) obtain dt where dt: "map_of (device_types db) tid = Some dt" "\<not> has_key (devices db) did"
    and db': "db' = db\<lparr>devices := devices db @ [(did, \<lparr>dv_type_id = tid, dv_data = meta\<rparr>)]\<rparr>"
    by (auto simp: create_device_row_def Let_def)
  have "has_key (device_types db) tid" using dt(1) by (simp add: has_key_def)
  then have "references_ok db'"
    using assms(1) by (auto simp: db' catalog_ok_def references_ok_def list_all_iff)
  with assms(1) dt(2) show ?thesis
    unfolding catalog_ok_def by (simp add: db' wf_dict_append_new del: map_append)
qed

lemma update_device_metadata_Inr:
  "update_device_metadata rx did metadata db = Inr (r, db') \<Longrightarrow>
     r = None \<and> db' = db \<and> map_of (devices db) did = None \<or>
     (\<exists>patch dv dt. metadata = JObj patch \<and> map_of (devices db) did = Some dv \<and>
        map_of (device_types db) (dv_type_id dv) = Some dt \<and>
        validate_instance_data rx (patch_data (dv_data dv) patch)
          (effective_fields_for db (dv_type_id dv) dt) = Inr () \<and>
        db' = db\<lparr>devices := sql_update did (\<lambda>_. dv\<lparr>dv_data := patch_data (dv_data dv) patch\<rparr>) (devices db)\<rparr> \<and>
        get_device_metadata did db' = Inr r)"
  by (auto simp: update_device_metadata_def Let_def simp del: check_all_ok split: json.splits option.splits)

lemma update_device_metadata_ok:
  assumes ok: "catalog_ok db" and u: "update_device_metadata rx did metadata db = Inr (r, db')"
  shows "catalog_ok db'"
proof -
  from update_device_metadata_Inr[OF u] consider "db' = db"
    | dv d where "map_of (devices db) did = Some dv"
      "db' = db\<lparr>devices := sql_update did (\<lambda>_. dv\<lparr>dv_data := d\<rparr>) (devices db)\<rparr>"
    by blast
  then show ?thesis
  proof cases
    case 1
    with ok show ?thesis by simp
  next
    case (2 dv d)
    have "has_key (device_types db) (dv_type_id dv)"
      using ok map_of_mem[OF 2(1)] by (auto simp: catalog_ok_def references_ok_def list_all_iff)
    then have "list_all (\<lambda>(_, dv). has_key (device_types db) (dv_type_id dv))
        (sql_update did (\<lambda>_. dv\<lparr>dv_data := d\<rparr>) (devices db))"
      using ok 2(1) unfolding catalog_ok_def references_ok_def by (intro list_all_sql_update_at) auto
    with ok show ?thesis by (simp add: 2(2) catalog_ok_def references_ok_def)
  qed
qed

lemma delete_device_row_ok: "catalog_ok db \<Longrightarrow> catalog_ok (delete_device_row did db)"
  unfolding delete_device_row_def by (rule catalog_ok_delete_device)

end
