(* ===== verification/Catalog.thy ===== *)
theory Catalog
  imports Device_Repo
begin

text \<open>
  The repositories as one transition system: a step is one committed call, a call that raises
  rolls back and is no step.  The schema's constraints hold in every reachable store, and the
  step relation is inverted once for the properties of single operations.
\<close>

section \<open>Committed calls\<close>

datatype catalog_op =
    CreateDeviceType string string "string option" "field_def dict"
  | UpdateDeviceType string "string option" "string option" "field_def option dict option"
  | DeleteDeviceType string
  | CreateDevice string "json dict" string
  | UpdateDeviceMetadata string json
  | DeleteDevice string
  | CreateEndpointType string string "string option" "field_def dict" "role_mapping option"
  | UpdateEndpointType string "string option" "string option" "field_def option dict option"
      "role_mapping option"
  | DeleteEndpointType string bool
  | CreateEndpoint string string string "json dict"
  | UpdateEndpoint string "json dict option" "string option"
  | DeleteEndpoint string
  | CreateServiceType string string "string option" "field_def dict" "string option" "role_mapping option"
  | UpdateServiceType string "string option" "string option" "field_def option dict option"
      "string option option" "role_mapping option"
  | DeleteServiceType string bool
  | CreateService string string string "json dict"
  | UpdateService string "json dict"
  | DeleteService string

fun run_op :: "regex_engine \<Rightarrow> catalog_op \<Rightarrow> catalog \<Rightarrow> catalog res" where
  "run_op rx (CreateDeviceType k l d fs) db = map_sum id snd (create_device_type k l d fs db)"
| "run_op rx (UpdateDeviceType k l d fs) db = map_sum id snd (update_device_type k l d fs db)"
| "run_op rx (DeleteDeviceType k) db = delete_device_type k db"
| "run_op rx (CreateDevice k m t) db = map_sum id snd (create_device_row rx k m t db)"
| "run_op rx (UpdateDeviceMetadata k m) db = map_sum id snd (update_device_metadata rx k m db)"
| "run_op rx (DeleteDevice k) db = Inr (delete_device_row k db)"
| "run_op rx (CreateEndpointType k l d fs m) db = map_sum id snd (create_endpoint_type k l d fs m db)"
| "run_op rx (UpdateEndpointType k l d fs m) db = map_sum id snd (update_endpoint_type k l d fs m db)"
| "run_op rx (DeleteEndpointType k c) db = delete_endpoint_type k c db"
| "run_op rx (CreateEndpoint k dev t e) db = map_sum id snd (create_endpoint rx k dev t e db)"
| "run_op rx (UpdateEndpoint k e t) db = map_sum id snd (update_endpoint rx k e t db)"
| "run_op rx (DeleteEndpoint k) db = Inr (delete_endpoint k db)"
| "run_op rx (CreateServiceType k l d fs b m) db = map_sum id snd (create_service_type k l d fs b m db)"
| "run_op rx (UpdateServiceType k l d fs b m) db = map_sum id snd (update_service_type k l d fs b m db)"
| "run_op rx (DeleteServiceType k c) db = delete_service_type k c db"
| "run_op rx (CreateService k ep t s) db = map_sum id snd (create_service rx k ep t s db)"
| "run_op rx (UpdateService k s) db = map_sum id snd (update_service rx k s db)"
| "run_op rx (DeleteService k) db = Inr (delete_service k db)"

text \<open>The store after the migrations: one device type, \<open>default\<close>.\<close>

definition initial_catalog :: "type_row \<Rightarrow> catalog" where
  "initial_catalog default_type =
     \<lparr>device_types = [(default_type_id, default_type)], devices = [], endpoint_types = [],
      endpoints = [], service_types = [], services = []\<rparr>"

inductive catalog_reachable :: "regex_engine \<Rightarrow> catalog \<Rightarrow> bool" for rx where
  initial: "catalog_reachable rx (initial_catalog dt)"
| step: "catalog_reachable rx db \<Longrightarrow> run_op rx op db = Inr db' \<Longrightarrow> catalog_reachable rx db'"

section \<open>The constraints are an invariant\<close>

lemma catalog_ok_initial: "catalog_ok (initial_catalog dt)"
  by (simp add: catalog_ok_def initial_catalog_def types_ok_def roles_ok_def references_ok_def labels_def)

lemmas operation_ok =
  create_device_type_ok update_device_type_ok delete_device_type_ok
  create_device_row_ok update_device_metadata_ok delete_device_row_ok
  create_endpoint_type_ok update_endpoint_type_ok delete_endpoint_type_ok
  create_endpoint_ok update_endpoint_ok delete_endpoint_ok
  create_service_type_ok update_service_type_ok delete_service_type_ok
  create_service_ok update_service_ok delete_service_ok

lemma run_op_ok: "catalog_ok db \<Longrightarrow> run_op rx op db = Inr db' \<Longrightarrow> catalog_ok db'"
  by (cases op) (auto intro: operation_ok)

lemma reachable_ok: "catalog_reachable rx db \<Longrightarrow> catalog_ok db"
  by (induction rule: catalog_reachable.induct) (auto intro: catalog_ok_initial run_op_ok)

text \<open>The type \<open>default\<close> is never removed.\<close>

lemma run_op_keeps_default:
  assumes "has_key (device_types db) default_type_id" "run_op rx op db = Inr db'"
  shows "has_key (device_types db') default_type_id"
proof (cases op)
  case (UpdateDeviceMetadata k m)
  with assms update_device_metadata_Inr[of rx k m db] show ?thesis by fastforce
next
  case (UpdateEndpoint k e t)
  with assms show ?thesis by (auto simp: update_endpoint_Inr split: option.splits)
next
  case (UpdateService k s)
  with assms show ?thesis by (auto simp: update_service_Inr split: option.splits)
qed (use assms in \<open>auto simp: create_device_type_def update_device_type_def delete_device_type_def
      create_device_row_def delete_device_row_def delete_device_cascade_def create_endpoint_type_def
      update_endpoint_type_def delete_endpoint_type_def create_endpoint_def delete_endpoint_def
      create_service_type_def update_service_type_def delete_service_type_def create_service_def
      delete_service_def Let_def insert_type_Inr update_type_Inr split: if_splits prod.splits\<close>)

text \<open>
  C2: In every store reachable by committed repository calls the schema is intact: primary keys
  and type labels are unique, every endpoint belongs to an existing device and every service to an
  existing endpoint, every instance has an existing type, every role of a type mapping is known,
  used once, and points at a field of the data type the role needs; and the type
  \<open>default\<close>, which every device type inherits from, still exists.
\<close>

theorem catalog_invariant:
  assumes "catalog_reachable rx db"
  shows "catalog_ok db \<and> has_key (device_types db) default_type_id"
  using assms
proof (induction rule: catalog_reachable.induct)
  case (initial dt)
  show ?case by (simp add: catalog_ok_initial) (simp add: initial_catalog_def)
next
  case (step db op db')
  then show ?case using run_op_ok run_op_keeps_default by blast
qed

text \<open>An endpoint type with an \<open>ip\<close> field and a service type with a port, and one of each.\<close>

definition ip_field :: field_def where
  "ip_field = [(''type'', JStr ''string''), (''label'', JStr ''IP''), (''required'', JBool True),
               (''changeable'', JBool False)]"

definition port_field :: field_def where
  "port_field = [(''type'', JStr ''integer''), (''label'', JStr ''Port''), (''default'', JInt 80)]"

definition sample_ops :: "catalog_op list" where
  "sample_ops =
     [CreateEndpointType ''et'' ''Camera'' None [(''address'', ip_field)] (Some [(''address'', ''ip'')]),
      CreateServiceType ''st'' ''Web'' None [(''p'', port_field)] (Some ''http'') (Some [(''p'', ''port'')]),
      CreateDevice ''d1'' [(''site'', JStr ''A'')] ''default'',
      CreateEndpoint ''e1'' ''d1'' ''et'' [(''address'', JStr ''10.0.0.1''), (''note'', JStr ''x'')],
      CreateService ''s1'' ''e1'' ''st'' []]"

definition default_type :: type_row where
  "default_type = \<lparr>ty_label = ''Default'', ty_description = None, ty_fields = []\<rparr>"

definition sample_catalog :: catalog where
  "sample_catalog =
     \<lparr>device_types = [(''default'', default_type)],
      devices = [(''d1'', \<lparr>dv_type_id = ''default'', dv_data = [(''site'', JStr ''A'')]\<rparr>)],
      endpoint_types = [(''et'', \<lparr>ty_label = ''Camera'', ty_description = None,
         ty_fields = [(''address'', ip_field)], ty_mapping = [(''address'', ''ip'')]\<rparr>)],
      endpoints = [(''e1'', \<lparr>ep_device_id = ''d1'', ep_type_id = ''et'',
         ep_data = [(''address'', JStr ''10.0.0.1''), (''note'', JStr ''x'')]\<rparr>)],
      service_types = [(''st'', \<lparr>ty_label = ''Web'', ty_description = None,
         ty_fields = [(''p'', port_field)], ty_mapping = [(''p'', ''port'')],
         ty_browser_kind = Some ''http''\<rparr>)],
      services = [(''s1'', \<lparr>sv_endpoint_id = ''e1'', sv_type_id = ''st'', sv_data = []\<rparr>)]\<rparr>"

lemma sample_ops_run:
  "foldR (\<lambda>db op. run_op no_regex op db) (initial_catalog default_type) sample_ops = Inr sample_catalog"
  by code_simp

lemma foldR_reachable:
  "catalog_reachable rx db \<Longrightarrow> foldR (\<lambda>db op. run_op rx op db) db ops = Inr db' \<Longrightarrow>
     catalog_reachable rx db'"
  by (induction ops arbitrary: db) (auto intro: catalog_reachable.step)

lemma sample_reachable: "catalog_reachable no_regex sample_catalog"
  by (rule foldR_reachable[OF catalog_reachable.initial sample_ops_run])

theorem catalog_invariant_witness:
  "catalog_ok sample_catalog \<and> has_key (device_types sample_catalog) default_type_id"
  by (rule catalog_invariant[OF sample_reachable])

end
