(* ===== verification/Catalog_Properties.thy ===== *)
theory Catalog_Properties
  imports Catalog
begin

text \<open>
  Properties of single repository operations on a store that satisfies the schema: what an update
  of an endpoint or a device stores, what deletions take with them, and that the list view of the
  devices agrees with the single view.
\<close>

section \<open>Lookups\<close>

lemma map_of_filter_wf:
  "wf_dict d \<Longrightarrow> map_of (filter (\<lambda>(k, v). P k v) d) k =
     (case map_of d k of None \<Rightarrow> None | Some v \<Rightarrow> if P k v then Some v else None)"
  by (induction d) (auto simp: map_of_eq_None_iff split: option.splits dest: map_of_SomeD)

text \<open>An instance that passed validation, read field by field.\<close>

definition field_ok :: "regex_engine \<Rightarrow> json dict \<Rightarrow> string \<Rightarrow> field_def \<Rightarrow> bool" where
  "field_ok rx data k fd =
     (if pget data k = JNull then \<not> truthy (pget fd ''required'')
      else is_ok (validate_value rx k (pget data k) fd))"

definition fits_type :: "regex_engine \<Rightarrow> json dict \<Rightarrow> field_def dict \<Rightarrow> bool" where
  "fits_type rx data tfs = list_all (\<lambda>(k, fd). field_ok rx data k fd) tfs"

lemma fits_type_iff: "validate_instance_data rx data tfs = Inr () \<longleftrightarrow> fits_type rx data tfs"
  unfolding validate_instance_data_ok fits_type_def list_all_iff field_ok_def ..

lemma fits_type_lookup: "fits_type rx data tfs \<Longrightarrow> map_of tfs k = Some fd \<Longrightarrow> field_ok rx data k fd"
  by (auto simp: fits_type_def list_all_iff dest!: map_of_mem)

section \<open>Updating an endpoint\<close>

text \<open>
  C3: A successful update of an existing endpoint stores exactly the patched data (sent values
  replace, nulls remove, the rest stays), every value fits the endpoint's type afterwards with no
  required field missing, a set field that is not changeable keeps its value when the type is
  kept, and no other endpoint or service changes.
\<close>

theorem update_endpoint_stores:
  assumes "update_endpoint rx eid data new_type db = Inr (r, db')"
    and "map_of (endpoints db) eid = Some ep" and "wf_dict (sent data [])"
  shows "\<exists>ep' et. map_of (endpoints db') eid = Some ep' \<and>
    ep_type_id ep' = sent new_type (ep_type_id ep) \<and> ep_device_id ep' = ep_device_id ep \<and>
    map_of (endpoint_types db) (ep_type_id ep') = Some et \<and>
    (\<forall>k. pget (ep_data ep') k = (case map_of (sent data []) k of None \<Rightarrow> pget (ep_data ep) k | Some v \<Rightarrow> v)) \<and>
    fits_type rx (ep_data ep') (ty_fields et) \<and>
    (ep_type_id ep' = ep_type_id ep \<longrightarrow>
      (\<forall>k fd. map_of (ty_fields et) k = Some fd \<and> \<not> changeable fd \<and> pget (ep_data ep) k \<noteq> JNull \<longrightarrow>
         py_eq (pget (ep_data ep') k) (pget (ep_data ep) k))) \<and>
    (\<forall>k. k \<noteq> eid \<longrightarrow> map_of (endpoints db') k = map_of (endpoints db) k) \<and> services db' = services db"
proof -
  from assms(1,2) obtain row where row: "updated_endpoint_row rx ep (sent data []) new_type db = Inr row"
    and db': "db' = db\<lparr>endpoints := sql_update eid (\<lambda>_. row) (endpoints db)\<rparr>"
    by (auto simp: update_endpoint_Inr)
  from updated_endpoint_row_Inr[OF row] obtain et
    where et: "map_of (endpoint_types db) (ep_type_id row) = Some et"
      "ep_device_id row = ep_device_id ep" "ep_type_id row = sent new_type (ep_type_id ep)"
      "ep_data row = patch_data (ep_data ep) (sent data [])"
      "validate_instance_data rx (ep_data row) (ty_fields et) = Inr ()"
      "ep_type_id row = ep_type_id ep \<Longrightarrow>
         reject_non_changeable_updates (ep_data ep) (sent data []) (ty_fields et) = Inr ()"
    by blast
  have kept: "py_eq (pget (ep_data row) k) (pget (ep_data ep) k)"
    if "ep_type_id row = ep_type_id ep" "map_of (ty_fields et) k = Some fd" "\<not> changeable fd"
      "pget (ep_data ep) k \<noteq> JNull" for k fd
    using reject_non_changeable_keeps[OF et(6)[OF that(1)] assms(3) that(2-4)] by (simp add: et(4))
  have "map_of (endpoints db') eid = Some row" "services db' = services db"
    "\<And>k. k \<noteq> eid \<Longrightarrow> map_of (endpoints db') k = map_of (endpoints db) k"
    by (simp_all add: db' map_of_sql_update assms(2))
  with et kept show ?thesis
    using fits_type_iff[of rx "ep_data row" "ty_fields et"] pget_patch_data[OF assms(3)]
    by (intro exI[of _ row] exI[of _ et]) auto
qed

definition sample_patch :: "json dict" where
  "sample_patch = [(''note'', JNull), (''address'', JStr ''10.0.0.1''), (''rack'', JInt 4)]"

definition patched_catalog :: catalog where
  "patched_catalog = sample_catalog\<lparr>endpoints := [(''e1'', \<lparr>ep_device_id = ''d1'', ep_type_id = ''et'',
     ep_data = [(''address'', JStr ''10.0.0.1''), (''rack'', JInt 4)]\<rparr>)]\<rparr>"

lemma sample_update:
  "\<exists>r. update_endpoint no_regex ''e1'' (Some sample_patch) None sample_catalog = Inr (r, patched_catalog)"
proof -
  have "update_endpoint no_regex ''e1'' (Some sample_patch) None sample_catalog =
      Inr (get_endpoint ''e1'' patched_catalog, patched_catalog)"
    by code_simp
  then show ?thesis ..
qed

theorem update_endpoint_stores_witness:
  "\<exists>ep' et. map_of (endpoints patched_catalog) ''e1'' = Some ep' \<and>
    map_of (endpoint_types sample_catalog) (ep_type_id ep') = Some et \<and>
    pget (ep_data ep') ''rack'' = JInt 4 \<and> fits_type no_regex (ep_data ep') (ty_fields et)"
proof -
  from sample_update obtain r where
    u: "update_endpoint no_regex ''e1'' (Some sample_patch) None sample_catalog = Inr (r, patched_catalog)" ..
  have e: "map_of (endpoints sample_catalog) ''e1'' = Some (snd (hd (endpoints sample_catalog)))"
    and w: "wf_dict (sent (Some sample_patch) [])"
    by (simp_all add: sample_catalog_def sample_patch_def)
  have "map_of (sent (Some sample_patch) []) ''rack'' = Some (JInt 4)"
    by (simp add: sample_patch_def)
  with update_endpoint_stores[OF u e w] show ?thesis by (metis option.case(2))
qed

section \<open>Devices\<close>

lemma merge_type_fields_lookup:
  "wf_dict own \<Longrightarrow> map_of (merge_type_fields base own) k =
     (case map_of own k of None \<Rightarrow> map_of base k | Some fd \<Rightarrow> Some fd)"
  unfolding merge_type_fields_def by (rule map_of_dupdate)

text \<open>The definition that governs a key of a device: its type's own, else the inherited one.\<close>

definition governing_field :: "catalog \<Rightarrow> type_row \<Rightarrow> string \<Rightarrow> field_def option" where
  "governing_field db dt k =
     (case map_of (ty_fields dt) k of None \<Rightarrow> map_of (default_type_fields db) k | Some fd \<Rightarrow> Some fd)"

lemma effective_fields_lookup:
  "map_of (device_types db) t = Some dt \<Longrightarrow> wf_dict (ty_fields dt) \<Longrightarrow>
     map_of (effective_fields_for db t dt) k = governing_field db dt k"
  by (auto simp: effective_fields_for_def governing_field_def merge_type_fields_lookup
      default_type_fields_def split: option.split)

text \<open>
  C4: A device is never stored with data that violates its effective schema: after a successful
  creation or metadata update every field of its own type, and every field of the type
  \<open>default\<close> that its own type does not redefine, holds a valid value, or none if it is not required.
\<close>

theorem stored_device_fits:
  assumes run: "run_op rx op db = Inr db'"
    and op: "op = CreateDevice did meta tid \<or> op = UpdateDeviceMetadata did (JObj patch)"
    and dv: "map_of (devices db') did = Some dv"
    and wf: "\<And>t dt. map_of (device_types db) t = Some dt \<Longrightarrow> wf_dict (ty_fields dt)"
  shows "\<exists>dt. map_of (device_types db') (dv_type_id dv) = Some dt \<and>
    (\<forall>k fd. governing_field db' dt k = Some fd \<longrightarrow> field_ok rx (dv_data dv) k fd)"
proof -
  have "\<exists>dt. map_of (device_types db) (dv_type_id dv) = Some dt \<and> device_types db' = device_types db \<and>
      validate_instance_data rx (dv_data dv) (effective_fields_for db (dv_type_id dv) dt) = Inr ()"
    using op
  proof
    assume "op = CreateDevice did meta tid"
    with run dv show ?thesis
      by (auto simp: create_device_row_def Let_def map_add_def has_key_def simp del: check_all_ok)
  next
    assume op: "op = UpdateDeviceMetadata did (JObj patch)"
    with run obtain r where "update_device_metadata rx did (JObj patch) db = Inr (r, db')" by auto
    from update_device_metadata_Inr[OF this] dv show ?thesis
      by (auto simp: map_of_sql_update)
  qed
  then obtain dt where dt: "map_of (device_types db) (dv_type_id dv) = Some dt" "device_types db' = device_types db"
    and v: "fits_type rx (dv_data dv) (effective_fields_for db (dv_type_id dv) dt)"
    unfolding fits_type_iff by blast
  have same: "default_type_fields db' = default_type_fields db"
    by (simp add: default_type_fields_def dt(2))
  have "governing_field db' dt k = governing_field db dt k" for k
    unfolding governing_field_def same ..
  with v dt show ?thesis
    using fits_type_lookup[OF v] effective_fields_lookup[OF dt(1) wf[OF dt(1)]] by auto
qed

text \<open>A type \<open>pump\<close> inheriting a required site from \<open>default\<close>.\<close>

definition site_field :: field_def where
  "site_field = [(''type'', JStr ''string''), (''required'', JBool True)]"

definition site_type :: type_row where
  "site_type = \<lparr>ty_label = ''Default'', ty_description = None, ty_fields = [(''site'', site_field)]\<rparr>"

definition pump_type :: type_row where
  "pump_type = \<lparr>ty_label = ''Pump'', ty_description = None,
     ty_fields = [(''rate'', [(''type'', JStr ''integer'')])]\<rparr>"

definition pump_catalog :: catalog where
  "pump_catalog = (initial_catalog site_type)\<lparr>device_types := [(''default'', site_type), (''pump'', pump_type)]\<rparr>"

definition pump_device :: device_row where
  "pump_device = \<lparr>dv_type_id = ''pump'', dv_data = [(''site'', JStr ''A'')]\<rparr>"

theorem stored_device_fits_witness:
  "\<exists>db'. run_op no_regex (CreateDevice ''d'' [(''site'', JStr ''A'')] ''pump'') pump_catalog = Inr db' \<and>
     map_of (devices db') ''d'' = Some pump_device \<and> governing_field db' pump_type ''site'' = Some site_field \<and>
     field_ok no_regex (dv_data pump_device) ''site'' site_field"
proof -
  let ?db = "pump_catalog\<lparr>devices := [(''d'', pump_device)]\<rparr>"
  have r: "run_op no_regex (CreateDevice ''d'' [(''site'', JStr ''A'')] ''pump'') pump_catalog = Inr ?db"
    by code_simp
  have wf: "\<And>t dt. map_of (device_types pump_catalog) t = Some dt \<Longrightarrow> wf_dict (ty_fields dt)"
    by (auto simp: pump_catalog_def site_type_def pump_type_def split: if_splits)
  have p: "map_of (device_types ?db) (dv_type_id pump_device) = Some pump_type"
    by (simp add: pump_catalog_def pump_device_def)
  have g: "governing_field ?db pump_type ''site'' = Some site_field"
    by code_simp
  have d: "map_of (devices ?db) ''d'' = Some pump_device" by simp
  from stored_device_fits[OF r _ d wf] p g have "field_ok no_regex (dv_data pump_device) ''site'' site_field"
    by force
  with r d g show ?thesis by blast
qed

text \<open>
  The list of devices and the view of a single device show the same: the list holds one entry
  per device, and it is the answer \<open>get_device_metadata\<close> gives for that device.
\<close>

theorem device_list_agrees:
  assumes "catalog_reachable rx db"
  shows "map (\<lambda>v. Inr (Some v)) (get_devices_metadata db) =
    map (\<lambda>device_id. get_device_metadata device_id db) (map fst (devices db))"
proof -
  note ok = reachable_ok[OF assms]
  have lookup: "map_of (fields_by_type db) t = map_option (effective_fields_for db t) (map_of (device_types db) t)" for t
    unfolding fields_by_type_def by (rule map_of_map_snd)
  have "Inr (Some \<lparr>dw_device_id = k, dw_type_id = dv_type_id dv,
        dw_metadata = resolve_fields (dv_data dv)
          (case map_of (fields_by_type db) (dv_type_id dv) of None \<Rightarrow> [] | Some fs \<Rightarrow> fs)\<rparr>) =
      get_device_metadata k db" if "(k, dv) \<in> set (devices db)" for k dv
  proof -
    have "map_of (devices db) k = Some dv"
      using ok that by (simp add: catalog_ok_def)
    moreover have "has_key (device_types db) (dv_type_id dv)"
      using ok that by (auto simp: catalog_ok_def references_ok_def list_all_iff)
    then obtain dt where "map_of (device_types db) (dv_type_id dv) = Some dt"
      by (auto simp: has_key_def)
    ultimately show ?thesis by (simp add: get_device_metadata_def lookup get_type_or_raise_def)
  qed
  then show ?thesis by (auto simp: get_devices_metadata_def)
qed

theorem device_list_agrees_witness:
  "map (\<lambda>v. Inr (Some v)) (get_devices_metadata sample_catalog) =
     [get_device_metadata ''d1'' sample_catalog]"
  using device_list_agrees[OF sample_reachable] by (simp add: sample_catalog_def)

section \<open>Deletions\<close>

text \<open>
  Deleting a device removes exactly the device, its endpoints and their services: afterwards
  no endpoint and no service resolves to the device, and every other one resolves to the device it
  resolved to before.
\<close>

theorem delete_device_exact:
  assumes "catalog_reachable rx db"
  shows "get_device_meta_raw d' (delete_device_row d db) = (if d' = d then None else get_device_meta_raw d' db) \<and>
    get_endpoint_device_id e (delete_device_row d db) =
      (if get_endpoint_device_id e db = Some d then None else get_endpoint_device_id e db) \<and>
    get_service_device_id s (delete_device_row d db) =
      (if get_service_device_id s db = Some d then None else get_service_device_id s db)"
proof (intro conjI)
  let ?db' = "delete_device_row d db"
  note ok = reachable_ok[OF assms]
  have wf: "wf_dict (endpoints db)" "wf_dict (services db)" using ok by (simp_all add: catalog_ok_def)
  have e: "map_of (endpoints ?db') e = (case map_of (endpoints db) e of None \<Rightarrow> None
      | Some ep \<Rightarrow> if ep_device_id ep = d then None else Some ep)" for e
    using map_of_filter_wf[OF wf(1), of "\<lambda>_ ep. ep_device_id ep \<noteq> d" e]
    by (simp add: delete_device_row_def delete_device_cascade_def split: option.split)
  show "get_device_meta_raw d' ?db' = (if d' = d then None else get_device_meta_raw d' db)"
    by (simp add: get_device_meta_raw_def delete_device_row_def delete_device_cascade_def)
  show "get_endpoint_device_id e ?db' =
      (if get_endpoint_device_id e db = Some d then None else get_endpoint_device_id e db)"
    by (simp add: get_endpoint_device_id_def e split: option.split)
  have gone: "k \<in> set (map fst (filter (\<lambda>(k, ep). ep_device_id ep = d) (endpoints db))) \<longleftrightarrow>
      get_endpoint_device_id k db = Some d" for k
    using wf(1) by (force simp: get_endpoint_device_id_def image_iff)
  have sv: "map_of (services ?db') s = (case map_of (services db) s of None \<Rightarrow> None
      | Some sv \<Rightarrow> if get_endpoint_device_id (sv_endpoint_id sv) db = Some d then None else Some sv)"
    using map_of_filter_wf[OF wf(2), of "\<lambda>_ sv. get_endpoint_device_id (sv_endpoint_id sv) db \<noteq> Some d" s]
    by (simp add: delete_device_row_def delete_device_cascade_def delete_endpoints_where_def Let_def gone
        del: set_map set_filter split: option.split)
  show "get_service_device_id s ?db' =
      (if get_service_device_id s db = Some d then None else get_service_device_id s db)"
    by (auto simp: get_service_device_id_def sv e get_endpoint_device_id_def split: option.splits)
qed

theorem delete_device_exact_witness:
  "get_service_device_id ''s1'' sample_catalog = Some ''d1'' \<and>
   get_service_device_id ''s1'' (delete_device_row ''d1'' sample_catalog) = None"
proof -
  have s: "get_service_device_id ''s1'' sample_catalog = Some ''d1''" by code_simp
  then show ?thesis
    using delete_device_exact[OF sample_reachable, of _ "''d1''" _ "''s1''"] by auto
qed

lemma endpoints_unused:
  "tid \<notin> ep_type_id ` snd ` set (endpoints db) \<Longrightarrow>
     delete_endpoints_where (\<lambda>_ ep. ep_type_id ep = tid) db = db"
proof -
  assume "tid \<notin> ep_type_id ` snd ` set (endpoints db)"
  then have n: "(\<lambda>(k :: string, ep). ep_type_id ep = tid) x = False" if "x \<in> set (endpoints db)" for x
    using that by (auto simp: case_prod_unfold)
  have "filter (\<lambda>(k :: string, ep). ep_type_id ep = tid) (endpoints db) = []"
    "filter (\<lambda>(k :: string, ep). \<not> ep_type_id ep = tid) (endpoints db) = endpoints db"
    using n by (auto simp: filter_empty_conv filter_id_conv)
  then show ?thesis by (simp add: delete_endpoints_where_def)
qed

lemma delete_endpoint_type_eq:
  "delete_endpoint_type tid cascade db =
     (if \<not> has_key (endpoint_types db) tid
      then Inl (api_error ''{} {} not found'' [JStr ''EndpointType'', JStr tid] 404)
      else if \<not> cascade \<and> tid \<in> ep_type_id ` snd ` set (endpoints db)
      then Inl (api_error ''EndpointType {} is still in use by one or more endpoints'' [JStr tid] 409)
      else Inr ((delete_endpoints_where (\<lambda>_ ep. ep_type_id ep = tid) db)
                  \<lparr>endpoint_types := dpop tid (endpoint_types db)\<rparr>))"
proof -
  have u: "list_ex (\<lambda>(_, ep). ep_type_id ep = tid) (endpoints db) \<longleftrightarrow> tid \<in> ep_type_id ` snd ` set (endpoints db)"
    by (force simp: list_ex_iff)
  have "\<not> list_ex (\<lambda>(_, ep). ep_type_id ep = tid) (filter (\<lambda>(k, ep). ep_type_id ep \<noteq> tid) (endpoints db))"
    by (auto simp: list_ex_iff)
  then show ?thesis
    using endpoints_unused[of tid db]
    by (cases cascade) (auto simp: delete_endpoint_type_def get_type_or_raise_def has_key_def u
        split: option.splits)
qed

text \<open>
  Deleting an endpoint type answers 404 for an unknown type and 409 for one in use without
  \<open>cascade\<close>; otherwise it succeeds, and with the type go exactly the endpoints of that type and
  their services.
\<close>

theorem delete_endpoint_type_outcome:
  assumes "catalog_reachable rx db"
  shows "(case delete_endpoint_type tid cascade db of
      Inl e \<Rightarrow> e = (if has_key (endpoint_types db) tid
          then api_error ''EndpointType {} is still in use by one or more endpoints'' [JStr tid] 409
          else api_error ''{} {} not found'' [JStr ''EndpointType'', JStr tid] 404) \<and>
        (has_key (endpoint_types db) tid \<longrightarrow> \<not> cascade \<and> tid \<in> ep_type_id ` snd ` set (endpoints db))
    | Inr db' \<Rightarrow> has_key (endpoint_types db) tid \<and>
        (\<forall>t. has_key (endpoint_types db') t \<longleftrightarrow> t \<noteq> tid \<and> has_key (endpoint_types db) t) \<and>
        (\<forall>e ep. map_of (endpoints db') e = Some ep \<longleftrightarrow>
           map_of (endpoints db) e = Some ep \<and> ep_type_id ep \<noteq> tid) \<and>
        (\<forall>s sv. map_of (services db') s = Some sv \<longleftrightarrow> map_of (services db) s = Some sv \<and>
           map_option ep_type_id (map_of (endpoints db) (sv_endpoint_id sv)) \<noteq> Some tid))"
proof -
  have wf: "wf_dict (endpoints db)" "wf_dict (services db)"
    using reachable_ok[OF assms] by (simp_all add: catalog_ok_def)
  let ?db' = "delete_endpoints_where (\<lambda>_ ep. ep_type_id ep = tid) db"
  have e: "map_of (endpoints ?db') e = Some ep \<longleftrightarrow> map_of (endpoints db) e = Some ep \<and> ep_type_id ep \<noteq> tid"
    for e ep
    using map_of_filter_wf[OF wf(1), of "\<lambda>_ ep. ep_type_id ep \<noteq> tid" e]
    by (auto split: option.splits if_splits)
  have gone: "k \<in> set (map fst (filter (\<lambda>(k, ep). ep_type_id ep = tid) (endpoints db))) \<longleftrightarrow>
      map_option ep_type_id (map_of (endpoints db) k) = Some tid" for k
    using wf(1) by (force simp: image_iff)
  have s: "map_of (services ?db') s = Some sv \<longleftrightarrow> map_of (services db) s = Some sv \<and>
      map_option ep_type_id (map_of (endpoints db) (sv_endpoint_id sv)) \<noteq> Some tid" for s sv
    using map_of_filter_wf[OF wf(2), of "\<lambda>_ sv. map_option ep_type_id (map_of (endpoints db) (sv_endpoint_id sv)) \<noteq> Some tid" s]
    by (auto simp: delete_endpoints_where_def Let_def gone simp del: set_map set_filter split: option.splits if_splits)
  show ?thesis
    using e s by (auto simp: delete_endpoint_type_eq)
qed

theorem delete_endpoint_type_outcome_witness:
  "delete_endpoint_type ''et'' False sample_catalog =
     Inl (api_error ''EndpointType {} is still in use by one or more endpoints'' [JStr ''et''] 409) \<and>
   (\<exists>db'. delete_endpoint_type ''et'' True sample_catalog = Inr db' \<and> map_of (services db') ''s1'' = None)"
proof -
  have a: "delete_endpoint_type ''et'' False sample_catalog =
     Inl (api_error ''EndpointType {} is still in use by one or more endpoints'' [JStr ''et''] 409)"
    by code_simp
  have "is_ok (delete_endpoint_type ''et'' True sample_catalog)" by code_simp
  then obtain db' where b: "delete_endpoint_type ''et'' True sample_catalog = Inr db'"
    by (auto simp: is_ok_iff)
  have t: "map_option ep_type_id (map_of (endpoints sample_catalog) ''e1'') = Some ''et''"
    "map_of (services sample_catalog) ''s1'' = Some \<lparr>sv_endpoint_id = ''e1'', sv_type_id = ''st'', sv_data = []\<rparr>"
    by (simp_all add: sample_catalog_def)
  from delete_endpoint_type_outcome[OF sample_reachable, where tid = "''et''" and cascade = True] b
  have "\<And>sv. map_of (services db') ''s1'' = Some sv \<Longrightarrow> map_of (services sample_catalog) ''s1'' = Some sv \<and>
      map_option ep_type_id (map_of (endpoints sample_catalog) (sv_endpoint_id sv)) \<noteq> Some ''et''"
    by simp
  with t have "map_of (services db') ''s1'' = None" by (cases "map_of (services db') ''s1''") auto
  with a b show ?thesis by blast
qed

end
