(* ===== verification/Access.thy ===== *)
theory Access
  imports Iam_Properties Catalog_Properties
begin

text \<open>
  The permission checks on the program's own stores: the lookups of \<open>abac_store\<close> are the
  repositories of the users and of the devices, endpoints and services.  The properties join a
  check with the operation it guards.
\<close>

section \<open>The store\<close>

record app_state =
  app_catalog :: catalog
  app_iam :: iam

definition app_users :: "app_state \<Rightarrow> user_lookup" where
  "app_users s = user_lookup_of (app_iam s)"

definition app_device_meta :: "app_state \<Rightarrow> meta_lookup" where
  "app_device_meta s d = get_device_meta_raw d (app_catalog s)"

definition app_endpoint_device :: "app_state \<Rightarrow> string \<Rightarrow> string option" where
  "app_endpoint_device s e = get_endpoint_device_id e (app_catalog s)"

definition app_service_device :: "app_state \<Rightarrow> string \<Rightarrow> string option" where
  "app_service_device s v = get_service_device_id v (app_catalog s)"

definition app_ok :: "app_state \<Rightarrow> bool" where
  "app_ok s = (catalog_ok (app_catalog s) \<and> iam_ok (app_iam s))"

lemma endpoint_device_exists:
  assumes "catalog_ok db" "get_endpoint_device_id e db = Some d"
  shows "get_device_meta_raw d db \<noteq> None"
proof -
  from assms(2) obtain ep where "map_of (endpoints db) e = Some ep" "ep_device_id ep = d"
    by (auto simp: get_endpoint_device_id_def)
  then have "has_key (devices db) d"
    using assms(1) map_of_mem[of "endpoints db" e ep] by (auto simp: catalog_ok_def references_ok_def list_all_iff)
  then show ?thesis by (simp add: get_device_meta_raw_def has_key_def)
qed

lemma service_device_via_endpoint:
  "get_service_device_id v db = Some d \<Longrightarrow> \<exists>e. get_endpoint_device_id e db = Some d"
  by (auto simp: get_service_device_id_def get_endpoint_device_id_def split: option.splits)

interpretation app: abac_store app_ok app_users app_device_meta app_endpoint_device app_service_device
proof unfold_locales
  fix s e d
  assume "app_ok s" "app_endpoint_device s e = Some d"
  then show "app_device_meta s d \<noteq> None"
    using endpoint_device_exists by (simp add: app_ok_def app_endpoint_device_def app_device_meta_def)
next
  fix s v d
  assume "app_ok s" "app_service_device s v = Some d"
  then show "app_device_meta s d \<noteq> None"
    using endpoint_device_exists service_device_via_endpoint
    by (fastforce simp: app_ok_def app_service_device_def app_device_meta_def)
next
  fix s i u
  assume "app_users s i = Some u"
  then show "i = JStr (uv_id u)"
    by (auto simp: app_users_def user_lookup_of_def get_teams_with_roles_and_scopes_def split: json.splits)
qed

section \<open>Checks of endpoints and services\<close>

definition sample_state :: app_state where
  "sample_state = \<lparr>app_catalog = sample_catalog, app_iam = sample_iam\<rparr>"

lemma sample_state_ok: "app_ok sample_state"
  using reachable_ok[OF sample_reachable] iam_reachable_ok[OF sample_iam_reachable]
  by (simp add: app_ok_def sample_state_def)

definition service_request :: request where
  "service_request = \<lparr>rq_path_params = [(''service_id'', ''s1'')], rq_query_params = [], rq_body = None\<rparr>"

text \<open>
  A request on an endpoint or a service that passes the check is by a user who holds the
  permission on the device the endpoint belongs to (for a service: the device of its endpoint),
  and that device exists: the indirection gives no access the device itself would not.
\<close>

theorem resolved_check_guards_device:
  assumes "app_ok s" "owner \<noteq> OwnerDevice" "any_param request param = Some v" "v \<noteq> []"
    and "abac_resolved_device_check p owner param request ctx (app_users s) (app_device_meta s)
           (app_endpoint_device s) (app_service_device s) = Inr r"
  shows "\<exists>u d m. caller ctx (app_users s) u \<and> token_user_id ctx = JStr (uv_id u) \<and>
    resolve_device_id owner (app_endpoint_device s) (app_service_device s) v = Some d \<and>
    app_device_meta s d = Some m \<and> evaluate_permission p u (Some m)"
  using app.resolved_check_sound[OF assms] app.caller_id
  unfolding app.resolved_def evaluate_Some by blast

lemma service_check_passes:
  "is_ok (abac_resolved_device_check ''device.read'' OwnerService ''service_id'' service_request sample_token
     (app_users sample_state) (app_device_meta sample_state) (app_endpoint_device sample_state)
     (app_service_device sample_state))"
  by code_simp

theorem resolved_check_guards_device_witness:
  "\<exists>u d m. caller sample_token (app_users sample_state) u \<and> app_service_device sample_state ''s1'' = Some d \<and>
     app_device_meta sample_state d = Some m \<and> evaluate_permission ''device.read'' u (Some m)"
proof -
  obtain r where r: "abac_resolved_device_check ''device.read'' OwnerService ''service_id'' service_request
      sample_token (app_users sample_state) (app_device_meta sample_state) (app_endpoint_device sample_state)
      (app_service_device sample_state) = Inr r"
    using service_check_passes by (auto simp: is_ok_iff)
  have "any_param service_request ''service_id'' = Some ''s1''"
    by (simp add: any_param_def truthy_str_def service_request_def)
  from resolved_check_guards_device[OF sample_state_ok _ this _ r] show ?thesis
    by (auto simp: resolve_device_id_def)
qed

section \<open>Writes stay in scope\<close>

text \<open>The route of \<open>PATCH /{device}/metadata\<close>: the check, then \<open>patch_device_metadata\<close>.\<close>

definition patch_device_metadata ::
  "regex_engine \<Rightarrow> string \<Rightarrow> json dict \<Rightarrow> catalog \<Rightarrow> (device_view \<times> catalog) res" where
  "patch_device_metadata rx device metadata db =
     bindR (update_device_metadata rx device (JObj metadata) db) (\<lambda>(result, db').
     case result of
       None \<Rightarrow> Inl (Api IoTBackendAPIError (Msg ''Could not find device {} from database to update''
                      [JStr device]) 404)
     | Some view \<Rightarrow> Inr (view, db'))"

definition patch_device_metadata_route ::
  "regex_engine \<Rightarrow> string \<Rightarrow> json dict \<Rightarrow> json dict \<Rightarrow> app_state \<Rightarrow> (device_view \<times> app_state) res" where
  "patch_device_metadata_route rx device body ctx s =
     bindR (abac_metadata_patch_check ''device.metadata.write'' ''device''
              \<lparr>rq_path_params = [(''device'', device)], rq_query_params = [], rq_body = Some (JObj body)\<rparr>
              ctx (app_users s) (app_device_meta s)) (\<lambda>_.
     bindR (patch_device_metadata rx device body (app_catalog s)) (\<lambda>(view, db').
     Inr (view, s\<lparr>app_catalog := db'\<rparr>)))"

lemma metadata_patch_check_ok:
  "is_ok (abac_metadata_patch_check p ''device''
      \<lparr>rq_path_params = [(''device'', d)], rq_query_params = [], rq_body = Some (JObj body)\<rparr> ctx users metas) \<longleftrightarrow>
    (\<exists>u. caller ctx users u \<and>
       (holds_everywhere p u \<or> (\<exists>m. metas d = Some m \<and> holds_on p u m \<and> holds_on p u (patch_data m body))))"
  unfolding abac_metadata_patch_check_def
  by (simp add: json_object_body_def authorize_device)

text \<open>
  C9: A caller cannot move a device out of their own scope by editing its metadata: after a
  successful metadata patch the caller still holds \<open>device.metadata.write\<close> on the metadata that is
  now stored, and no other device has changed.
\<close>

theorem metadata_patch_stays_in_scope:
  assumes "patch_device_metadata_route rx d body ctx s = Inr (view, s')"
  shows "\<exists>u m. caller ctx (app_users s') u \<and> app_device_meta s' d = Some m \<and>
    evaluate_permission ''device.metadata.write'' u (Some m) \<and>
    (\<forall>d'. d' \<noteq> d \<longrightarrow> app_device_meta s' d' = app_device_meta s d')"
proof -
  from assms obtain db' where ok: "is_ok (abac_metadata_patch_check ''device.metadata.write'' ''device''
      \<lparr>rq_path_params = [(''device'', d)], rq_query_params = [], rq_body = Some (JObj body)\<rparr>
      ctx (app_users s) (app_device_meta s))"
    and upd: "update_device_metadata rx d (JObj body) (app_catalog s) = Inr (Some view, db')"
    and s': "s' = s\<lparr>app_catalog := db'\<rparr>"
    by (auto simp: patch_device_metadata_route_def patch_device_metadata_def is_ok_iff split: option.splits)
  from update_device_metadata_Inr[OF upd] obtain dv where
    dv: "map_of (devices (app_catalog s)) d = Some dv" and
    db': "db' = (app_catalog s)\<lparr>devices := sql_update d (\<lambda>_. dv\<lparr>dv_data := patch_data (dv_data dv) body\<rparr>)
       (devices (app_catalog s))\<rparr>"
    by auto
  have meta: "app_device_meta s' d' = (if d' = d then Some (patch_data (dv_data dv) body) else app_device_meta s d')"
    for d' by (simp add: app_device_meta_def s' db' get_device_meta_raw_def map_of_sql_update dv)
  have old: "app_device_meta s d = Some (dv_data dv)"
    by (simp add: app_device_meta_def get_device_meta_raw_def dv)
  have users: "app_users s' = app_users s" by (simp add: app_users_def s')
  from ok[unfolded metadata_patch_check_ok] old obtain u where
    "caller ctx (app_users s) u" "holds_on ''device.metadata.write'' u (patch_data (dv_data dv) body)"
    using holds_everywhere_on by fastforce
  then show ?thesis
    using meta by (auto simp: users evaluate_Some)
qed

theorem metadata_patch_stays_in_scope_witness:
  "\<exists>view s'. patch_device_metadata_route no_regex ''d1'' [(''room'', JInt 7)] sample_token sample_state = Inr (view, s') \<and>
     (\<exists>u m. caller sample_token (app_users s') u \<and> app_device_meta s' ''d1'' = Some m \<and>
        evaluate_permission ''device.metadata.write'' u (Some m))"
proof -
  have "is_ok (patch_device_metadata_route no_regex ''d1'' [(''room'', JInt 7)] sample_token sample_state)"
    by code_simp
  then obtain view s' where
    r: "patch_device_metadata_route no_regex ''d1'' [(''room'', JInt 7)] sample_token sample_state = Inr (view, s')"
    by (auto simp: is_ok_iff)
  from metadata_patch_stays_in_scope[OF r] r show ?thesis by blast
qed

section \<open>Creating a device\<close>

text \<open>The check of \<open>PUT /devices/{device_id}\<close> and the insert \<open>create_device\<close> does with the body.\<close>

definition insert_checked_device ::
  "regex_engine \<Rightarrow> string \<Rightarrow> json dict \<Rightarrow> json dict \<Rightarrow> app_state \<Rightarrow> app_state res" where
  "insert_checked_device rx device_id body ctx s =
     bindR (abac_device_create_check ''device.create''
              \<lparr>rq_path_params = [(''device_id'', device_id)], rq_query_params = [], rq_body = Some (JObj body)\<rparr>
              ctx (app_users s)) (\<lambda>_.
     bindR (meta_of_body body) (\<lambda>meta.
     let type_id = (case pget body ''type_id'' of JStr t \<Rightarrow> if t = [] then default_type_id else t | _ \<Rightarrow> default_type_id) in
     bindR (create_device_row rx device_id meta type_id (app_catalog s)) (\<lambda>(_, db').
     Inr (s\<lparr>app_catalog := db'\<rparr>))))"

text \<open>
  C10: A device can only be created inside the caller's scope: after the check and the insert, the
  caller holds \<open>device.create\<close> on the metadata stored for the new device, which did not exist before.
\<close>

theorem created_device_in_scope:
  assumes "insert_checked_device rx d body ctx s = Inr s'"
  shows "\<exists>u m. caller ctx (app_users s') u \<and> app_device_meta s d = None \<and> app_device_meta s' d = Some m \<and>
    evaluate_permission ''device.create'' u (Some m)"
proof -
  let ?rq = "\<lparr>rq_path_params = [(''device_id'', d)], rq_query_params = [], rq_body = Some (JObj body)\<rparr>"
  from assms obtain meta tid row db' where
    chk: "is_ok (abac_device_create_check ''device.create'' ?rq ctx (app_users s))"
    and meta: "meta_of_body body = Inr meta"
    and ins: "create_device_row rx d meta tid (app_catalog s) = Inr (row, db')"
    and s': "s' = s\<lparr>app_catalog := db'\<rparr>"
    by (auto simp: insert_checked_device_def is_ok_iff Let_def)
  from ins have new: "\<not> has_key (devices (app_catalog s)) d"
    and db': "db' = (app_catalog s)\<lparr>devices := devices (app_catalog s) @ [(d, \<lparr>dv_type_id = tid, dv_data = meta\<rparr>)]\<rparr>"
    by (auto simp: create_device_row_def Let_def)
  from chk meta obtain u where "caller ctx (app_users s) u" "holds_on ''device.create'' u meta"
    by (auto simp: abac_device_create_check_def json_object_body_def caller_def evaluate_Some holds_on_def
        split: if_splits)
  with new show ?thesis
    by (auto simp: app_device_meta_def app_users_def s' db' get_device_meta_raw_def has_key_def evaluate_Some
        map_add_def)
qed

text \<open>The same plant, whose role may create devices.\<close>

definition creator_state :: app_state where
  "creator_state = sample_state\<lparr>app_iam := sample_iam\<lparr>im_role_actions :=
     im_role_actions sample_iam @ [(''r1'', ''device.create'')]\<rparr>\<rparr>"

theorem created_device_in_scope_witness:
  "\<exists>s'. insert_checked_device no_regex ''d2'' [(''meta'', JObj [(''site'', JStr ''A'')])] sample_token creator_state = Inr s' \<and>
     (\<exists>u m. caller sample_token (app_users s') u \<and> app_device_meta s' ''d2'' = Some m \<and>
        evaluate_permission ''device.create'' u (Some m))"
proof -
  have "is_ok (insert_checked_device no_regex ''d2'' [(''meta'', JObj [(''site'', JStr ''A'')])] sample_token creator_state)"
    by code_simp
  then obtain s' where
    r: "insert_checked_device no_regex ''d2'' [(''meta'', JObj [(''site'', JStr ''A'')])] sample_token creator_state = Inr s'"
    by (auto simp: is_ok_iff)
  from created_device_in_scope[OF r] r show ?thesis by blast
qed

section \<open>The permission lists\<close>

lemma device_class_list:
  "set (class_list device_permissions ''ReadPermissions'' @ class_list device_permissions ''EditPermissions'') =
     set (map pm_name (permissions_of device_permissions))"
  by code_simp

lemma device_permission_not_global:
  "\<forall>p \<in> set (map pm_name (permissions_of device_permissions)). p \<notin> set global_permissions"
  by code_simp

text \<open>A token with a user id always has a name to show.\<close>

lemma current_user_of_id: "truthy (token_user_id ctx) \<Longrightarrow> \<exists>n. get_current_user ctx = Inr n"
  by (auto simp: token_user_id_def get_current_user_def Let_def split: if_splits)

lemma caller_of_http_user: "http_user ctx users = Inr u \<longleftrightarrow> caller ctx users u"
  using current_user_of_id by (auto simp: http_user_def caller_def require_user_iff Let_def split: option.splits)

text \<open>
  The permission list of a device tells the front end exactly what the guards will say: it
  contains a permission of the device resource type if and only if a request with that permission
  on that device passes the check, and it contains nothing else.
\<close>

theorem device_permission_list_exact:
  assumes "get_device_permissions d ctx users metas = Inr ps" and "d \<noteq> []"
  shows "p \<in> set ps \<longleftrightarrow> p \<in> set (map pm_name (permissions_of device_permissions)) \<and>
    is_ok (abac_permission_check \<lparr>pc_permission = p, pc_device_path = Some ''device_id'', pc_in_query = False\<rparr>
      \<lparr>rq_path_params = [(''device_id'', d)], rq_query_params = [], rq_body = None\<rparr> ctx users metas)"
proof -
  from assms(1) obtain u m where u: "caller ctx users u" and m: "metas d = Some m"
    and ps0: "ps = filter (\<lambda>p. evaluate_permission p u (Some m)) (class_list device_permissions ''ReadPermissions''
        @ class_list device_permissions ''EditPermissions'')"
    by (auto simp: get_device_permissions_def caller_of_http_user split: option.splits)
  have ps: "set ps = {p \<in> set (class_list device_permissions ''ReadPermissions''
        @ class_list device_permissions ''EditPermissions''). holds_on p u m}"
    unfolding ps0 evaluate_Some set_filter ..
  have "is_ok (authorize p ctx users metas (Some d) False None None) \<longleftrightarrow> holds_on p u m"
    unfolding authorize_device caller_iff[OF u] using m holds_everywhere_on[of p u m] by auto
  then show ?thesis
    unfolding ps device_class_list path_check_authorize[OF assms(2)] by blast
qed

theorem device_permission_list_exact_witness:
  "\<exists>ps. get_device_permissions ''d1'' sample_token (app_users sample_state) (app_device_meta sample_state) = Inr ps \<and>
     ''device.read'' \<in> set ps \<and> ''device.delete'' \<notin> set ps"
proof -
  let ?ok = "\<lambda>p. is_ok (abac_permission_check \<lparr>pc_permission = p, pc_device_path = Some ''device_id'', pc_in_query = False\<rparr>
      \<lparr>rq_path_params = [(''device_id'', ''d1'')], rq_query_params = [], rq_body = None\<rparr>
      sample_token (app_users sample_state) (app_device_meta sample_state))"
  have "is_ok (get_device_permissions ''d1'' sample_token (app_users sample_state) (app_device_meta sample_state))"
    by code_simp
  then obtain ps where
    ps: "get_device_permissions ''d1'' sample_token (app_users sample_state) (app_device_meta sample_state) = Inr ps"
    by (auto simp: is_ok_iff)
  have a: "?ok ''device.read''" "\<not> ?ok ''device.delete''" by code_simp+
  have "''device.read'' \<in> set (map pm_name (permissions_of device_permissions))" by code_simp
  with a ps device_permission_list_exact[OF ps] show ?thesis by blast
qed

end
