(* ===== verification/Url.thy ===== *)
theory Url
  imports Py_String
begin

text \<open>
  The part of \<open>urllib.parse\<close> that the extension proxy relies on: \<open>urlsplit\<close> with the host, port and
  credentials of its result, and \<open>quote(value, safe="")\<close>.  The reader of an IPv6 literal
  (\<open>_check_bracketed_host\<close>, which parses the address) is the parameter \<open>ip6\<close>.
\<close>

section \<open>urlsplit\<close>

record split_url =
  us_scheme :: string
  us_netloc :: string
  us_path :: string
  us_query :: string
  us_fragment :: string

definition scheme_char :: "char \<Rightarrow> bool" where
  "scheme_char c = (is_alnum c \<or> c \<in> {CHR ''+'', CHR ''-'', CHR ''.''})"

definition c0_or_space :: "char \<Rightarrow> bool" where
  "c0_or_space c = ((of_char c :: nat) \<le> 32)"

definition unsafe_url_char :: "char \<Rightarrow> bool" where
  "unsafe_url_char c = (of_char c \<in> {9, 10, 13 :: nat})"

definition clean_url :: "string \<Rightarrow> string" where
  "clean_url url = filter (\<lambda>c. \<not> unsafe_url_char c) (dropWhile c0_or_space url)"

definition split_scheme :: "string \<Rightarrow> string \<times> string" where
  "split_scheme url =
     (let (before, found, after) = partition_on (CHR '':'') url in
      if found \<and> before \<noteq> [] \<and> is_letter (hd before) \<and> list_all scheme_char before
      then (str_lower before, after) else ([], url))"

definition netloc_char :: "char \<Rightarrow> bool" where
  "netloc_char c = (c \<notin> {CHR ''/'', CHR ''?'', CHR ''#''})"

definition split_netloc :: "string \<Rightarrow> string \<times> string" where
  "split_netloc url =
     (if starts_with url ''//''
      then (takeWhile netloc_char (drop 2 url), dropWhile netloc_char (drop 2 url)) else ([], url))"

definition host_part :: "string \<Rightarrow> string" where
  "host_part netloc = snd (snd (rpartition_on (CHR ''@'') netloc))"

definition check_brackets :: "(string \<Rightarrow> bool) \<Rightarrow> string \<Rightarrow> unit res" where
  "check_brackets ip6 netloc =
     (let opened = CHR ''['' \<in> set netloc; closed = CHR '']'' \<in> set netloc;
          bad = ValueError (Msg ''Invalid IPv6 URL'' []) in
      if opened \<noteq> closed then Inl bad
      else if \<not> opened then Inr ()
      else let (before, have_open, bracketed) = partition_on (CHR ''['') (host_part netloc) in
        if have_open then
          (let (hostname, _, port) = partition_on (CHR '']'') bracketed in
           bindR (ensure (before = [] \<and> (port = [] \<or> starts_with port '':'')) bad) (\<lambda>_.
           ensure (ip6 hostname) (ValueError (Msg ''{}'' [JStr hostname]))))
        else ensure (ip6 (fst (partition_on (CHR '':'') (host_part netloc))))
               (ValueError (Msg ''{}'' [JStr (host_part netloc)])))"

definition urlsplit :: "(string \<Rightarrow> bool) \<Rightarrow> string \<Rightarrow> split_url res" where
  "urlsplit ip6 url =
     (let (scheme, rest) = split_scheme (clean_url url);
          (netloc, rest) = split_netloc rest in
      bindR (check_brackets ip6 netloc) (\<lambda>_.
      let (rest, _, fragment) = partition_on (CHR ''#'') rest;
          (path, _, query) = partition_on (CHR ''?'') rest in
      Inr \<lparr>us_scheme = scheme, us_netloc = netloc, us_path = path, us_query = query, us_fragment = fragment\<rparr>))"

definition has_credentials :: "split_url \<Rightarrow> bool" where
  "has_credentials u = (CHR ''@'' \<in> set (us_netloc u))"

definition host_and_port :: "split_url \<Rightarrow> string \<times> string" where
  "host_and_port u =
     (let info = host_part (us_netloc u); (_, have_open, bracketed) = partition_on (CHR ''['') info in
      if have_open then
        (let (hostname, _, after) = partition_on (CHR '']'') bracketed in
         (hostname, snd (snd (partition_on (CHR '':'') after))))
      else (let (hostname, _, port) = partition_on (CHR '':'') info in (hostname, port)))"

definition url_hostname :: "split_url \<Rightarrow> string option" where
  "url_hostname u =
     (let hostname = fst (host_and_port u); (address, percent, zone) = partition_on (CHR ''%'') hostname in
      if hostname = [] then None
      else Some (str_lower address @ (if percent then [CHR ''%''] else []) @ zone))"

definition url_port :: "split_url \<Rightarrow> nat option res" where
  "url_port u =
     (let port = snd (host_and_port u) in
      if port = [] then Inr None
      else bindR (ensure (list_all is_digit port)
                    (ValueError (Msg ''Port could not be cast to integer value as {}'' [JStr port]))) (\<lambda>_.
        bindR (ensure (nat_of_digits port \<le> 65535) (ValueError (Msg ''Port out of range 0-65535'' []))) (\<lambda>_.
        Inr (Some (nat_of_digits port)))))"

lemma c0_or_space_bits [code]:
  "c0_or_space (Char b0 b1 b2 b3 b4 b5 b6 b7) =
     (\<not> b7 \<and> \<not> b6 \<and> (\<not> b5 \<or> \<not> b4 \<and> \<not> b3 \<and> \<not> b2 \<and> \<not> b1 \<and> \<not> b0))"
  unfolding c0_or_space_def of_char_bits of_bool_def by auto

lemma unsafe_url_char_chars [code]:
  "unsafe_url_char c = (c \<in> set [CHR 0x09, CHR 0x0A, CHR 0x0D])"
  by (simp add: unsafe_url_char_def of_char_eq_small char_of_def bit_iff_odd)

section \<open>quote\<close>

definition unreserved :: "char \<Rightarrow> bool" where
  "unreserved c = (is_alnum c \<or> c \<in> {CHR ''_'', CHR ''.'', CHR ''-'', CHR ''~''})"

definition utf8 :: "char \<Rightarrow> nat list" where
  "utf8 c = (let n = of_char c in if n < 128 then [n] else [192 + n div 64, 128 + n mod 64])"

definition hex_digit :: "nat \<Rightarrow> char" where
  "hex_digit n = (if n < 10 then char_of (n + 48) else char_of (n + 55))"

definition percent_byte :: "nat \<Rightarrow> string" where
  "percent_byte n = [CHR ''%'', hex_digit (n div 16), hex_digit (n mod 16)]"

definition quote_char :: "char \<Rightarrow> string" where
  "quote_char c = (if unreserved c then [c] else concat (map percent_byte (utf8 c)))"

definition quote :: "string \<Rightarrow> string" where
  "quote s = concat (map quote_char s)"

text \<open>The receiver's side: percent-decoding to bytes, and the reading of one- and two-byte UTF-8.\<close>

definition hex_value :: "char \<Rightarrow> nat" where
  "hex_value c = (if is_digit c then of_char c - 48 else of_char c - 55)"

fun percent_decode :: "string \<Rightarrow> nat list" where
  "percent_decode (p # a # b # s) =
     (if p = CHR ''%'' then (16 * hex_value a + hex_value b) # percent_decode s
      else of_char p # percent_decode (a # b # s))"
| "percent_decode (p # s) = of_char p # percent_decode s"
| "percent_decode [] = []"

fun utf8_decode :: "nat list \<Rightarrow> string" where
  "utf8_decode (m # n # bs) =
     (if m < 128 then char_of m # utf8_decode (n # bs)
      else char_of ((m - 192) * 64 + (n - 128)) # utf8_decode bs)"
| "utf8_decode [m] = [char_of m]"
| "utf8_decode [] = []"

definition unquote :: "string \<Rightarrow> string" where
  "unquote s = utf8_decode (percent_decode s)"

section \<open>Lemmas about quote\<close>

lemma of_char_less_256: "(of_char c :: nat) < 256"
  by simp

lemma utf8_bytes: "n \<in> set (utf8 c) \<Longrightarrow> n < 256"
  using less_mult_imp_div_less[of "of_char c" 4 64] of_char_less_256[of c]
  by (auto simp: utf8_def Let_def split: if_splits)

lemma of_char_char_of_small: "n < 256 \<Longrightarrow> of_char (char_of n :: char) = (n :: nat)"
  by simp

lemma hex_value_digit: "n < 16 \<Longrightarrow> hex_value (hex_digit n) = n"
  by (cases "n < 10") (simp_all add: hex_value_def hex_digit_def is_digit_def)

lemma hex_digit_alnum: "n < 16 \<Longrightarrow> is_alnum (hex_digit n)"
  by (cases "n < 10")
    (simp_all add: is_alnum_def is_letter_def is_upper_letter_def is_lower_letter_def is_digit_def hex_digit_def)

lemma percent_not_unreserved: "\<not> unreserved (CHR ''%'')"
  by (simp add: unreserved_def is_alnum_def is_letter_def is_upper_letter_def is_lower_letter_def is_digit_def)

lemma percent_decode_byte: "n < 256 \<Longrightarrow> percent_decode (percent_byte n @ s) = n # percent_decode s"
  by (simp add: percent_byte_def hex_value_digit)

lemma percent_decode_bytes:
  "(\<forall>n \<in> set ns. n < 256) \<Longrightarrow> percent_decode (concat (map percent_byte ns) @ s) = ns @ percent_decode s"
  by (induction ns) (auto simp: percent_decode_byte)

lemma percent_decode_plain: "c \<noteq> CHR ''%'' \<Longrightarrow> percent_decode (c # s) = of_char c # percent_decode s"
proof (cases s)
  case (Cons a t)
  then show "c \<noteq> CHR ''%'' \<Longrightarrow> ?thesis" by (cases t) simp_all
qed simp

lemma utf8_unreserved:
  assumes "unreserved c"
  shows "utf8 c = [of_char c]"
proof -
  have "(of_char c :: nat) < 128"
    using assms by (auto simp: unreserved_def is_alnum_def is_letter_def is_upper_letter_def is_lower_letter_def is_digit_def)
  then show ?thesis by (simp add: utf8_def)
qed

lemma percent_decode_quote_char: "percent_decode (quote_char c @ s) = utf8 c @ percent_decode s"
proof (cases "unreserved c")
  case True
  then have "c \<noteq> CHR ''%''" using percent_not_unreserved by blast
  with True show ?thesis by (simp add: quote_char_def utf8_unreserved percent_decode_plain)
next
  case False
  then show ?thesis by (simp add: quote_char_def percent_decode_bytes utf8_bytes)
qed

lemma percent_decode_quote: "percent_decode (quote s) = concat (map utf8 s)"
proof (induction s)
  case Nil
  then show ?case by (simp add: quote_def)
next
  case (Cons c s)
  then show ?case using percent_decode_quote_char[of c "quote s"] by (simp add: quote_def)
qed

lemma utf8_decode_char: "utf8_decode (utf8 c @ bs) = c # utf8_decode bs"
proof (cases "(of_char c :: nat) < 128")
  case True
  then show ?thesis by (cases bs) (simp_all add: utf8_def)
next
  case False
  have "of_char c div 64 * 64 + of_char c mod 64 = (of_char c :: nat)" by simp
  with False show ?thesis by (simp add: utf8_def Let_def)
qed

lemma unquote_quote: "unquote (quote s) = s"
proof -
  have "utf8_decode (concat (map utf8 s)) = s"
    by (induction s) (simp_all add: utf8_decode_char)
  then show ?thesis by (simp add: unquote_def percent_decode_quote)
qed

lemma quote_chars: "c \<in> set (quote s) \<Longrightarrow> unreserved c \<or> c = CHR ''%''"
proof -
  have alnum: "unreserved (hex_digit (n div 16)) \<and> unreserved (hex_digit (n mod 16))" if "n < 256" for n
    using that hex_digit_alnum[of "n div 16"] hex_digit_alnum[of "n mod 16"] by (simp add: unreserved_def)
  assume "c \<in> set (quote s)"
  then obtain d where "c \<in> set (quote_char d)" by (auto simp: quote_def)
  then show ?thesis
    using alnum utf8_bytes[of _ d] by (auto simp: quote_char_def percent_byte_def split: if_splits)
qed

lemma unreserved_path_char: "unreserved c \<or> c = CHR ''%'' \<Longrightarrow> c \<notin> {CHR ''/'', CHR ''?'', CHR ''#''}"
  by (auto simp: unreserved_def is_alnum_def is_letter_def is_upper_letter_def is_lower_letter_def is_digit_def)

lemma quote_no_separator: "CHR ''/'' \<notin> set (quote s)" "CHR ''?'' \<notin> set (quote s)" "CHR ''#'' \<notin> set (quote s)"
  using quote_chars unreserved_path_char by blast+

lemma quote_char_not_Nil [simp]: "quote_char c \<noteq> []"
  by (simp add: quote_char_def utf8_def percent_byte_def Let_def)

lemma quote_simps [simp]: "quote [] = []" "quote (c # s) = quote_char c @ quote s"
  by (simp_all add: quote_def)

lemma quote_dots: "set (quote s) \<subseteq> {CHR ''.''} \<Longrightarrow> quote s = s"
proof (induction s)
  case Nil
  then show ?case by simp
next
  case (Cons c s)
  have "unreserved c"
  proof (rule ccontr)
    assume "\<not> unreserved c"
    then have "CHR ''%'' \<in> set (quote_char c)"
      by (auto simp: quote_char_def utf8_def percent_byte_def Let_def)
    with Cons.prems show False by auto
  qed
  with Cons show ?case by (simp add: quote_char_def)
qed

section \<open>Lemmas about urlsplit\<close>

lemma partition_on_append:
  "d \<in> set s \<Longrightarrow> partition_on d (s @ t) = (fst (partition_on d s), True, snd (snd (partition_on d s)) @ t)"
proof (induction s)
  case Nil
  then show ?case by simp
next
  case (Cons c s)
  then show ?case by (cases "c = d") (simp_all add: partition_on_def)
qed

lemma partition_on_join: "d \<in> set s \<Longrightarrow> fst (partition_on d s) @ d # snd (snd (partition_on d s)) = s"
proof (induction s)
  case Nil
  then show ?case by simp
next
  case (Cons c s)
  then show ?case by (cases "c = d") (simp_all add: partition_on_def)
qed

lemma partition_on_free: "d \<notin> set b \<Longrightarrow> partition_on d (b @ d # t) = (b, True, t)"
  by (induction b) (auto simp: partition_on_def)

lemma split_scheme_found:
  "split_scheme url = (scheme, rest) \<Longrightarrow> scheme \<noteq> [] \<Longrightarrow>
     \<exists>before. url = before @ CHR '':'' # rest \<and> (\<forall>t. split_scheme (before @ CHR '':'' # t) = (scheme, t))"
proof -
  assume s: "split_scheme url = (scheme, rest)" "scheme \<noteq> []"
  obtain before found after where p: "partition_on (CHR '':'') url = (before, found, after)"
    by (cases "partition_on (CHR '':'') url")
  with s have c: "found" "before \<noteq> []" "is_letter (hd before)" "list_all scheme_char before"
    and e: "scheme = str_lower before" "rest = after"
    by (auto simp: split_scheme_def split: if_splits)
  have d: "CHR '':'' \<in> set url" "before = takeWhile (\<lambda>c. c \<noteq> CHR '':'') url"
    using p c(1) by (auto simp: partition_on_def)
  have u: "url = before @ CHR '':'' # rest"
    using partition_on_join[OF d(1)] by (simp add: p e)
  have "CHR '':'' \<notin> set before" using d(2) by (auto dest: set_takeWhileD)
  then have "split_scheme (before @ CHR '':'' # t) = (scheme, t)" for t
    using c e by (simp add: split_scheme_def partition_on_free)
  with u show ?thesis by blast
qed

lemma slash_suffix:
  assumes "x @ replicate k z = y @ c # w" and "c \<noteq> z"
  shows "\<exists>v. x = y @ c # v \<and> w = v @ replicate k z"
proof -
  have len: "length y < length x"
  proof (rule ccontr)
    assume "\<not> length y < length x"
    moreover have "(x @ replicate k z) ! length y = c" using assms(1) by simp
    moreover have "length x + k = length y + Suc (length w)"
      using arg_cong[OF assms(1), of length] by (simp only: length_append length_replicate length_Cons)
    ultimately show False using assms(2) by (simp add: nth_append)
  qed
  have "take (length y) (x @ replicate k z) = y" "(x @ replicate k z) ! length y = c"
    using assms(1) by simp_all
  then have "take (length y) x = y" "x ! length y = c"
    using len by (simp_all add: nth_append)
  then have x: "x = y @ c # drop (Suc (length y)) x"
    using id_take_nth_drop[OF len] by simp
  with assms(1) have "(y @ c # drop (Suc (length y)) x) @ replicate k z = y @ c # w" by argo
  then have "w = drop (Suc (length y)) x @ replicate k z" by simp
  with x show ?thesis by blast
qed

lemma rstrip_replicate: "\<exists>k. s = rstrip_chars (\<lambda>c. c = z) s @ replicate k z"
proof -
  have "rev s = takeWhile (\<lambda>c. c = z) (rev s) @ dropWhile (\<lambda>c. c = z) (rev s)" by simp
  moreover have "takeWhile (\<lambda>c. c = z) (rev s) = replicate (length (takeWhile (\<lambda>c. c = z) (rev s))) z"
    by (rule replicate_eqI[symmetric, symmetric]) (auto dest: set_takeWhileD)
  ultimately have "s = rev (dropWhile (\<lambda>c. c = z) (rev s)) @ replicate (length (takeWhile (\<lambda>c. c = z) (rev s))) z"
    by (metis rev_append rev_replicate rev_rev_ident)
  then show ?thesis unfolding rstrip_chars_def by blast
qed

lemma clean_url_append:
  "\<exists>c \<in> set s. \<not> c0_or_space c \<Longrightarrow> clean_url (s @ t) = clean_url s @ filter (\<lambda>c. \<not> unsafe_url_char c) t"
  by (auto simp: clean_url_def dropWhile_append1)

lemma split_netloc_found:
  "split_netloc url = (netloc, rest) \<Longrightarrow> netloc \<noteq> [] \<Longrightarrow>
     url = ''//'' @ netloc @ rest \<and> list_all netloc_char netloc \<and> (rest = [] \<or> \<not> netloc_char (hd rest))"
proof -
  assume a: "split_netloc url = (netloc, rest)" "netloc \<noteq> []"
  then have s: "starts_with url ''//''" and n: "netloc = takeWhile netloc_char (drop 2 url)"
    and r: "rest = dropWhile netloc_char (drop 2 url)"
    by (auto simp: split_netloc_def split: if_splits)
  have "take 2 url = ''//''" using s by (simp add: starts_with_def numeral_2_eq_2)
  then have "url = ''//'' @ drop 2 url" by (metis append_take_drop_id)
  also have "drop 2 url = netloc @ rest" by (simp add: n r)
  finally have "url = ''//'' @ netloc @ rest" by simp
  moreover have "list_all netloc_char netloc" by (auto simp: n list_all_iff dest: set_takeWhileD)
  moreover have "rest = [] \<or> \<not> netloc_char (hd rest)" using hd_dropWhile r by blast
  ultimately show ?thesis by blast
qed

lemma split_netloc_join:
  assumes "list_all netloc_char netloc" "\<not> netloc_char (hd rest)" "rest \<noteq> []"
  shows "split_netloc (''//'' @ netloc @ rest) = (netloc, rest)"
proof -
  obtain r rs where "rest = r # rs" using assms(3) by (auto simp: neq_Nil_conv)
  with assms show ?thesis
    by (simp add: split_netloc_def starts_with_def list_all_iff takeWhile_append2 dropWhile_append2)
qed

lemma urlsplit_parts:
  "urlsplit ip6 url = Inr u \<longleftrightarrow>
     (\<exists>rest. split_netloc (snd (split_scheme (clean_url url))) = (us_netloc u, rest) \<and>
        us_scheme u = fst (split_scheme (clean_url url)) \<and> check_brackets ip6 (us_netloc u) = Inr () \<and>
        us_fragment u = snd (snd (partition_on (CHR ''#'') rest)) \<and>
        us_path u = fst (partition_on (CHR ''?'') (fst (partition_on (CHR ''#'') rest))) \<and>
        us_query u = snd (snd (partition_on (CHR ''?'') (fst (partition_on (CHR ''#'') rest)))))"
  by (cases u) (auto simp: urlsplit_def Let_def split: prod.splits)

text \<open>
  Joining a path to a base URL, as the proxy does (\<open>base_url.rstrip("/") + path\<close>), keeps the
  scheme and the authority.
\<close>

lemma urlsplit_joined:
  assumes u: "urlsplit ip6 base = Inr u" and scheme: "us_scheme u \<noteq> []" and netloc: "us_netloc u \<noteq> []"
  shows "\<exists>u'. urlsplit ip6 (rstrip_chars (\<lambda>c. c = CHR ''/'') base @ CHR ''/'' # p) = Inr u' \<and>
    us_scheme u' = us_scheme u \<and> us_netloc u' = us_netloc u"
proof -
  let ?b = "rstrip_chars (\<lambda>c. c = CHR ''/'') base"
  let ?safe = "filter (\<lambda>c. \<not> unsafe_url_char c)"
  obtain k where base: "base = ?b @ replicate k (CHR ''/'')" using rstrip_replicate by blast
  obtain rest tail where sc: "split_scheme (clean_url base) = (us_scheme u, rest)"
    and nl: "split_netloc rest = (us_netloc u, tail)" and br: "check_brackets ip6 (us_netloc u) = Inr ()"
    using u unfolding urlsplit_parts by (metis prod.collapse)
  obtain before where cb: "clean_url base = before @ CHR '':'' # rest"
    and any: "\<And>t. split_scheme (before @ CHR '':'' # t) = (us_scheme u, t)"
    using split_scheme_found[OF sc scheme] by blast
  note found = split_netloc_found[OF nl netloc]
  have "CHR '':'' \<in> set (clean_url base)" by (simp add: cb)
  then have "CHR '':'' \<in> set base" by (auto simp: clean_url_def dest: set_dropWhileD)
  then have "CHR '':'' \<in> set ?b" by (subst (asm) base) auto
  then have nonc0: "\<exists>c \<in> set ?b. \<not> c0_or_space c"
    by (rule bexI[rotated]) (simp add: c0_or_space_def)
  have slash: "\<not> unsafe_url_char (CHR ''/'')" by (simp add: unsafe_url_char_def)
  have "clean_url base = clean_url ?b @ replicate k (CHR ''/'')"
    using clean_url_append[OF nonc0, of "replicate k (CHR ''/'')"] slash base by (simp add: filter_replicate)
  then have "clean_url ?b @ replicate k (CHR ''/'') =
      (before @ '':'' @ ''//'' @ butlast (us_netloc u)) @ last (us_netloc u) # tail"
    using cb found append_butlast_last_id[OF netloc, symmetric] by (metis append.assoc append_Cons append_Nil)
  moreover have "last (us_netloc u) \<noteq> CHR ''/''"
    using found netloc by (auto simp: list_all_iff netloc_char_def)
  ultimately obtain v where v: "clean_url ?b = (before @ '':'' @ ''//'' @ butlast (us_netloc u)) @ last (us_netloc u) # v"
    and tail: "tail = v @ replicate k (CHR ''/'')"
    using slash_suffix by metis
  let ?rest = "v @ CHR ''/'' # ?safe p"
  have "clean_url (?b @ CHR ''/'' # p) = before @ CHR '':'' # ''//'' @ us_netloc u @ ?rest"
    using clean_url_append[OF nonc0] slash v netloc by simp
  then have "split_scheme (clean_url (?b @ CHR ''/'' # p)) = (us_scheme u, ''//'' @ us_netloc u @ ?rest)"
    by (simp only: any)
  moreover have "\<not> netloc_char (hd ?rest)"
  proof (cases v)
    case Nil
    then show ?thesis by (simp add: netloc_char_def)
  next
    case (Cons a w)
    with found tail show ?thesis by simp
  qed
  then have "split_netloc (''//'' @ us_netloc u @ ?rest) = (us_netloc u, ?rest)"
    using found by (intro split_netloc_join) auto
  ultimately show ?thesis
    using br unfolding urlsplit_parts
    by (intro exI[of _ "\<lparr>us_scheme = us_scheme u, us_netloc = us_netloc u,
      us_path = fst (partition_on (CHR ''?'') (fst (partition_on (CHR ''#'') ?rest))),
      us_query = snd (snd (partition_on (CHR ''?'') (fst (partition_on (CHR ''#'') ?rest)))),
      us_fragment = snd (snd (partition_on (CHR ''#'') ?rest))\<rparr>"]) simp
qed

lemma host_and_port_netloc: "us_netloc u = us_netloc u' \<Longrightarrow>
    url_hostname u = url_hostname u' \<and> url_port u = url_port u' \<and> has_credentials u = has_credentials u'"
  by (simp add: url_hostname_def url_port_def host_and_port_def has_credentials_def)

lemma hostname_netloc: "url_hostname u = Some h \<Longrightarrow> us_netloc u \<noteq> []"
  by (auto simp: url_hostname_def host_and_port_def host_part_def rpartition_on_def partition_on_def Let_def)

end
