(* ===== verification/Ext_Schemas.thy ===== *)
theory Ext_Schemas
  imports Url
begin

text \<open>
  The registration manifest of an extension (\<open>extensions/schemas.py\<close>): the models as records, and
  the validators that pydantic runs on them.  Reading JSON into the models (types, literals,
  forbidden extra keys) is pydantic's; a value of a record is a payload that has been read.  The
  allowlist of upstream hosts is an environment variable, the argument \<open>allowlist\<close>.
\<close>

section \<open>Models\<close>

datatype http_method = GET | POST | PUT | PATCH | DELETE | HEAD | OPTIONS
datatype visibility = Public | Internal | DeviceIngress
datatype scope_in = InPath | InQuery
datatype query_type = QString | QInteger | QNumber | QBoolean
datatype iotedge_operation = DirectMethod | TwinRead | TwinWrite

datatype upstream_spec =
    HttpUpstream (base_url_of: string) (health_path_of: string) (version_field_of: string)
      (expected_version_of: "string option")
  | IotedgeUpstream (module_name_of: string) (health_query_of: "string option")

record action_spec =
  ac_name :: string
  ac_desc :: string

record query_param =
  qp_name :: string
  qp_type :: query_type
  qp_required :: bool
  qp_description :: "string option"

record iotedge_call =
  ic_operation :: iotedge_operation
  ic_method_name :: "string option"

record route_spec =
  rs_upstream :: string
  rs_path :: string
  rs_method :: http_method
  rs_summary :: "string option"
  rs_description :: "string option"
  rs_tags :: "string list option"
  rs_deprecated :: bool
  rs_status_code :: int
  rs_query_params :: "query_param list"
  rs_body :: "json dict option"
  rs_example :: "json dict option"
  rs_body_ref :: bool
  rs_visibility :: visibility
  rs_required_action :: "string option"
  rs_scoped :: bool
  rs_scope_param :: string
  rs_scope_in :: scope_in
  rs_upstream_path :: "string option"
  rs_iotedge :: "iotedge_call option"

record ui_contribution =
  uc_target :: string
  uc_placement :: string
  uc_module :: string
  uc_label :: string
  uc_when :: "string list dict option"
  uc_path :: "string option"
  uc_required_action :: "string option"

record extension_ui =
  ui_contract_version :: int
  ui_entry :: string
  ui_remote_name :: string
  ui_contributions :: "ui_contribution list"

record registration =
  rg_schema_version :: int
  rg_name :: string
  rg_description :: string
  rg_upstreams :: "upstream_spec dict"
  rg_actions :: "action_spec list"
  rg_routes :: "route_spec list"
  rg_ui :: "extension_ui option"

section \<open>The allowlist of upstream hosts\<close>

definition bracket :: "char \<Rightarrow> bool" where
  "bracket c = (c = CHR ''['' \<or> c = CHR '']'')"

definition is_dot :: "char \<Rightarrow> bool" where
  "is_dot c = (c = CHR ''.'')"

definition is_slash :: "char \<Rightarrow> bool" where
  "is_slash c = (c = CHR ''/'')"

definition entry_allows :: "string \<Rightarrow> nat \<Rightarrow> string \<Rightarrow> bool" where
  "entry_allows normalized_hostname port raw =
     (let entry = str_strip raw;
          (before, separator, allowed_port) = rpartition_on (CHR '':'') entry;
          allowed_host = rstrip_chars is_dot (str_lower (strip_chars bracket (str_strip before))) in
      entry \<noteq> [] \<and> separator \<and> allowed_host \<noteq> [] \<and>
      (allowed_port = ''*'' \<or> allowed_port = digits_of port) \<and> normalized_hostname = allowed_host)"

lemma entry_allows_code [code]:
  "entry_allows normalized_hostname port raw =
     (let entry = str_strip raw;
          (before, separator, allowed_port) = rpartition_on (CHR '':'') entry;
          allowed_host = rstrip_chars is_dot (str_lower (strip_chars bracket (str_strip before))) in
      if entry \<noteq> [] \<and> separator \<and> allowed_host \<noteq> [] \<and> normalized_hostname = allowed_host
      then if allowed_port = ''*'' then True else allowed_port = digits_of port
      else False)"
  by (auto simp: entry_allows_def Let_def)

definition http_upstream_is_allowed :: "string \<Rightarrow> string \<Rightarrow> nat \<Rightarrow> bool" where
  "http_upstream_is_allowed allowlist hostname port =
     (let normalized_hostname = rstrip_chars is_dot (str_lower hostname) in
      list_ex (entry_allows normalized_hostname port) (split_on (CHR '','') allowlist))"

text \<open>The host and port a URL names: the port of its authority, or the default of its scheme.\<close>

definition effective_port :: "split_url \<Rightarrow> nat option \<Rightarrow> nat" where
  "effective_port u port =
     (case port of Some n \<Rightarrow> if n = 0 then (if str_lower (us_scheme u) = ''https'' then 443 else 80) else n
      | None \<Rightarrow> if str_lower (us_scheme u) = ''https'' then 443 else 80)"

definition split_with_port :: "(string \<Rightarrow> bool) \<Rightarrow> string \<Rightarrow> (split_url \<times> nat option) res" where
  "split_with_port ip6 value = bindR (urlsplit ip6 value) (\<lambda>u. bindR (url_port u) (\<lambda>port. Inr (u, port)))"

definition validate_base_url :: "(string \<Rightarrow> bool) \<Rightarrow> string \<Rightarrow> string \<Rightarrow> unit res" where
  "validate_base_url ip6 allowlist v =
     bindR (ensure (\<not> list_ex is_space v) (ValueError (Msg ''base_url must not contain whitespace'' []))) (\<lambda>_.
     bindR (rewrap_value_error (\<lambda>_. ValueError (Msg ''base_url must be a valid HTTP URL'' []))
              (split_with_port ip6 v)) (\<lambda>(u, port).
     bindR (ensure (str_lower (us_scheme u) \<in> {''http'', ''https''} \<and> url_hostname u \<noteq> None)
              (ValueError (Msg ''base_url must be an absolute HTTP or HTTPS URL'' []))) (\<lambda>_.
     bindR (ensure (\<not> has_credentials u) (ValueError (Msg ''base_url must not contain credentials'' []))) (\<lambda>_.
     bindR (ensure (us_query u = [] \<and> us_fragment u = [])
              (ValueError (Msg ''base_url must not contain a query string or fragment'' []))) (\<lambda>_.
     ensure (http_upstream_is_allowed allowlist (the (url_hostname u)) (effective_port u port))
       (ValueError (Msg ''base_url host and port are not in EXTENSIONS_HTTP_UPSTREAM_ALLOWLIST'' [])))))))"

definition accept_upstream :: "(string \<Rightarrow> bool) \<Rightarrow> string \<Rightarrow> upstream_spec \<Rightarrow> unit res" where
  "accept_upstream ip6 allowlist spec = (case spec of
       HttpUpstream base_url _ _ _ \<Rightarrow> validate_base_url ip6 allowlist base_url
     | IotedgeUpstream module_name _ \<Rightarrow>
         ensure (\<not> starts_with module_name ''$'')
           (ValueError (Msg ''module_name must not target IoT Edge system modules ($edgeAgent, $edgeHub, ...)'' [])))"

section \<open>Routes\<close>

text \<open>\<open>^[A-Za-z0-9_.~\-\[\]]{1,128}$\<close>.\<close>

definition param_char :: "char \<Rightarrow> bool" where
  "param_char c = (is_alnum c \<or> c \<in> {CHR ''_'', CHR ''.'', CHR ''~'', CHR ''-'', CHR ''['', CHR '']''})"

definition param_name_ok :: "string \<Rightarrow> bool" where
  "param_name_ok s = (list_all param_char s \<and> 1 \<le> length s \<and> length s \<le> 128)"

text \<open>\<open>^[A-Za-z_][A-Za-z0-9_]*$\<close> and \<open>keyword.kwlist\<close>.\<close>

definition ident_start :: "char \<Rightarrow> bool" where
  "ident_start c = (is_letter c \<or> c = CHR ''_'')"

definition ident_char :: "char \<Rightarrow> bool" where
  "ident_char c = (is_alnum c \<or> c = CHR ''_'')"

definition is_identifier :: "string \<Rightarrow> bool" where
  "is_identifier s = (case s of [] \<Rightarrow> False | c # cs \<Rightarrow> ident_start c \<and> list_all ident_char cs)"

definition python_keywords :: "string list" where
  "python_keywords = [''False'', ''None'', ''True'', ''and'', ''as'', ''assert'', ''async'', ''await'',
     ''break'', ''class'', ''continue'', ''def'', ''del'', ''elif'', ''else'', ''except'', ''finally'',
     ''for'', ''from'', ''global'', ''if'', ''import'', ''in'', ''is'', ''lambda'', ''nonlocal'', ''not'',
     ''or'', ''pass'', ''raise'', ''return'', ''try'', ''while'', ''with'', ''yield'']"

definition is_keyword :: "string \<Rightarrow> bool" where
  "is_keyword s = (s \<in> set python_keywords)"

definition validate_path :: "string \<Rightarrow> unit res" where
  "validate_path v =
     bindR (ensure (starts_with v ''/'' \<and> \<not> starts_with v ''//'')
              (ValueError (Msg ''path must start with exactly one slash'' []))) (\<lambda>_.
     bindR (ensure (CHR ''?'' \<notin> set v \<and> CHR ''#'' \<notin> set v)
              (ValueError (Msg ''path must not contain a query string or fragment'' []))) (\<lambda>_.
     bindR (check_all (\<lambda>name. ensure (is_identifier name \<and> \<not> is_keyword name)
              (ValueError (Msg ''path placeholder {} must be a Python identifier without a converter''
                 [JStr name]))) (holes (brace_tokens v))) (\<lambda>_.
     ensure (CHR ''{'' \<notin> set (literals (brace_tokens v)) \<and> CHR ''}'' \<notin> set (literals (brace_tokens v)))
       (ValueError (Msg ''path has unbalanced braces'' [])))))"

definition method_of_string :: "string \<Rightarrow> http_method option" where
  "method_of_string s = map_of [(''GET'', GET), (''POST'', POST), (''PUT'', PUT), (''PATCH'', PATCH),
     (''DELETE'', DELETE), (''HEAD'', HEAD), (''OPTIONS'', OPTIONS)] s"

definition normalize_method :: "string \<Rightarrow> http_method option" where
  "normalize_method v = method_of_string (str_upper v)"

definition has_method_name :: "iotedge_call \<Rightarrow> bool" where
  "has_method_name call = (case ic_method_name call of None \<Rightarrow> False | Some n \<Rightarrow> n \<noteq> [])"

definition check_method_name :: "iotedge_call \<Rightarrow> unit res" where
  "check_method_name call =
     bindR (ensure (\<not> (ic_operation call = DirectMethod \<and> \<not> has_method_name call))
              (ValueError (Msg ''method_name is required when operation is direct_method'' []))) (\<lambda>_.
     ensure (\<not> (ic_operation call \<noteq> DirectMethod \<and> has_method_name call))
       (ValueError (Msg ''method_name must be omitted unless operation is direct_method'' [])))"

definition accept_route :: "route_spec \<Rightarrow> unit res" where
  "accept_route route =
     bindR (validate_path (rs_path route)) (\<lambda>_.
     bindR (ensure (100 \<le> rs_status_code route \<and> rs_status_code route \<le> 599)
              (ValueError (Msg ''status_code'' []))) (\<lambda>_.
     bindR (check_all (\<lambda>q. ensure (param_name_ok (qp_name q)) (ValueError (Msg ''query_params.name'' [])))
              (rs_query_params route)) (\<lambda>_.
     bindR (ensure (param_name_ok (rs_scope_param route)) (ValueError (Msg ''scope_param'' []))) (\<lambda>_.
     bindR (case rs_upstream_path route of None \<Rightarrow> Inr () | Some p \<Rightarrow> validate_path p) (\<lambda>_.
     case rs_iotedge route of None \<Rightarrow> Inr () | Some call \<Rightarrow> check_method_name call)))))"

definition accept_registration :: "(string \<Rightarrow> bool) \<Rightarrow> string \<Rightarrow> registration \<Rightarrow> unit res" where
  "accept_registration ip6 allowlist reg =
     bindR (ensure (rg_schema_version reg = 1) (ValueError (Msg ''schema_version'' []))) (\<lambda>_.
     bindR (check_all (\<lambda>(_, spec). accept_upstream ip6 allowlist spec) (rg_upstreams reg)) (\<lambda>_.
     bindR (check_all accept_route (rg_routes reg)) (\<lambda>_.
     case rg_ui reg of None \<Rightarrow> Inr ()
     | Some ui \<Rightarrow> ensure (ui_contract_version ui = 1) (ValueError (Msg ''contractVersion'' [])))))"

section \<open>Lemmas\<close>

definition well_formed_path :: "string \<Rightarrow> bool" where
  "well_formed_path v =
     (starts_with v ''/'' \<and> \<not> starts_with v ''//'' \<and> CHR ''?'' \<notin> set v \<and> CHR ''#'' \<notin> set v \<and>
      (\<forall>n \<in> set (holes (brace_tokens v)). is_identifier n \<and> \<not> is_keyword n) \<and>
      CHR ''{'' \<notin> set (literals (brace_tokens v)) \<and> CHR ''}'' \<notin> set (literals (brace_tokens v)))"

lemma validate_path_iff: "is_ok (validate_path v) \<longleftrightarrow> well_formed_path v"
  by (auto simp: validate_path_def well_formed_path_def)

lemma identifier_not_Nil: "is_identifier s \<Longrightarrow> s \<noteq> []"
  by (auto simp: is_identifier_def)

text \<open>On an accepted path both expressions of the program find the same placeholders.\<close>

lemma well_formed_tokens: "well_formed_path v \<Longrightarrow> param_tokens v = brace_tokens v"
  by (intro tokens_agree) (auto simp: well_formed_path_def dest: identifier_not_Nil)

lemma is_ok_rewrap_split: "is_ok (split_with_port ip6 v) \<longleftrightarrow>
    (\<exists>u port. urlsplit ip6 v = Inr u \<and> url_port u = Inr port)"
  by (auto simp: split_with_port_def)

lemma validate_base_url_ok:
  "is_ok (validate_base_url ip6 allowlist v) \<longleftrightarrow>
     \<not> list_ex is_space v \<and>
     (\<exists>u port host. urlsplit ip6 v = Inr u \<and> url_port u = Inr port \<and> url_hostname u = Some host \<and>
        str_lower (us_scheme u) \<in> {''http'', ''https''} \<and> \<not> has_credentials u \<and>
        us_query u = [] \<and> us_fragment u = [] \<and>
        http_upstream_is_allowed allowlist host (effective_port u port))"
  by (fastforce simp: validate_base_url_def split_with_port_def)

lemma accept_route_path: "is_ok (accept_route route) \<Longrightarrow> well_formed_path (rs_path route)"
  unfolding accept_route_def validate_path_iff[symmetric] by (auto simp: is_ok_iff)

lemma accept_route_upstream_path:
  "is_ok (accept_route route) \<Longrightarrow> rs_upstream_path route = Some p \<Longrightarrow> well_formed_path p"
  unfolding accept_route_def validate_path_iff[symmetric] by (auto simp: is_ok_iff)

lemma accept_route_params:
  "is_ok (accept_route route) \<Longrightarrow> q \<in> set (rs_query_params route) \<Longrightarrow> param_name_ok (qp_name q)"
  unfolding accept_route_def by auto

lemma accept_route_scope_param: "is_ok (accept_route route) \<Longrightarrow> param_name_ok (rs_scope_param route)"
  unfolding accept_route_def by auto

lemma accept_registration_iff:
  "is_ok (accept_registration ip6 allowlist reg) \<longleftrightarrow>
     rg_schema_version reg = 1 \<and>
     (\<forall>(k, spec) \<in> set (rg_upstreams reg). is_ok (accept_upstream ip6 allowlist spec)) \<and>
     (\<forall>route \<in> set (rg_routes reg). is_ok (accept_route route)) \<and>
     opt_all (\<lambda>ui. ui_contract_version ui = 1) (rg_ui reg)"
  by (auto simp: accept_registration_def split: option.split)

end
