(* ===== verification/Ext_Signature.thy ===== *)
theory Ext_Signature
  imports Ext_Schemas
begin

text \<open>
  The parameters that FastAPI binds a mounted extension route to (\<open>extensions/signature.py\<close>): the
  request, one parameter per placeholder of the path, one per query parameter of the manifest and
  the implicit device parameter.  \<open>inspect.Parameter\<close> and \<open>inspect.Signature\<close> raise ValueError on
  a name that is no identifier and on a repeated name.
\<close>

section \<open>Signatures\<close>

datatype param_source =
    FromRequest
  | FromPath
  | FromQuery (sg_alias: string) query_type bool "string option"

record sig_param =
  sg_name :: string
  sg_source :: param_source

definition request_name :: string where
  "request_name = ''request''"

definition mk_parameter :: "string \<Rightarrow> param_source \<Rightarrow> sig_param res" where
  "mk_parameter name src =
     bindR (ensure (\<not> is_keyword name) (ValueError (Msg ''{} is not a valid parameter name'' [JStr name]))) (\<lambda>_.
     bindR (ensure (is_identifier name) (ValueError (Msg ''{} is not a valid parameter name'' [JStr name]))) (\<lambda>_.
     Inr \<lparr>sg_name = name, sg_source = src\<rparr>))"

definition mk_signature :: "sig_param list \<Rightarrow> sig_param list res" where
  "mk_signature ps =
     bindR (ensure (distinct (map sg_name ps)) (ValueError (Msg ''duplicate parameter name'' []))) (\<lambda>_. Inr ps)"

section \<open>Implicit parameters\<close>

definition or_default :: "string \<Rightarrow> string \<Rightarrow> string" where
  "or_default s d = (if s = [] then d else s)"

definition device_id_name :: string where
  "device_id_name = ''device_id''"

definition path_params :: "route_spec \<Rightarrow> string list" where
  "path_params route = holes (param_tokens (rs_path route))"

definition ensure_param :: "route_spec \<Rightarrow> string \<Rightarrow> string \<Rightarrow> query_param list" where
  "ensure_param route name description =
     (if name \<in> set (path_params route) \<or> name \<in> set (map qp_name (rs_query_params route)) then []
      else [\<lparr>qp_name = name, qp_type = QString, qp_required = True, qp_description = Some description\<rparr>])"

definition implicit_query_params :: "route_spec \<Rightarrow> query_param list" where
  "implicit_query_params route =
     (if rs_scoped route \<and> rs_scope_in route = InQuery
      then ensure_param route (or_default (rs_scope_param route) device_id_name)
             ''Device identifier (`devices.device_id`) used for ABAC scope and iotedge targeting.''
      else if rs_iotedge route \<noteq> None \<and> \<not> rs_scoped route
      then ensure_param route device_id_name
             ''Target IoT Hub device id (`devices.device_id`) the module runs on.''
      else [])"

section \<open>Python names\<close>

definition numbered_name :: "nat \<Rightarrow> string" where
  "numbered_name i = ''query_param_'' @ digits_of i"

lemma numbered_name_inj: "numbered_name i = numbered_name j \<Longrightarrow> i = j"
  by (simp add: numbered_name_def digits_of_inj)

lemma finite_numbered: "finite {j. numbered_name j \<in> set taken}"
proof -
  have "inj numbered_name" by (auto simp: inj_def dest: numbered_name_inj)
  then have "finite (numbered_name -` set taken)" by (intro finite_vimageI) auto
  then show ?thesis by (simp add: vimage_def)
qed

text \<open>\<open>while f"query_param_{index}" in taken: index += 1\<close> ends because \<open>taken\<close> is finite.\<close>

function free_index :: "string list \<Rightarrow> nat \<Rightarrow> nat" where
  "free_index taken index =
     (if numbered_name index \<in> set taken then free_index taken (Suc index) else index)"
  by pat_completeness auto
termination
proof (relation "measure (\<lambda>(taken, index). card {j. index \<le> j \<and> numbered_name j \<in> set taken})")
  fix taken index
  assume "numbered_name index \<in> set taken"
  moreover have "finite {j. index \<le> j \<and> numbered_name j \<in> set taken}"
    by (rule finite_subset[OF _ finite_numbered]) auto
  moreover have "{j. Suc index \<le> j \<and> numbered_name j \<in> set taken}
      = {j. index \<le> j \<and> numbered_name j \<in> set taken} - {index}" by auto
  ultimately have "card {j. Suc index \<le> j \<and> numbered_name j \<in> set taken}
      < card {j. index \<le> j \<and> numbered_name j \<in> set taken}"
    by (simp only:) (rule card_Diff1_less, auto)
  then show "((taken, Suc index), taken, index)
      \<in> measure (\<lambda>(taken, index). card {j. index \<le> j \<and> numbered_name j \<in> set taken})"
    by simp
qed auto

declare free_index.simps [simp del]

definition python_name :: "string \<Rightarrow> string list \<Rightarrow> string" where
  "python_name query_name taken =
     (if is_identifier query_name \<and> \<not> is_keyword query_name \<and> query_name \<notin> set taken then query_name
      else numbered_name (free_index taken 0))"

section \<open>build_signature\<close>

record sig_state =
  ss_parameters :: "sig_param list"
  ss_used_names :: "string list"
  ss_used_python_names :: "string list"

definition initial_sig :: "sig_param \<Rightarrow> sig_state" where
  "initial_sig p = \<lparr>ss_parameters = [p], ss_used_names = [request_name], ss_used_python_names = [request_name]\<rparr>"

definition add_path_param :: "sig_state \<Rightarrow> string \<Rightarrow> sig_state res" where
  "add_path_param st name =
     (if name \<in> set (ss_used_names st) then Inr st
      else bindR (mk_parameter name FromPath) (\<lambda>p.
        Inr \<lparr>ss_parameters = ss_parameters st @ [p], ss_used_names = name # ss_used_names st,
             ss_used_python_names = name # ss_used_python_names st\<rparr>))"

definition add_query_param :: "sig_state \<Rightarrow> query_param \<Rightarrow> sig_state res" where
  "add_query_param st spec =
     (let name = qp_name spec in
      if name \<in> set (ss_used_names st) then Inr st
      else let py = python_name name (ss_used_python_names st) in
        bindR (mk_parameter py (FromQuery name (qp_type spec) (qp_required spec) (qp_description spec))) (\<lambda>p.
        Inr \<lparr>ss_parameters = ss_parameters st @ [p], ss_used_names = name # ss_used_names st,
             ss_used_python_names = py # ss_used_python_names st\<rparr>))"

definition query_specs :: "route_spec \<Rightarrow> query_param list" where
  "query_specs route = rs_query_params route @ implicit_query_params route"

definition build_signature :: "route_spec \<Rightarrow> sig_param list res" where
  "build_signature route =
     bindR (mk_parameter request_name FromRequest) (\<lambda>p.
     bindR (foldR add_path_param (initial_sig p) (path_params route)) (\<lambda>st.
     bindR (foldR add_query_param st (query_specs route)) (\<lambda>st.
     mk_signature (ss_parameters st))))"

section \<open>Lemmas\<close>

lemma mk_parameter_Inr [res_simps, simp]:
  "mk_parameter name src = Inr p \<longleftrightarrow>
     \<not> is_keyword name \<and> is_identifier name \<and> p = \<lparr>sg_name = name, sg_source = src\<rparr>"
  by (auto simp: mk_parameter_def)

lemma free_index_free: "numbered_name (free_index taken index) \<notin> set taken"
proof (induction taken index rule: free_index.induct)
  case (1 taken index)
  then show ?case by (cases "numbered_name index \<in> set taken") (simp_all add: free_index.simps[of taken index])
qed

lemma digit_ident: "is_digit c \<Longrightarrow> ident_char c"
  by (simp add: ident_char_def is_alnum_def)

lemma numbered_name_identifier: "is_identifier (numbered_name i)"
proof -
  have "list_all ident_char (digits_of i)"
    using digits_of_digits[of i] by (auto simp: list_all_iff digit_ident)
  moreover have "ident_start (CHR ''q'')" "list_all ident_char ''uery_param_''"
    by (simp_all add: ident_start_def ident_char_def is_alnum_def is_letter_def is_upper_letter_def is_lower_letter_def)
  ultimately show ?thesis by (simp add: is_identifier_def numbered_name_def)
qed

lemma numbered_name_not_keyword: "\<not> is_keyword (numbered_name i)"
  by (simp add: is_keyword_def python_keywords_def numbered_name_def)

lemma python_name_ok:
  "is_identifier (python_name q taken)" "\<not> is_keyword (python_name q taken)" "python_name q taken \<notin> set taken"
  by (auto simp: python_name_def free_index_free numbered_name_identifier numbered_name_not_keyword)

lemma request_name_ok: "is_identifier request_name" "\<not> is_keyword request_name"
  by (simp_all add: request_name_def is_identifier_def is_keyword_def python_keywords_def ident_start_def
      ident_char_def is_alnum_def is_letter_def is_upper_letter_def is_lower_letter_def)

definition source_is_path :: "sig_param \<Rightarrow> bool" where
  "source_is_path p = (sg_source p = FromPath)"

definition source_is_query :: "sig_param \<Rightarrow> bool" where
  "source_is_query p = (case sg_source p of FromQuery _ _ _ _ \<Rightarrow> True | _ \<Rightarrow> False)"

definition path_names :: "sig_param list \<Rightarrow> string list" where
  "path_names ps = map sg_name (filter source_is_path ps)"

definition query_aliases :: "sig_param list \<Rightarrow> string list" where
  "query_aliases ps = map (sg_alias \<circ> sg_source) (filter source_is_query ps)"

text \<open>What holds of the loops' state: its names are those of the parameters built so far.\<close>

definition sig_ok :: "sig_state \<Rightarrow> bool" where
  "sig_ok st =
     (distinct (map sg_name (ss_parameters st)) \<and>
      set (map sg_name (ss_parameters st)) = set (ss_used_python_names st) \<and>
      set (ss_used_names st) = insert request_name (set (path_names (ss_parameters st)) \<union> set (query_aliases (ss_parameters st))) \<and>
      distinct (path_names (ss_parameters st)) \<and> distinct (query_aliases (ss_parameters st)))"

lemma names_snoc [simp]:
  "path_names (ps @ [\<lparr>sg_name = n, sg_source = FromPath\<rparr>]) = path_names ps @ [n]"
  "query_aliases (ps @ [\<lparr>sg_name = n, sg_source = FromPath\<rparr>]) = query_aliases ps"
  "path_names (ps @ [\<lparr>sg_name = n, sg_source = FromQuery a t r d\<rparr>]) = path_names ps"
  "query_aliases (ps @ [\<lparr>sg_name = n, sg_source = FromQuery a t r d\<rparr>]) = query_aliases ps @ [a]"
  by (simp_all add: path_names_def query_aliases_def source_is_path_def source_is_query_def)

lemma add_query_param_ok:
  assumes "sig_ok st"
  shows "\<exists>st'. add_query_param st spec = Inr st' \<and> sig_ok st' \<and>
    path_names (ss_parameters st') = path_names (ss_parameters st) \<and>
    set (query_aliases (ss_parameters st')) =
      set (query_aliases (ss_parameters st)) \<union> ({qp_name spec} - set (ss_used_names st)) \<and>
    set (ss_used_names st') = insert (qp_name spec) (set (ss_used_names st))"
  using assms python_name_ok[of "qp_name spec" "ss_used_python_names st"]
  by (auto simp: add_query_param_def Let_def sig_ok_def)

lemma add_path_param_ok:
  assumes "sig_ok st" and "query_aliases (ss_parameters st) = []"
    and "set (ss_used_python_names st) = set (ss_used_names st)"
    and "is_identifier n" "\<not> is_keyword n"
  shows "\<exists>st'. add_path_param st n = Inr st' \<and> sig_ok st' \<and> query_aliases (ss_parameters st') = [] \<and>
    set (ss_used_python_names st') = set (ss_used_names st') \<and>
    set (path_names (ss_parameters st')) = set (path_names (ss_parameters st)) \<union> ({n} - {request_name})"
  using assms by (auto simp: add_path_param_def sig_ok_def)

lemma add_path_params_ok:
  assumes "sig_ok st" "query_aliases (ss_parameters st) = []"
    "set (ss_used_python_names st) = set (ss_used_names st)"
    "\<forall>n \<in> set ns. is_identifier n \<and> \<not> is_keyword n"
  shows "\<exists>st'. foldR add_path_param st ns = Inr st' \<and> sig_ok st' \<and> query_aliases (ss_parameters st') = [] \<and>
    set (path_names (ss_parameters st')) = set (path_names (ss_parameters st)) \<union> (set ns - {request_name})"
  using assms
proof (induction ns arbitrary: st)
  case Nil
  then show ?case by simp
next
  case (Cons n ns)
  then obtain st1 where st1: "add_path_param st n = Inr st1" "sig_ok st1" "query_aliases (ss_parameters st1) = []"
    "set (ss_used_python_names st1) = set (ss_used_names st1)"
    "set (path_names (ss_parameters st1)) = set (path_names (ss_parameters st)) \<union> ({n} - {request_name})"
    using add_path_param_ok[of st n] by auto
  with Cons.IH[of st1] Cons.prems show ?case by auto
qed

lemma add_query_params_ok:
  assumes "sig_ok st"
  shows "\<exists>st'. foldR add_query_param st specs = Inr st' \<and> sig_ok st' \<and>
    path_names (ss_parameters st') = path_names (ss_parameters st) \<and>
    set (query_aliases (ss_parameters st')) =
      set (query_aliases (ss_parameters st)) \<union> (set (map qp_name specs) - set (ss_used_names st))"
  using assms
proof (induction specs arbitrary: st)
  case Nil
  then show ?case by simp
next
  case (Cons spec specs)
  then obtain st1 where st1: "add_query_param st spec = Inr st1" "sig_ok st1"
    "path_names (ss_parameters st1) = path_names (ss_parameters st)"
    "set (query_aliases (ss_parameters st1)) =
      set (query_aliases (ss_parameters st)) \<union> ({qp_name spec} - set (ss_used_names st))"
    "set (ss_used_names st1) = insert (qp_name spec) (set (ss_used_names st))"
    using add_query_param_ok[of st spec] by blast
  from Cons.IH[OF st1(2)] obtain st2 where "foldR add_query_param st1 specs = Inr st2" "sig_ok st2"
    "path_names (ss_parameters st2) = path_names (ss_parameters st1)"
    "set (query_aliases (ss_parameters st2)) =
      set (query_aliases (ss_parameters st1)) \<union> (set (map qp_name specs) - set (ss_used_names st1))"
    by blast
  with st1 show ?case by auto
qed

lemma signature_built:
  assumes "is_ok (accept_route route)"
  shows "\<exists>ps. build_signature route = Inr ps \<and> distinct (map sg_name ps) \<and>
    set (path_names ps) = set (holes (brace_tokens (rs_path route))) - {request_name} \<and>
    set (query_aliases ps) =
      set (map qp_name (query_specs route)) - insert request_name (set (holes (brace_tokens (rs_path route)))) \<and>
    distinct (query_aliases ps)"
proof -
  let ?p = "\<lparr>sg_name = request_name, sg_source = FromRequest\<rparr>"
  have wf: "well_formed_path (rs_path route)" using assms by (rule accept_route_path)
  then have pp: "path_params route = holes (brace_tokens (rs_path route))"
    by (simp only: path_params_def well_formed_tokens)
  have init: "sig_ok (initial_sig ?p)" "query_aliases (ss_parameters (initial_sig ?p)) = []"
    "path_names (ss_parameters (initial_sig ?p)) = []"
    "set (ss_used_python_names (initial_sig ?p)) = set (ss_used_names (initial_sig ?p))"
    by (simp_all add: sig_ok_def initial_sig_def path_names_def query_aliases_def source_is_path_def source_is_query_def)
  have "\<forall>n \<in> set (path_params route). is_identifier n \<and> \<not> is_keyword n"
    using wf by (simp add: pp well_formed_path_def)
  from add_path_params_ok[OF init(1,2,4) this] obtain st1 where
    st1: "foldR add_path_param (initial_sig ?p) (path_params route) = Inr st1" "sig_ok st1"
      "query_aliases (ss_parameters st1) = []"
      "set (path_names (ss_parameters st1)) = set (path_params route) - {request_name}"
    by (auto simp: init(3))
  from add_query_params_ok[OF st1(2), of "query_specs route"] obtain st2 where
    st2: "foldR add_query_param st1 (query_specs route) = Inr st2" "sig_ok st2"
      "path_names (ss_parameters st2) = path_names (ss_parameters st1)"
      "set (query_aliases (ss_parameters st2)) = set (map qp_name (query_specs route)) - set (ss_used_names st1)"
    using st1(3) by auto
  have used: "set (ss_used_names st1) = insert request_name (set (path_params route))"
    using st1 by (auto simp: sig_ok_def)
  have "build_signature route = Inr (ss_parameters st2)"
    using st1(1) st2(1,2) request_name_ok
    by (auto simp: build_signature_def mk_signature_def sig_ok_def mk_parameter_def)
  moreover have "set (path_names (ss_parameters st2)) = set (path_params route) - {request_name}"
    using st1(4) st2(3) by simp
  ultimately show ?thesis
    using st2(2,4) unfolding used pp sig_ok_def by blast
qed

text \<open>
  C17: The signature of every route that the manifest schema accepts can be built, so the
  registry's "cannot be mounted" answer never concerns a signature: the loop for a free Python name
  ends, parameter names are distinct identifiers, the path parameters are the placeholders of the
  path, and each declared or implicit query parameter is bound once, except one with the name of a
  placeholder or of the request object itself.
\<close>

theorem signature_of_accepted_route:
  assumes "is_ok (accept_route route)"
  shows "\<exists>ps. build_signature route = Inr ps \<and> distinct (map sg_name ps) \<and>
    set (path_names ps) = set (holes (brace_tokens (rs_path route))) - {request_name} \<and>
    set (query_aliases ps) =
      set (map qp_name (query_specs route)) - insert request_name (set (holes (brace_tokens (rs_path route)))) \<and>
    distinct (query_aliases ps)"
  using assms by (rule signature_built)

definition sample_route :: route_spec where
  "sample_route = \<lparr>rs_upstream = ''svc'', rs_path = ''/items/{item}'', rs_method = GET, rs_summary = None,
     rs_description = None, rs_tags = None, rs_deprecated = False, rs_status_code = 200,
     rs_query_params = [\<lparr>qp_name = ''page-size'', qp_type = QInteger, qp_required = False, qp_description = None\<rparr>,
       \<lparr>qp_name = ''request'', qp_type = QString, qp_required = True, qp_description = None\<rparr>],
     rs_body = None, rs_example = None, rs_body_ref = False, rs_visibility = Public,
     rs_required_action = Some ''item.read'', rs_scoped = True, rs_scope_param = ''device_id'',
     rs_scope_in = InQuery, rs_upstream_path = Some ''/v1/items/{item}'', rs_iotedge = None\<rparr>"

lemma sample_route_accepted: "is_ok (accept_route sample_route)"
  by code_simp

theorem signature_of_accepted_route_witness:
  "\<exists>ps. build_signature sample_route = Inr ps \<and> set (path_names ps) = {''item''} \<and>
     ''page-size'' \<in> set (query_aliases ps) \<and> ''device_id'' \<in> set (query_aliases ps)"
proof -
  have h: "holes (brace_tokens (rs_path sample_route)) = [''item'']"
    "map qp_name (query_specs sample_route) = [''page-size'', ''request'', ''device_id'']"
    by code_simp+
  from signature_of_accepted_route[OF sample_route_accepted] show ?thesis
    unfolding h by (auto simp: request_name_def)
qed

end
