(* ===== verification/Ext_Tables.thy ===== *)
theory Ext_Tables
  imports Ext_Signature Access
begin

text \<open>
  The tables of the extension system (\<open>db/models/extension.py\<close>) beside those of users and devices,
  and the repository on them (\<open>db/sqlalchemy/extension.py\<close>).  Extensions are keyed by their unique
  name; the surrogate ids of upstreams and routes come from a counter, which stands for uuid4.
  Routes keep their columns as the model declares them, so that reading a route back has to put the
  manifest's shape together again.
\<close>

section \<open>Tables\<close>

record ext_row =
  xr_description :: string
  xr_schema_version :: int
  xr_enabled :: bool
  xr_key_hash :: "string option"
  xr_ui :: "extension_ui option"

record upstream_row =
  up_id :: nat
  up_extension :: string
  up_key :: string
  up_spec :: upstream_spec
  up_checked_at :: "int option"
  up_status :: string
  up_detail :: "string option"

datatype validation_mode = Declared | UpstreamDeclared | UnreachableRef | NoBody

record route_row =
  rt_id :: nat
  rt_extension :: string
  rt_upstream_id :: nat
  rt_path :: string
  rt_method :: http_method
  rt_visibility :: visibility
  rt_summary :: "string option"
  rt_description :: "string option"
  rt_tags :: "string list option"
  rt_deprecated :: bool
  rt_status_code :: int
  rt_query_params :: "query_param list"
  rt_body :: "json option"
  rt_example :: "json dict option"
  rt_validation_mode :: validation_mode
  rt_body_ref :: bool
  rt_required_action :: "string option"
  rt_scoped :: bool
  rt_scope_param :: string
  rt_scope_in :: scope_in
  rt_upstream_path :: "string option"
  rt_iotedge_operation :: "iotedge_operation option"
  rt_method_name :: "string option"

record device_key_row =
  dk_module_id :: "string option"
  dk_key_hash :: string

record ext_store =
  xs_app :: app_state
  xs_extensions :: "ext_row dict"
  xs_upstreams :: "upstream_row list"
  xs_routes :: "route_row list"
  xs_actions :: "string dict"
  xs_device_keys :: "((string \<times> string) \<times> device_key_row) list"
  xs_next_id :: nat

abbreviation xs_iam :: "ext_store \<Rightarrow> iam" where
  "xs_iam st \<equiv> app_iam (xs_app st)"

definition set_iam :: "iam \<Rightarrow> ext_store \<Rightarrow> ext_store" where
  "set_iam db st = st\<lparr>xs_app := (xs_app st)\<lparr>app_iam := db\<rparr>\<rparr>"

section \<open>Extensions\<close>

definition extension_exists :: "string \<Rightarrow> ext_store \<Rightarrow> bool" where
  "extension_exists name st = has_key (xs_extensions st) name"

definition create_extension :: "string \<Rightarrow> string \<Rightarrow> int \<Rightarrow> ext_store \<Rightarrow> ext_store res" where
  "create_extension name description schema_version st =
     bindR (ensure (\<not> extension_exists name st)
              (ValueError (Msg ''Extension {} is already registered'' [JStr name]))) (\<lambda>_.
     Inr (st\<lparr>xs_extensions := xs_extensions st @
       [(name, \<lparr>xr_description = description, xr_schema_version = schema_version, xr_enabled = False,
                xr_key_hash = None, xr_ui = None\<rparr>)]\<rparr>))"

text \<open>\<open>scalar_one()\<close>, an assignment to the row and a flush.\<close>

definition update_extension :: "string \<Rightarrow> (ext_row \<Rightarrow> ext_row) \<Rightarrow> ext_store \<Rightarrow> ext_store res" where
  "update_extension name f st =
     bindR (ensure (extension_exists name st) (OtherError (Msg ''NoResultFound'' []))) (\<lambda>_.
     Inr (st\<lparr>xs_extensions := sql_update name f (xs_extensions st)\<rparr>))"

definition set_description :: "string \<Rightarrow> string \<Rightarrow> ext_store \<Rightarrow> ext_store res" where
  "set_description name description = update_extension name (\<lambda>r. r\<lparr>xr_description := description\<rparr>)"

definition set_schema_version :: "string \<Rightarrow> int \<Rightarrow> ext_store \<Rightarrow> ext_store res" where
  "set_schema_version name v = update_extension name (\<lambda>r. r\<lparr>xr_schema_version := v\<rparr>)"

definition set_ui :: "string \<Rightarrow> extension_ui option \<Rightarrow> ext_store \<Rightarrow> ext_store res" where
  "set_ui name ui = update_extension name (\<lambda>r. r\<lparr>xr_ui := ui\<rparr>)"

definition set_enabled :: "string \<Rightarrow> bool \<Rightarrow> ext_store \<Rightarrow> ext_store res" where
  "set_enabled name b = update_extension name (\<lambda>r. r\<lparr>xr_enabled := b\<rparr>)"

definition set_internal_key_hash :: "string \<Rightarrow> string \<Rightarrow> ext_store \<Rightarrow> ext_store res" where
  "set_internal_key_hash name h = update_extension name (\<lambda>r. r\<lparr>xr_key_hash := Some h\<rparr>)"

definition list_extensions_rows :: "ext_store \<Rightarrow> ext_row dict" where
  "list_extensions_rows st = sort_key fst (xs_extensions st)"

definition find_extension_by_ui_remote_name :: "string \<Rightarrow> string option \<Rightarrow> ext_store \<Rightarrow> string option" where
  "find_extension_by_ui_remote_name remote_name exclude_name st =
     map_option fst (List.find (\<lambda>(name, row). map_option ui_remote_name (xr_ui row) = Some remote_name \<and>
       exclude_name \<noteq> Some name) (xs_extensions st))"

definition delete_extension :: "string \<Rightarrow> ext_store \<Rightarrow> ext_store" where
  "delete_extension name st =
     st\<lparr>xs_extensions := dpop name (xs_extensions st),
        xs_upstreams := filter (\<lambda>u. up_extension u \<noteq> name) (xs_upstreams st),
        xs_routes := filter (\<lambda>r. rt_extension r \<noteq> name) (xs_routes st),
        xs_actions := filter (\<lambda>(_, owner). owner \<noteq> name) (xs_actions st),
        xs_device_keys := filter (\<lambda>((owner, _), _). owner \<noteq> name) (xs_device_keys st)\<rparr>"

section \<open>Upstreams and routes\<close>

definition upstream_row_of :: "string \<Rightarrow> nat \<Rightarrow> string \<times> upstream_spec \<Rightarrow> upstream_row" where
  "upstream_row_of name i = (\<lambda>(key, spec).
     \<lparr>up_id = i, up_extension = name, up_key = key, up_spec = spec, up_checked_at = None,
      up_status = ''unknown'', up_detail = None\<rparr>)"

type_synonym prepared_route = "route_spec \<times> validation_mode \<times> json option"

definition route_row_of :: "string \<Rightarrow> nat \<Rightarrow> nat \<Rightarrow> prepared_route \<Rightarrow> route_row" where
  "route_row_of name upstream_id i = (\<lambda>(route, mode, body).
     \<lparr>rt_id = i, rt_extension = name, rt_upstream_id = upstream_id, rt_path = rs_path route,
      rt_method = rs_method route, rt_visibility = rs_visibility route, rt_summary = rs_summary route,
      rt_description = rs_description route, rt_tags = rs_tags route, rt_deprecated = rs_deprecated route,
      rt_status_code = (if rs_status_code route = 0 then 200 else rs_status_code route),
      rt_query_params = rs_query_params route, rt_body = body, rt_example = rs_example route,
      rt_validation_mode = mode, rt_body_ref = rs_body_ref route,
      rt_required_action = rs_required_action route, rt_scoped = rs_scoped route,
      rt_scope_param = or_default (rs_scope_param route) device_id_name, rt_scope_in = rs_scope_in route,
      rt_upstream_path = rs_upstream_path route,
      rt_iotedge_operation = map_option ic_operation (rs_iotedge route),
      rt_method_name = (case rs_iotedge route of None \<Rightarrow> None | Some c \<Rightarrow> ic_method_name c)\<rparr>)"

text \<open>\<open>key_to_upstream[route["upstream"]]\<close>; the routes get the ids after those of the upstreams.\<close>

definition insert_route ::
  "string \<Rightarrow> upstream_row list \<Rightarrow> ext_store \<Rightarrow> prepared_route \<Rightarrow> ext_store res" where
  "insert_route name ups st = (\<lambda>(route, mode, body).
     case List.find (\<lambda>u. up_key u = rs_upstream route) ups of
       None \<Rightarrow> Inl (KeyError (rs_upstream route))
     | Some u \<Rightarrow>
         bindR (ensure (opt_all (has_key (im_actions (xs_iam st))) (rs_required_action route)) IntegrityError) (\<lambda>_.
         Inr (st\<lparr>xs_routes := xs_routes st @ [route_row_of name (up_id u) (xs_next_id st) (route, mode, body)],
                 xs_next_id := Suc (xs_next_id st)\<rparr>)))"

definition replace_upstreams_and_routes ::
  "string \<Rightarrow> upstream_spec dict \<Rightarrow> prepared_route list \<Rightarrow> ext_store \<Rightarrow> ext_store res" where
  "replace_upstreams_and_routes name upstreams routes st =
     bindR (ensure (extension_exists name st)
              (ValueError (Msg ''Extension {} does not exist'' [JStr name]))) (\<lambda>_.
     let ups = map2 (upstream_row_of name) [xs_next_id st..<xs_next_id st + length upstreams] upstreams;
         st' = st\<lparr>xs_upstreams := filter (\<lambda>u. up_extension u \<noteq> name) (xs_upstreams st) @ ups,
                  xs_routes := filter (\<lambda>r. rt_extension r \<noteq> name) (xs_routes st),
                  xs_next_id := xs_next_id st + length upstreams\<rparr> in
     foldR (insert_route name ups) st' routes)"

definition list_upstreams :: "string \<Rightarrow> ext_store \<Rightarrow> upstream_row list" where
  "list_upstreams name st = filter (\<lambda>u. up_extension u = name) (xs_upstreams st)"

text \<open>
  \<open>ExtensionMapper.route_to_dict\<close> with the route's \<open>iotedge\<close> entry as \<open>_build_detail\<close> puts it together.
  A fetched body that is no object is not a body of the model; see \<open>row_body_ok\<close>.
\<close>

definition row_body_ok :: "route_row \<Rightarrow> bool" where
  "row_body_ok r = (case rt_body r of None \<Rightarrow> True | Some (JObj _) \<Rightarrow> True | Some _ \<Rightarrow> False)"

definition route_of_row :: "string \<Rightarrow> route_row \<Rightarrow> route_spec" where
  "route_of_row key r =
     \<lparr>rs_upstream = key, rs_path = rt_path r, rs_method = rt_method r, rs_summary = rt_summary r,
      rs_description = rt_description r, rs_tags = rt_tags r, rs_deprecated = rt_deprecated r,
      rs_status_code = rt_status_code r, rs_query_params = rt_query_params r, rs_body = (case rt_body r of Some (JObj d) \<Rightarrow> Some d | _ \<Rightarrow> None),
      rs_example = rt_example r, rs_body_ref = rt_body_ref r, rs_visibility = rt_visibility r,
      rs_required_action = rt_required_action r, rs_scoped = rt_scoped r,
      rs_scope_param = rt_scope_param r, rs_scope_in = rt_scope_in r,
      rs_upstream_path = rt_upstream_path r,
      rs_iotedge = (if rt_iotedge_operation r \<noteq> None \<or> truthy_str (rt_method_name r)
        then Some \<lparr>ic_operation = (case rt_iotedge_operation r of None \<Rightarrow> DirectMethod | Some x \<Rightarrow> x),
                   ic_method_name = rt_method_name r\<rparr> else None)\<rparr>"

definition list_routes :: "string \<Rightarrow> ext_store \<Rightarrow> (route_row \<times> string) list" where
  "list_routes name st =
     List.map_filter (\<lambda>r. map_option (\<lambda>u. (r, up_key u))
         (List.find (\<lambda>u. up_id u = rt_upstream_id r) (xs_upstreams st)))
       (filter (\<lambda>r. rt_extension r = name) (xs_routes st))"

definition update_route_validation ::
  "nat \<Rightarrow> validation_mode \<Rightarrow> json option \<Rightarrow> ext_store \<Rightarrow> ext_store" where
  "update_route_validation route_id mode body st =
     st\<lparr>xs_routes := map (\<lambda>r. if rt_id r = route_id then r\<lparr>rt_validation_mode := mode, rt_body := body\<rparr> else r)
          (xs_routes st)\<rparr>"

definition record_upstream_health ::
  "nat \<Rightarrow> string \<Rightarrow> string option \<Rightarrow> int \<Rightarrow> ext_store \<Rightarrow> ext_store" where
  "record_upstream_health upstream_id status detail checked_at st =
     st\<lparr>xs_upstreams := map (\<lambda>u. if up_id u = upstream_id
          then u\<lparr>up_status := status, up_detail := detail, up_checked_at := Some checked_at\<rparr> else u)
          (xs_upstreams st)\<rparr>"

section \<open>Actions\<close>

definition upsert_action :: "string \<Rightarrow> string \<Rightarrow> bool \<Rightarrow> ext_store \<Rightarrow> ext_store" where
  "upsert_action name description is_global st =
     (let row = \<lparr>ac_description = description, ac_is_global = is_global\<rparr>; acts = im_actions (xs_iam st) in
      set_iam ((xs_iam st)\<lparr>im_actions := (if has_key acts name then sql_update name (\<lambda>_. row) acts
                                           else acts @ [(name, row)])\<rparr>) st)"

definition action_exists :: "string \<Rightarrow> ext_store \<Rightarrow> bool" where
  "action_exists name st = has_key (im_actions (xs_iam st)) name"

definition get_action_owner :: "string \<Rightarrow> ext_store \<Rightarrow> string option" where
  "get_action_owner name st = map_of (xs_actions st) name"

text \<open>The two conflict answers of the repository are \<open>ExtensionActionConflictError\<close>, here a message.\<close>

definition action_conflict :: exn where
  "action_conflict = OtherError (Msg ''One or more actions are already owned by another extension'' [])"

definition record_extension_actions :: "string \<Rightarrow> string list \<Rightarrow> ext_store \<Rightarrow> ext_store res" where
  "record_extension_actions name action_names st =
     bindR (ensure (extension_exists name st)
              (ValueError (Msg ''Extension {} does not exist'' [JStr name]))) (\<lambda>_.
     let acts = xs_actions st @ map (\<lambda>a. (a, name)) action_names in
     bindR (ensure (wf_dict acts \<and> list_all (\<lambda>a. action_exists a st) action_names) action_conflict) (\<lambda>_.
     Inr (st\<lparr>xs_actions := acts\<rparr>)))"

definition clear_extension_actions :: "string \<Rightarrow> ext_store \<Rightarrow> ext_store" where
  "clear_extension_actions name st = st\<lparr>xs_actions := filter (\<lambda>(_, owner). owner \<noteq> name) (xs_actions st)\<rparr>"

definition list_extension_actions :: "string \<Rightarrow> ext_store \<Rightarrow> string list" where
  "list_extension_actions name st = map fst (filter (\<lambda>(_, owner). owner = name) (xs_actions st))"

definition list_extension_action_specs :: "string \<Rightarrow> ext_store \<Rightarrow> action_spec list" where
  "list_extension_action_specs name st =
     List.map_filter (\<lambda>a. map_option (\<lambda>row. \<lparr>ac_name = a, ac_desc = ac_description row\<rparr>)
         (map_of (im_actions (xs_iam st)) a)) (list_extension_actions name st)"

definition is_action_granted_to_any_role :: "string \<Rightarrow> ext_store \<Rightarrow> bool" where
  "is_action_granted_to_any_role name st = list_ex (\<lambda>(_, a). a = name) (im_role_actions (xs_iam st))"

text \<open>
  \<open>DELETE FROM actions\<close>: the ownership rows go with the action, a route that still requires it
  stops the statement.
\<close>

definition delete_action :: "string \<Rightarrow> ext_store \<Rightarrow> ext_store res" where
  "delete_action name st =
     bindR (ensure (\<not> list_ex (\<lambda>r. rt_required_action r = Some name) (xs_routes st)) IntegrityError) (\<lambda>_.
     Inr (set_iam ((xs_iam st)\<lparr>im_actions := dpop name (im_actions (xs_iam st))\<rparr>) st))"

definition delete_orphaned_actions :: "string list \<Rightarrow> ext_store \<Rightarrow> ext_store res" where
  "delete_orphaned_actions names st =
     foldR (\<lambda>st a. if get_action_owner a st \<noteq> None \<or> is_action_granted_to_any_role a st then Inr st
                   else delete_action a st) st names"

section \<open>Device keys\<close>

definition upsert_device_key :: "string \<Rightarrow> string \<Rightarrow> string option \<Rightarrow> string \<Rightarrow> ext_store \<Rightarrow> ext_store res" where
  "upsert_device_key name device_id module_id key_hash st =
     bindR (ensure (extension_exists name st) (ValueError (Msg ''Extension {} not found'' [JStr name]))) (\<lambda>_.
     bindR (ensure (has_key (devices (app_catalog (xs_app st))) device_id)
              (ValueError (Msg ''Device {} not found'' [JStr device_id]))) (\<lambda>_.
     Inr (st\<lparr>xs_device_keys := dset (name, device_id) \<lparr>dk_module_id = module_id, dk_key_hash = key_hash\<rparr>
            (xs_device_keys st)\<rparr>)))"

definition list_device_keys :: "string \<Rightarrow> ext_store \<Rightarrow> (string \<times> string option) list" where
  "list_device_keys name st =
     sort_key fst (map (\<lambda>((_, d), k). (d, dk_module_id k))
       (filter (\<lambda>((owner, _), _). owner = name) (xs_device_keys st)))"

definition revoke_device_key :: "string \<Rightarrow> string \<Rightarrow> ext_store \<Rightarrow> bool \<times> ext_store" where
  "revoke_device_key name device_id st =
     (map_of (xs_device_keys st) (name, device_id) \<noteq> None,
      st\<lparr>xs_device_keys := dpop (name, device_id) (xs_device_keys st)\<rparr>)"

definition resolve_device_key :: "string \<Rightarrow> string \<Rightarrow> ext_store \<Rightarrow> string option res" where
  "resolve_device_key name key_hash st =
     scalar_one_or_none (map (\<lambda>((_, d), _). d)
       (filter (\<lambda>((owner, _), k). owner = name \<and> dk_key_hash k = key_hash) (xs_device_keys st)))"

end
