(* ===== verification/Ext_Registry.thy ===== *)
theory Ext_Registry
  imports Ext_Tables
begin

text \<open>
  The registry of extensions (\<open>extensions/registry.py\<close>): the manifest-wide checks and the operations
  on the tables.  What lies outside the program is an argument: the JSON Schema validator, the
  OpenAPI documents that upstreams answer with, the key generator and the hash.  An operation that
  commits before it builds its answer returns the answer, or the exception, with the tables it
  leaves.
\<close>

record ext_env =
  ev_ip6 :: "string \<Rightarrow> bool"
  ev_allowlist :: string
  ev_check_schema :: "json dict \<Rightarrow> bool"
  ev_validate :: "json dict \<Rightarrow> json dict \<Rightarrow> message list"
  ev_hash :: "string \<Rightarrow> string"

abbreviation err422 :: "string \<Rightarrow> json list \<Rightarrow> exn" where
  "err422 t args \<equiv> api_error t args 422"

abbreviation err409 :: "string \<Rightarrow> json list \<Rightarrow> exn" where
  "err409 t args \<equiv> api_error t args 409"

definition extension_not_found :: "string \<Rightarrow> exn" where
  "extension_not_found name = api_error ''Extension {} not found'' [JStr name] 404"

section \<open>The ui section\<close>

definition js_start :: "char \<Rightarrow> bool" where
  "js_start c = (is_letter c \<or> c = CHR ''_'' \<or> c = CHR ''$'')"

definition js_char :: "char \<Rightarrow> bool" where
  "js_char c = (is_alnum c \<or> c = CHR ''_'' \<or> c = CHR ''$'')"

definition remote_name_ok :: "string \<Rightarrow> bool" where
  "remote_name_ok s = (s \<noteq> [] \<and> js_start (hd s) \<and> list_all js_char (tl s))"

definition outlet_char :: "char \<Rightarrow> bool" where
  "outlet_char c = (is_lower_letter c \<or> is_digit c \<or> c \<in> {CHR ''.'', CHR '':'', CHR ''-''})"

definition outlet_name_ok :: "string \<Rightarrow> bool" where
  "outlet_name_ok s = (s \<noteq> [] \<and> is_lower_letter (hd s) \<and> list_all outlet_char (tl s))"

definition module_char :: "char \<Rightarrow> bool" where
  "module_char c = (is_alnum c \<or> c \<in> {CHR ''_'', CHR ''.'', CHR ''/'', CHR ''-''})"

definition ui_module_ok :: "string \<Rightarrow> bool" where
  "ui_module_ok s = (starts_with s ''./'' \<and> drop 2 s \<noteq> [] \<and> list_all module_char (drop 2 s))"

definition ui_path_ok :: "string \<Rightarrow> bool" where
  "ui_path_ok s = (s \<noteq> [] \<and> list_all (\<lambda>c. is_lower_letter c \<or> is_digit c \<or> c = CHR ''-'') s)"

definition ui_entry_ok :: "string \<Rightarrow> bool" where
  "ui_entry_ok e = (starts_with e ''/'' \<and> \<not> starts_with e ''//'' \<and> char_of (92 :: nat) \<notin> set e \<and>
     CHR ''?'' \<notin> set e \<and> CHR ''#'' \<notin> set e \<and> \<not> list_ex is_space e \<and> ends_with e ''.js'')"

definition check_contribution ::
  "(string \<times> string) list \<Rightarrow> ui_contribution \<Rightarrow> (string \<times> string) list res" where
  "check_contribution seen_paths c =
     bindR (ensure (outlet_name_ok (uc_target c) \<and> outlet_name_ok (uc_placement c))
              (err422 ''ui contribution target and placement must match ^[a-z][a-z0-9.:-]*$'' [])) (\<lambda>_.
     bindR (ensure (ui_module_ok (uc_module c))
              (err422 ''ui contribution module {} must match'' [JStr (uc_module c)])) (\<lambda>_.
     bindR (ensure (1 \<le> length (uc_label c) \<and> length (uc_label c) \<le> 60 \<and> \<not> blank (uc_label c))
              (err422 ''ui contribution label must be 1-60 characters and not blank'' [])) (\<lambda>_.
     case uc_path c of
       None \<Rightarrow> Inr seen_paths
     | Some p \<Rightarrow>
         bindR (ensure (ui_path_ok p) (err422 ''ui contribution path {} must match ^[a-z0-9-]+$'' [JStr p])) (\<lambda>_.
         bindR (ensure ((uc_target c, p) \<notin> set seen_paths)
                  (err422 ''Duplicate ui contribution path {} for target {}'' [JStr p, JStr (uc_target c)])) (\<lambda>_.
         Inr ((uc_target c, p) # seen_paths))))))"

definition validate_ui :: "registration \<Rightarrow> unit res" where
  "validate_ui reg = (case rg_ui reg of
       None \<Rightarrow> Inr ()
     | Some ui \<Rightarrow>
         bindR (ensure (ui_entry_ok (ui_entry ui))
                  (err422 ''ui.entry must be a same-origin absolute path ending in .js'' [])) (\<lambda>_.
         bindR (ensure (remote_name_ok (ui_remote_name ui))
                  (err422 ''ui.remoteName must be a JavaScript identifier'' [])) (\<lambda>_.
         bindR (foldR check_contribution [] (ui_contributions ui)) (\<lambda>_. Inr ()))))"

section \<open>Cross references of a manifest\<close>

definition is_http :: "upstream_spec \<Rightarrow> bool" where
  "is_http spec = (case spec of HttpUpstream _ _ _ _ \<Rightarrow> True | IotedgeUpstream _ _ \<Rightarrow> False)"

definition truthy_action :: "route_spec \<Rightarrow> bool" where
  "truthy_action route = truthy_str (rs_required_action route)"

definition path_param_names :: "string \<Rightarrow> string list" where
  "path_param_names p = holes (param_tokens p)"

definition check_route_transport :: "route_spec \<Rightarrow> upstream_spec \<Rightarrow> unit res" where
  "check_route_transport route upstream =
     bindR (ensure (\<not> (is_http upstream \<and> \<not> truthy_str (rs_upstream_path route)))
              (err422 ''Route {} targets an http upstream but has no upstream_path'' [JStr (rs_path route)])) (\<lambda>_.
     bindR (ensure (\<not> (truthy_str (rs_upstream_path route) \<and>
                       \<not> set (path_param_names (the (rs_upstream_path route))) \<subseteq> set (path_param_names (rs_path route))))
              (err422 ''Route {} cannot supply upstream placeholders'' [JStr (rs_path route)])) (\<lambda>_.
     ensure (\<not> (\<not> is_http upstream \<and> rs_iotedge route = None))
       (err422 ''Route {} targets an iotedge upstream but has no iotedge call spec'' [JStr (rs_path route)])))"

definition check_route_access :: "route_spec \<Rightarrow> upstream_spec \<Rightarrow> unit res" where
  "check_route_access route upstream =
     bindR (ensure (\<not> (rs_visibility route = Public \<and> rs_scoped route \<and> \<not> truthy_action route))
              (err422 ''Scoped public route {} must set required_action'' [JStr (rs_path route)])) (\<lambda>_.
     bindR (ensure (\<not> (rs_visibility route = Public \<and> \<not> is_http upstream \<and> \<not> rs_scoped route))
              (err422 ''Public iotedge route {} must be scoped so ABAC checks the target device''
                 [JStr (rs_path route)])) (\<lambda>_.
     if rs_visibility route = DeviceIngress then
       bindR (ensure (is_http upstream)
                (err422 ''Device route {} must target an http upstream'' [JStr (rs_path route)])) (\<lambda>_.
       bindR (ensure (device_id_name \<notin> set (path_param_names (rs_path route)))
                (err422 ''Device route {} must not take device_id from the path'' [JStr (rs_path route)])) (\<lambda>_.
       ensure (\<not> (rs_scoped route \<or> truthy_action route))
         (err422 ''Device route {} cannot set scoped or required_action'' [JStr (rs_path route)])))
     else Inr ()))"

definition check_route_scope :: "route_spec \<Rightarrow> upstream_spec \<Rightarrow> unit res" where
  "check_route_scope route upstream =
     bindR (ensure (\<not> (rs_body_ref route \<and> \<not> is_http upstream))
              (err422 ''Route {} sets body_ref but its upstream {} is not an http upstream''
                 [JStr (rs_path route), JStr (rs_upstream route)])) (\<lambda>_.
     bindR (ensure (\<not> (rs_body route \<noteq> None \<and> rs_body_ref route))
              (err422 ''Route {} cannot set both body (declared schema) and body_ref'' [JStr (rs_path route)])) (\<lambda>_.
     bindR (ensure (\<not> (rs_scoped route \<and> rs_scope_in route = InPath \<and>
                       rs_scope_param route \<notin> set (path_param_names (rs_path route))))
              (err422 ''Route {} is path-scoped on {} but the path has no such parameter''
                 [JStr (rs_path route), JStr (rs_scope_param route)])) (\<lambda>_.
     ensure (\<not> (rs_scoped route \<and> rs_scope_in route = InQuery \<and>
                list_ex (\<lambda>q. qp_name q = rs_scope_param route \<and> \<not> qp_required q) (rs_query_params route)))
       (err422 ''Route {} query scope parameter {} must be required''
          [JStr (rs_path route), JStr (rs_scope_param route)]))))"

definition check_route_body :: "ext_env \<Rightarrow> route_spec \<Rightarrow> unit res" where
  "check_route_body env route =
     bindR (rewrap_value_error (\<lambda>m. err422 ''Route {} cannot be mounted'' [JStr (rs_path route)])
              (build_signature route)) (\<lambda>_.
     case rs_body route of
       None \<Rightarrow> Inr ()
     | Some schema \<Rightarrow>
         bindR (ensure (ev_check_schema env schema)
                  (err422 ''Route {} body is not a valid JSON Schema'' [JStr (rs_path route)])) (\<lambda>_.
         case rs_example route of
           None \<Rightarrow> Inr ()
         | Some example \<Rightarrow>
             ensure (ev_validate env schema example = [])
               (err422 ''Route {} example does not conform to its own body schema'' [JStr (rs_path route)])))"

definition check_route :: "ext_env \<Rightarrow> registration \<Rightarrow> route_spec \<Rightarrow> unit res" where
  "check_route env reg route =
     (case map_of (rg_upstreams reg) (rs_upstream route) of
        None \<Rightarrow> Inl (err422 ''Route {} references unknown upstream {}''
                       [JStr (rs_path route), JStr (rs_upstream route)])
      | Some upstream \<Rightarrow>
          bindR (check_route_transport route upstream) (\<lambda>_.
          bindR (check_route_access route upstream) (\<lambda>_.
          bindR (check_route_scope route upstream) (\<lambda>_.
          check_route_body env route))))"

definition validate_manifest_cross_references :: "ext_env \<Rightarrow> registration \<Rightarrow> unit res" where
  "validate_manifest_cross_references env reg =
     bindR (ensure (distinct (map ac_name (rg_actions reg)))
              (err422 ''Duplicate action names in manifest'' [])) (\<lambda>_.
     bindR (validate_ui reg) (\<lambda>_.
     check_all (check_route env reg) (rg_routes reg)))"

section \<open>Checks against the tables\<close>

definition check_manifest_action :: "string option \<Rightarrow> ext_store \<Rightarrow> string \<Rightarrow> unit res" where
  "check_manifest_action current st name = (case get_action_owner name st of
       Some owner \<Rightarrow> ensure (current = Some owner)
         (err409 ''Action {} is already owned by extension {}'' [JStr name, JStr owner])
     | None \<Rightarrow> ensure (\<not> action_exists name st)
         (err409 ''Action {} is a platform action and cannot be extension-owned'' [JStr name]))"

definition check_route_action :: "string list \<Rightarrow> ext_store \<Rightarrow> route_spec \<Rightarrow> unit res" where
  "check_route_action manifest_actions st route =
     (if \<not> truthy_action route \<or> the (rs_required_action route) \<in> set manifest_actions then Inr ()
      else let name = the (rs_required_action route) in
        bindR (ensure (get_action_owner name st = None)
                 (err409 ''Route {} references action {} owned by another extension'' [JStr (rs_path route), JStr name])) (\<lambda>_.
        ensure (action_exists name st)
          (err422 ''Route {} references unknown action {}'' [JStr (rs_path route), JStr name])))"

definition validate_action_ownership :: "registration \<Rightarrow> string option \<Rightarrow> ext_store \<Rightarrow> unit res" where
  "validate_action_ownership reg current st =
     (let manifest_actions = map ac_name (rg_actions reg) in
      bindR (check_all (check_manifest_action current st) manifest_actions) (\<lambda>_.
      check_all (check_route_action manifest_actions st) (rg_routes reg)))"

definition validate_ui_required_actions :: "registration \<Rightarrow> string option \<Rightarrow> ext_store \<Rightarrow> unit res" where
  "validate_ui_required_actions reg current st = (case rg_ui reg of
       None \<Rightarrow> Inr ()
     | Some ui \<Rightarrow>
         bindR (case find_extension_by_ui_remote_name (ui_remote_name ui) current st of
                  Some other \<Rightarrow> Inl (err409 ''ui.remoteName {} is already used by extension {}''
                                      [JStr (ui_remote_name ui), JStr other])
                | None \<Rightarrow> Inr ()) (\<lambda>_.
         check_all (\<lambda>c. case uc_required_action c of
             None \<Rightarrow> Inr ()
           | Some name \<Rightarrow>
               ensure (name = [] \<or> name \<in> set (map ac_name (rg_actions reg)) \<or> action_exists name st)
                 (err422 ''UI contribution {} references unknown action {}'' [JStr (uc_label c), JStr name]))
           (ui_contributions ui)))"

definition when_overlaps :: "string list dict option \<Rightarrow> string list dict option \<Rightarrow> bool" where
  "when_overlaps a b = (case (a, b) of
       (Some x, Some y) \<Rightarrow> list_all (\<lambda>(field, vs). case map_of y field of
           None \<Rightarrow> True
         | Some ws \<Rightarrow> list_ex (\<lambda>v. v \<in> set ws) vs) x
     | _ \<Rightarrow> True)"

definition replacing :: "extension_ui \<Rightarrow> ui_contribution list" where
  "replacing ui = filter (\<lambda>c. starts_with (uc_placement c) ''replace:'') (ui_contributions ui)"

definition contributions_clash :: "ui_contribution \<Rightarrow> ui_contribution \<Rightarrow> bool" where
  "contributions_clash c other =
     (uc_target other = uc_target c \<and> uc_placement other = uc_placement c \<and>
      when_overlaps (uc_when c) (uc_when other))"

definition check_replace_conflicts :: "string \<Rightarrow> extension_ui option \<Rightarrow> ext_store \<Rightarrow> unit res" where
  "check_replace_conflicts name ui st = (case ui of
       None \<Rightarrow> Inr ()
     | Some ui \<Rightarrow>
         check_all (\<lambda>(other_name, row). case xr_ui row of
             None \<Rightarrow> Inr ()
           | Some other_ui \<Rightarrow>
               if other_name = name \<or> \<not> xr_enabled row then Inr ()
               else check_all (\<lambda>other. check_all (\<lambda>c.
                   ensure (\<not> contributions_clash c other)
                     (err409 ''UI contribution {} replaces {} {} which enabled extension {} already replaces''
                        [JStr (uc_label c), JStr (uc_target c), JStr (uc_placement c), JStr other_name]))
                   (replacing ui)) (ui_contributions other_ui))
           (if replacing ui = [] then [] else list_extensions_rows st))"

section \<open>Body schemas\<close>

text \<open>
  \<open>body_schema_from_document\<close>: subscripting a value that is no object raises TypeError, a missing
  key KeyError, and both mean that the document declares no body.
\<close>

definition sub :: "json \<Rightarrow> string \<Rightarrow> json option" where
  "sub v k = (case v of JObj d \<Rightarrow> map_of d k | _ \<Rightarrow> None)"

fun sub_path :: "json \<Rightarrow> string list \<Rightarrow> json option" where
  "sub_path v [] = Some v"
| "sub_path v (k # ks) = (case sub v k of None \<Rightarrow> None | Some w \<Rightarrow> sub_path w ks)"

fun method_name :: "http_method \<Rightarrow> string" where
  "method_name GET = ''GET''"
| "method_name POST = ''POST''"
| "method_name PUT = ''PUT''"
| "method_name PATCH = ''PATCH''"
| "method_name DELETE = ''DELETE''"
| "method_name HEAD = ''HEAD''"
| "method_name OPTIONS = ''OPTIONS''"

definition schemas_prefix :: string where
  "schemas_prefix = ''#/components/schemas/''"

definition not_null :: "json option \<Rightarrow> json option" where
  "not_null v = (if v = Some JNull then None else v)"

definition body_schema_from_document :: "json option \<Rightarrow> string \<Rightarrow> http_method \<Rightarrow> json option" where
  "body_schema_from_document document upstream_path m = (case document of
       None \<Rightarrow> None
     | Some doc \<Rightarrow>
         not_null (case sub_path doc [''paths'', upstream_path, str_lower (method_name m), ''requestBody'', ''content'',
                             ''application/json'', ''schema''] of
            None \<Rightarrow> None
          | Some (JObj schema) \<Rightarrow>
              (case pget schema ''$ref'' of
                 JStr ref \<Rightarrow>
                   if starts_with ref schemas_prefix
                   then sub_path doc [''components'', ''schemas'', last (split_on (CHR ''/'') ref)]
                   else Some (JObj schema)
               | v \<Rightarrow> if truthy v then None else Some (JObj schema))
          | Some v \<Rightarrow> Some v))"

definition resolve_route_validation ::
  "(string \<Rightarrow> json option) \<Rightarrow> upstream_spec dict \<Rightarrow> route_spec \<Rightarrow> validation_mode \<times> json option" where
  "resolve_route_validation documents upstreams route =
     (case rs_body route of
        Some d \<Rightarrow> (Declared, Some (JObj d))
      | None \<Rightarrow>
          if rs_body_ref route then
            (case body_schema_from_document
                 (documents (base_url_of (the (map_of upstreams (rs_upstream route)))))
                 (the (rs_upstream_path route)) (rs_method route) of
               Some v \<Rightarrow> (UpstreamDeclared, Some v)
             | None \<Rightarrow> (UnreachableRef, None))
          else (NoBody, None))"

definition prepare_routes :: "(string \<Rightarrow> json option) \<Rightarrow> registration \<Rightarrow> prepared_route list" where
  "prepare_routes documents reg =
     map (\<lambda>route. (route, resolve_route_validation documents (rg_upstreams reg) route)) (rg_routes reg)"

text \<open>A later refresh of the \<open>body_ref\<close> routes of one extension, or of every enabled one.\<close>

definition load_ref_routes :: "string \<Rightarrow> ext_store \<Rightarrow> (route_row \<times> string) list" where
  "load_ref_routes name st =
     List.map_filter (\<lambda>(r, key). case List.find (\<lambda>u. up_key u = key) (rev (list_upstreams name st)) of
         Some u \<Rightarrow> if rt_body_ref r \<and> is_http (up_spec u) then Some (r, base_url_of (up_spec u)) else None
       | None \<Rightarrow> None) (list_routes name st)"

definition refresh_pending :: "(string \<Rightarrow> json option) \<Rightarrow> (route_row \<times> string) list \<Rightarrow> ext_store \<Rightarrow> ext_store" where
  "refresh_pending documents pending st =
     fold (\<lambda>(r, base_url) st.
       case body_schema_from_document (documents base_url) (the (rt_upstream_path r)) (rt_method r) of
         Some v \<Rightarrow> update_route_validation (rt_id r) UpstreamDeclared (Some v) st
       | None \<Rightarrow> update_route_validation (rt_id r) UnreachableRef None st) pending st"

definition refresh_extension_ref_schemas :: "(string \<Rightarrow> json option) \<Rightarrow> string \<Rightarrow> ext_store \<Rightarrow> ext_store" where
  "refresh_extension_ref_schemas documents name st =
     (if extension_exists name st then refresh_pending documents (load_ref_routes name st) st else st)"

definition refresh_ref_schemas :: "(string \<Rightarrow> json option) \<Rightarrow> ext_store \<Rightarrow> ext_store" where
  "refresh_ref_schemas documents st =
     refresh_pending documents (concat (map (\<lambda>(name, row).
       if xr_enabled row then load_ref_routes name st else []) (list_extensions_rows st))) st"

section \<open>Actions of a manifest\<close>

definition action_is_global :: "string \<Rightarrow> route_spec list \<Rightarrow> bool" where
  "action_is_global action_name routes =
     (let uses = filter (\<lambda>r. rs_visibility r = Public \<and> rs_required_action r = Some action_name) routes in
      uses = [] \<or> \<not> list_all rs_scoped uses)"

definition enroll_actions :: "registration \<Rightarrow> ext_store \<Rightarrow> ext_store res" where
  "enroll_actions reg st =
     record_extension_actions (rg_name reg) (map ac_name (rg_actions reg))
       (fold (\<lambda>a. upsert_action (ac_name a) (ac_desc a) (action_is_global (ac_name a) (rg_routes reg)))
          (rg_actions reg) st)"

definition strip_actions_from_all_roles :: "string list \<Rightarrow> ext_store \<Rightarrow> ext_store" where
  "strip_actions_from_all_roles action_names st =
     (if action_names = [] then st
      else fold (\<lambda>(role_id, _) st.
          let held = linked (im_role_actions (xs_iam st)) role_id in
          fold (\<lambda>a st. if a \<in> set held
             then set_iam (snd (remove_action_from_role role_id a (xs_iam st))) st else st) action_names st)
        (im_roles (xs_iam st)) st)"

section \<open>The answer\<close>

record extension_detail =
  xd_registration :: registration
  xd_modes :: "validation_mode list"
  xd_health :: "(string \<times> string) list"
  xd_enabled :: bool

text \<open>\<open>ExtensionDetail(...)\<close> runs the validators of the manifest again.\<close>

definition build_detail :: "ext_env \<Rightarrow> string \<Rightarrow> ext_store \<Rightarrow> extension_detail res" where
  "build_detail env name st =
     (case map_of (xs_extensions st) name of
        None \<Rightarrow> Inl (extension_not_found name)
      | Some ext \<Rightarrow>
          let reg = \<lparr>rg_schema_version = xr_schema_version ext, rg_name = name,
                rg_description = xr_description ext,
                rg_upstreams = fold (\<lambda>u. dset (up_key u) (up_spec u)) (list_upstreams name st) [],
                rg_actions = list_extension_action_specs name st,
                rg_routes = map (\<lambda>(r, key). route_of_row key r) (list_routes name st),
                rg_ui = xr_ui ext\<rparr> in
          bindR (ensure (list_all (row_body_ok \<circ> fst) (list_routes name st)) (ValueError (Msg ''body'' []))) (\<lambda>_.
          bindR (accept_registration (ev_ip6 env) (ev_allowlist env) reg) (\<lambda>_.
          Inr \<lparr>xd_registration = reg, xd_modes = map (rt_validation_mode \<circ> fst) (list_routes name st),
               xd_health = map (\<lambda>u. (up_key u, up_status u)) (list_upstreams name st),
               xd_enabled = xr_enabled ext\<rparr>)))"

section \<open>Operations\<close>

text \<open>\<open>except ExtensionActionConflictError as exc: raise APIError(str(exc), 409)\<close>.\<close>

definition as_conflict :: "'a res \<Rightarrow> 'a res" where
  "as_conflict r = (case r of
       Inl e \<Rightarrow> if e = action_conflict then Inl (err409 ''action conflict'' []) else Inl e
     | Inr x \<Rightarrow> Inr x)"

definition register_tables ::
  "ext_env \<Rightarrow> (string \<Rightarrow> json option) \<Rightarrow> string \<Rightarrow> registration \<Rightarrow> ext_store \<Rightarrow> ext_store res" where
  "register_tables env documents internal_key reg st =
     bindR (ensure (\<not> extension_exists (rg_name reg) st)
              (err409 ''Extension {} is already registered'' [JStr (rg_name reg)])) (\<lambda>_.
     bindR (validate_action_ownership reg None st) (\<lambda>_.
     bindR (validate_ui_required_actions reg None st) (\<lambda>_.
     bindR (create_extension (rg_name reg) (rg_description reg) (rg_schema_version reg) st) (\<lambda>st.
     bindR (set_internal_key_hash (rg_name reg) (ev_hash env internal_key) st) (\<lambda>st.
     bindR (set_ui (rg_name reg) (rg_ui reg) st) (\<lambda>st.
     bindR (enroll_actions reg st) (\<lambda>st.
     replace_upstreams_and_routes (rg_name reg) (rg_upstreams reg) (prepare_routes documents reg) st)))))))"

definition register_extension ::
  "ext_env \<Rightarrow> (string \<Rightarrow> json option) \<Rightarrow> string \<Rightarrow> registration \<Rightarrow> ext_store \<Rightarrow>
     (extension_detail \<times> string) res \<times> ext_store" where
  "register_extension env documents internal_key reg st =
     (case bindR (validate_manifest_cross_references env reg) (\<lambda>_.
             as_conflict (register_tables env documents internal_key reg st)) of
        Inl e \<Rightarrow> (Inl e, st)
      | Inr st' \<Rightarrow> (bindR (build_detail env (rg_name reg) st') (\<lambda>d. Inr (d, internal_key)), st'))"

definition check_dropped_actions :: "string list \<Rightarrow> ext_store \<Rightarrow> unit res" where
  "check_dropped_actions names st =
     check_all (\<lambda>a. ensure (\<not> is_action_granted_to_any_role a st)
       (err409 ''Action {} is still granted to a role. Revoke it before removing it from the manifest''
          [JStr a])) names"

definition dropped_actions :: "string \<Rightarrow> registration \<Rightarrow> ext_store \<Rightarrow> string list" where
  "dropped_actions name reg st =
     filter (\<lambda>a. a \<notin> set (map ac_name (rg_actions reg))) (list_extension_actions name st)"

definition replace_tables ::
  "(string \<Rightarrow> json option) \<Rightarrow> string \<Rightarrow> bool \<Rightarrow> registration \<Rightarrow> ext_store \<Rightarrow> ext_store res" where
  "replace_tables documents name was_enabled reg st =
     (let dropped = dropped_actions name reg st in
      bindR (validate_action_ownership reg (Some name) st) (\<lambda>_.
      bindR (validate_ui_required_actions reg (Some name) st) (\<lambda>_.
      bindR (if was_enabled then check_replace_conflicts name (rg_ui reg) st else Inr ()) (\<lambda>_.
      bindR (set_description name (rg_description reg) st) (\<lambda>st.
      bindR (set_ui name (rg_ui reg) st) (\<lambda>st.
      bindR (set_schema_version name (rg_schema_version reg) st) (\<lambda>st.
      bindR (enroll_actions reg (clear_extension_actions name st)) (\<lambda>st.
      bindR (replace_upstreams_and_routes name (rg_upstreams reg) (prepare_routes documents reg) st) (\<lambda>st.
      delete_orphaned_actions dropped st)))))))))"

definition replace_extension ::
  "ext_env \<Rightarrow> (string \<Rightarrow> json option) \<Rightarrow> string \<Rightarrow> registration \<Rightarrow> ext_store \<Rightarrow> extension_detail res \<times> ext_store" where
  "replace_extension env documents name reg st =
     (case bindR (ensure (rg_name reg = name)
                    (api_error ''Cannot change an extension name via PUT replace'' [] 400)) (\<lambda>_.
           case map_of (xs_extensions st) name of
             None \<Rightarrow> Inl (extension_not_found name)
           | Some existing \<Rightarrow>
               bindR (validate_manifest_cross_references env reg) (\<lambda>_.
               bindR (check_dropped_actions (dropped_actions name reg st) st) (\<lambda>_.
               as_conflict (replace_tables documents name (xr_enabled existing) reg st)))) of
        Inl e \<Rightarrow> (Inl e, st)
      | Inr st' \<Rightarrow> (build_detail env name st', st'))"

definition list_extensions :: "ext_env \<Rightarrow> ext_store \<Rightarrow> extension_detail list res" where
  "list_extensions env st =
     foldR (\<lambda>acc (name, _). bindR (build_detail env name st) (\<lambda>d. Inr (acc @ [d]))) [] (list_extensions_rows st)"

record ui_listing =
  ul_name :: string
  ul_contract_version :: int
  ul_entry :: string
  ul_remote_name :: string
  ul_contributions :: "ui_contribution list"

definition contribution_visible :: "user_view option \<Rightarrow> ui_contribution \<Rightarrow> bool" where
  "contribution_visible user_data c = (case uc_required_action c of
       None \<Rightarrow> True
     | Some a \<Rightarrow> (case user_data of None \<Rightarrow> False | Some u \<Rightarrow> evaluate_permission a u None))"

definition list_extension_uis :: "user_view option \<Rightarrow> ext_store \<Rightarrow> ui_listing list" where
  "list_extension_uis user_data st =
     List.map_filter (\<lambda>(name, row). case xr_ui row of
         None \<Rightarrow> None
       | Some ui \<Rightarrow>
           if xr_enabled row then Some \<lparr>ul_name = name,
             ul_contract_version = ui_contract_version ui, ul_entry = ui_entry ui,
             ul_remote_name = ui_remote_name ui,
             ul_contributions = filter (contribution_visible user_data) (ui_contributions ui)\<rparr>
           else None) (list_extensions_rows st)"

definition check_extension_health ::
  "(upstream_row \<Rightarrow> string \<times> string option) \<Rightarrow> int \<Rightarrow> string \<Rightarrow> ext_store \<Rightarrow>
     (string \<times> string \<times> string option) list res \<times> ext_store" where
  "check_extension_health probe now name st =
     (if extension_exists name st then
        (let ups = list_upstreams name st in
         (Inr (map (\<lambda>u. (up_key u, probe u)) ups),
          fold (\<lambda>u. record_upstream_health (up_id u) (fst (probe u)) (snd (probe u)) now) ups st))
      else (Inl (extension_not_found name), st))"

definition deregister_tables :: "string \<Rightarrow> ext_store \<Rightarrow> ext_store res" where
  "deregister_tables name st =
     (let action_names = list_extension_actions name st in
      delete_orphaned_actions action_names (delete_extension name (strip_actions_from_all_roles action_names st)))"

definition deregister_extension :: "string \<Rightarrow> ext_store \<Rightarrow> ext_store res" where
  "deregister_extension name st =
     bindR (ensure (extension_exists name st) (extension_not_found name)) (\<lambda>_. deregister_tables name st)"

definition enable_tables :: "string \<Rightarrow> ext_store \<Rightarrow> ext_store res" where
  "enable_tables name st =
     (case map_of (xs_extensions st) name of
        None \<Rightarrow> Inl (extension_not_found name)
      | Some row \<Rightarrow>
          bindR (check_replace_conflicts name (xr_ui row) st) (\<lambda>_. set_enabled name True st))"

definition enable_extension :: "ext_env \<Rightarrow> string \<Rightarrow> ext_store \<Rightarrow> extension_detail res \<times> ext_store" where
  "enable_extension env name st = (case enable_tables name st of
       Inl e \<Rightarrow> (Inl e, st) | Inr st' \<Rightarrow> (build_detail env name st', st'))"

definition disable_extension :: "ext_env \<Rightarrow> string \<Rightarrow> ext_store \<Rightarrow> extension_detail res \<times> ext_store" where
  "disable_extension env name st =
     (case bindR (ensure (extension_exists name st) (extension_not_found name)) (\<lambda>_. set_enabled name False st) of
        Inl e \<Rightarrow> (Inl e, st) | Inr st' \<Rightarrow> (build_detail env name st', st'))"

definition rotate_internal_key :: "ext_env \<Rightarrow> string \<Rightarrow> string \<Rightarrow> ext_store \<Rightarrow> (string \<times> ext_store) res" where
  "rotate_internal_key env raw_key name st =
     bindR (ensure (extension_exists name st) (extension_not_found name)) (\<lambda>_.
     bindR (set_internal_key_hash name (ev_hash env raw_key) st) (\<lambda>st. Inr (raw_key, st)))"

definition issue_device_key ::
  "ext_env \<Rightarrow> string \<Rightarrow> string \<Rightarrow> string \<Rightarrow> string option \<Rightarrow> ext_store \<Rightarrow> (string \<times> ext_store) res" where
  "issue_device_key env raw_key name device_id module_id st =
     bindR (ensure (extension_exists name st) (extension_not_found name)) (\<lambda>_.
     bindR (rewrap_value_error (\<lambda>m. Api APIError m 404)
              (upsert_device_key name device_id module_id (ev_hash env raw_key) st)) (\<lambda>st.
     Inr (raw_key, st)))"

definition verify_device_key :: "ext_env \<Rightarrow> string \<Rightarrow> string \<Rightarrow> ext_store \<Rightarrow> string option res" where
  "verify_device_key env name presented st =
     (if presented = [] then Inr None else resolve_device_key name (ev_hash env presented) st)"

end
