(* ===== verification/Ext_Invariant.thy ===== *)
theory Ext_Invariant
  imports Ext_Registry
begin

text \<open>
  The tables of the extension system as a transition system.  The constraints of the schema, the
  ownership of actions and the exclusivity of replacing contributions form an invariant that every
  operation of the registry keeps, together with the operations on users and devices it shares
  tables with.
\<close>

section \<open>The invariant\<close>

definition upstreams_ok :: "ext_row dict \<Rightarrow> upstream_row list \<Rightarrow> nat \<Rightarrow> bool" where
  "upstreams_ok exts ups n =
     (distinct (map up_id ups) \<and> distinct (map (\<lambda>u. (up_extension u, up_key u)) ups) \<and>
      (\<forall>u \<in> set ups. has_key exts (up_extension u) \<and> up_id u < n))"

definition owned_or_free :: "string dict \<Rightarrow> string \<Rightarrow> string option \<Rightarrow> bool" where
  "owned_or_free owners name act =
     opt_all (\<lambda>a. a \<noteq> [] \<longrightarrow> opt_all (\<lambda>owner. owner = name) (map_of owners a)) act"

definition routes_ok ::
  "ext_row dict \<Rightarrow> upstream_row list \<Rightarrow> action_row dict \<Rightarrow> route_row list \<Rightarrow> nat \<Rightarrow> bool" where
  "routes_ok exts ups acts routes n =
     (distinct (map rt_id routes) \<and>
      (\<forall>r \<in> set routes. rt_id r < n \<and> has_key exts (rt_extension r) \<and>
         (\<exists>u \<in> set ups. up_id u = rt_upstream_id r \<and> up_extension u = rt_extension r) \<and>
         opt_all (has_key acts) (rt_required_action r)))"

definition owners_ok :: "ext_row dict \<Rightarrow> action_row dict \<Rightarrow> string dict \<Rightarrow> bool" where
  "owners_ok exts acts owners =
     (wf_dict owners \<and> (\<forall>(a, owner) \<in> set owners. has_key acts a \<and> has_key exts owner))"

definition route_owners_ok :: "string dict \<Rightarrow> route_row list \<Rightarrow> bool" where
  "route_owners_ok owners routes =
     (\<forall>r \<in> set routes. owned_or_free owners (rt_extension r) (rt_required_action r))"

definition keys_ok :: "ext_row dict \<Rightarrow> device_row dict \<Rightarrow> ((string \<times> string) \<times> device_key_row) list \<Rightarrow> bool" where
  "keys_ok exts devs keys =
     (wf_dict keys \<and> (\<forall>((e, d), k) \<in> set keys. has_key exts e \<and> has_key devs d))"

definition wf_ui :: "extension_ui \<Rightarrow> bool" where
  "wf_ui ui = list_all (\<lambda>c. opt_all wf_dict (uc_when c)) (ui_contributions ui)"

definition uis_clash :: "extension_ui option \<Rightarrow> extension_ui option \<Rightarrow> bool" where
  "uis_clash a b = (case (a, b) of
       (Some x, Some y) \<Rightarrow> \<exists>c \<in> set (replacing x). \<exists>other \<in> set (ui_contributions y). contributions_clash c other
     | _ \<Rightarrow> False)"

definition exclusive_ok :: "ext_row dict \<Rightarrow> bool" where
  "exclusive_ok exts =
     (\<forall>n r m s. map_of exts n = Some r \<longrightarrow> map_of exts m = Some s \<longrightarrow> n \<noteq> m \<longrightarrow>
        xr_enabled r \<longrightarrow> xr_enabled s \<longrightarrow> \<not> uis_clash (xr_ui r) (xr_ui s))"

definition remote_of :: "ext_row \<Rightarrow> string option" where
  "remote_of r = map_option ui_remote_name (xr_ui r)"

definition remotes_ok :: "ext_row dict \<Rightarrow> bool" where
  "remotes_ok exts =
     (\<forall>n r m s. map_of exts n = Some r \<longrightarrow> map_of exts m = Some s \<longrightarrow>
        remote_of r \<noteq> None \<longrightarrow> remote_of r = remote_of s \<longrightarrow> n = m)"

definition uis_ok :: "ext_row dict \<Rightarrow> bool" where
  "uis_ok exts = (\<forall>n r. map_of exts n = Some r \<longrightarrow> opt_all wf_ui (xr_ui r))"

definition ext_ok :: "ext_store \<Rightarrow> bool" where
  "ext_ok st =
     (iam_ok (xs_iam st) \<and> wf_dict (xs_extensions st) \<and>
      upstreams_ok (xs_extensions st) (xs_upstreams st) (xs_next_id st) \<and>
      routes_ok (xs_extensions st) (xs_upstreams st) (im_actions (xs_iam st)) (xs_routes st) (xs_next_id st) \<and>
      owners_ok (xs_extensions st) (im_actions (xs_iam st)) (xs_actions st) \<and>
      route_owners_ok (xs_actions st) (xs_routes st) \<and>
      keys_ok (xs_extensions st) (devices (app_catalog (xs_app st))) (xs_device_keys st) \<and>
      uis_ok (xs_extensions st) \<and>
      exclusive_ok (xs_extensions st) \<and> remotes_ok (xs_extensions st))"

text \<open>A Python dict holds each key once: the two dicts of a manifest.\<close>

definition wf_registration :: "registration \<Rightarrow> bool" where
  "wf_registration reg = (wf_dict (rg_upstreams reg) \<and> opt_all wf_ui (rg_ui reg))"

section \<open>Clashes\<close>

lemma when_overlaps_sym:
  assumes "opt_all wf_dict a" "opt_all wf_dict b"
  shows "when_overlaps a b = when_overlaps b a"
proof -
  have half: "when_overlaps (Some y) (Some x)" if wf: "wf_dict x" "wf_dict y" and o: "when_overlaps (Some x) (Some y)" for x y
  proof -
    { fix f ws vs
      assume f: "(f, ws) \<in> set y" "map_of x f = Some vs"
      have "map_of y f = Some ws" using f(1) wf(2) by simp
      moreover have "(f, vs) \<in> set x" using f(2) by (rule map_of_SomeD)
      ultimately have "\<exists>v \<in> set vs. v \<in> set ws"
        using o by (fastforce simp: when_overlaps_def list_all_iff list_ex_iff)
      then have "\<exists>v \<in> set ws. v \<in> set vs" by blast }
    then show ?thesis
      by (auto simp: when_overlaps_def list_all_iff list_ex_iff split: option.splits)
  qed
  show ?thesis
  proof (cases a; cases b)
    fix x y assume "a = Some x" "b = Some y"
    then show ?thesis using half[of x y] half[of y x] assms by auto
  qed (auto simp: when_overlaps_def)
qed

lemma uis_clash_sym:
  assumes "opt_all wf_ui a" "opt_all wf_ui b"
  shows "uis_clash a b = uis_clash b a"
proof -
  have half: "uis_clash (Some y) (Some x)" if wf: "wf_ui x" "wf_ui y" and c: "uis_clash (Some x) (Some y)" for x y
  proof -
    from c obtain c d where cd: "c \<in> set (replacing x)" "d \<in> set (ui_contributions y)" "contributions_clash c d"
      by (auto simp: uis_clash_def)
    then have "d \<in> set (replacing y)" "c \<in> set (ui_contributions x)"
      by (auto simp: replacing_def contributions_clash_def)
    moreover have "opt_all wf_dict (uc_when c)" "opt_all wf_dict (uc_when d)"
      using wf cd calculation by (auto simp: wf_ui_def list_all_iff)
    then have "contributions_clash d c"
      using cd(3) when_overlaps_sym by (auto simp: contributions_clash_def)
    ultimately show ?thesis by (auto simp: uis_clash_def)
  qed
  show ?thesis
    by (cases a; cases b) (use half assms in \<open>auto simp: uis_clash_def[of None] uis_clash_def[of _ None]\<close>)
qed

text \<open>No enabled extension other than \<open>name\<close> clashes with \<open>ui\<close>; none has its remote name.\<close>

definition clash_free :: "ext_row dict \<Rightarrow> string \<Rightarrow> extension_ui option \<Rightarrow> bool" where
  "clash_free exts name ui =
     (\<forall>m s. map_of exts m = Some s \<longrightarrow> m \<noteq> name \<longrightarrow> xr_enabled s \<longrightarrow> \<not> uis_clash ui (xr_ui s))"

definition remote_free :: "ext_row dict \<Rightarrow> string \<Rightarrow> string option \<Rightarrow> bool" where
  "remote_free exts name remote =
     (\<forall>m s. map_of exts m = Some s \<longrightarrow> m \<noteq> name \<longrightarrow> remote \<noteq> None \<longrightarrow> remote \<noteq> remote_of s)"

lemma clash_free_set:
  "wf_dict exts \<Longrightarrow> clash_free exts name ui \<longleftrightarrow>
     (\<forall>(m, s) \<in> set exts. m \<noteq> name \<longrightarrow> xr_enabled s \<longrightarrow> \<not> uis_clash ui (xr_ui s))"
  by (auto simp: clash_free_def)

lemma check_replace_conflicts_ok:
  assumes "wf_dict (xs_extensions st)"
  shows "is_ok (check_replace_conflicts name ui st) \<longleftrightarrow> clash_free (xs_extensions st) name ui"
proof (cases ui)
  case None
  then show ?thesis by (auto simp: check_replace_conflicts_def uis_clash_def clash_free_def)
next
  case (Some u)
  show ?thesis
  proof (cases "replacing u = []")
    case True
    with Some show ?thesis
      by (auto simp: check_replace_conflicts_def uis_clash_def clash_free_def split: option.split)
  next
    case False
    with Some show ?thesis unfolding clash_free_set[OF assms]
      by (auto simp: check_replace_conflicts_def uis_clash_def list_extensions_rows_def split: option.splits; fastforce)
  qed
qed

section \<open>Updates of one row\<close>

lemma sql_update_const:
  "wf_dict tbl \<Longrightarrow> map_of tbl k = Some row \<Longrightarrow> sql_update k f tbl = sql_update k (\<lambda>_. f row) tbl"
  by (auto simp: sql_update_def dest: wf_dict_unique map_of_SomeD)

lemma has_key_map_of: "has_key tbl k \<longleftrightarrow> (\<exists>row. map_of tbl k = Some row)"
  by (auto simp: has_key_def)

lemma map_of_row_update:
  "map_of tbl k = Some row \<Longrightarrow> map_of (sql_update k (\<lambda>_. row') tbl) = (map_of tbl)(k \<mapsto> row')"
  by (auto simp: map_of_sql_update)

lemma update_extension_Inr:
  "update_extension name f st = Inr st' \<longleftrightarrow>
     extension_exists name st \<and> st' = st\<lparr>xs_extensions := sql_update name f (xs_extensions st)\<rparr>"
  by (auto simp: update_extension_def)

lemma update_extension_row:
  assumes "wf_dict (xs_extensions st)" "map_of (xs_extensions st) name = Some row"
    and "update_extension name f st = Inr st'"
  shows "st' = st\<lparr>xs_extensions := sql_update name (\<lambda>_. f row) (xs_extensions st)\<rparr>"
  using assms(3) sql_update_const[OF assms(1,2), of f] by (simp only: update_extension_Inr)

lemma exclusive_ok_update:
  assumes "exclusive_ok exts" "uis_ok exts" "map_of exts name = Some row" and ui: "opt_all wf_ui (xr_ui row')"
    and free: "xr_enabled row' \<Longrightarrow> clash_free exts name (xr_ui row')"
  shows "exclusive_ok (sql_update name (\<lambda>_. row') exts)"
proof -
  have "\<not> uis_clash (xr_ui r) (xr_ui row')"
    if "map_of exts n = Some r" "n \<noteq> name" "xr_enabled r" "xr_enabled row'" for n r
    using that free ui assms(2) uis_clash_sym[of "xr_ui r" "xr_ui row'"] by (auto simp: clash_free_def uis_ok_def)
  then show ?thesis
    using assms(1) free unfolding exclusive_ok_def map_of_row_update[OF assms(3)] clash_free_def by auto
qed

lemma remotes_ok_update:
  assumes "remotes_ok exts" "map_of exts name = Some row" "remote_free exts name (remote_of row')"
  shows "remotes_ok (sql_update name (\<lambda>_. row') exts)"
  using assms(1,3) unfolding remotes_ok_def map_of_row_update[OF assms(2)] remote_free_def
  by (simp add: fun_upd_def) metis

lemma ext_ok_update_row:
  assumes ok: "ext_ok st" and row: "map_of (xs_extensions st) name = Some row" and ui: "opt_all wf_ui (xr_ui row')"
    and free: "xr_enabled row' \<Longrightarrow> clash_free (xs_extensions st) name (xr_ui row')"
    and remote: "remote_free (xs_extensions st) name (remote_of row')"
  shows "ext_ok (st\<lparr>xs_extensions := sql_update name (\<lambda>_. row') (xs_extensions st)\<rparr>)"
proof -
  have "uis_ok (xs_extensions st)" "exclusive_ok (xs_extensions st)" "remotes_ok (xs_extensions st)"
    using ok by (simp_all add: ext_ok_def)
  then have "exclusive_ok (sql_update name (\<lambda>_. row') (xs_extensions st))"
    "remotes_ok (sql_update name (\<lambda>_. row') (xs_extensions st))"
    "uis_ok (sql_update name (\<lambda>_. row') (xs_extensions st))"
    using exclusive_ok_update[OF _ _ row ui free] remotes_ok_update[OF _ row remote] ui
    by (auto simp: uis_ok_def map_of_row_update[OF row])
  then show ?thesis
    using ok by (simp add: ext_ok_def upstreams_ok_def routes_ok_def owners_ok_def keys_ok_def)
qed

lemma ext_ok_row_of:
  assumes "ext_ok st" "map_of (xs_extensions st) name = Some row"
  shows "opt_all wf_ui (xr_ui row)" and "xr_enabled row \<Longrightarrow> clash_free (xs_extensions st) name (xr_ui row)"
    and "remote_free (xs_extensions st) name (remote_of row)"
proof -
  have u: "uis_ok (xs_extensions st)" "exclusive_ok (xs_extensions st)" "remotes_ok (xs_extensions st)"
    using assms(1) by (simp_all add: ext_ok_def)
  show "opt_all wf_ui (xr_ui row)" using u(1) assms(2) by (auto simp: uis_ok_def)
  show "xr_enabled row \<Longrightarrow> clash_free (xs_extensions st) name (xr_ui row)"
    using u(2) assms(2) unfolding exclusive_ok_def clash_free_def by blast
  show "remote_free (xs_extensions st) name (remote_of row)"
    using u(3) assms(2) unfolding remotes_ok_def remote_free_def by blast
qed

lemma ext_ok_wf: "ext_ok st \<Longrightarrow> wf_dict (xs_extensions st)"
  by (simp add: ext_ok_def)

text \<open>A column that is neither \<open>enabled\<close> nor \<open>ui\<close>; then those two.\<close>

lemma ext_ok_plain_update:
  assumes ok: "ext_ok st" and upd: "update_extension name f st = Inr st'"
    and same: "\<And>r. xr_enabled (f r) = xr_enabled r" "\<And>r. xr_ui (f r) = xr_ui r"
  shows "ext_ok st'"
proof -
  from upd obtain row where row: "map_of (xs_extensions st) name = Some row"
    by (auto simp: update_extension_Inr extension_exists_def has_key_map_of)
  have e: "st' = st\<lparr>xs_extensions := sql_update name (\<lambda>_. f row) (xs_extensions st)\<rparr>"
    using ext_ok_wf[OF ok] row upd by (rule update_extension_row)
  have "remote_of (f row) = remote_of row" by (simp add: remote_of_def same)
  then show ?thesis
    unfolding e using ext_ok_row_of[OF ok row] same by (intro ext_ok_update_row[OF ok row]) simp_all
qed

lemma ext_ok_set_enabled:
  assumes ok: "ext_ok st" and row: "map_of (xs_extensions st) name = Some row"
    and free: "b \<Longrightarrow> clash_free (xs_extensions st) name (xr_ui row)" and upd: "set_enabled name b st = Inr st'"
  shows "ext_ok st'"
proof -
  have e: "st' = st\<lparr>xs_extensions := sql_update name (\<lambda>_. row\<lparr>xr_enabled := b\<rparr>) (xs_extensions st)\<rparr>"
    using ext_ok_wf[OF ok] row upd[unfolded set_enabled_def] by (rule update_extension_row)
  have "remote_of (row\<lparr>xr_enabled := b\<rparr>) = remote_of row" by (simp add: remote_of_def)
  then show ?thesis
    unfolding e using ext_ok_row_of[OF ok row] free by (intro ext_ok_update_row[OF ok row]) simp_all
qed

lemma find_remote_None:
  assumes "find_extension_by_ui_remote_name remote current st = None" and "\<And>n. current = Some n \<Longrightarrow> n = name"
  shows "remote_free (xs_extensions st) name (Some remote)"
proof -
  have "remote_of s \<noteq> Some remote \<or> current = Some m" if "(m, s) \<in> set (xs_extensions st)" for m s
    using assms(1) that by (auto simp: find_extension_by_ui_remote_name_def find_None_iff remote_of_def)
  then show ?thesis
    unfolding remote_free_def using assms(2) by (metis map_of_SomeD)
qed

lemma ext_ok_set_ui:
  assumes ok: "ext_ok st" and row: "map_of (xs_extensions st) name = Some row" and ui: "opt_all wf_ui ui"
    and free: "xr_enabled row \<Longrightarrow> clash_free (xs_extensions st) name ui"
    and remote: "remote_free (xs_extensions st) name (map_option ui_remote_name ui)"
    and upd: "set_ui name ui st = Inr st'"
  shows "ext_ok st'"
proof -
  have e: "st' = st\<lparr>xs_extensions := sql_update name (\<lambda>_. row\<lparr>xr_ui := ui\<rparr>) (xs_extensions st)\<rparr>"
    using ext_ok_wf[OF ok] row upd[unfolded set_ui_def] by (rule update_extension_row)
  have "remote_of (row\<lparr>xr_ui := ui\<rparr>) = map_option ui_remote_name ui" by (simp add: remote_of_def)
  then show ?thesis
    unfolding e using ui free remote by (intro ext_ok_update_row[OF ok row]) simp_all
qed

section \<open>New extensions\<close>

lemma ext_ok_create:
  assumes ok: "ext_ok st" and c: "create_extension name d v st = Inr st'"
  shows "ext_ok st'"
proof -
  let ?row = "\<lparr>xr_description = d, xr_schema_version = v, xr_enabled = False, xr_key_hash = None, xr_ui = None\<rparr>"
  have new: "\<not> has_key (xs_extensions st) name"
    and e: "st' = st\<lparr>xs_extensions := xs_extensions st @ [(name, ?row)]\<rparr>"
    using c by (auto simp: create_extension_def extension_exists_def)
  have wf: "wf_dict (xs_extensions st @ [(name, ?row)])"
    using ok new by (intro wf_dict_append_new) (simp_all add: ext_ok_def)
  have look: "map_of (xs_extensions st @ [(name, ?row)]) = (map_of (xs_extensions st))(name \<mapsto> ?row)"
    using new by (auto simp: has_key_def map_add_def split: option.split)
  have "exclusive_ok (xs_extensions st @ [(name, ?row)])" "remotes_ok (xs_extensions st @ [(name, ?row)])"
    "uis_ok (xs_extensions st @ [(name, ?row)])"
    using ok unfolding exclusive_ok_def remotes_ok_def uis_ok_def look
    by (auto simp: ext_ok_def exclusive_ok_def remotes_ok_def uis_ok_def remote_of_def uis_clash_def)
  then show ?thesis
    using ok wf unfolding e ext_ok_def
    by (auto simp: upstreams_ok_def routes_ok_def owners_ok_def keys_ok_def simp del: map_append)
qed

end
