(* ===== verification/Ext_Operations.thy ===== *)
theory Ext_Operations
  imports Ext_Invariant
begin

text \<open>
  The statements of the extension repository keep the invariant; what the removal of actions from
  roles and from the action table leaves.
\<close>

section \<open>Actions\<close>

lemma set_iam_simps [simp]:
  "xs_iam (set_iam db st) = db" "app_catalog (xs_app (set_iam db st)) = app_catalog (xs_app st)"
  "xs_extensions (set_iam db st) = xs_extensions st" "xs_upstreams (set_iam db st) = xs_upstreams st"
  "xs_routes (set_iam db st) = xs_routes st" "xs_actions (set_iam db st) = xs_actions st"
  "xs_device_keys (set_iam db st) = xs_device_keys st" "xs_next_id (set_iam db st) = xs_next_id st"
  by (simp_all add: set_iam_def)

text \<open>A change of the users' tables that drops no action.\<close>

lemma ext_ok_set_iam:
  assumes "ext_ok st" "iam_ok db" "\<And>a. has_key (im_actions (xs_iam st)) a \<Longrightarrow> has_key (im_actions db) a"
  shows "ext_ok (set_iam db st)"
proof -
  have "routes_ok (xs_extensions st) (xs_upstreams st) (im_actions db) (xs_routes st) (xs_next_id st)"
    using assms unfolding ext_ok_def routes_ok_def by (blast intro: opt_all_mono)
  moreover have "owners_ok (xs_extensions st) (im_actions db) (xs_actions st)"
    using assms unfolding ext_ok_def owners_ok_def by fast
  ultimately show ?thesis using assms(1,2) by (simp add: ext_ok_def)
qed

lemma upsert_actions_table:
  "im_actions (xs_iam (upsert_action n d g st)) =
     (let row = \<lparr>ac_description = d, ac_is_global = g\<rparr> in
      if has_key (im_actions (xs_iam st)) n then sql_update n (\<lambda>_. row) (im_actions (xs_iam st))
      else im_actions (xs_iam st) @ [(n, row)])"
  by (simp add: upsert_action_def Let_def)

lemma has_key_upsert [simp]:
  "has_key (im_actions (xs_iam (upsert_action n d g st))) a \<longleftrightarrow> a = n \<or> has_key (im_actions (xs_iam st)) a"
  by (auto simp: upsert_actions_table Let_def)

lemma upsert_action_iam:
  "xs_iam (upsert_action n d g st) = (xs_iam st)\<lparr>im_actions := im_actions (xs_iam (upsert_action n d g st))\<rparr>"
  by (simp add: upsert_action_def Let_def)

lemma iam_ok_actions:
  assumes "iam_ok db" "wf_dict acts" "\<And>a. has_key (im_actions db) a \<Longrightarrow> has_key acts a"
  shows "iam_ok (db\<lparr>im_actions := acts\<rparr>)"
  using assms by (auto simp: iam_ok_def)

lemma ext_ok_upsert:
  assumes ok: "ext_ok st"
  shows "ext_ok (upsert_action n d g st)"
proof -
  let ?acts = "im_actions (xs_iam (upsert_action n d g st))"
  have "wf_dict ?acts"
    using ok by (auto simp: upsert_actions_table Let_def ext_ok_def iam_ok_def wf_dict_append_new simp del: map_append)
  then have "iam_ok (xs_iam (upsert_action n d g st))"
    using ok iam_ok_actions[of "xs_iam st" ?acts] by (subst upsert_action_iam) (auto simp: ext_ok_def)
  then have "ext_ok (set_iam (xs_iam (upsert_action n d g st)) st)"
    using ok by (intro ext_ok_set_iam) simp_all
  moreover have "set_iam (xs_iam (upsert_action n d g st)) st = upsert_action n d g st"
    by (simp add: upsert_action_def Let_def)
  ultimately show ?thesis by simp
qed

definition upsert_all :: "registration \<Rightarrow> ext_store \<Rightarrow> ext_store" where
  "upsert_all reg st = fold (\<lambda>a. upsert_action (ac_name a) (ac_desc a) (action_is_global (ac_name a) (rg_routes reg)))
     (rg_actions reg) st"

lemma upsert_fold_facts:
  "ext_ok st \<Longrightarrow> ext_ok (fold (\<lambda>a. upsert_action (ac_name a) (ac_desc a) (g a)) as st)"
  "xs_extensions (fold (\<lambda>a. upsert_action (ac_name a) (ac_desc a) (g a)) as st) = xs_extensions st"
  "xs_upstreams (fold (\<lambda>a. upsert_action (ac_name a) (ac_desc a) (g a)) as st) = xs_upstreams st"
  "xs_routes (fold (\<lambda>a. upsert_action (ac_name a) (ac_desc a) (g a)) as st) = xs_routes st"
  "xs_actions (fold (\<lambda>a. upsert_action (ac_name a) (ac_desc a) (g a)) as st) = xs_actions st"
  "xs_device_keys (fold (\<lambda>a. upsert_action (ac_name a) (ac_desc a) (g a)) as st) = xs_device_keys st"
  "xs_next_id (fold (\<lambda>a. upsert_action (ac_name a) (ac_desc a) (g a)) as st) = xs_next_id st"
  "app_catalog (xs_app (fold (\<lambda>a. upsert_action (ac_name a) (ac_desc a) (g a)) as st)) = app_catalog (xs_app st)"
  "has_key (im_actions (xs_iam (fold (\<lambda>a. upsert_action (ac_name a) (ac_desc a) (g a)) as st))) n \<longleftrightarrow>
     n \<in> set (map ac_name as) \<or> has_key (im_actions (xs_iam st)) n"
  by (induction as arbitrary: st) (auto simp: ext_ok_upsert, simp_all add: upsert_action_def Let_def)

lemma enroll_actions_Inr:
  "enroll_actions reg st = Inr st' \<longleftrightarrow>
     extension_exists (rg_name reg) st \<and>
     wf_dict (xs_actions st @ map (\<lambda>a. (a, rg_name reg)) (map ac_name (rg_actions reg))) \<and>
     st' = (upsert_all reg st)\<lparr>xs_actions := xs_actions st @ map (\<lambda>a. (a, rg_name reg)) (map ac_name (rg_actions reg))\<rparr>"
  unfolding enroll_actions_def record_extension_actions_def upsert_all_def[symmetric] Let_def
  by (auto simp: extension_exists_def action_exists_def list_all_iff upsert_all_def upsert_fold_facts)

lemma map_of_append_owner:
  "map_of (owners @ map (\<lambda>a. (a, n)) as) a = (case map_of owners a of Some x \<Rightarrow> Some x
     | None \<Rightarrow> if a \<in> set as then Some n else None)"
  by (induction as) (auto simp: map_add_def split: option.splits)

text \<open>No route of another extension requires one of the new actions.\<close>

lemma ext_ok_enroll:
  assumes ok: "ext_ok st" and e: "enroll_actions reg st = Inr st'"
    and routes: "\<And>r a. r \<in> set (xs_routes st) \<Longrightarrow> rt_required_action r = Some a \<Longrightarrow>
      a \<in> set (map ac_name (rg_actions reg)) \<Longrightarrow> a \<noteq> [] \<Longrightarrow> rt_extension r = rg_name reg"
  shows "ext_ok st'"
proof -
  let ?owners = "xs_actions st @ map (\<lambda>a. (a, rg_name reg)) (map ac_name (rg_actions reg))"
  have u: "ext_ok (upsert_all reg st)" unfolding upsert_all_def by (rule upsert_fold_facts(1)[OF ok])
  note f = upsert_fold_facts(2-9)[of "\<lambda>a. action_is_global (ac_name a) (rg_routes reg)" "rg_actions reg" st,
    folded upsert_all_def]
  from e have ex: "has_key (xs_extensions st) (rg_name reg)" and wf: "wf_dict ?owners"
    and st': "st' = (upsert_all reg st)\<lparr>xs_actions := ?owners\<rparr>"
    by (auto simp: enroll_actions_Inr extension_exists_def)
  have "owners_ok (xs_extensions st) (im_actions (xs_iam (upsert_all reg st))) (xs_actions st)"
    using u by (simp add: ext_ok_def f)
  then have "owners_ok (xs_extensions st) (im_actions (xs_iam (upsert_all reg st))) ?owners"
    using wf ex unfolding owners_ok_def by (auto simp: f simp del: map_append map_map)
  moreover have "route_owners_ok ?owners (xs_routes st)"
  proof -
    have "owned_or_free ?owners (rt_extension r) (rt_required_action r)" if r: "r \<in> set (xs_routes st)" for r
    proof (cases "rt_required_action r")
      case None
      then show ?thesis by (simp add: owned_or_free_def)
    next
      case (Some a)
      have "owned_or_free (xs_actions st) (rt_extension r) (Some a)"
        using ok r Some by (auto simp: ext_ok_def route_owners_ok_def)
      then show ?thesis
        using routes[OF r Some] unfolding Some owned_or_free_def opt_all_simps map_of_append_owner
        by (auto split: option.split)
    qed
    then show ?thesis by (simp add: route_owners_ok_def)
  qed
  ultimately show ?thesis
    using u unfolding st' ext_ok_def by (simp add: f)
qed

lemma ext_ok_clear:
  assumes ok: "ext_ok st"
  shows "ext_ok (clear_extension_actions name st)"
proof -
  have "map_of (filter (\<lambda>(_, owner). owner \<noteq> name) (xs_actions st)) a = Some x \<Longrightarrow> map_of (xs_actions st) a = Some x"
    for a x
    using ok by (auto simp: ext_ok_def owners_ok_def dest!: map_of_SomeD)
  then have "route_owners_ok (filter (\<lambda>(_, owner). owner \<noteq> name) (xs_actions st)) (xs_routes st)"
    using ok unfolding ext_ok_def route_owners_ok_def owned_or_free_def opt_all_def
    by (auto split: option.splits; metis)
  moreover have "owners_ok (xs_extensions st) (im_actions (xs_iam st)) (filter (\<lambda>(_, owner). owner \<noteq> name) (xs_actions st))"
    using ok by (auto simp: ext_ok_def owners_ok_def)
  ultimately show ?thesis
    using ok by (simp add: ext_ok_def clear_extension_actions_def)
qed

section \<open>Upstreams and routes\<close>

lemma map2_upstreams:
  assumes "length is = length us"
  shows "map up_id (map2 (upstream_row_of name) is us) = is"
    and "map (\<lambda>u. (up_extension u, up_key u)) (map2 (upstream_row_of name) is us) = map (Pair name) (map fst us)"
    and "u \<in> set (map2 (upstream_row_of name) is us) \<Longrightarrow> up_extension u = name"
  using assms by (induction "is" us rule: list_induct2) (auto simp: upstream_row_of_def)

lemma insert_route_Inr:
  "insert_route name ups st (route, mode, body) = Inr st' \<longleftrightarrow>
     (\<exists>u. List.find (\<lambda>u. up_key u = rs_upstream route) ups = Some u \<and>
        opt_all (has_key (im_actions (xs_iam st))) (rs_required_action route) \<and>
        st' = st\<lparr>xs_routes := xs_routes st @ [route_row_of name (up_id u) (xs_next_id st) (route, mode, body)],
                 xs_next_id := Suc (xs_next_id st)\<rparr>)"
  by (auto simp: insert_route_def split: option.split)

lemma ext_ok_insert_route:
  assumes ok: "ext_ok st" and i: "insert_route name ups st (route, mode, body) = Inr st'"
    and ups: "set ups \<subseteq> set (xs_upstreams st)" "\<And>u. u \<in> set ups \<Longrightarrow> up_extension u = name"
    and free: "owned_or_free (xs_actions st) name (rs_required_action route)"
  shows "ext_ok st'"
proof -
  from i obtain u where u: "List.find (\<lambda>u. up_key u = rs_upstream route) ups = Some u"
    and act: "opt_all (has_key (im_actions (xs_iam st))) (rs_required_action route)"
    and st': "st' = st\<lparr>xs_routes := xs_routes st @ [route_row_of name (up_id u) (xs_next_id st) (route, mode, body)],
       xs_next_id := Suc (xs_next_id st)\<rparr>"
    by (auto simp: insert_route_Inr)
  let ?r = "route_row_of name (up_id u) (xs_next_id st) (route, mode, body)"
  have mem: "u \<in> set (xs_upstreams st)" "up_extension u = name"
    using u ups by (auto simp: find_Some_iff)
  have up: "upstreams_ok (xs_extensions st) (xs_upstreams st) (Suc (xs_next_id st))"
    and name: "has_key (xs_extensions st) name"
    using ok mem by (auto simp: ext_ok_def upstreams_ok_def less_Suc_eq)
  have "routes_ok (xs_extensions st) (xs_upstreams st) (im_actions (xs_iam st)) (xs_routes st @ [?r]) (Suc (xs_next_id st))"
    using ok mem name act unfolding ext_ok_def routes_ok_def
    by (auto simp: route_row_of_def less_Suc_eq)
  moreover have "route_owners_ok (xs_actions st) (xs_routes st @ [?r])"
    using ok free unfolding ext_ok_def route_owners_ok_def by (auto simp: route_row_of_def)
  ultimately show ?thesis using ok up unfolding st' ext_ok_def by simp
qed

text \<open>The tables after the old upstreams and routes of an extension are gone and the new upstreams in.\<close>

definition with_upstreams :: "string \<Rightarrow> upstream_spec dict \<Rightarrow> ext_store \<Rightarrow> ext_store" where
  "with_upstreams name upstreams st =
     st\<lparr>xs_upstreams := filter (\<lambda>u. up_extension u \<noteq> name) (xs_upstreams st)
          @ map2 (upstream_row_of name) [xs_next_id st..<xs_next_id st + length upstreams] upstreams,
        xs_routes := filter (\<lambda>r. rt_extension r \<noteq> name) (xs_routes st),
        xs_next_id := xs_next_id st + length upstreams\<rparr>"

abbreviation new_upstreams :: "string \<Rightarrow> upstream_spec dict \<Rightarrow> ext_store \<Rightarrow> upstream_row list" where
  "new_upstreams name upstreams st \<equiv>
     map2 (upstream_row_of name) [xs_next_id st..<xs_next_id st + length upstreams] upstreams"

lemma new_upstreams_facts:
  "map up_id (new_upstreams name us st) = [xs_next_id st..<xs_next_id st + length us]"
  "map (\<lambda>u. (up_extension u, up_key u)) (new_upstreams name us st) = map (Pair name) (map fst us)"
  "u \<in> set (new_upstreams name us st) \<Longrightarrow> up_extension u = name"
  by (rule map2_upstreams; simp)+

lemma replace_upstreams_and_routes_Inr:
  "replace_upstreams_and_routes name us routes st = Inr st' \<longleftrightarrow>
     extension_exists name st \<and> foldR (insert_route name (new_upstreams name us st)) (with_upstreams name us st) routes = Inr st'"
  by (auto simp: replace_upstreams_and_routes_def with_upstreams_def Let_def)

lemma ext_ok_with_upstreams:
  assumes ok: "ext_ok st" and ex: "extension_exists name st" and wf: "wf_dict us"
  shows "ext_ok (with_upstreams name us st)"
proof -
  let ?new = "new_upstreams name us st" and ?old = "filter (\<lambda>u. up_extension u \<noteq> name) (xs_upstreams st)"
  have old: "upstreams_ok (xs_extensions st) (xs_upstreams st) (xs_next_id st)" using ok by (simp add: ext_ok_def)
  have ids: "up_id ` set ?new = {xs_next_id st..<xs_next_id st + length us}"
    using arg_cong[OF new_upstreams_facts(1)[where name = name and us = us and st = st], of set] by (simp only: set_map set_upt)
  have "distinct (map up_id (?old @ ?new))"
    using old ids unfolding map_append distinct_append new_upstreams_facts(1) set_map upstreams_ok_def
    by (auto simp: distinct_map_filter)
  moreover have "distinct (map (\<lambda>u. (up_extension u, up_key u)) (?old @ ?new))"
    using old wf unfolding map_append distinct_append new_upstreams_facts(2) upstreams_ok_def
    by (auto simp: distinct_map_filter distinct_map inj_on_def)
  moreover have "has_key (xs_extensions st) (up_extension u) \<and> up_id u < xs_next_id st + length us"
    if "u \<in> set (?old @ ?new)" for u
  proof (cases "u \<in> set ?new")
    case True
    then have "up_id u \<in> {xs_next_id st..<xs_next_id st + length us}" using ids by blast
    then show ?thesis using new_upstreams_facts(3)[OF True] ex by (simp add: extension_exists_def)
  next
    case False
    with that show ?thesis using old by (auto simp: upstreams_ok_def)
  qed
  ultimately have up: "upstreams_ok (xs_extensions st) (?old @ ?new) (xs_next_id st + length us)"
    by (simp only: upstreams_ok_def) blast
  have "routes_ok (xs_extensions st) (?old @ ?new) (im_actions (xs_iam st))
      (filter (\<lambda>r. rt_extension r \<noteq> name) (xs_routes st)) (xs_next_id st + length us)"
  proof -
    let ?ok = "\<lambda>n r. rt_id r < n \<and> has_key (xs_extensions st) (rt_extension r) \<and>
      opt_all (has_key (im_actions (xs_iam st))) (rt_required_action r)"
    have ro: "distinct (map rt_id (xs_routes st))" "\<And>r. r \<in> set (xs_routes st) \<Longrightarrow> ?ok (xs_next_id st) r"
      "\<And>r. r \<in> set (xs_routes st) \<Longrightarrow> \<exists>u \<in> set (xs_upstreams st). up_id u = rt_upstream_id r \<and> up_extension u = rt_extension r"
      using ok unfolding ext_ok_def routes_ok_def by blast+
    have "\<exists>u \<in> set (?old @ ?new). up_id u = rt_upstream_id r \<and> up_extension u = rt_extension r"
      if r: "r \<in> set (xs_routes st)" "rt_extension r \<noteq> name" for r
    proof -
      obtain u where "u \<in> set (xs_upstreams st)" "up_id u = rt_upstream_id r" "up_extension u = rt_extension r"
        using ro(3)[OF r(1)] by blast
      then have "u \<in> set ?old" using r(2) by simp
      then show ?thesis
        using \<open>up_id u = rt_upstream_id r\<close> \<open>up_extension u = rt_extension r\<close> unfolding set_append by blast
    qed
    moreover have "?ok (xs_next_id st + length us) r" if "r \<in> set (xs_routes st)" for r
      using ro(2)[OF that] by simp
    ultimately show ?thesis
      using ro(1) unfolding routes_ok_def set_filter by (simp add: distinct_map_filter del: set_append map_append)
  qed
  moreover have "route_owners_ok (xs_actions st) (filter (\<lambda>r. rt_extension r \<noteq> name) (xs_routes st))"
    using ok by (auto simp: ext_ok_def route_owners_ok_def)
  ultimately show ?thesis
    using ok up unfolding with_upstreams_def ext_ok_def by simp
qed

lemma ext_ok_replace_routes:
  assumes ok: "ext_ok st" and rep: "replace_upstreams_and_routes name us routes st = Inr st'" and wf: "wf_dict us"
    and free: "\<And>route mode body. (route, mode, body) \<in> set routes \<Longrightarrow>
      owned_or_free (xs_actions st) name (rs_required_action route)"
  shows "ext_ok st'"
proof -
  let ?st = "with_upstreams name us st" and ?ups = "new_upstreams name us st"
  have ex: "extension_exists name st" and f: "foldR (insert_route name ?ups) ?st routes = Inr st'"
    using rep by (auto simp: replace_upstreams_and_routes_Inr)
  let ?P = "\<lambda>s. ext_ok s \<and> xs_upstreams s = xs_upstreams ?st \<and> xs_actions s = xs_actions st"
  have "?P st'"
  proof (rule foldR_invariant[OF f, of ?P])
    show "?P ?st" using ext_ok_with_upstreams[OF ok ex wf] by (simp add: with_upstreams_def)
  next
    fix s x s'
    assume x: "x \<in> set routes" and P: "?P s" and i: "insert_route name ?ups s x = Inr s'"
    obtain route mode body where xx: "x = (route, mode, body)" by (cases x)
    have "set ?ups \<subseteq> set (xs_upstreams s)" using P unfolding with_upstreams_def by simp
    moreover have "owned_or_free (xs_actions s) name (rs_required_action route)"
      using free[of route mode body] x P by (simp only: xx)
    ultimately have "ext_ok s'"
      using ext_ok_insert_route[OF _ i[unfolded xx]] P new_upstreams_facts(3) by blast
    then show "?P s'" using i P by (auto simp: xx insert_route_Inr)
  qed
  then show ?thesis by simp
qed

section \<open>Removal of actions\<close>

lemma set_iam_set_iam [simp]: "set_iam d (set_iam d' st) = set_iam d st"
  by (simp add: set_iam_def)

lemma set_iam_self [simp]: "set_iam (xs_iam st) st = st"
  by (simp add: set_iam_def)

lemma remove_action_iam:
  assumes "has_key (im_roles db) rid"
  shows "snd (remove_action_from_role rid a db) =
    db\<lparr>im_role_actions := filter (\<lambda>p. p \<noteq> (rid, a)) (im_role_actions db)\<rparr>"
proof -
  obtain r where "map_of (im_roles db) rid = Some r" using assms by (auto simp: has_key_def)
  moreover have "removeAll (rid, a) xs = filter (\<lambda>p. p \<noteq> (rid, a)) xs" for xs
    unfolding removeAll_filter_not_eq by (rule filter_cong) auto
  ultimately show ?thesis by (simp add: remove_action_from_role_def Let_def)
qed

lemma strip_one_role:
  assumes "has_key (im_roles (xs_iam st)) rid"
    and "\<And>a. (rid, a) \<in> set (im_role_actions (xs_iam st)) \<Longrightarrow> a \<in> set held"
  shows "fold (\<lambda>a st. if a \<in> set held then set_iam (snd (remove_action_from_role rid a (xs_iam st))) st else st) names st
    = set_iam ((xs_iam st)\<lparr>im_role_actions :=
        filter (\<lambda>p. \<not> (fst p = rid \<and> snd p \<in> set names)) (im_role_actions (xs_iam st))\<rparr>) st"
  using assms
proof (induction names arbitrary: st)
  case Nil
  then show ?case by simp
next
  case (Cons a names)
  let ?db = "xs_iam st" and ?ra = "im_role_actions (xs_iam st)"
  let ?st = "set_iam (?db\<lparr>im_role_actions := filter (\<lambda>p. p \<noteq> (rid, a)) ?ra\<rparr>) st"
  have same: "filter (\<lambda>p. p \<noteq> (rid, a)) ?ra = ?ra" if "a \<notin> set held"
    using that Cons.prems(2) by (intro filter_True) auto
  have "(if a \<in> set held then set_iam (snd (remove_action_from_role rid a ?db)) st else st) = ?st"
    using Cons.prems(1) same by (simp add: remove_action_iam)
  then have "fold (\<lambda>a st. if a \<in> set held then set_iam (snd (remove_action_from_role rid a (xs_iam st))) st else st)
      (a # names) st = set_iam ((xs_iam ?st)\<lparr>im_role_actions :=
        filter (\<lambda>p. \<not> (fst p = rid \<and> snd p \<in> set names)) (im_role_actions (xs_iam ?st))\<rparr>) ?st"
    using Cons.IH[of ?st] Cons.prems by simp
  also have "\<dots> = set_iam (?db\<lparr>im_role_actions := filter (\<lambda>p. \<not> (fst p = rid \<and> snd p \<in> set (a # names))) ?ra\<rparr>) st"
    by (simp add: conj_ac) (rule arg_cong[of _ _ "\<lambda>l. set_iam (?db\<lparr>im_role_actions := l\<rparr>) st"], rule filter_cong, auto)
  finally show ?case .
qed

lemma strip_roles:
  assumes "\<forall>(rid, r) \<in> set roles. has_key (im_roles (xs_iam st)) rid"
  shows "fold (\<lambda>(rid, _) st. let held = linked (im_role_actions (xs_iam st)) rid in
      fold (\<lambda>a st. if a \<in> set held then set_iam (snd (remove_action_from_role rid a (xs_iam st))) st else st) names st)
    roles st
    = set_iam ((xs_iam st)\<lparr>im_role_actions :=
        filter (\<lambda>p. \<not> (fst p \<in> fst ` set roles \<and> snd p \<in> set names)) (im_role_actions (xs_iam st))\<rparr>) st"
  using assms
proof (induction roles arbitrary: st)
  case Nil
  then show ?case by simp
next
  case (Cons x roles)
  obtain rid r where x: "x = (rid, r)" by (cases x)
  let ?ra = "im_role_actions (xs_iam st)"
  let ?st = "set_iam ((xs_iam st)\<lparr>im_role_actions := filter (\<lambda>p. \<not> (fst p = rid \<and> snd p \<in> set names)) ?ra\<rparr>) st"
  have k: "has_key (im_roles (xs_iam st)) rid" using Cons.prems by (simp add: x)
  have one: "(let held = linked ?ra rid in
      fold (\<lambda>a st. if a \<in> set held then set_iam (snd (remove_action_from_role rid a (xs_iam st))) st else st) names st) = ?st"
    unfolding Let_def by (rule strip_one_role[OF k]) (simp add: set_linked)
  have eq: "filter (\<lambda>p. \<not> (fst p \<in> fst ` set roles \<and> snd p \<in> set names)) (filter (\<lambda>p. \<not> (fst p = rid \<and> snd p \<in> set names)) ?ra)
      = filter (\<lambda>p. \<not> (fst p \<in> fst ` set (x # roles) \<and> snd p \<in> set names)) ?ra"
    unfolding filter_filter by (rule filter_cong) (auto simp: x)
  have "\<forall>(rid, r) \<in> set roles. has_key (im_roles (xs_iam ?st)) rid" using Cons.prems by simp
  from Cons.IH[OF this] show ?case
    unfolding x fold_simps case_prod_conv one comp_def using eq[unfolded x] by simp
qed

lemma strip_actions_exact:
  assumes "iam_ok (xs_iam st)"
  shows "strip_actions_from_all_roles names st =
    set_iam ((xs_iam st)\<lparr>im_role_actions := filter (\<lambda>(_, a). a \<notin> set names) (im_role_actions (xs_iam st))\<rparr>) st"
proof (cases "names = []")
  case True
  then show ?thesis by (simp add: strip_actions_from_all_roles_def case_prod_unfold)
next
  case False
  let ?roles = "im_roles (xs_iam st)"
  have fk: "fst p \<in> fst ` set ?roles" if "p \<in> set (im_role_actions (xs_iam st))" for p
    using assms that by (cases p) (auto simp: iam_ok_def has_key_iff)
  have "\<forall>(rid, r) \<in> set ?roles. has_key ?roles rid" by (force simp: has_key_iff)
  from strip_roles[OF this, of names] False show ?thesis
    using fk by (simp add: strip_actions_from_all_roles_def case_prod_unfold cong: filter_cong)
qed

lemma iam_ok_strip:
  "iam_ok db \<Longrightarrow> iam_ok (db\<lparr>im_role_actions := filter P (im_role_actions db)\<rparr>)"
  by (auto simp: iam_ok_def)

lemma ext_ok_strip: "ext_ok st \<Longrightarrow> ext_ok (strip_actions_from_all_roles names st)"
  using ext_ok_set_iam[of st] iam_ok_strip[of "xs_iam st"] strip_actions_exact[of st names]
  by (auto simp: ext_ok_def)

lemma fewer_extensions_ok:
  assumes "\<And>n r. map_of exts' n = Some r \<Longrightarrow> map_of exts n = Some r"
  shows "uis_ok exts \<Longrightarrow> uis_ok exts'" "exclusive_ok exts \<Longrightarrow> exclusive_ok exts'" "remotes_ok exts \<Longrightarrow> remotes_ok exts'"
  using assms unfolding uis_ok_def exclusive_ok_def remotes_ok_def by blast+

lemma ext_ok_delete_extension:
  assumes ok: "ext_ok st"
  shows "ext_ok (delete_extension name st)"
proof -
  let ?st = "delete_extension name st" and ?exts = "xs_extensions st"
  have look: "map_of (dpop name ?exts) n = Some r \<Longrightarrow> map_of ?exts n = Some r" for n r
    by (simp only: map_of_dpop) (simp add: fun_upd_def split: if_splits)
  have "uis_ok (dpop name ?exts)" "exclusive_ok (dpop name ?exts)" "remotes_ok (dpop name ?exts)"
    using ok fewer_extensions_ok[where exts = ?exts and exts' = "dpop name ?exts"] look unfolding ext_ok_def by blast+
  moreover have "upstreams_ok (dpop name ?exts) (xs_upstreams ?st) (xs_next_id ?st)"
    using ok by (auto simp: ext_ok_def upstreams_ok_def delete_extension_def distinct_map_filter)
  moreover have "routes_ok (dpop name ?exts) (xs_upstreams ?st) (im_actions (xs_iam st)) (xs_routes ?st) (xs_next_id ?st)"
    using ok by (force simp: ext_ok_def routes_ok_def delete_extension_def distinct_map_filter)
  moreover have "owners_ok (dpop name ?exts) (im_actions (xs_iam st)) (xs_actions ?st)"
    using ok by (auto simp: ext_ok_def owners_ok_def delete_extension_def)
  moreover have "route_owners_ok (xs_actions (clear_extension_actions name st)) (xs_routes st)"
    using ext_ok_clear[OF ok] by (simp add: ext_ok_def clear_extension_actions_def)
  then have "route_owners_ok (xs_actions ?st) (xs_routes ?st)"
    by (auto simp: route_owners_ok_def delete_extension_def clear_extension_actions_def)
  moreover have "keys_ok (dpop name ?exts) (devices (app_catalog (xs_app st))) (xs_device_keys ?st)"
    using ok by (auto simp: ext_ok_def keys_ok_def delete_extension_def)
  ultimately show ?thesis
    using ok unfolding ext_ok_def by (simp add: delete_extension_def)
qed

lemma delete_action_Inr:
  "delete_action a st = Inr st' \<longleftrightarrow>
     (\<forall>r \<in> set (xs_routes st). rt_required_action r \<noteq> Some a) \<and>
     st' = set_iam ((xs_iam st)\<lparr>im_actions := dpop a (im_actions (xs_iam st))\<rparr>) st"
  by (auto simp: delete_action_def list_ex_iff)

lemma ext_ok_delete_action:
  assumes ok: "ext_ok st" and owner: "get_action_owner a st = None" and granted: "\<not> is_action_granted_to_any_role a st"
    and d: "delete_action a st = Inr st'"
  shows "ext_ok st'"
proof -
  let ?acts = "dpop a (im_actions (xs_iam st))"
  have iam: "iam_ok (xs_iam st)" using ok by (simp add: ext_ok_def)
  have "iam_ok ((xs_iam st)\<lparr>im_actions := ?acts\<rparr>)"
    using iam granted by (auto simp: iam_ok_def is_action_granted_to_any_role_def list_ex_iff)
  moreover have "routes_ok (xs_extensions st) (xs_upstreams st) ?acts (xs_routes st) (xs_next_id st)"
  proof -
    have "opt_all (has_key ?acts) (rt_required_action r)"
      if "r \<in> set (xs_routes st)" "opt_all (has_key (im_actions (xs_iam st))) (rt_required_action r)" for r
      using that d by (cases "rt_required_action r") (auto simp: delete_action_Inr)
    then show ?thesis using ok unfolding ext_ok_def routes_ok_def by blast
  qed
  moreover have "owners_ok (xs_extensions st) ?acts (xs_actions st)"
    using ok owner by (auto simp: ext_ok_def owners_ok_def get_action_owner_def map_of_eq_None_iff image_iff)
  ultimately show ?thesis using ok d by (simp add: ext_ok_def delete_action_Inr)
qed

lemma ext_ok_delete_orphaned:
  "ext_ok st \<Longrightarrow> delete_orphaned_actions names st = Inr st' \<Longrightarrow> ext_ok st'"
  unfolding delete_orphaned_actions_def
  by (rule foldR_invariant[where P = ext_ok]) (auto intro: ext_ok_delete_action split: if_splits)

text \<open>Actions that nobody owns, holds or requires are all deleted.\<close>

lemma delete_orphaned_all:
  assumes "\<And>a. a \<in> set names \<Longrightarrow> get_action_owner a st = None \<and> \<not> is_action_granted_to_any_role a st \<and>
      (\<forall>r \<in> set (xs_routes st). rt_required_action r \<noteq> Some a)"
  shows "delete_orphaned_actions names st =
    Inr (set_iam ((xs_iam st)\<lparr>im_actions := filter (\<lambda>(a, _). a \<notin> set names) (im_actions (xs_iam st))\<rparr>) st)"
  using assms
proof (induction names arbitrary: st)
  case Nil
  then show ?case by (simp add: delete_orphaned_actions_def case_prod_unfold)
next
  case (Cons a names)
  let ?st = "set_iam ((xs_iam st)\<lparr>im_actions := dpop a (im_actions (xs_iam st))\<rparr>) st"
  have "delete_action a st = Inr ?st" using Cons.prems[of a] by (simp add: delete_action_Inr)
  then have step: "delete_orphaned_actions (a # names) st = delete_orphaned_actions names ?st"
    using Cons.prems[of a] by (simp add: delete_orphaned_actions_def)
  have "delete_orphaned_actions names ?st =
      Inr (set_iam ((xs_iam ?st)\<lparr>im_actions := filter (\<lambda>(a, _). a \<notin> set names) (im_actions (xs_iam ?st))\<rparr>) ?st)"
    using Cons.prems by (intro Cons.IH) (simp add: get_action_owner_def is_action_granted_to_any_role_def)
  moreover have "filter (\<lambda>(b, _). b \<notin> set names) (dpop a (im_actions (xs_iam st)))
      = filter (\<lambda>(b, _). b \<notin> set (a # names)) (im_actions (xs_iam st))"
    unfolding AList.delete_eq filter_filter by (rule filter_cong) auto
  ultimately show ?case unfolding step by simp
qed

end
