(* ===== verification/Ext_Steps.thy ===== *)
theory Ext_Steps
  imports Ext_Operations
begin

text \<open>
  The extension store as a transition system, the lifecycle operations taken whole, and what they
  guarantee: the constraints and the exclusivity of enabled replacements hold in every reachable
  store, an extension's manifest touches nothing of the platform and of other extensions, and
  deregistration leaves no trace.
\<close>

section \<open>Steps\<close>

definition empty_ext_store :: "app_state \<Rightarrow> ext_store" where
  "empty_ext_store app = \<lparr>xs_app = app, xs_extensions = [], xs_upstreams = [], xs_routes = [],
     xs_actions = [], xs_device_keys = [], xs_next_id = 0\<rparr>"

text \<open>A change of the devices' tables; keys of deleted devices go with them.\<close>

definition set_catalog :: "catalog \<Rightarrow> ext_store \<Rightarrow> ext_store" where
  "set_catalog db st =
     st\<lparr>xs_app := (xs_app st)\<lparr>app_catalog := db\<rparr>,
        xs_device_keys := filter (\<lambda>((_, d), _). has_key (devices db) d) (xs_device_keys st)\<rparr>"

inductive ext_step :: "ext_env \<Rightarrow> ext_store \<Rightarrow> ext_store \<Rightarrow> bool" for env where
  register: "wf_registration reg \<Longrightarrow> is_ok (accept_registration (ev_ip6 env) (ev_allowlist env) reg) \<Longrightarrow>
    register_extension env documents key reg st = (r, st') \<Longrightarrow> ext_step env st st'"
| replace: "wf_registration reg \<Longrightarrow> is_ok (accept_registration (ev_ip6 env) (ev_allowlist env) reg) \<Longrightarrow>
    replace_extension env documents name reg st = (r, st') \<Longrightarrow> ext_step env st st'"
| deregister: "deregister_extension name st = Inr st' \<Longrightarrow> ext_step env st st'"
| enable: "enable_extension env name st = (r, st') \<Longrightarrow> ext_step env st st'"
| disable: "disable_extension env name st = (r, st') \<Longrightarrow> ext_step env st st'"
| rotate: "rotate_internal_key env key name st = Inr (k, st') \<Longrightarrow> ext_step env st st'"
| issue: "issue_device_key env key name dev module_id st = Inr (k, st') \<Longrightarrow> ext_step env st st'"
| revoke: "revoke_device_key name dev st = (b, st') \<Longrightarrow> ext_step env st st'"
| health: "check_extension_health probe now name st = (h, st') \<Longrightarrow> ext_step env st st'"
| refresh: "ext_step env st (refresh_extension_ref_schemas documents name st)"
| refresh_all: "ext_step env st (refresh_ref_schemas documents st)"
| users: "run_iam op (xs_iam st) = Inr db \<Longrightarrow> ext_step env st (set_iam db st)"
| catalog: "run_op rx cop (app_catalog (xs_app st)) = Inr cat \<Longrightarrow> ext_step env st (set_catalog cat st)"

inductive ext_reachable :: "ext_env \<Rightarrow> ext_store \<Rightarrow> bool" for env where
  initial: "app_ok app \<Longrightarrow> ext_reachable env (empty_ext_store app)"
| step: "ext_reachable env st \<Longrightarrow> ext_step env st st' \<Longrightarrow> ext_reachable env st'"

section \<open>Registration and replacement\<close>

lemma insert_routes_result:
  assumes "foldR (insert_route name ups) st routes = Inr st'"
  shows "\<exists>new n. st' = st\<lparr>xs_routes := xs_routes st @ new, xs_next_id := n\<rparr> \<and>
    list_all2 (\<lambda>(route, mode, body) r. \<exists>u i. List.find (\<lambda>u. up_key u = rs_upstream route) ups = Some u \<and>
      r = route_row_of name (up_id u) i (route, mode, body)) routes new"
  using assms
proof (induction routes arbitrary: st)
  case Nil
  then have "st' = st\<lparr>xs_routes := xs_routes st @ [], xs_next_id := xs_next_id st\<rparr>" by simp
  then show ?case by blast
next
  case (Cons x routes)
  obtain route mode body where x: "x = (route, mode, body)" by (cases x)
  from Cons.prems obtain s where s: "insert_route name ups st x = Inr s"
    "foldR (insert_route name ups) s routes = Inr st'" by auto
  from s(1) obtain u where u: "List.find (\<lambda>u. up_key u = rs_upstream route) ups = Some u"
    and ss: "s = st\<lparr>xs_routes := xs_routes st @ [route_row_of name (up_id u) (xs_next_id st) (route, mode, body)],
      xs_next_id := Suc (xs_next_id st)\<rparr>"
    by (auto simp: x insert_route_Inr)
  from Cons.IH[OF s(2)] obtain new n where new: "st' = s\<lparr>xs_routes := xs_routes s @ new, xs_next_id := n\<rparr>"
    "list_all2 (\<lambda>(route, mode, body) r. \<exists>u i. List.find (\<lambda>u. up_key u = rs_upstream route) ups = Some u \<and>
      r = route_row_of name (up_id u) i (route, mode, body)) routes new" by blast
  let ?r = "route_row_of name (up_id u) (xs_next_id st) (route, mode, body)"
  have "st' = st\<lparr>xs_routes := xs_routes st @ ?r # new, xs_next_id := n\<rparr>"
    using new(1) by (simp add: ss)
  moreover have "list_all2 (\<lambda>(route, mode, body) r. \<exists>u i. List.find (\<lambda>u. up_key u = rs_upstream route) ups = Some u \<and>
      r = route_row_of name (up_id u) i (route, mode, body)) (x # routes) (?r # new)"
    using new(2) u by (auto simp: x)
  ultimately show ?case by blast
qed

lemma prepared_actions:
  "(route, mode, body) \<in> set (prepare_routes documents reg) \<Longrightarrow> route \<in> set (rg_routes reg)"
  by (auto simp: prepare_routes_def)

lemma check_route_action_iff:
  "is_ok (check_route_action as st route) \<longleftrightarrow>
     (truthy_action route \<longrightarrow> the (rs_required_action route) \<in> set as \<or>
        (get_action_owner (the (rs_required_action route)) st = None \<and> action_exists (the (rs_required_action route)) st))"
  by (auto simp: check_route_action_def Let_def)

lemma check_manifest_action_iff:
  "is_ok (check_manifest_action current st a) \<longleftrightarrow>
     (case get_action_owner a st of Some owner \<Rightarrow> current = Some owner | None \<Rightarrow> \<not> action_exists a st)"
  by (auto simp: check_manifest_action_def split: option.split)

lemma ownership_iff:
  "validate_action_ownership reg current st = Inr u \<longleftrightarrow>
     (\<forall>a \<in> set (map ac_name (rg_actions reg)). is_ok (check_manifest_action current st a)) \<and>
     (\<forall>route \<in> set (rg_routes reg). is_ok (check_route_action (map ac_name (rg_actions reg)) st route))"
  by (auto simp: validate_action_ownership_def Let_def)

lemma ui_actions_remote:
  assumes "validate_ui_required_actions reg current st = Inr u" and "\<And>n. current = Some n \<Longrightarrow> n = name"
  shows "remote_free (xs_extensions st) name (map_option ui_remote_name (rg_ui reg))"
proof (cases "rg_ui reg")
  case None
  then show ?thesis by (simp add: remote_free_def)
next
  case (Some ui)
  with assms(1) have "find_extension_by_ui_remote_name (ui_remote_name ui) current st = None"
    by (auto simp: validate_ui_required_actions_def split: option.splits)
  then show ?thesis using find_remote_None[OF _ assms(2)] by (simp add: Some)
qed

text \<open>The routes of the manifest require its own actions or free ones.\<close>

lemma manifest_routes_free:
  assumes own: "validate_action_ownership reg current st = Inr ()"
    and r: "route \<in> set (rg_routes reg)"
    and owners: "\<And>a. map_of owners a = (if a \<in> set (map ac_name (rg_actions reg)) then Some name
      else if map_of (xs_actions st) a = Some name then None else map_of (xs_actions st) a)"
  shows "owned_or_free owners name (rs_required_action route)"
proof (cases "rs_required_action route")
  case None
  then show ?thesis by (simp add: owned_or_free_def)
next
  case (Some a)
  have "is_ok (check_route_action (map ac_name (rg_actions reg)) st route)"
    using own r by (simp only: ownership_iff)
  then show ?thesis
    unfolding check_route_action_iff owned_or_free_def Some opt_all_simps owners
    by (auto simp: truthy_action_def Some truthy_str_def get_action_owner_def)
qed

text \<open>A manifest action is new, or was the extension's before: no route of another extension requires it.\<close>

lemma other_routes_free:
  assumes ok: "ext_ok st" and own: "validate_action_ownership reg current st = Inr ()"
    and current: "\<And>n. current = Some n \<Longrightarrow> n = name"
    and r: "r \<in> set (xs_routes st)" "rt_required_action r = Some a" "a \<in> set (map ac_name (rg_actions reg))" "a \<noteq> []"
  shows "rt_extension r = name"
proof -
  have chk: "is_ok (check_manifest_action current st a)" using own r(3) by (simp only: ownership_iff)
  have ro: "routes_ok (xs_extensions st) (xs_upstreams st) (im_actions (xs_iam st)) (xs_routes st) (xs_next_id st)"
    and oo: "route_owners_ok (xs_actions st) (xs_routes st)" using ok by (simp_all add: ext_ok_def)
  have "opt_all (has_key (im_actions (xs_iam st))) (rt_required_action r)"
    using ro r(1) by (simp add: routes_ok_def)
  then have key: "action_exists a st" by (simp add: r(2) action_exists_def)
  have "owned_or_free (xs_actions st) (rt_extension r) (rt_required_action r)"
    using oo r(1) by (simp add: route_owners_ok_def)
  then have own: "map_of (xs_actions st) a = Some owner \<Longrightarrow> owner = rt_extension r" for owner
    using r(4) by (simp add: r(2) owned_or_free_def)
  show ?thesis
  proof (cases "map_of (xs_actions st) a")
    case None
    with chk key show ?thesis by (simp add: check_manifest_action_iff get_action_owner_def)
  next
    case (Some owner)
    with chk have "current = Some owner" by (simp add: check_manifest_action_iff get_action_owner_def)
    then show ?thesis using current own[OF Some] by blast
  qed
qed

lemma replace_upstreams_frame:
  assumes "replace_upstreams_and_routes name us routes st = Inr st'"
  shows "xs_app st' = xs_app st" "xs_extensions st' = xs_extensions st" "xs_actions st' = xs_actions st"
    "xs_device_keys st' = xs_device_keys st"
  using insert_routes_result[of name "new_upstreams name us st" "with_upstreams name us st" routes st'] assms
  by (auto simp: replace_upstreams_and_routes_Inr with_upstreams_def)

lemma enroll_frame:
  assumes "enroll_actions reg st = Inr st'"
  shows "xs_extensions st' = xs_extensions st" "xs_routes st' = xs_routes st" "xs_upstreams st' = xs_upstreams st"
    "xs_actions st' = xs_actions st @ map (\<lambda>a. (a, rg_name reg)) (map ac_name (rg_actions reg))"
    "xs_device_keys st' = xs_device_keys st" "xs_next_id st' = xs_next_id st"
    "app_catalog (xs_app st') = app_catalog (xs_app st)"
  using assms upsert_fold_facts(2-8)[of "\<lambda>a. action_is_global (ac_name a) (rg_routes reg)" "rg_actions reg" st]
  by (auto simp: enroll_actions_Inr upsert_all_def)

lemma map_of_filter_value:
  "wf_dict d \<Longrightarrow> map_of (filter (\<lambda>(_, v). v \<noteq> x) d) k = (if map_of d k = Some x then None else map_of d k)"
proof (induction d)
  case Nil
  then show ?case by simp
next
  case (Cons p d)
  obtain k' v where p: "p = (k', v)" by (cases p)
  have "map_of (filter (\<lambda>(_, v). v \<noteq> x) d) k' = None"
    using Cons.prems by (auto simp: p map_of_eq_None_iff)
  with Cons show ?case by (auto simp: p)
qed

lemma register_tables_ok:
  assumes ok: "ext_ok st" and wf: "wf_registration reg" and r: "register_tables env documents key reg st = Inr st'"
  shows "ext_ok st'"
proof -
  let ?name = "rg_name reg"
  from r obtain s1 s2 s3 s4 where new: "\<not> extension_exists ?name st"
    and own: "validate_action_ownership reg None st = Inr ()" and ui: "validate_ui_required_actions reg None st = Inr ()"
    and s1: "create_extension ?name (rg_description reg) (rg_schema_version reg) st = Inr s1"
    and s2: "set_internal_key_hash ?name (ev_hash env key) s1 = Inr s2" and s3: "set_ui ?name (rg_ui reg) s2 = Inr s3"
    and s4: "enroll_actions reg s3 = Inr s4"
    and s5: "replace_upstreams_and_routes ?name (rg_upstreams reg) (prepare_routes documents reg) s4 = Inr st'"
    by (auto simp: register_tables_def)
  have e1: "s1 = st\<lparr>xs_extensions := xs_extensions st @ [(?name, \<lparr>xr_description = rg_description reg,
      xr_schema_version = rg_schema_version reg, xr_enabled = False, xr_key_hash = None, xr_ui = None\<rparr>)]\<rparr>"
    using s1 by (auto simp: create_extension_def)
  have ok1: "ext_ok s1" using ok s1 by (rule ext_ok_create)
  have ok2: "ext_ok s2" using ok1 s2 unfolding set_internal_key_hash_def by (rule ext_ok_plain_update) simp_all
  have e2: "s2 = s1\<lparr>xs_extensions := sql_update ?name (\<lambda>r. r\<lparr>xr_key_hash := Some (ev_hash env key)\<rparr>) (xs_extensions s1)\<rparr>"
    using s2 by (simp add: set_internal_key_hash_def update_extension_Inr)
  have none: "map_of (xs_extensions st) ?name = None" using new by (simp add: extension_exists_def has_key_def)
  have look: "map_of (xs_extensions s2) m = (if m = ?name then Some \<lparr>xr_description = rg_description reg,
      xr_schema_version = rg_schema_version reg, xr_enabled = False, xr_key_hash = Some (ev_hash env key), xr_ui = None\<rparr>
      else map_of (xs_extensions st) m)" for m
    by (simp add: e2 e1 map_of_sql_update none map_add_def split: option.split)
  obtain row where row: "map_of (xs_extensions s2) ?name = Some row" "\<not> xr_enabled row"
    using look[of ?name] by simp
  have others: "map_of (xs_extensions s2) m = Some s \<Longrightarrow> m \<noteq> ?name \<Longrightarrow> map_of (xs_extensions st) m = Some s" for m s
    using look[of m] by simp
  have "remote_free (xs_extensions st) ?name (map_option ui_remote_name (rg_ui reg))"
    using ui by (rule ui_actions_remote) simp
  then have "remote_free (xs_extensions s2) ?name (map_option ui_remote_name (rg_ui reg))"
    using others unfolding remote_free_def by blast
  then have ok3: "ext_ok s3"
    using ext_ok_set_ui[OF ok2 row(1) _ _ _ s3] wf row(2) by (simp add: wf_registration_def)
  have e3: "xs_routes s3 = xs_routes st" "xs_actions s3 = xs_actions st"
    using s3 by (simp_all add: set_ui_def update_extension_Inr e2 e1)
  have ok4: "ext_ok s4"
    using ok3 s4
  proof (rule ext_ok_enroll)
    fix r a
    assume "r \<in> set (xs_routes s3)" "rt_required_action r = Some a" "a \<in> set (map ac_name (rg_actions reg))" "a \<noteq> []"
    then show "rt_extension r = ?name" using other_routes_free[OF ok own] e3 by auto
  qed
  show ?thesis
    using ok4 s5
  proof (rule ext_ok_replace_routes)
    show "wf_dict (rg_upstreams reg)" using wf by (simp add: wf_registration_def)
  next
    fix route mode body
    assume "(route, mode, body) \<in> set (prepare_routes documents reg)"
    then have r: "route \<in> set (rg_routes reg)" by (rule prepared_actions)
    have none: "map_of (xs_actions st) a \<noteq> Some ?name" for a
      using ok new by (auto simp: ext_ok_def owners_ok_def extension_exists_def dest!: map_of_SomeD)
    have new_action: "map_of (xs_actions st) a = None" if "a \<in> set (map ac_name (rg_actions reg))" for a
    proof -
      have "is_ok (check_manifest_action None st a)" using own that by (simp only: ownership_iff)
      then show ?thesis by (auto simp: check_manifest_action_iff get_action_owner_def split: option.splits)
    qed
    have "map_of (xs_actions s4) a = (if a \<in> set (map ac_name (rg_actions reg)) then Some ?name
      else if map_of (xs_actions st) a = Some ?name then None else map_of (xs_actions st) a)" for a
      unfolding enroll_frame(4)[OF s4] e3 map_of_append_owner
      using none[of a] new_action[of a]
      by (cases "map_of (xs_actions st) a") (auto simp del: set_map)
    then show "owned_or_free (xs_actions s4) ?name (rs_required_action route)"
      by (rule manifest_routes_free[OF own r])
  qed
qed

lemma replace_tables_ok:
  assumes ok: "ext_ok st" and wf: "wf_registration reg" and name: "rg_name reg = name"
    and existing: "map_of (xs_extensions st) name = Some existing"
    and r: "replace_tables documents name (xr_enabled existing) reg st = Inr st'"
  shows "ext_ok st'"
proof -
  from r obtain s1 s2 s3 s4 s5 where
    own: "validate_action_ownership reg (Some name) st = Inr ()"
    and ui: "validate_ui_required_actions reg (Some name) st = Inr ()"
    and clash: "(if xr_enabled existing then check_replace_conflicts name (rg_ui reg) st else Inr ()) = Inr ()"
    and s1: "set_description name (rg_description reg) st = Inr s1" and s2: "set_ui name (rg_ui reg) s1 = Inr s2"
    and s3: "set_schema_version name (rg_schema_version reg) s2 = Inr s3"
    and s4: "enroll_actions reg (clear_extension_actions name s3) = Inr s4"
    and s5: "replace_upstreams_and_routes name (rg_upstreams reg) (prepare_routes documents reg) s4 = Inr s5"
    and s6: "delete_orphaned_actions (dropped_actions name reg st) s5 = Inr st'"
    by (auto simp: replace_tables_def Let_def)
  have e1: "s1 = st\<lparr>xs_extensions := sql_update name (\<lambda>r. r\<lparr>xr_description := rg_description reg\<rparr>) (xs_extensions st)\<rparr>"
    using s1 by (simp add: set_description_def update_extension_Inr)
  have ok1: "ext_ok s1" using ok s1 unfolding set_description_def by (rule ext_ok_plain_update) simp_all
  let ?row = "existing\<lparr>xr_description := rg_description reg\<rparr>"
  have look: "map_of (xs_extensions s1) m = (if m = name then Some ?row else map_of (xs_extensions st) m)" for m
    by (simp add: e1 map_of_sql_update existing)
  have "clash_free (xs_extensions st) name (rg_ui reg)" if "xr_enabled existing"
    using clash that check_replace_conflicts_ok[OF ext_ok_wf[OF ok]] by (simp add: is_ok_iff)
  then have free: "clash_free (xs_extensions s1) name (rg_ui reg)" if "xr_enabled ?row"
    using that unfolding clash_free_def look by auto
  have "remote_free (xs_extensions st) name (map_option ui_remote_name (rg_ui reg))"
    using ui by (rule ui_actions_remote) simp
  then have remote: "remote_free (xs_extensions s1) name (map_option ui_remote_name (rg_ui reg))"
    unfolding remote_free_def look by auto
  have ok2: "ext_ok s2"
    using ext_ok_set_ui[OF ok1 _ _ free remote s2] look[of name] wf by (simp add: wf_registration_def)
  have ok3: "ext_ok s3" using ok2 s3 unfolding set_schema_version_def by (rule ext_ok_plain_update) simp_all
  have e3: "xs_routes s3 = xs_routes st" "xs_actions s3 = xs_actions st"
    using s2 s3 by (simp_all add: set_ui_def set_schema_version_def update_extension_Inr e1)
  let ?c = "clear_extension_actions name s3"
  have ok4: "ext_ok s4"
    using ext_ok_clear[OF ok3] s4
  proof (rule ext_ok_enroll)
    fix r a
    assume "r \<in> set (xs_routes ?c)" "rt_required_action r = Some a" "a \<in> set (map ac_name (rg_actions reg))" "a \<noteq> []"
    then show "rt_extension r = rg_name reg"
      using other_routes_free[OF ok own] e3 by (auto simp: clear_extension_actions_def name)
  qed
  have ok5: "ext_ok s5"
    using ok4 s5
  proof (rule ext_ok_replace_routes)
    show "wf_dict (rg_upstreams reg)" using wf by (simp add: wf_registration_def)
  next
    fix route mode body
    assume "(route, mode, body) \<in> set (prepare_routes documents reg)"
    then have r: "route \<in> set (rg_routes reg)" by (rule prepared_actions)
    have wfo: "wf_dict (xs_actions st)" using ok by (simp add: ext_ok_def owners_ok_def)
    have cleared: "map_of (filter (\<lambda>(_, owner). owner \<noteq> name) (xs_actions st)) a
        = (if map_of (xs_actions st) a = Some name then None else map_of (xs_actions st) a)" for a
      using wfo by (rule map_of_filter_value)
    have mine: "map_of (xs_actions st) a \<in> {None, Some name}" if "a \<in> set (map ac_name (rg_actions reg))" for a
    proof -
      have "is_ok (check_manifest_action (Some name) st a)" using own that by (simp only: ownership_iff)
      then show ?thesis by (auto simp: check_manifest_action_iff get_action_owner_def split: option.splits)
    qed
    have "map_of (xs_actions s4) a = (if a \<in> set (map ac_name (rg_actions reg)) then Some name
      else if map_of (xs_actions st) a = Some name then None else map_of (xs_actions st) a)" for a
      unfolding enroll_frame(4)[OF s4] clear_extension_actions_def ext_store.simps e3 map_of_append_owner cleared name
      using mine[of a] by (cases "map_of (xs_actions st) a") (auto simp: cleared simp del: set_map)
    then show "owned_or_free (xs_actions s4) name (rs_required_action route)"
      by (rule manifest_routes_free[OF own r])
  qed
  show ?thesis using ok5 s6 by (rule ext_ok_delete_orphaned)
qed

section \<open>The invariant\<close>

lemma run_iam_keeps_actions:
  assumes "run_iam op db = Inr db'" and "has_key (im_actions db) a"
  shows "has_key (im_actions db') a"
proof (cases op)
  case SyncPermissions
  with assms show ?thesis
    by (auto simp: sync_permissions_to_db_def insert_actions_def Let_def simp del: map_append split: if_splits)
next
  case (PutRole i n d acts)
  with assms show ?thesis by (auto simp: put_role_by_id_def update_role_def Let_def split: option.splits)
next
  case (RemoveAction i x)
  with assms show ?thesis by (auto simp: remove_action_from_role_def Let_def split: option.splits)
next
  case (AddUser t u)
  with assms show ?thesis by (auto simp: add_user_to_team_def split: option.splits)
qed (use assms in \<open>auto simp: ensure_exists_def post_role_def create_role_def delete_role_def delete_role_row_def
  create_scope_def update_scope_def delete_scope_def create_team_def create_team_row_def update_team_def
  update_team_row_def remove_user_from_team_def delete_team_def Let_def\<close>)

lemma upstreams_mapped:
  assumes "\<And>u. up_id (f u) = up_id u" "\<And>u. up_extension (f u) = up_extension u" "\<And>u. up_key (f u) = up_key u"
  shows "ext_ok (st\<lparr>xs_upstreams := map f (xs_upstreams st)\<rparr>) = ext_ok st"
  using assms by (simp add: ext_ok_def upstreams_ok_def routes_ok_def comp_def)

lemma routes_mapped:
  assumes "\<And>r. rt_id (f r) = rt_id r" "\<And>r. rt_extension (f r) = rt_extension r"
    "\<And>r. rt_upstream_id (f r) = rt_upstream_id r" "\<And>r. rt_required_action (f r) = rt_required_action r"
  shows "ext_ok (st\<lparr>xs_routes := map f (xs_routes st)\<rparr>) = ext_ok st"
  using assms by (simp add: ext_ok_def routes_ok_def route_owners_ok_def comp_def)

lemma fold_ext_ok: "ext_ok st \<Longrightarrow> (\<And>x st. ext_ok st \<Longrightarrow> ext_ok (f x st)) \<Longrightarrow> ext_ok (fold f xs st)"
  by (induction xs arbitrary: st) simp_all

lemma ext_ok_health: "ext_ok st \<Longrightarrow> ext_ok (record_upstream_health i s d t st)"
  unfolding record_upstream_health_def by (subst upstreams_mapped) simp_all

lemma ext_ok_update_route: "ext_ok st \<Longrightarrow> ext_ok (update_route_validation i m b st)"
  unfolding update_route_validation_def by (subst routes_mapped) simp_all

lemma ext_ok_refresh: "ext_ok st \<Longrightarrow> ext_ok (refresh_pending documents pending st)"
  unfolding refresh_pending_def
  by (rule fold_ext_ok) (auto intro: ext_ok_update_route split: prod.split option.split)

lemma ext_ok_catalog: "ext_ok st \<Longrightarrow> ext_ok (set_catalog db st)"
  by (auto simp: ext_ok_def set_catalog_def keys_ok_def)

lemma ext_ok_keys:
  "ext_ok st \<Longrightarrow> keys_ok (xs_extensions st) (devices (app_catalog (xs_app st))) keys \<Longrightarrow> ext_ok (st\<lparr>xs_device_keys := keys\<rparr>)"
  by (simp add: ext_ok_def)

lemma ext_ok_issue:
  assumes ok: "ext_ok st" and i: "issue_device_key env key name dev module_id st = Inr (k, st')"
  shows "ext_ok st'"
proof -
  from i have e: "extension_exists name st" "has_key (devices (app_catalog (xs_app st))) dev"
    "st' = st\<lparr>xs_device_keys := dset (name, dev) \<lparr>dk_module_id = module_id, dk_key_hash = ev_hash env key\<rparr> (xs_device_keys st)\<rparr>"
    by (auto simp: issue_device_key_def upsert_device_key_def)
  have "x \<in> set (dset kk v d) \<Longrightarrow> x = (kk, v) \<or> x \<in> set d" for x :: "(string \<times> string) \<times> device_key_row" and kk v d
    by (induction d) (auto split: if_splits)
  then have "keys_ok (xs_extensions st) (devices (app_catalog (xs_app st))) (xs_device_keys st')"
    using ok e by (auto simp: ext_ok_def keys_ok_def extension_exists_def) blast+
  then show ?thesis using ext_ok_keys[OF ok] e(3) by simp
qed

lemma ext_ok_deregister: "ext_ok st \<Longrightarrow> deregister_extension name st = Inr st' \<Longrightarrow> ext_ok st'"
  by (auto simp: deregister_extension_def deregister_tables_def Let_def
      intro: ext_ok_delete_orphaned ext_ok_delete_extension ext_ok_strip)

lemma register_result:
  "register_extension env documents key reg st = (r, st') \<Longrightarrow>
     st' = st \<or> register_tables env documents key reg st = Inr st'"
  by (auto simp: register_extension_def as_conflict_def split: sum.splits if_splits)

lemma replace_result:
  assumes "replace_extension env documents name reg st = (r, st')"
  shows "st' = st \<or> (\<exists>existing. map_of (xs_extensions st) name = Some existing \<and> rg_name reg = name \<and>
    is_ok (check_dropped_actions (dropped_actions name reg st) st) \<and>
    replace_tables documents name (xr_enabled existing) reg st = Inr st')"
  using assms by (auto simp: replace_extension_def as_conflict_def is_ok_iff split: sum.splits option.splits if_splits)

lemma ext_step_ok:
  assumes "ext_step env st st'" and ok: "ext_ok st"
  shows "ext_ok st'"
  using assms(1)
proof cases
  case (register reg documents key r)
  then show ?thesis using register_result register_tables_ok[OF ok] ok by metis
next
  case (replace reg documents name r)
  then show ?thesis using replace_result replace_tables_ok[OF ok] ok by metis
next
  case (deregister name)
  then show ?thesis using ok ext_ok_deregister by blast
next
  case (enable name r)
  show ?thesis
  proof (cases "enable_tables name st")
    case (Inl e)
    with enable ok show ?thesis by (simp add: enable_extension_def)
  next
    case (Inr s)
    with enable have s: "st' = s" by (simp add: enable_extension_def)
    from Inr obtain row where "map_of (xs_extensions st) name = Some row"
      "is_ok (check_replace_conflicts name (xr_ui row) st)" "set_enabled name True st = Inr s"
      by (auto simp: enable_tables_def is_ok_iff split: option.splits)
    then show ?thesis
      unfolding s using ext_ok_set_enabled[OF ok] check_replace_conflicts_ok[OF ext_ok_wf[OF ok]] by blast
  qed
next
  case (disable name r)
  show ?thesis
  proof (cases "set_enabled name False st")
    case (Inl e)
    with disable ok show ?thesis by (auto simp: disable_extension_def ensure_def split: if_splits)
  next
    case (Inr s)
    then obtain row where "map_of (xs_extensions st) name = Some row"
      by (auto simp: set_enabled_def update_extension_Inr extension_exists_def has_key_map_of)
    then have "ext_ok s" using ext_ok_set_enabled[OF ok _ _ Inr] by blast
    then show ?thesis using disable Inr ok by (auto simp: disable_extension_def ensure_def split: if_splits)
  qed
next
  case (rotate key name k)
  then show ?thesis
    using ext_ok_plain_update[OF ok] by (auto simp: rotate_internal_key_def set_internal_key_hash_def)
next
  case (issue key name dev module_id k)
  then show ?thesis using ok ext_ok_issue by blast
next
  case (revoke name dev b)
  then show ?thesis
    using ok ext_ok_keys[OF ok] by (auto simp: revoke_device_key_def ext_ok_def keys_ok_def AList.delete_eq)
next
  case (health probe now name h)
  then show ?thesis
    using ok by (auto simp: check_extension_health_def Let_def intro!: fold_ext_ok ext_ok_health split: if_splits)
next
  case (refresh documents name)
  then show ?thesis using ok by (simp add: refresh_extension_ref_schemas_def ext_ok_refresh)
next
  case (refresh_all documents)
  then show ?thesis using ok by (simp add: refresh_ref_schemas_def ext_ok_refresh)
next
  case (users op db)
  have "iam_ok (xs_iam st)" using ok by (simp add: ext_ok_def)
  then show ?thesis
    using users run_iam_ok run_iam_keeps_actions ext_ok_set_iam[OF ok] by auto
next
  case (catalog rx cop cat)
  then show ?thesis using ok ext_ok_catalog by simp
qed

lemma ext_reachable_ok: "ext_reachable env st \<Longrightarrow> ext_ok st"
proof (induction rule: ext_reachable.induct)
  case (initial app)
  then show ?case
    by (simp add: ext_ok_def empty_ext_store_def app_ok_def upstreams_ok_def routes_ok_def owners_ok_def
        route_owners_ok_def keys_ok_def uis_ok_def exclusive_ok_def remotes_ok_def)
next
  case (step st st')
  then show ?case using ext_step_ok by blast
qed

end
