(* ===== verification/Ext_Isolation.thy ===== *)
theory Ext_Isolation
  imports Ext_Steps
begin

text \<open>
  What an operation on one extension leaves alone, and the manifest that a registration leaves in
  the tables.  The relation \<open>keeps_others\<close> is transitive, so it is shown statement by statement.
\<close>

section \<open>Everything but one extension\<close>

definition keeps_others :: "string \<Rightarrow> string set \<Rightarrow> ext_store \<Rightarrow> ext_store \<Rightarrow> bool" where
  "keeps_others name touched st st' =
     (app_catalog (xs_app st') = app_catalog (xs_app st) \<and>
      (xs_iam st')\<lparr>im_actions := []\<rparr> = (xs_iam st)\<lparr>im_actions := []\<rparr> \<and>
      (\<forall>a. a \<notin> touched \<longrightarrow> map_of (im_actions (xs_iam st')) a = map_of (im_actions (xs_iam st)) a) \<and>
      (\<forall>n. n \<noteq> name \<longrightarrow> map_of (xs_extensions st') n = map_of (xs_extensions st) n) \<and>
      filter (\<lambda>u. up_extension u \<noteq> name) (xs_upstreams st') = filter (\<lambda>u. up_extension u \<noteq> name) (xs_upstreams st) \<and>
      filter (\<lambda>r. rt_extension r \<noteq> name) (xs_routes st') = filter (\<lambda>r. rt_extension r \<noteq> name) (xs_routes st) \<and>
      filter (\<lambda>(_, owner). owner \<noteq> name) (xs_actions st') = filter (\<lambda>(_, owner). owner \<noteq> name) (xs_actions st) \<and>
      xs_device_keys st' = xs_device_keys st)"

lemma keeps_others_refl [simp, intro]: "keeps_others name A st st"
  by (simp add: keeps_others_def)

lemma keeps_others_trans:
  assumes "keeps_others name A st s" "keeps_others name A s st'"
  shows "keeps_others name A st st'"
  using assms unfolding keeps_others_def by simp

lemma keeps_others_mono: "keeps_others name A st st' \<Longrightarrow> A \<subseteq> B \<Longrightarrow> keeps_others name B st st'"
  by (auto simp: keeps_others_def)

lemma keeps_others_update:
  "update_extension name f st = Inr st' \<Longrightarrow> keeps_others name A st st'"
  by (auto simp: update_extension_Inr keeps_others_def map_of_sql_update)

lemma keeps_others_create:
  "create_extension name d v st = Inr st' \<Longrightarrow> keeps_others name A st st'"
  by (auto simp: create_extension_def keeps_others_def map_add_def split: option.split)

lemma upsert_fold_iam:
  "(xs_iam (fold (\<lambda>a. upsert_action (ac_name a) (ac_desc a) (g a)) as st))\<lparr>im_actions := []\<rparr> = (xs_iam st)\<lparr>im_actions := []\<rparr>"
  "b \<notin> set (map ac_name as) \<Longrightarrow>
     map_of (im_actions (xs_iam (fold (\<lambda>a. upsert_action (ac_name a) (ac_desc a) (g a)) as st))) b
       = map_of (im_actions (xs_iam st)) b"
proof (induction as arbitrary: st)
  case (Cons x as)
  { case 1
    show ?case using Cons(1) by (simp add: upsert_action_def Let_def)
  next
    case 2
    have "map_of (im_actions (xs_iam (upsert_action (ac_name x) (ac_desc x) (g x) st))) b = map_of (im_actions (xs_iam st)) b"
      using 2 by (auto simp: upsert_actions_table Let_def map_of_sql_update map_add_def split: option.split)
    then show ?case using Cons(2) 2 by simp }
qed simp_all

lemma keeps_others_enroll:
  assumes "enroll_actions reg st = Inr st'" "set (map ac_name (rg_actions reg)) \<subseteq> A"
  shows "keeps_others (rg_name reg) A st st'"
proof -
  have "map_of (im_actions (xs_iam (upsert_all reg st))) a = map_of (im_actions (xs_iam st)) a" if "a \<notin> A" for a
    unfolding upsert_all_def by (rule upsert_fold_iam(2)) (use that assms(2) in blast)
  then show ?thesis
    using enroll_frame[OF assms(1)] assms(1) upsert_fold_iam(1)[where as = "rg_actions reg" and st = st]
    by (auto simp: keeps_others_def enroll_actions_Inr upsert_all_def filter_map comp_def)
qed

lemma keeps_others_clear: "keeps_others name A st (clear_extension_actions name st)"
  by (auto simp: keeps_others_def clear_extension_actions_def intro!: filter_cong)

lemma keeps_others_routes:
  assumes "replace_upstreams_and_routes name us routes st = Inr st'"
  shows "keeps_others name A st st'"
proof -
  obtain new n where st': "st' = (with_upstreams name us st)\<lparr>xs_routes := xs_routes (with_upstreams name us st) @ new,
      xs_next_id := n\<rparr>"
    and new: "list_all2 (\<lambda>(route, mode, body) r. \<exists>u i. List.find (\<lambda>u. up_key u = rs_upstream route)
      (new_upstreams name us st) = Some u \<and> r = route_row_of name (up_id u) i (route, mode, body)) routes new"
    using assms insert_routes_result unfolding replace_upstreams_and_routes_Inr by blast
  have "rt_extension r = name" if "r \<in> set new" for r
    using new that by (induction rule: list_all2_induct) (auto simp: route_row_of_def)
  then have "filter (\<lambda>r. rt_extension r \<noteq> name) new = []" by (simp add: filter_empty_conv)
  moreover have "filter (\<lambda>u. up_extension u \<noteq> name) (new_upstreams name us st) = []"
    using new_upstreams_facts(3)[where name = name and us = us and st = st] by (auto simp: filter_empty_conv)
  ultimately show ?thesis
    by (simp add: keeps_others_def st' with_upstreams_def)
qed

lemma keeps_others_orphaned:
  assumes "delete_orphaned_actions names st = Inr st'" "set names \<subseteq> A"
  shows "keeps_others n A st st'"
  using assms unfolding delete_orphaned_actions_def
proof (induction names arbitrary: st)
  case Nil
  then show ?case by simp
next
  case (Cons a names)
  then obtain s where s: "keeps_others n A st s"
    "foldR (\<lambda>st a. if get_action_owner a st \<noteq> None \<or> is_action_granted_to_any_role a st then Inr st
                   else delete_action a st) s names = Inr st'"
  proof (cases "get_action_owner a st \<noteq> None \<or> is_action_granted_to_any_role a st")
    case False
    then obtain s where d: "delete_action a st = Inr s" using Cons.prems(1) by auto
    then have "keeps_others n A st s"
      using Cons.prems(2) by (auto simp: delete_action_Inr keeps_others_def map_of_dpop)
    then show ?thesis using that False Cons.prems(1) d by auto
  qed auto
  then show ?case using Cons.IH[OF s(2)] Cons.prems(2) keeps_others_trans by auto
qed

text \<open>Whatever an extension of another name lists is determined by what is kept.\<close>

lemma list_routes_others:
  assumes ok: "ext_ok st" and n: "n \<noteq> name"
  shows "list_routes n st = List.map_filter
    (\<lambda>r. map_option (\<lambda>u. (r, up_key u))
      (List.find (\<lambda>u. up_id u = rt_upstream_id r) (filter (\<lambda>u. up_extension u \<noteq> name) (xs_upstreams st))))
    (filter (\<lambda>r. rt_extension r = n) (filter (\<lambda>r. rt_extension r \<noteq> name) (xs_routes st)))"
proof -
  have ids: "distinct (map up_id (xs_upstreams st))" using ok by (simp add: ext_ok_def upstreams_ok_def)
  have find_id: "List.find (\<lambda>u. up_id u = up_id v) ups = Some v" if "distinct (map up_id ups)" "v \<in> set ups" for ups v
    using that by (induction ups) auto
  have "List.find (\<lambda>u. up_id u = rt_upstream_id r) (xs_upstreams st)
      = List.find (\<lambda>u. up_id u = rt_upstream_id r) (filter (\<lambda>u. up_extension u \<noteq> name) (xs_upstreams st))"
    if r: "r \<in> set (xs_routes st)" "rt_extension r = n" for r
  proof -
    have "routes_ok (xs_extensions st) (xs_upstreams st) (im_actions (xs_iam st)) (xs_routes st) (xs_next_id st)"
      using ok by (simp add: ext_ok_def)
    then obtain v where v: "v \<in> set (xs_upstreams st)" "up_id v = rt_upstream_id r" "up_extension v = n"
      using r by (auto simp: routes_ok_def)
    have "distinct (map up_id (filter (\<lambda>u. up_extension u \<noteq> name) (xs_upstreams st)))"
      "v \<in> set (filter (\<lambda>u. up_extension u \<noteq> name) (xs_upstreams st))"
      using ids v n by (auto intro: distinct_map_filter)
    then show ?thesis
      using find_id[OF ids v(1)] find_id[of "filter (\<lambda>u. up_extension u \<noteq> name) (xs_upstreams st)" v] v(2) by simp
  qed
  moreover have "filter (\<lambda>r. rt_extension r = n) (filter (\<lambda>r. rt_extension r \<noteq> name) (xs_routes st))
      = filter (\<lambda>r. rt_extension r = n) (xs_routes st)"
    using n by (simp add: filter_filter) (rule filter_cong, auto)
  ultimately show ?thesis
    unfolding list_routes_def by (auto simp: List.map_filter_def intro!: map_cong filter_cong)
qed

lemma keeps_others_lists:
  assumes k: "keeps_others name A st st'" and ok: "ext_ok st" "ext_ok st'" and n: "n \<noteq> name"
  shows "map_of (xs_extensions st') n = map_of (xs_extensions st) n" "list_upstreams n st' = list_upstreams n st"
    "list_routes n st' = list_routes n st" "list_extension_actions n st' = list_extension_actions n st"
    "list_device_keys n st' = list_device_keys n st"
proof -
  have up: "filter (\<lambda>u. up_extension u = n) us = filter (\<lambda>u. up_extension u = n) (filter (\<lambda>u. up_extension u \<noteq> name) us)" for us
    using n by (simp add: filter_filter) (rule filter_cong, auto)
  have own: "filter (\<lambda>(_, owner). owner = n) os = filter (\<lambda>(_, owner). owner = n) (filter (\<lambda>(_, owner). owner \<noteq> name) os)"
    for os :: "string dict"
    using n by (simp add: filter_filter) (rule filter_cong, auto)
  show "map_of (xs_extensions st') n = map_of (xs_extensions st) n" "list_device_keys n st' = list_device_keys n st"
    using k n by (simp_all add: keeps_others_def list_device_keys_def)
  show "list_upstreams n st' = list_upstreams n st"
    using k up[of "xs_upstreams st"] up[of "xs_upstreams st'"] by (simp add: keeps_others_def list_upstreams_def)
  show "list_extension_actions n st' = list_extension_actions n st"
    using k own[of "xs_actions st"] own[of "xs_actions st'"] by (simp add: keeps_others_def list_extension_actions_def)
  show "list_routes n st' = list_routes n st"
    using k list_routes_others[OF ok(1) n] list_routes_others[OF ok(2) n] by (simp add: keeps_others_def)
qed

section \<open>Registration and replacement\<close>

lemma register_tables_steps:
  assumes "register_tables env documents key reg st = Inr st'"
  obtains s1 s2 s3 s4 where "\<not> extension_exists (rg_name reg) st"
    "validate_action_ownership reg None st = Inr ()" "validate_ui_required_actions reg None st = Inr ()"
    "create_extension (rg_name reg) (rg_description reg) (rg_schema_version reg) st = Inr s1"
    "set_internal_key_hash (rg_name reg) (ev_hash env key) s1 = Inr s2" "set_ui (rg_name reg) (rg_ui reg) s2 = Inr s3"
    "enroll_actions reg s3 = Inr s4"
    "replace_upstreams_and_routes (rg_name reg) (rg_upstreams reg) (prepare_routes documents reg) s4 = Inr st'"
  using assms by (auto simp: register_tables_def)

lemma manifest_actions_fresh:
  assumes "validate_action_ownership reg current st = Inr ()" "a \<in> set (map ac_name (rg_actions reg))"
  shows "action_exists a st \<Longrightarrow> get_action_owner a st = current"
proof -
  have "is_ok (check_manifest_action current st a)" using assms by (simp only: ownership_iff)
  then show "action_exists a st \<Longrightarrow> get_action_owner a st = current"
    by (auto simp: check_manifest_action_iff split: option.splits)
qed

lemma register_keeps_others:
  assumes r: "register_tables env documents key reg st = Inr st'"
  shows "keeps_others (rg_name reg) (set (map ac_name (rg_actions reg))) st st'"
  using r
proof (rule register_tables_steps)
  let ?k = "keeps_others (rg_name reg) (set (map ac_name (rg_actions reg)))"
  fix s1 s2 s3 s4
  assume s: "create_extension (rg_name reg) (rg_description reg) (rg_schema_version reg) st = Inr s1"
    "set_internal_key_hash (rg_name reg) (ev_hash env key) s1 = Inr s2" "set_ui (rg_name reg) (rg_ui reg) s2 = Inr s3"
    "enroll_actions reg s3 = Inr s4"
    "replace_upstreams_and_routes (rg_name reg) (rg_upstreams reg) (prepare_routes documents reg) s4 = Inr st'"
  have "?k st s1" using s(1) by (rule keeps_others_create)
  also have "?k s1 s2" using s(2) unfolding set_internal_key_hash_def by (rule keeps_others_update)
  finally (keeps_others_trans) have "?k st s2" .
  also have "?k s2 s3" using s(3) unfolding set_ui_def by (rule keeps_others_update)
  finally (keeps_others_trans) have "?k st s3" .
  also have "?k s3 s4" using s(4) by (rule keeps_others_enroll) simp
  finally (keeps_others_trans) have "?k st s4" .
  also have "?k s4 st'" using s(5) by (rule keeps_others_routes)
  finally (keeps_others_trans) show "?k st st'" .
qed

lemma replace_keeps_others:
  assumes r: "replace_tables documents name b reg st = Inr st'" and name: "rg_name reg = name"
  shows "keeps_others name (set (map ac_name (rg_actions reg)) \<union> set (dropped_actions name reg st)) st st'"
proof -
  let ?k = "keeps_others name (set (map ac_name (rg_actions reg)) \<union> set (dropped_actions name reg st))"
  from r obtain s1 s2 s3 s4 s5 where
    s: "set_description name (rg_description reg) st = Inr s1" "set_ui name (rg_ui reg) s1 = Inr s2"
    "set_schema_version name (rg_schema_version reg) s2 = Inr s3"
    "enroll_actions reg (clear_extension_actions name s3) = Inr s4"
    "replace_upstreams_and_routes name (rg_upstreams reg) (prepare_routes documents reg) s4 = Inr s5"
    "delete_orphaned_actions (dropped_actions name reg st) s5 = Inr st'"
    by (auto simp: replace_tables_def Let_def)
  have "?k st s1" using s(1) unfolding set_description_def by (rule keeps_others_update)
  also have "?k s1 s2" using s(2) unfolding set_ui_def by (rule keeps_others_update)
  finally (keeps_others_trans) have "?k st s2" .
  also have "?k s2 s3" using s(3) unfolding set_schema_version_def by (rule keeps_others_update)
  finally (keeps_others_trans) have "?k st s3" .
  also have "?k s3 (clear_extension_actions name s3)" by (rule keeps_others_clear)
  finally (keeps_others_trans) have "?k st (clear_extension_actions name s3)" .
  also have "?k (clear_extension_actions name s3) s4"
    using keeps_others_enroll[OF s(4)] name by simp
  finally (keeps_others_trans) have "?k st s4" .
  also have "?k s4 s5" using s(5) by (rule keeps_others_routes)
  finally (keeps_others_trans) have "?k st s5" .
  also have "?k s5 st'" using s(6) by (rule keeps_others_orphaned) simp
  finally (keeps_others_trans) show "?k st st'" .
qed

lemma dropped_owned: "ext_ok st \<Longrightarrow> a \<in> set (dropped_actions name reg st) \<Longrightarrow> get_action_owner a st = Some name"
  by (auto simp: dropped_actions_def list_extension_actions_def get_action_owner_def ext_ok_def owners_ok_def)


lemma fresh_manifest_actions:
  assumes own: "validate_action_ownership reg None st = Inr ()" and a: "a \<in> set (map ac_name (rg_actions reg))"
  shows "\<not> action_exists a st"
proof -
  have "is_ok (check_manifest_action None st a)" using own a by (simp only: ownership_iff)
  then show ?thesis by (auto simp: check_manifest_action_iff split: option.splits)
qed

lemma iam_actions_only:
  "(db :: iam)\<lparr>im_actions := []\<rparr> = db'\<lparr>im_actions := []\<rparr> \<Longrightarrow> db = db'\<lparr>im_actions := im_actions db\<rparr>"
  by (cases db; cases db') simp

end
