(* ===== verification/Ext_Readback.thy ===== *)
theory Ext_Readback
  imports Ext_Isolation
begin

text \<open>
  Reading a registered manifest back from the tables: each route from its row and the row of its
  upstream, the actions from the catalog, the upstreams in the order of the manifest.
\<close>

definition stored_route :: "prepared_route \<Rightarrow> route_spec" where
  "stored_route = (\<lambda>(route, mode, body). route\<lparr>rs_status_code := (if rs_status_code route = 0 then 200 else rs_status_code route),
     rs_body := (case body of Some (JObj d) \<Rightarrow> Some d | _ \<Rightarrow> None)\<rparr>)"

lemma route_of_stored_row:
  "rs_scope_param route \<noteq> [] \<Longrightarrow>
     route_of_row (rs_upstream route) (route_row_of name u i (route, mode, body)) = stored_route (route, mode, body)"
  by (cases route) (auto simp: route_of_row_def route_row_of_def stored_route_def or_default_def truthy_str_def
      split: option.split)

lemma find_by_id:
  "distinct (map up_id ups) \<Longrightarrow> v \<in> set ups \<Longrightarrow> List.find (\<lambda>u. up_id u = up_id v) ups = Some v"
  by (induction ups) auto

lemma stored_routes_read_back:
  assumes "list_all2 (\<lambda>(route, mode, body) r. \<exists>u i. List.find (\<lambda>u. up_key u = rs_upstream route) new = Some u \<and>
      r = route_row_of name (up_id u) i (route, mode, body)) routes rows"
    and ups: "distinct (map up_id ups)" "set new \<subseteq> set ups"
    and "\<And>route mode body. (route, mode, body) \<in> set routes \<Longrightarrow> rs_scope_param route \<noteq> []"
  shows "\<exists>found. List.map_filter (\<lambda>r. map_option (\<lambda>u. (r, up_key u))
      (List.find (\<lambda>u. up_id u = rt_upstream_id r) ups)) rows = found \<and>
    map (\<lambda>(r, key). route_of_row key r) found = map stored_route routes \<and>
    map (rt_validation_mode \<circ> fst) found = map (\<lambda>(_, mode, _). mode) routes"
  using assms(1,4)
proof (induction rule: list_all2_induct)
  case (Cons x routes r rows)
  obtain route mode body where x: "x = (route, mode, body)" by (cases x)
  from Cons(1) obtain u i where u: "List.find (\<lambda>u. up_key u = rs_upstream route) new = Some u"
    and r: "r = route_row_of name (up_id u) i (route, mode, body)" by (auto simp: x)
  from u have "u \<in> set ups" "up_key u = rs_upstream route"
    using ups(2) by (auto simp: find_Some_iff)
  then have look: "map_option (\<lambda>u. (r, up_key u)) (List.find (\<lambda>u. up_id u = rt_upstream_id r) ups) = Some (r, rs_upstream route)"
    using find_by_id[OF ups(1)] by (simp add: r route_row_of_def)
  have row: "route_of_row (rs_upstream route) r = stored_route x"
    using Cons.prems[of route mode body] unfolding r x by (intro route_of_stored_row) (simp add: x)
  have mode: "rt_validation_mode r = mode" by (simp add: r route_row_of_def)
  have "\<And>route mode body. (route, mode, body) \<in> set routes \<Longrightarrow> rs_scope_param route \<noteq> []"
    using Cons.prems by (meson list.set_intros(2))
  note ih = Cons.IH[OF this]
  show ?case
    unfolding List.map_filter_simps look option.case using ih row mode by (simp add: x)
qed (simp add: List.map_filter_simps)

lemma upsert_fold_descriptions:
  "distinct (map ac_name as) \<Longrightarrow> x \<in> set as \<Longrightarrow>
     map_option ac_description (map_of (im_actions (xs_iam (fold (\<lambda>a. upsert_action (ac_name a) (ac_desc a) (g a)) as st))) (ac_name x))
       = Some (ac_desc x)"
proof (induction as arbitrary: st)
  case (Cons y as)
  show ?case
  proof (cases "x = y")
    case True
    then have "ac_name x \<notin> set (map ac_name as)" using Cons.prems(1) by auto
    then show ?thesis
      by (auto simp: True upsert_fold_iam(2) upsert_actions_table Let_def map_of_sql_update has_key_def map_add_def split: option.split)
  next
    case False
    then show ?thesis using Cons by auto
  qed
qed simp

lemma dset_new: "k \<notin> fst ` set d \<Longrightarrow> dset k v d = d @ [(k, v)]"
  by (induction d) auto

lemma upstreams_read_back:
  assumes "length is = length us"
  shows "fold (\<lambda>u. dset (up_key u) (up_spec u)) (map2 (upstream_row_of name) is us) d = fold (\<lambda>(k, v). dset k v) us d"
    "map (\<lambda>u. (up_key u, up_status u)) (map2 (upstream_row_of name) is us) = map (\<lambda>(key, _). (key, ''unknown'')) us"
  using assms by (induction "is" us arbitrary: d rule: list_induct2) (auto simp: upstream_row_of_def)

lemma read_back_specs:
  assumes "names = map ac_name as"
    "\<And>x. x \<in> set as \<Longrightarrow> map_option ac_description (map_of acts (ac_name x)) = Some (ac_desc x)"
  shows "List.map_filter (\<lambda>a. map_option (\<lambda>row. \<lparr>ac_name = a, ac_desc = ac_description row\<rparr>) (map_of acts a)) names = as"
  using assms(2) unfolding assms(1) by (induction as) (fastforce simp: List.map_filter_simps)+

lemma fold_dset_append: "wf_dict (d @ us) \<Longrightarrow> fold (\<lambda>(k, v). dset k v) us d = d @ us"
proof (induction us arbitrary: d)
  case (Cons p us)
  obtain k v where p: "p = (k, v)" by (cases p)
  have "k \<notin> fst ` set d" "wf_dict ((d @ [p]) @ us)" using Cons.prems by (auto simp: p)
  then show ?case using Cons.IH[of "d @ [p]"] by (simp add: p dset_new)
qed simp

text \<open>The answer to a registration, from the manifest and the body schemas found for its routes.\<close>

definition registered_detail :: "(string \<Rightarrow> json option) \<Rightarrow> registration \<Rightarrow> extension_detail" where
  "registered_detail documents reg =
     \<lparr>xd_registration = reg\<lparr>rg_routes := map stored_route (prepare_routes documents reg)\<rparr>,
      xd_modes = map (\<lambda>(_, mode, _). mode) (prepare_routes documents reg),
      xd_health = map (\<lambda>(key, _). (key, ''unknown'')) (rg_upstreams reg), xd_enabled = False\<rparr>"

lemma registered_detail_built:
  assumes ok: "ext_ok st" and wf: "wf_registration reg"
    and distinct: "distinct (map ac_name (rg_actions reg))"
    and scope: "\<And>route. route \<in> set (rg_routes reg) \<Longrightarrow> rs_scope_param route \<noteq> []"
    and r: "register_tables env documents key reg st = Inr st'" and d: "build_detail env (rg_name reg) st' = Inr d"
  shows "d = registered_detail documents reg"
  using r
proof (rule register_tables_steps)
  let ?name = "rg_name reg"
  fix s1 s2 s3 s4
  assume new: "\<not> extension_exists ?name st"
    and s: "create_extension ?name (rg_description reg) (rg_schema_version reg) st = Inr s1"
    "set_internal_key_hash ?name (ev_hash env key) s1 = Inr s2" "set_ui ?name (rg_ui reg) s2 = Inr s3"
    and s4: "enroll_actions reg s3 = Inr s4"
    and s5: "replace_upstreams_and_routes ?name (rg_upstreams reg) (prepare_routes documents reg) s4 = Inr st'"
  have ok': "ext_ok st'" using ok wf r by (rule register_tables_ok)
  let ?us = "rg_upstreams reg"
  obtain rows n where st': "st' = (with_upstreams ?name ?us s4)\<lparr>xs_routes := xs_routes (with_upstreams ?name ?us s4) @ rows,
      xs_next_id := n\<rparr>"
    and rows: "list_all2 (\<lambda>(route, mode, body) r. \<exists>u i. List.find (\<lambda>u. up_key u = rs_upstream route)
      (new_upstreams ?name ?us s4) = Some u \<and> r = route_row_of ?name (up_id u) i (route, mode, body))
      (prepare_routes documents reg) rows"
    using s5 insert_routes_result unfolding replace_upstreams_and_routes_Inr by blast
  have ext: "map_of (xs_extensions st') ?name = Some \<lparr>xr_description = rg_description reg,
      xr_schema_version = rg_schema_version reg, xr_enabled = False, xr_key_hash = Some (ev_hash env key), xr_ui = rg_ui reg\<rparr>"
    using s new unfolding replace_upstreams_frame(2)[OF s5] enroll_frame(1)[OF s4]
    by (auto simp: create_extension_def set_internal_key_hash_def set_ui_def update_extension_Inr map_of_sql_update
        map_add_def extension_exists_def has_key_def split: option.split)
  have ups: "list_upstreams ?name st' = new_upstreams ?name ?us s4"
    using new_upstreams_facts(3)[where name = ?name and us = ?us and st = s4]
    by (auto simp: st' with_upstreams_def list_upstreams_def filter_empty_conv intro!: filter_True)
  have acts: "list_extension_action_specs ?name st' = rg_actions reg"
  proof -
    have "xs_actions s3 = xs_actions st"
      using s by (auto simp: create_extension_def set_internal_key_hash_def set_ui_def update_extension_Inr)
    moreover have "filter (\<lambda>(_, owner). owner = ?name) (xs_actions st) = []"
      using ok new by (auto simp: filter_empty_conv ext_ok_def owners_ok_def extension_exists_def)
    ultimately have "list_extension_actions ?name st' = map ac_name (rg_actions reg)"
      by (simp add: list_extension_actions_def replace_upstreams_frame(3)[OF s5] enroll_frame(4)[OF s4] filter_map comp_def)
    moreover have "im_actions (xs_iam st') = im_actions (xs_iam (upsert_all reg s3))"
      using s4 by (simp add: replace_upstreams_frame(1)[OF s5] enroll_actions_Inr)
    ultimately show ?thesis
      using upsert_fold_descriptions[OF distinct] unfolding list_extension_action_specs_def upsert_all_def
      by (intro read_back_specs) auto
  qed
  have routes: "map (\<lambda>(r, key). route_of_row key r) (list_routes ?name st') = map stored_route (prepare_routes documents reg)"
    "map (rt_validation_mode \<circ> fst) (list_routes ?name st') = map (\<lambda>(_, mode, _). mode) (prepare_routes documents reg)"
  proof -
    have own: "rt_extension r = ?name" if "r \<in> set rows" for r
      using rows that by (induction rule: list_all2_induct) (auto simp: route_row_of_def)
    have rows_of: "filter (\<lambda>r. rt_extension r = ?name) (xs_routes st') = rows"
      using own by (auto simp: st' with_upstreams_def filter_empty_conv intro!: filter_True)
    have "distinct (map up_id (xs_upstreams st'))" using ok' by (simp add: ext_ok_def upstreams_ok_def)
    moreover have "set (new_upstreams ?name ?us s4) \<subseteq> set (xs_upstreams st')" by (simp add: st' with_upstreams_def)
    moreover have "rs_scope_param route \<noteq> []" if "(route, mode, body) \<in> set (prepare_routes documents reg)" for route mode body
      using scope prepared_actions[OF that] by blast
    ultimately show "map (\<lambda>(r, key). route_of_row key r) (list_routes ?name st') = map stored_route (prepare_routes documents reg)"
      "map (rt_validation_mode \<circ> fst) (list_routes ?name st') = map (\<lambda>(_, mode, _). mode) (prepare_routes documents reg)"
      using stored_routes_read_back[OF rows] unfolding list_routes_def rows_of by blast+
  qed
  have keys: "fold (\<lambda>u. dset (up_key u) (up_spec u)) (new_upstreams ?name ?us s4) [] = ?us"
    "map (\<lambda>u. (up_key u, up_status u)) (new_upstreams ?name ?us s4) = map (\<lambda>(key, _). (key, ''unknown'')) ?us"
    using upstreams_read_back[of "[xs_next_id s4..<xs_next_id s4 + length ?us]" ?us ?name]
      fold_dset_append[of "[]" ?us] wf by (simp_all add: wf_registration_def)
  show ?thesis
    using d unfolding build_detail_def ext ups acts routes keys by (auto simp: registered_detail_def Let_def)
qed
end
