(* ===== verification/Ext_Properties.thy ===== *)
theory Ext_Properties
  imports Ext_Readback
begin

text \<open>
  What the registry guarantees, in every reachable store: the constraints, the exclusivity of
  enabled replacements, the isolation of extensions from the platform and from each other, the
  round trip of a manifest, and the exact effect of deregistration.
\<close>

section \<open>A sample store\<close>

definition sample_env :: ext_env where
  "sample_env = \<lparr>ev_ip6 = (\<lambda>_. False), ev_allowlist = ''svc:*'', ev_check_schema = (\<lambda>_. True),
     ev_validate = (\<lambda>_ _. []), ev_hash = (\<lambda>s. ''h'' @ s)\<rparr>"

definition no_documents :: "string \<Rightarrow> json option" where
  "no_documents url = None"

definition replacement :: "string \<Rightarrow> ui_contribution" where
  "replacement kind = \<lparr>uc_target = ''t'', uc_placement = ''replace:p'', uc_module = ''./m'', uc_label = ''l'',
     uc_when = Some [(''k'', [kind])], uc_path = None, uc_required_action = None\<rparr>"

definition sample_ui :: "string \<Rightarrow> string \<Rightarrow> extension_ui" where
  "sample_ui remote kind = \<lparr>ui_contract_version = 1, ui_entry = ''/x.js'', ui_remote_name = remote,
     ui_contributions = [replacement kind]\<rparr>"

definition sample_registration :: registration where
  "sample_registration = \<lparr>rg_schema_version = 1, rg_name = ''shop'', rg_description = ''d'',
     rg_upstreams = [(''svc'', HttpUpstream ''http://svc'' ''/health'' ''version'' None)],
     rg_actions = [\<lparr>ac_name = ''item.read'', ac_desc = ''i''\<rparr>], rg_routes = [sample_route],
     rg_ui = Some (sample_ui ''r1'' ''x'')\<rparr>"

definition second_registration :: registration where
  "second_registration = sample_registration\<lparr>rg_name := ''lab'', rg_actions := [], rg_routes := [],
     rg_ui := Some (sample_ui ''r2'' ''y'')\<rparr>"

lemma samples_accepted:
  "is_ok (accept_registration (ev_ip6 sample_env) (ev_allowlist sample_env) sample_registration)"
  "is_ok (accept_registration (ev_ip6 sample_env) (ev_allowlist sample_env) second_registration)"
  "wf_registration sample_registration" "wf_registration second_registration"
  by code_simp+

definition one_extension :: ext_store where
  "one_extension = snd (register_extension sample_env no_documents ''k'' sample_registration (empty_ext_store sample_state))"

text \<open>The tables this leaves, written out so that later evaluations start from them.\<close>

definition sample_app :: app_state where
  "sample_app = sample_state\<lparr>app_iam := (app_iam sample_state)\<lparr>im_actions := im_actions (app_iam sample_state) @
     [(''item.read'', \<lparr>ac_description = ''i'', ac_is_global = False\<rparr>)]\<rparr>\<rparr>"

definition sample_row :: "string \<Rightarrow> bool \<Rightarrow> extension_ui \<Rightarrow> ext_row" where
  "sample_row h b ui = \<lparr>xr_description = ''d'', xr_schema_version = 1, xr_enabled = b, xr_key_hash = Some h, xr_ui = Some ui\<rparr>"

definition sample_upstream_row :: "nat \<Rightarrow> string \<Rightarrow> upstream_row" where
  "sample_upstream_row i name = \<lparr>up_id = i, up_extension = name, up_key = ''svc'',
     up_spec = HttpUpstream ''http://svc'' ''/health'' ''version'' None, up_checked_at = None,
     up_status = ''unknown'', up_detail = None\<rparr>"

lemma one_extension_value [code]:
  "one_extension = \<lparr>xs_app = sample_app, xs_extensions = [(''shop'', sample_row ''hk'' False (sample_ui ''r1'' ''x''))],
     xs_upstreams = [sample_upstream_row 0 ''shop''],
     xs_routes = [route_row_of ''shop'' 0 1 (sample_route, NoBody, None)],
     xs_actions = [(''item.read'', ''shop'')], xs_device_keys = [], xs_next_id = 2\<rparr>"
  by code_simp

definition two_extensions :: ext_store where
  "two_extensions = snd (register_extension sample_env no_documents ''q'' second_registration one_extension)"

lemma two_extensions_value [code]:
  "two_extensions = one_extension\<lparr>xs_extensions := [(''shop'', sample_row ''hk'' False (sample_ui ''r1'' ''x'')),
       (''lab'', sample_row ''hq'' False (sample_ui ''r2'' ''y''))],
     xs_upstreams := [sample_upstream_row 0 ''shop'', sample_upstream_row 2 ''lab''], xs_next_id := 3\<rparr>"
  by code_simp

definition two_enabled :: ext_store where
  "two_enabled = snd (enable_extension sample_env ''lab'' (snd (enable_extension sample_env ''shop'' two_extensions)))"

lemma two_enabled_value [code]:
  "two_enabled = two_extensions\<lparr>xs_extensions := [(''shop'', sample_row ''hk'' True (sample_ui ''r1'' ''x'')),
       (''lab'', sample_row ''hq'' True (sample_ui ''r2'' ''y''))]\<rparr>"
  by code_simp

lemma samples_register:
  "is_ok (fst (register_extension sample_env no_documents ''k'' sample_registration (empty_ext_store sample_state)))"
  "is_ok (fst (register_extension sample_env no_documents ''q'' second_registration one_extension))"
  by code_simp+

lemma samples_reachable:
  "ext_reachable sample_env one_extension" "ext_reachable sample_env two_extensions" "ext_reachable sample_env two_enabled"
proof -
  note accepted = samples_accepted
  have empty: "ext_reachable sample_env (empty_ext_store sample_state)"
    using sample_state_ok by (rule ext_reachable.initial)
  show one: "ext_reachable sample_env one_extension"
    using empty unfolding one_extension_def
    by (rule ext_reachable.step) (rule ext_step.register[OF accepted(3,1) prod.collapse[symmetric]])
  show two: "ext_reachable sample_env two_extensions"
    using one unfolding two_extensions_def
    by (rule ext_reachable.step) (rule ext_step.register[OF accepted(4,2) prod.collapse[symmetric]])
  show "ext_reachable sample_env two_enabled"
    unfolding two_enabled_def
    by (rule ext_reachable.step[OF ext_reachable.step[OF two]]; rule ext_step.enable[OF prod.collapse[symmetric]])
qed

lemma two_enabled_values:
  "map_of (xs_extensions two_enabled) ''shop'' = Some (sample_row ''hk'' True (sample_ui ''r1'' ''x''))"
  "map_of (xs_extensions two_enabled) ''lab'' = Some (sample_row ''hq'' True (sample_ui ''r2'' ''y''))"
  by (simp_all add: two_enabled_value)

section \<open>Exclusive replacements\<close>



section \<open>Routes and actions\<close>



section \<open>Isolation\<close>

text \<open>
  C14: Registering or replacing an extension, accepted or refused, changes no device, user, role,
  team or scope, no action that the platform or another extension defines, and nothing that another
  extension has: its row, upstreams, routes, actions and device keys.
\<close>

theorem manifest_isolated:
  assumes "ext_reachable env st" "wf_registration reg"
    "is_ok (accept_registration (ev_ip6 env) (ev_allowlist env) reg)"
    "register_extension env documents key reg st = (r, st') \<or> replace_extension env documents (rg_name reg) reg st = (q, st')"
  shows "app_catalog (xs_app st') = app_catalog (xs_app st) \<and>
    xs_iam st' = (xs_iam st)\<lparr>im_actions := im_actions (xs_iam st')\<rparr> \<and>
    (\<forall>a. get_action_owner a st = Some (rg_name reg) \<or> \<not> action_exists a st \<or>
       map_of (im_actions (xs_iam st')) a = map_of (im_actions (xs_iam st)) a) \<and>
    (\<forall>n. n = rg_name reg \<or> map_of (xs_extensions st') n = map_of (xs_extensions st) n \<and>
       list_upstreams n st' = list_upstreams n st \<and> list_routes n st' = list_routes n st \<and>
       list_extension_actions n st' = list_extension_actions n st \<and> list_device_keys n st' = list_device_keys n st)"
proof -
  let ?name = "rg_name reg" and ?new = "set (map ac_name (rg_actions reg))"
  have ok: "ext_ok st" using assms(1) by (rule ext_reachable_ok)
  have ok': "ext_ok st'"
    using ext_step_ok[OF _ ok] ext_step.register[OF assms(2,3)] ext_step.replace[OF assms(2,3)] assms(4) by blast
  obtain A where k: "keeps_others ?name A st st'"
    and A: "\<And>a. a \<in> A \<Longrightarrow> action_exists a st \<Longrightarrow> get_action_owner a st = Some ?name"
  proof -
    have "st' = st \<or> register_tables env documents key reg st = Inr st' \<or>
        (\<exists>b. replace_tables documents ?name b reg st = Inr st')"
      using assms(4)
    proof (elim disjE)
      assume "register_extension env documents key reg st = (r, st')"
      from register_result[OF this] show ?thesis by auto
    next
      assume "replace_extension env documents ?name reg st = (q, st')"
      from replace_result[OF this] show ?thesis by auto
    qed
    then consider "st' = st" | "register_tables env documents key reg st = Inr st'"
      | b where "replace_tables documents ?name b reg st = Inr st'"
      by blast
    then show ?thesis
    proof cases
      case 1
      then show ?thesis using that[of "{}"] by simp
    next
      case 2
      then have own: "validate_action_ownership reg None st = Inr ()" by (rule register_tables_steps)
      show ?thesis using that[OF register_keeps_others[OF 2]] fresh_manifest_actions[OF own] by blast
    next
      case 3
      then have own: "validate_action_ownership reg (Some ?name) st = Inr ()"
        by (auto simp: replace_tables_def Let_def)
      have "a \<in> ?new \<union> set (dropped_actions ?name reg st) \<Longrightarrow> action_exists a st \<Longrightarrow> get_action_owner a st = Some ?name" for a
        using manifest_actions_fresh[OF own] dropped_owned[OF ok] by blast
      then show ?thesis using that[OF replace_keeps_others[OF 3]] by simp
    qed
  qed
  have "\<forall>a. get_action_owner a st = Some ?name \<or> \<not> action_exists a st \<or>
       map_of (im_actions (xs_iam st')) a = map_of (im_actions (xs_iam st)) a"
    using k A by (auto simp: keeps_others_def)
  moreover have "app_catalog (xs_app st') = app_catalog (xs_app st)"
    "xs_iam st' = (xs_iam st)\<lparr>im_actions := im_actions (xs_iam st')\<rparr>"
    using k by (auto simp: keeps_others_def intro: iam_actions_only)
  ultimately show ?thesis using keeps_others_lists[OF k ok ok'] by blast
qed

theorem manifest_isolated_witness:
  "list_extension_actions ''shop'' two_extensions = list_extension_actions ''shop'' one_extension \<and>
   list_routes ''shop'' two_extensions = list_routes ''shop'' one_extension \<and>
   app_catalog (xs_app two_extensions) = app_catalog (xs_app one_extension)"
proof -
  have "register_extension sample_env no_documents ''q'' second_registration one_extension
      = (fst (register_extension sample_env no_documents ''q'' second_registration one_extension), two_extensions)"
    by (simp add: two_extensions_def)
  note * = manifest_isolated[OF samples_reachable(1) samples_accepted(4,2) disjI1[OF this]]
  have "''shop'' \<noteq> rg_name second_registration" by (simp add: second_registration_def)
  with * show ?thesis by blast
qed

section \<open>Reading a manifest back\<close>



section \<open>Deregistration\<close>

text \<open>
  C16: Deregistering a registered extension succeeds and leaves no trace of it: its row, upstreams,
  routes, action ownership and device keys are gone, its actions are removed from the catalog and
  from every role, and everything else is as before.  (An action with the empty name is excepted: a
  route of another extension can refer to it, and then the delete fails.)
\<close>

theorem deregistration_exact:
  assumes "ext_reachable env st" "extension_exists name st" "[] \<notin> set (list_extension_actions name st)"
  shows "deregister_extension name st = Inr
    (let own = set (list_extension_actions name st) in
     set_iam ((xs_iam st)\<lparr>im_role_actions := filter (\<lambda>(_, a). a \<notin> own) (im_role_actions (xs_iam st)),
        im_actions := filter (\<lambda>(a, _). a \<notin> own) (im_actions (xs_iam st))\<rparr>)
      (st\<lparr>xs_extensions := filter (\<lambda>(n, _). name \<noteq> n) (xs_extensions st),
          xs_upstreams := filter (\<lambda>u. up_extension u \<noteq> name) (xs_upstreams st),
          xs_routes := filter (\<lambda>r. rt_extension r \<noteq> name) (xs_routes st),
          xs_actions := filter (\<lambda>(_, owner). owner \<noteq> name) (xs_actions st),
          xs_device_keys := filter (\<lambda>((owner, _), _). owner \<noteq> name) (xs_device_keys st)\<rparr>))"
proof -
  let ?own = "list_extension_actions name st"
  let ?stripped = "strip_actions_from_all_roles ?own st"
  let ?deleted = "delete_extension name ?stripped"
  have ok: "ext_ok st" using assms(1) by (rule ext_reachable_ok)
  have strip: "?stripped = set_iam ((xs_iam st)\<lparr>im_role_actions := filter (\<lambda>(_, a). a \<notin> set ?own) (im_role_actions (xs_iam st))\<rparr>) st"
    using ok by (intro strip_actions_exact) (simp add: ext_ok_def)
  have "get_action_owner a ?deleted = None \<and> \<not> is_action_granted_to_any_role a ?deleted \<and>
      (\<forall>r \<in> set (xs_routes ?deleted). rt_required_action r \<noteq> Some a)" if a: "a \<in> set ?own" for a
  proof (intro conjI ballI)
    have owner: "map_of (xs_actions st) a = Some name"
      using a ok by (auto simp: list_extension_actions_def ext_ok_def owners_ok_def)
    then show "get_action_owner a ?deleted = None"
      using ok by (simp add: get_action_owner_def delete_extension_def strip map_of_filter_value ext_ok_def owners_ok_def)
    show "\<not> is_action_granted_to_any_role a ?deleted"
      using a by (auto simp: is_action_granted_to_any_role_def delete_extension_def strip list_ex_iff)
    fix r assume "r \<in> set (xs_routes ?deleted)"
    then have r: "r \<in> set (xs_routes st)" "rt_extension r \<noteq> name" by (auto simp: delete_extension_def strip)
    have "owned_or_free (xs_actions st) (rt_extension r) (rt_required_action r)"
      using ok r(1) by (simp add: ext_ok_def route_owners_ok_def)
    then show "rt_required_action r \<noteq> Some a"
      using owner r(2) a assms(3) by (auto simp: owned_or_free_def)
  qed
  then have "delete_orphaned_actions ?own ?deleted =
      Inr (set_iam ((xs_iam ?deleted)\<lparr>im_actions := filter (\<lambda>(a, _). a \<notin> set ?own) (im_actions (xs_iam ?deleted))\<rparr>) ?deleted)"
    by (rule delete_orphaned_all)
  then show ?thesis
    using assms(2) unfolding deregister_extension_def deregister_tables_def Let_def
    by (simp add: delete_extension_def strip set_iam_def AList.delete_eq case_prod_unfold eq_commute[of _ name])
qed

theorem deregistration_exact_witness:
  "\<exists>st'. deregister_extension ''shop'' two_enabled = Inr st' \<and> xs_routes st' = [] \<and> xs_actions st' = []"
proof -
  have h: "extension_exists ''shop'' two_enabled" "[] \<notin> set (list_extension_actions ''shop'' two_enabled)"
    by code_simp+
  have t: "xs_routes two_enabled = [route_row_of ''shop'' 0 1 (sample_route, NoBody, None)]"
    "xs_actions two_enabled = [(''item.read'', ''shop'')]"
    by (simp_all add: two_enabled_value two_extensions_value one_extension_value)
  show ?thesis
    using deregistration_exact[OF samples_reachable(3) h] by (simp add: Let_def t route_row_of_def)
qed

end
