(* ===== verification/Ext_Proxy.thy ===== *)
theory Ext_Proxy
  imports Ext_Properties
begin

text \<open>
  The HTTP side of a mounted extension route: the live request, the bounded reading of a body
  (\<open>extensions/body_validation.py\<close>) and the proxy to a micro-service (\<open>extensions/upstreams/http.py\<close>).
  A request or response body is the list of chunks it arrives in.  The HTTP client is the argument
  \<open>send\<close>; \<open>as_str\<close> is Python's \<open>str\<close> on a JSON value.
\<close>

section \<open>Requests\<close>

text \<open>
  Header names are as the server hands them over, in lower case; a query parameter can be repeated,
  and \<open>query_params.get\<close> answers with the last value.
\<close>

record http_request =
  hq_method :: http_method
  hq_scheme :: string
  hq_headers :: "(string \<times> string) list"
  hq_query :: "(string \<times> string) list"
  hq_path_params :: "string dict"
  hq_client :: "string option"
  hq_chunks :: "string list"

text \<open>What the dependencies of a route leave on \<open>request.state\<close>.\<close>

record request_state =
  qs_caller :: "(json \<times> json) option"
  qs_device :: "string option"

definition header_values :: "string \<Rightarrow> (string \<times> string) list \<Rightarrow> string list" where
  "header_values name headers = map snd (filter (\<lambda>(n, _). n = name) headers)"

definition get_header :: "string \<Rightarrow> (string \<times> string) list \<Rightarrow> string option" where
  "get_header name headers = map_of headers name"

definition query_values :: "string \<Rightarrow> http_request \<Rightarrow> string list" where
  "query_values name request = map snd (filter (\<lambda>(n, _). n = name) (hq_query request))"

definition query_get :: "string \<Rightarrow> http_request \<Rightarrow> string option" where
  "query_get name request = map_of (rev (hq_query request)) name"

section \<open>Reading a body\<close>

text \<open>\<open>str.isdigit\<close> also accepts superscript digits, which \<open>int\<close> then rejects.\<close>

definition py_isdigit :: "char \<Rightarrow> bool" where
  "py_isdigit c = (is_digit c \<or> c \<in> {char_of (178 :: nat), char_of (179 :: nat), char_of (185 :: nat)})"

definition body_too_large :: "nat \<Rightarrow> exn" where
  "body_too_large limit = HTTPException 413 (Msg ''Request body exceeds {} bytes'' [JInt (int limit)])"

definition check_declared_length :: "nat \<Rightarrow> string option \<Rightarrow> unit res" where
  "check_declared_length limit declared = (case declared of
       None \<Rightarrow> Inr ()
     | Some d \<Rightarrow>
         if d \<noteq> [] \<and> list_all py_isdigit d
         then bindR (ensure (list_all is_digit d) (ValueError (Msg ''invalid literal for int() with base 10: {}'' [JStr d]))) (\<lambda>_.
              ensure (\<not> limit < nat_of_digits d) (body_too_large limit))
         else Inr ())"

fun read_chunks :: "nat \<Rightarrow> nat \<Rightarrow> string list \<Rightarrow> string list \<Rightarrow> string list res" where
  "read_chunks limit seen chunks [] = Inr chunks"
| "read_chunks limit seen chunks (chunk # stream) =
     bindR (ensure (\<not> limit < seen + length chunk) (body_too_large limit)) (\<lambda>_.
     read_chunks limit (seen + length chunk) (chunks @ [chunk]) stream)"

definition read_limited_body :: "http_request \<Rightarrow> nat \<Rightarrow> string res" where
  "read_limited_body request limit =
     bindR (check_declared_length limit (get_header ''content-length'' (hq_headers request))) (\<lambda>_.
     bindR (read_chunks limit 0 [] (hq_chunks request)) (\<lambda>chunks. Inr (concat chunks)))"

definition max_buffered_body_bytes :: nat where
  "max_buffered_body_bytes = 1024 * 1024"

text \<open>\<open>json.loads\<close> is the argument \<open>loads\<close>; None stands for its ValueError.\<close>

definition parse_json :: "(string \<Rightarrow> json option) \<Rightarrow> string \<Rightarrow> json option res" where
  "parse_json loads raw =
     (if raw = [] then Inr None
      else case loads raw of
          None \<Rightarrow> Inl (HTTPException 400 (Msg ''Request body must be valid JSON'' []))
        | Some v \<Rightarrow> Inr (Some v))"

section \<open>The target path\<close>

definition substitute :: "string dict \<Rightarrow> string \<Rightarrow> string res" where
  "substitute ps name = (case map_of ps name of
       None \<Rightarrow> Inl (KeyError name)
     | Some v \<Rightarrow>
         bindR (ensure (v \<notin> {''.'', ''..''}) (HTTPException 400 (Msg ''Invalid path parameter value'' []))) (\<lambda>_.
         Inr (quote v)))"

fun substitute_tokens :: "string dict \<Rightarrow> path_token list \<Rightarrow> string res" where
  "substitute_tokens ps [] = Inr []"
| "substitute_tokens ps (Lit c # ts) = bindR (substitute_tokens ps ts) (\<lambda>s. Inr (c # s))"
| "substitute_tokens ps (Hole n # ts) =
     bindR (substitute ps n) (\<lambda>v. bindR (substitute_tokens ps ts) (\<lambda>s. Inr (v @ s)))"

definition resolve_upstream_path :: "string \<Rightarrow> http_request \<Rightarrow> string res" where
  "resolve_upstream_path upstream_path request = substitute_tokens (hq_path_params request) (param_tokens upstream_path)"

section \<open>Headers\<close>

definition request_header_allowlist :: "string list" where
  "request_header_allowlist = [''accept'', ''accept-encoding'', ''content-type'', ''content-encoding'', ''if-match'',
     ''if-none-match'', ''range'', ''idempotency-key'', ''traceparent'', ''tracestate'', ''x-request-id'']"

definition response_header_allowlist :: "string list" where
  "response_header_allowlist = [''accept-ranges'', ''cache-control'', ''content-disposition'', ''content-encoding'',
     ''content-language'', ''content-length'', ''content-range'', ''content-type'', ''etag'', ''expires'',
     ''last-modified'', ''location'', ''retry-after'', ''vary'']"

definition hop_by_hop :: "string list" where
  "hop_by_hop = [''connection'', ''keep-alive'', ''proxy-authenticate'', ''proxy-authorization'', ''proxy-connection'',
     ''te'', ''trailer'', ''transfer-encoding'', ''upgrade'']"

definition request_header_denylist :: "string list" where
  "request_header_denylist = hop_by_hop @ [''authorization'', ''cookie'', ''host'', ''x-forwarded-for'',
     ''x-forwarded-host'', ''x-forwarded-proto'', ''x-internal-key'', ''x-device-key'', ''x-device-id'',
     ''x-sealman-user-id'', ''x-sealman-user-name'']"

definition response_header_denylist :: "string list" where
  "response_header_denylist = hop_by_hop @ [''date'', ''server'', ''set-cookie'']"

definition connection_tokens :: "string list \<Rightarrow> string list" where
  "connection_tokens vs = concat (map (\<lambda>v. map (str_lower \<circ> str_strip)
     (filter (\<lambda>t. str_strip t \<noteq> []) (split_on (CHR '','') v))) vs)"

definition forwarding_headers :: "http_request \<Rightarrow> (string \<times> string) list" where
  "forwarding_headers request =
     (case hq_client request of Some host \<Rightarrow> if host = [] then [] else [(''x-forwarded-for'', host)] | None \<Rightarrow> []) @
     (case get_header ''host'' (hq_headers request) of
        Some host \<Rightarrow> if host = [] then [] else [(''x-forwarded-host'', host)] | None \<Rightarrow> []) @
     [(''x-forwarded-proto'', hq_scheme request)]"

definition caller_identity_headers :: "(json \<Rightarrow> string) \<Rightarrow> request_state \<Rightarrow> (string \<times> string) list" where
  "caller_identity_headers as_str state = (case qs_caller state of
       None \<Rightarrow> []
     | Some (user_id, user_name) \<Rightarrow>
         [(''x-sealman-user-id'', quote (as_str user_id)), (''x-sealman-user-name'', quote (as_str user_name))])"

definition request_headers :: "(json \<Rightarrow> string) \<Rightarrow> request_state \<Rightarrow> http_request \<Rightarrow> (string \<times> string) list" where
  "request_headers as_str state request =
     (let denied = request_header_denylist @ connection_tokens (header_values ''connection'' (hq_headers request)) in
      filter (\<lambda>(name, _). str_lower name \<in> set request_header_allowlist \<and> str_lower name \<notin> set denied)
        (hq_headers request) @
      forwarding_headers request @ caller_identity_headers as_str state)"

definition response_headers :: "(string \<times> string) list \<Rightarrow> (string \<times> string) list" where
  "response_headers headers =
     (let denied = response_header_denylist @ connection_tokens (map snd (filter (\<lambda>(n, _). str_lower n = ''connection'') headers)) in
      List.map_filter (\<lambda>(name, v).
        if str_lower name \<in> set response_header_allowlist \<and> str_lower name \<notin> set denied
        then Some (str_lower name, v) else None) headers)"

section \<open>Dispatch\<close>

datatype content = NoContent | Buffered string | Streamed "string list"

definition streamed_body :: "http_request \<Rightarrow> (string \<times> string) list \<Rightarrow> content \<times> (string \<times> string) list" where
  "streamed_body request headers = (case get_header ''content-length'' (hq_headers request) of
       Some content_length \<Rightarrow> (Streamed (hq_chunks request), headers @ [(''content-length'', content_length)])
     | None \<Rightarrow>
         if get_header ''transfer-encoding'' (hq_headers request) \<noteq> None then (Streamed (hq_chunks request), headers)
         else (NoContent, headers))"

record upstream_request =
  uq_method :: http_method
  uq_target :: string
  uq_params :: "(string \<times> string) list"
  uq_headers :: "(string \<times> string) list"
  uq_content :: content

datatype send_error = PoolTimeout | TimeoutException | OtherRequestError

record http_response =
  hr_status :: nat
  hr_headers :: "(string \<times> string) list"
  hr_chunks :: "string list"

definition upstream_error :: "send_error \<Rightarrow> nat \<times> string" where
  "upstream_error e = (case e of
       PoolTimeout \<Rightarrow> (503, ''Upstream busy'')
     | TimeoutException \<Rightarrow> (504, ''Upstream timed out'')
     | OtherRequestError \<Rightarrow> (502, ''Upstream unavailable''))"

text \<open>An answer is a JSON body with a status, or the streamed response.\<close>

datatype reply = JsonReply int json | StreamedReply http_response

definition build_upstream_request ::
  "(json \<Rightarrow> string) \<Rightarrow> request_state \<Rightarrow> http_request \<Rightarrow> string \<Rightarrow> string \<Rightarrow> string option \<Rightarrow>
     (string \<times> string) list \<Rightarrow> upstream_request res" where
  "build_upstream_request as_str state request base_url upstream_path body trusted_headers =
     bindR (resolve_upstream_path upstream_path request) (\<lambda>path.
     let headers = request_headers as_str state request @ trusted_headers;
         (content, headers) = (case body of Some b \<Rightarrow> (Buffered b, headers) | None \<Rightarrow> streamed_body request headers) in
     Inr \<lparr>uq_method = hq_method request, uq_target = rstrip_chars is_slash base_url @ path,
          uq_params = hq_query request, uq_headers = headers, uq_content = content\<rparr>)"

definition dispatch_http ::
  "(upstream_request \<Rightarrow> send_error + http_response) \<Rightarrow> (json \<Rightarrow> string) \<Rightarrow> request_state \<Rightarrow> http_request \<Rightarrow>
     string \<Rightarrow> string \<Rightarrow> string option \<Rightarrow> (string \<times> string) list \<Rightarrow> reply res" where
  "dispatch_http send as_str state request base_url upstream_path body trusted_headers =
     bindR (build_upstream_request as_str state request base_url upstream_path body trusted_headers) (\<lambda>req.
     case send req of
       Inl e \<Rightarrow> Inr (JsonReply (int (fst (upstream_error e))) (JObj [(''detail'', JStr (snd (upstream_error e)))]))
     | Inr resp \<Rightarrow> Inr (StreamedReply (resp\<lparr>hr_headers := response_headers (hr_headers resp)\<rparr>)))"

definition fetch_openapi_document :: "(string \<Rightarrow> (nat \<times> json option) option) \<Rightarrow> string \<Rightarrow> json option" where
  "fetch_openapi_document get base_url = (case get (rstrip_chars is_slash base_url @ ''/openapi.json'') of
       Some (status, Some (JObj d)) \<Rightarrow> if 200 \<le> status \<and> status < 300 then Some (JObj d) else None
     | _ \<Rightarrow> None)"

end
