(* ===== verification/Ext_Proxy_Properties.thy ===== *)
theory Ext_Proxy_Properties
  imports Ext_Proxy
begin

text \<open>
  What the proxy guarantees to a micro-service and to the platform: a bounded body, a target whose
  authority and path structure the caller cannot change, and identity headers that only the
  platform sets.
\<close>

section \<open>Bounded bodies\<close>

lemma read_chunks_result:
  "seen = length (concat kept) \<Longrightarrow> seen \<le> limit \<Longrightarrow>
     read_chunks limit seen kept stream =
       (if length (concat (kept @ stream)) \<le> limit then Inr (kept @ stream) else Inl (body_too_large limit))"
proof (induction stream arbitrary: seen kept)
  case Nil
  then show ?case by simp
next
  case (Cons chunk stream)
  show ?case
  proof (cases "seen + length chunk \<le> limit")
    case True
    then show ?thesis using Cons.IH[of "seen + length chunk" "kept @ [chunk]"] Cons.prems by simp
  next
    case False
    then show ?thesis using Cons.prems by simp
  qed
qed


section \<open>The path\<close>

text \<open>The pieces of a path template between its slashes, and what a piece becomes.\<close>

fun token_segments :: "path_token list \<Rightarrow> path_token list list" where
  "token_segments [] = [[]]"
| "token_segments (t # ts) =
     (if t = Lit (CHR ''/'') then [] # token_segments ts
      else (t # hd (token_segments ts)) # tl (token_segments ts))"

lemma token_segments_not_Nil [simp]: "token_segments ts \<noteq> []"
  by (induction ts) auto

lemma substitute_Inr:
  "substitute ps n = Inr s \<longleftrightarrow> (\<exists>v. map_of ps n = Some v \<and> v \<noteq> ''.'' \<and> v \<noteq> ''..'' \<and> s = quote v)"
  by (auto simp: substitute_def split: option.split)

lemma substitute_no_slash: "substitute ps n = Inr s \<Longrightarrow> CHR ''/'' \<notin> set s"
  using quote_no_separator(1) by (auto simp: substitute_Inr)

text \<open>A piece that a non-empty value went into is no dot segment, whatever stands around it.\<close>

lemma substitute_dots:
  "substitute ps n = Inr v \<Longrightarrow> set v \<subseteq> {CHR ''.''} \<Longrightarrow> map_of ps n \<noteq> Some [] \<Longrightarrow> 2 < length v"
proof -
  assume a: "substitute ps n = Inr v" "set v \<subseteq> {CHR ''.''}" "map_of ps n \<noteq> Some []"
  then obtain w where w: "map_of ps n = Some w" "w \<noteq> ''.''" "w \<noteq> ''..''" "v = quote w" by (auto simp: substitute_Inr)
  have v: "v = w" using quote_dots[of w] a(2) w(4) by simp
  have "v = replicate (length v) (CHR ''.'')" using a(2) by (intro replicate_eqI) auto
  moreover have "v \<noteq> []" "v \<noteq> ''.''" "v \<noteq> ''..''" using w a(3) v by auto
  ultimately show "2 < length v"
    by (metis One_nat_def Suc_1 length_0_conv less_2_cases_iff linorder_neqE_nat replicate_Suc replicate_0)
qed

lemma substitute_tokens_part:
  "substitute_tokens ps ts = Inr s \<Longrightarrow> Hole n \<in> set ts \<Longrightarrow>
     \<exists>v. substitute ps n = Inr v \<and> set v \<subseteq> set s \<and> length v \<le> length s"
proof (induction ts arbitrary: s)
  case (Cons t ts)
  obtain r where r: "substitute_tokens ps ts = Inr r" using Cons.prems by (cases t) auto
  show ?case
  proof (cases "t = Hole n")
    case True
    then show ?thesis using Cons.prems r by auto
  next
    case False
    then obtain v where "substitute ps n = Inr v" "set v \<subseteq> set r" "length v \<le> length r"
      using Cons.IH[OF r] Cons.prems(2) by auto
    then show ?thesis using Cons.prems(1) r by (cases t) auto
  qed
qed simp

lemma substitute_tokens_not_dots:
  assumes "substitute_tokens ps ts = Inr s" "Hole n \<in> set ts" "map_of ps n \<noteq> Some []"
  shows "s \<noteq> ''.'' \<and> s \<noteq> ''..''"
proof -
  obtain v where v: "substitute ps n = Inr v" "set v \<subseteq> set s" "length v \<le> length s"
    using substitute_tokens_part[OF assms(1,2)] by blast
  then show ?thesis using substitute_dots[OF v(1) _ assms(3)] by fastforce
qed

lemma substitute_segments:
  "substitute_tokens ps ts = Inr s \<Longrightarrow>
     list_all2 (\<lambda>seg piece. substitute_tokens ps seg = Inr piece) (token_segments ts) (split_on (CHR ''/'') s)"
proof (induction ts arbitrary: s)
  case Nil
  then show ?case by simp
next
  case (Cons t ts)
  obtain r where r: "substitute_tokens ps ts = Inr r" using Cons.prems by (cases t) auto
  note ih = Cons.IH[OF r]
  obtain seg segs piece pieces where e: "token_segments ts = seg # segs" "split_on (CHR ''/'') r = piece # pieces"
    by (metis neq_Nil_conv split_on_not_Nil token_segments_not_Nil)
  have ih': "substitute_tokens ps seg = Inr piece"
    "list_all2 (\<lambda>seg piece. substitute_tokens ps seg = Inr piece) segs pieces" using ih by (simp_all add: e)
  show ?case
  proof (cases t)
    case (Lit c)
    then have s: "s = c # r" using Cons.prems r by simp
    show ?thesis
    proof (cases "c = CHR ''/''")
      case True
      then show ?thesis using ih by (simp add: s Lit)
    next
      case False
      then show ?thesis using ih' by (simp add: s Lit e)
    qed
  next
    case (Hole n)
    then obtain v where v: "substitute ps n = Inr v" "s = v @ r" using Cons.prems r by auto
    then have "split_on (CHR ''/'') s = (v @ piece) # pieces"
      using split_on_append_free[OF substitute_no_slash[OF v(1)]] by (simp add: e)
    then show ?thesis using ih' by (simp add: Hole v e)
  qed
qed

text \<open>
  C19: The path sent to a micro-service has the segments of the route's template: each placeholder
  is filled inside its own segment, no value adds or removes a segment, and a segment into which a
  value went (routing hands over no empty one) is never a dot segment, whatever stands around it.
\<close>

theorem proxied_path_segments:
  assumes "resolve_upstream_path template request = Inr path"
  shows "list_all2 (\<lambda>seg piece. substitute_tokens (hq_path_params request) seg = Inr piece)
      (token_segments (param_tokens template)) (split_on (CHR ''/'') path) \<and>
    (\<nexists>i n. i < length (split_on (CHR ''/'') path) \<and> Hole n \<in> set (token_segments (param_tokens template) ! i) \<and>
       map_of (hq_path_params request) n \<noteq> Some [] \<and> split_on (CHR ''/'') path ! i \<in> {''.'', ''..''})"
proof -
  let ?ok = "\<lambda>seg piece. substitute_tokens (hq_path_params request) seg = Inr piece"
  have a: "list_all2 ?ok (token_segments (param_tokens template)) (split_on (CHR ''/'') path)"
    using assms unfolding resolve_upstream_path_def by (rule substitute_segments)
  have "split_on (CHR ''/'') path ! i \<notin> {''.'', ''..''}"
    if "i < length (split_on (CHR ''/'') path)" "Hole n \<in> set (token_segments (param_tokens template) ! i)"
      "map_of (hq_path_params request) n \<noteq> Some []" for i n
    using substitute_tokens_not_dots[OF list_all2_nthD2[OF a that(1)] that(2,3)] by simp
  with a show ?thesis by blast
qed

definition sample_http_request :: http_request where
  "sample_http_request = \<lparr>hq_method = GET, hq_scheme = ''https'',
     hq_headers = [(''host'', ''edge''), (''accept'', ''*''), (''cookie'', ''c''), (''x-device-id'', ''spoofed''),
       (''connection'', ''Range''), (''range'', ''b'')],
     hq_query = [(''device_id'', ''d1'')], hq_path_params = [(''item'', ''a/b'')], hq_client = Some ''10.0.0.9'',
     hq_chunks = []\<rparr>"

definition sample_state_of_request :: request_state where
  "sample_state_of_request = \<lparr>qs_caller = Some (JStr ''u1'', JStr ''Ann''), qs_device = None\<rparr>"

theorem proxied_path_segments_witness:
  "\<exists>path. resolve_upstream_path ''/v1/items/{item}'' sample_http_request = Inr path \<and>
     length (split_on (CHR ''/'') path) = 4"
proof -
  have "is_ok (resolve_upstream_path ''/v1/items/{item}'' sample_http_request)" by code_simp
  then obtain path where p: "resolve_upstream_path ''/v1/items/{item}'' sample_http_request = Inr path"
    by (auto simp: is_ok_iff)
  have "length (token_segments (param_tokens ''/v1/items/{item}'')) = 4" by code_simp
  then show ?thesis using proxied_path_segments[OF p] p list_all2_lengthD by fastforce
qed

section \<open>The authority\<close>

lemma build_upstream_request_Inr:
  assumes "build_upstream_request as_str state request base template body trusted = Inr req"
  shows "\<exists>path extra. resolve_upstream_path template request = Inr path \<and>
    uq_target req = rstrip_chars is_slash base @ path \<and> uq_params req = hq_query request \<and>
    uq_headers req = request_headers as_str state request @ trusted @ extra \<and>
    (extra = [] \<or> (\<exists>v. extra = [(''content-length'', v)]))"
  using assms by (auto simp: build_upstream_request_def streamed_body_def Let_def split: option.splits if_splits)

lemma resolved_path_slash:
  assumes "well_formed_path template" "resolve_upstream_path template request = Inr path"
  shows "\<exists>p. path = CHR ''/'' # p"
proof -
  obtain t where "template = CHR ''/'' # t"
    using assms(1) by (cases template) (auto simp: well_formed_path_def starts_with_def)
  then show ?thesis using assms(2) by (auto simp: resolve_upstream_path_def)
qed

text \<open>
  C20: Whatever the caller sends, the request to the micro-service goes to the scheme and authority
  of the upstream's base URL, and these are what the allow list was checked for at registration.
\<close>

theorem proxied_authority:
  assumes "is_ok (accept_upstream ip6 allowlist (HttpUpstream base health version expected))"
    "well_formed_path template"
    "build_upstream_request as_str state request base template body trusted = Inr req"
  shows "\<exists>u v port. urlsplit ip6 base = Inr u \<and> urlsplit ip6 (uq_target req) = Inr v \<and>
    us_scheme v = us_scheme u \<and> us_netloc v = us_netloc u \<and> url_port v = Inr port \<and>
    url_hostname v \<noteq> None \<and> \<not> has_credentials v \<and>
    http_upstream_is_allowed allowlist (the (url_hostname v)) (effective_port v port)"
proof -
  obtain u port host where u: "urlsplit ip6 base = Inr u" "url_port u = Inr port" "url_hostname u = Some host"
    "str_lower (us_scheme u) \<in> {''http'', ''https''}" "\<not> has_credentials u"
    "http_upstream_is_allowed allowlist host (effective_port u port)"
    using assms(1) by (auto simp: accept_upstream_def validate_base_url_ok)
  obtain path where path: "resolve_upstream_path template request = Inr path"
    and req: "uq_target req = rstrip_chars is_slash base @ path"
    using build_upstream_request_Inr[OF assms(3)] by blast
  obtain p where p: "path = CHR ''/'' # p" using resolved_path_slash[OF assms(2) path] by blast
  have slash: "is_slash = (\<lambda>c. c = CHR ''/'')" by (simp add: is_slash_def fun_eq_iff)
  have "us_scheme u \<noteq> []" using u(4) by (auto simp: str_lower_def)
  then obtain v where v: "urlsplit ip6 (uq_target req) = Inr v" "us_scheme v = us_scheme u" "us_netloc v = us_netloc u"
    using urlsplit_joined[OF u(1) _ hostname_netloc[OF u(3)], of p] by (auto simp: req p slash)
  moreover have "effective_port v port = effective_port u port" by (simp add: effective_port_def v(2))
  ultimately show ?thesis
    using u host_and_port_netloc[OF v(3)] by auto
qed

theorem proxied_authority_witness:
  "\<exists>req v. build_upstream_request (\<lambda>_. []) sample_state_of_request sample_http_request ''http://svc/'' ''/v1/items/{item}'' None []
     = Inr req \<and> urlsplit (\<lambda>_. False) (uq_target req) = Inr v \<and> url_hostname v \<noteq> None"
proof -
  have a: "is_ok (accept_upstream (\<lambda>_. False) ''svc:*'' (HttpUpstream ''http://svc/'' [] [] None))" by code_simp
  have t: "is_ok (validate_path ''/v1/items/{item}'')" by code_simp
  have "is_ok (build_upstream_request (\<lambda>_. []) sample_state_of_request sample_http_request ''http://svc/'' ''/v1/items/{item}'' None [])"
    by code_simp
  then obtain req where r: "build_upstream_request (\<lambda>_. []) sample_state_of_request sample_http_request ''http://svc/''
      ''/v1/items/{item}'' None [] = Inr req" by (auto simp: is_ok_iff)
  from proxied_authority[OF a t[unfolded validate_path_iff] r] r show ?thesis by blast
qed

section \<open>Identity headers\<close>

definition sent_values :: "string \<Rightarrow> (string \<times> string) list \<Rightarrow> string list" where
  "sent_values name headers = map snd (filter (\<lambda>(n, _). str_lower n = name) headers)"

lemma sent_values_append [simp]: "sent_values name (xs @ ys) = sent_values name xs @ sent_values name ys"
  by (simp add: sent_values_def)

lemma sent_values_filtered:
  "(\<And>n. P n \<Longrightarrow> str_lower n \<noteq> name) \<Longrightarrow> sent_values name (filter (\<lambda>(n, v). P n) headers) = []"
  by (auto simp: sent_values_def filter_empty_conv)

text \<open>Headers that carry a credential or an identity.\<close>

definition guarded_headers :: "string list" where
  "guarded_headers = [''authorization'', ''cookie'', ''x-internal-key'', ''x-device-key'', ''x-device-id'',
     ''x-sealman-user-id'', ''x-sealman-user-name'', ''x-forwarded-for'', ''x-forwarded-host'', ''x-forwarded-proto'']"

lemma guarded_denied: "set guarded_headers \<subseteq> set request_header_denylist"
  by code_simp

lemma guarded_lower: "name \<in> set guarded_headers \<Longrightarrow> sent_values name [(''content-length'', v)] = []"
proof -
  have "str_lower ''content-length'' \<notin> set guarded_headers" by code_simp
  then show "name \<in> set guarded_headers \<Longrightarrow> ?thesis" by (auto simp: sent_values_def)
qed

lemma caller_header_names:
  "str_lower ''x-sealman-user-id'' = ''x-sealman-user-id''" "str_lower ''x-sealman-user-name'' = ''x-sealman-user-name''"
  "str_lower ''x-forwarded-for'' = ''x-forwarded-for''" "str_lower ''x-forwarded-host'' = ''x-forwarded-host''"
  "str_lower ''x-forwarded-proto'' = ''x-forwarded-proto''"
  by code_simp+

lemma guarded_headers_sent:
  assumes "build_upstream_request as_str state request base template body trusted = Inr req"
    "name \<in> set guarded_headers"
  shows "sent_values name (uq_headers req) =
    sent_values name (forwarding_headers request) @ sent_values name (caller_identity_headers as_str state) @
    sent_values name trusted"
proof -
  have "name \<in> set request_header_denylist" using guarded_denied assms(2) by blast
  then have none: "sent_values name (filter (\<lambda>(n, _). str_lower n \<in> set request_header_allowlist \<and>
      str_lower n \<notin> set (request_header_denylist @ ts)) (hq_headers request)) = []" for ts
    by (intro sent_values_filtered) auto
  then have "sent_values name (request_headers as_str state request) =
      sent_values name (forwarding_headers request) @ sent_values name (caller_identity_headers as_str state)"
    unfolding request_headers_def Let_def sent_values_append none by simp
  moreover obtain extra where "uq_headers req = request_headers as_str state request @ trusted @ extra"
    "extra = [] \<or> (\<exists>v. extra = [(''content-length'', v)])"
    using build_upstream_request_Inr[OF assms(1)] by blast
  moreover have "sent_values name extra = []"
    using calculation(3) guarded_lower[OF assms(2)] by (auto simp: sent_values_def)
  ultimately show ?thesis by simp
qed

text \<open>
  C21: No credential and no identity header of the caller reaches a micro-service: of the headers
  that carry one, in any capitalisation, the request holds exactly those the platform adds, namely
  the forwarding headers of this hop, the authenticated user and the trusted headers of the runtime.
\<close>

theorem identity_headers_trusted:
  assumes "build_upstream_request as_str state request base template body trusted = Inr req"
    "name \<in> set guarded_headers"
  shows "sent_values name (uq_headers req) =
    sent_values name (forwarding_headers request) @ sent_values name (caller_identity_headers as_str state) @
    sent_values name trusted"
  using assms by (rule guarded_headers_sent)

theorem identity_headers_trusted_witness:
  "\<exists>req. build_upstream_request (\<lambda>_. ''u'') sample_state_of_request sample_http_request ''http://svc'' ''/v1'' None [] = Inr req \<and>
     sent_values ''x-device-id'' (uq_headers req) = [] \<and> sent_values ''x-sealman-user-id'' (uq_headers req) = [''u'']"
proof -
  have "is_ok (build_upstream_request (\<lambda>_. ''u'') sample_state_of_request sample_http_request ''http://svc'' ''/v1'' None [])"
    by code_simp
  then obtain req where r: "build_upstream_request (\<lambda>_. ''u'') sample_state_of_request sample_http_request ''http://svc'' ''/v1'' None []
      = Inr req" by (auto simp: is_ok_iff)
  have g: "''x-device-id'' \<in> set guarded_headers" "''x-sealman-user-id'' \<in> set guarded_headers"
    by (simp_all add: guarded_headers_def)
  have v: "sent_values ''x-device-id'' (forwarding_headers sample_http_request) = []"
    "sent_values ''x-device-id'' (caller_identity_headers (\<lambda>_. ''u'') sample_state_of_request) = []"
    "sent_values ''x-sealman-user-id'' (forwarding_headers sample_http_request) = []"
    "sent_values ''x-sealman-user-id'' (caller_identity_headers (\<lambda>_. ''u'') sample_state_of_request) = [''u'']"
    by code_simp+
  have "sent_values n [] = []" for n by (simp add: sent_values_def)
  then show ?thesis
    using identity_headers_trusted[OF r g(1)] identity_headers_trusted[OF r g(2)] r v by simp
qed

end
