(* ===== verification/Iothub_Id.thy ===== *)
theory Iothub_Id
  imports Url
begin

text \<open>
  The identifiers that name a device or a module in the URLs of the IoT Hub (\<open>helper.py\<close>): the
  characters of the hub's identity registry, and their encoding as one path segment.
\<close>

section \<open>Identifiers of the IoT Hub\<close>

definition iothub_char :: "char \<Rightarrow> bool" where
  "iothub_char c = (is_alnum c \<or> c \<in> {CHR ''-'', CHR ''.'', CHR ''%'', CHR ''_'', CHR ''*'', CHR ''?'', CHR ''!'',
     CHR ''('', CHR '')'', CHR '','', CHR '':'', CHR ''='', CHR ''@'', CHR ''$'', CHR 0x27})"

definition validate_iothub_id :: "string \<Rightarrow> string res" where
  "validate_iothub_id v =
     bindR (ensure (v \<notin> {''.'', ''..''} \<and> 1 \<le> length v \<and> length v \<le> 128 \<and> list_all iothub_char v)
              (api_error ''Invalid IoT Hub identifier'' [] 400)) (\<lambda>_. Inr v)"

definition encode_iothub_id :: "string \<Rightarrow> string res" where
  "encode_iothub_id v = bindR (validate_iothub_id v) (\<lambda>v. Inr (quote v))"

lemma validate_iothub_id_Inr:
  "validate_iothub_id v = Inr w \<longleftrightarrow>
     w = v \<and> v \<notin> {''.'', ''..''} \<and> 1 \<le> length v \<and> length v \<le> 128 \<and> list_all iothub_char v"
  by (auto simp: validate_iothub_id_def)

lemma encode_iothub_id_Inr: "encode_iothub_id v = Inr w \<longleftrightarrow> validate_iothub_id v = Inr v \<and> w = quote v"
  by (auto simp: encode_iothub_id_def validate_iothub_id_Inr)

end
