(* ===== verification/Ext_Iotedge.thy ===== *)
theory Ext_Iotedge
  imports Ext_Proxy_Properties Iothub_Id
begin

text \<open>
  Routes that call an IoT Edge module (\<open>extensions/upstreams/iotedge.py\<close>) and the health checks of both kinds of upstream
  (\<open>extensions/health.py\<close>).  The hub, the blob storage, the health endpoints and the version
  specifiers of the \<open>packaging\<close> library are arguments.
\<close>

text \<open>The version is the text 2021-04-12.\<close>

definition api_version :: string where
  "api_version = ''2021-04-12''"

section \<open>The hub and the storage\<close>

datatype hub_call = HubGet string | HubPost string json | HubPatch string json

record hub_response =
  hs_status :: nat
  hs_text :: string
  hs_json :: "json option"

text \<open>
  \<open>ht_call\<close> answers None when the request fails; \<open>ht_upload\<close> tells whether an upload of a blob
  succeeds; \<open>ht_new_id\<close> is the fresh identifier of \<open>uuid4\<close>.
\<close>

record hub_env =
  ht_name :: string
  ht_call :: "hub_call \<Rightarrow> hub_response option"
  ht_storage :: "string option"
  ht_sas :: "string option"
  ht_upload :: "string \<Rightarrow> json \<Rightarrow> bool"
  ht_new_id :: string
  ht_loads :: "string \<Rightarrow> json option"

definition call_hub :: "hub_env \<Rightarrow> hub_call \<Rightarrow> hub_response res" where
  "call_hub env c = (case ht_call env c of
       None \<Rightarrow> Inl (OtherError (Msg ''RequestError'' []))
     | Some resp \<Rightarrow> Inr resp)"

definition response_json :: "hub_response \<Rightarrow> json res" where
  "response_json resp = (case hs_json resp of
       None \<Rightarrow> Inl (ValueError (Msg ''Expecting value'' []))
     | Some v \<Rightarrow> Inr v)"

definition backend_error :: "hub_response \<Rightarrow> exn" where
  "backend_error resp = Api IoTBackendAPIError (Msg (hs_text resp) []) (hs_status resp)"

definition module_url :: "string \<Rightarrow> string \<Rightarrow> string \<Rightarrow> string \<Rightarrow> string res" where
  "module_url hub device_id module_name suffix =
     bindR (encode_iothub_id device_id) (\<lambda>d.
     bindR (encode_iothub_id module_name) (\<lambda>m.
     Inr (''https://'' @ hub @ ''/twins/'' @ d @ ''/modules/'' @ m @ suffix @ ''?api-version='' @ api_version)))"

section \<open>The target device\<close>

definition resolve_target_device :: "http_request \<Rightarrow> route_row \<Rightarrow> string res" where
  "resolve_target_device request route =
     (let scope_param = or_default (rt_scope_param route) device_id_name;
          device_id = (if rt_scoped route
            then (case rt_scope_in route of
                InPath \<Rightarrow> map_of (hq_path_params request) scope_param
              | InQuery \<Rightarrow> query_get scope_param request)
            else query_get device_id_name request) in
      case device_id of
        None \<Rightarrow> Inl (HTTPException 400 (Msg ''Missing target device id for this iotedge route'' []))
      | Some d \<Rightarrow>
          bindR (ensure (d \<noteq> []) (HTTPException 400 (Msg ''Missing target device id for this iotedge route'' []))) (\<lambda>_.
          case validate_iothub_id d of
            Inl _ \<Rightarrow> Inl (HTTPException 400 (Msg ''Invalid target device id for this iotedge route'' []))
          | Inr _ \<Rightarrow> Inr d))"

section \<open>Dispatch\<close>

definition direct_method_max_payload_bytes :: nat where
  "direct_method_max_payload_bytes = 128 * 1024"

definition read_json_body :: "hub_env \<Rightarrow> http_request \<Rightarrow> string option \<Rightarrow> nat \<Rightarrow> json option res" where
  "read_json_body env request body limit =
     bindR (case body of Some b \<Rightarrow> Inr b | None \<Rightarrow> read_limited_body request limit) (\<lambda>raw.
     bindR (ensure (\<not> limit < length raw) (body_too_large limit)) (\<lambda>_. parse_json (ht_loads env) raw))"

definition twin_read :: "hub_env \<Rightarrow> string \<Rightarrow> string \<Rightarrow> json res" where
  "twin_read env device_id module_name =
     bindR (module_url (ht_name env) device_id module_name []) (\<lambda>url.
     bindR (call_hub env (HubGet url)) (\<lambda>resp.
     bindR (ensure (\<not> 400 \<le> hs_status resp) (backend_error resp)) (\<lambda>_.
     response_json resp)))"

definition config_blob_url :: "string \<Rightarrow> string \<Rightarrow> string \<Rightarrow> string \<Rightarrow> string \<Rightarrow> string res" where
  "config_blob_url storage sas device_id module_name config_id =
     bindR (encode_iothub_id device_id) (\<lambda>d.
     bindR (encode_iothub_id module_name) (\<lambda>m.
     Inr (''https://'' @ storage @ ''.blob.core.windows.net/iotedge-device-twin/'' @ d @ ''/'' @ m @ ''/'' @
          config_id @ ''?'' @ sas)))"

definition twin_write :: "hub_env \<Rightarrow> string \<Rightarrow> string \<Rightarrow> json option \<Rightarrow> json res" where
  "twin_write env device_id module_name desired =
     bindR (module_url (ht_name env) device_id module_name []) (\<lambda>url.
     bindR (ensure (truthy_str (ht_storage env))
              (Api IoTBackendAPIError (Msg ''Public storage account name is not set. Cannot upload file.'' []) 500)) (\<lambda>_.
     bindR (ensure (truthy_str (ht_sas env) \<and> str_strip (the (ht_sas env)) \<noteq> [])
              (Api IoTBackendAPIError (Msg ''BLOB_SAS_TOKEN_MODULE_CONF is not configured.'' []) 500)) (\<lambda>_.
     let config_id = ht_new_id env;
         data = (case desired of Some v \<Rightarrow> if truthy v then v else JObj [] | None \<Rightarrow> JObj []) in
     bindR (ensure (ht_upload env (device_id @ ''/'' @ module_name @ ''/'' @ config_id) data)
              (Api IoTBackendAPIError (Msg ''could not upload data object to blob storage'' []) 400)) (\<lambda>_.
     bindR (config_blob_url (the (ht_storage env)) (the (ht_sas env)) device_id module_name config_id) (\<lambda>blob_url.
     bindR (call_hub env (HubPatch url (JObj [(''properties'', JObj [(''desired'',
              JObj [(''configBlobUrl'', JStr blob_url), (''configId'', JStr config_id)])])]))) (\<lambda>resp.
     bindR (ensure (\<not> 400 \<le> hs_status resp) (backend_error resp)) (\<lambda>_.
     Inr (JObj [(''configId'', JStr config_id)]))))))))"

definition device_reply :: "json \<Rightarrow> reply res" where
  "device_reply result = (case result of
       JObj d \<Rightarrow> (case (case map_of d ''status'' of None \<Rightarrow> JInt 200 | Some v \<Rightarrow> v) of
           JInt status \<Rightarrow> Inr (JsonReply status (pget d ''payload''))
         | JBool b \<Rightarrow> Inr (JsonReply (if b then 1 else 0) (pget d ''payload''))
         | _ \<Rightarrow> Inl TypeError)
     | _ \<Rightarrow> Inl AttributeError)"

definition direct_method :: "hub_env \<Rightarrow> string \<Rightarrow> string \<Rightarrow> string option \<Rightarrow> json option \<Rightarrow> reply res" where
  "direct_method env device_id module_name called payload =
     bindR (module_url (ht_name env) device_id module_name ''/methods'') (\<lambda>url.
     bindR (call_hub env (HubPost url (JObj
         [(''methodName'', case called of Some m \<Rightarrow> JStr m | None \<Rightarrow> JNull),
          (''connectTimeoutInSeconds'', JInt 30), (''responseTimeoutInSeconds'', JInt 30),
          (''payload'', case payload of Some v \<Rightarrow> if is_null v then JObj [] else v | None \<Rightarrow> JObj [])]))) (\<lambda>resp.
     bindR (ensure (\<not> 400 \<le> hs_status resp) (backend_error resp)) (\<lambda>_.
     bindR (response_json resp) device_reply)))"

definition dispatch_iotedge ::
  "hub_env \<Rightarrow> http_request \<Rightarrow> string \<Rightarrow> route_row \<Rightarrow> string option \<Rightarrow> reply res" where
  "dispatch_iotedge env request module_name route body =
     bindR (resolve_target_device request route) (\<lambda>device_id.
     case (case rt_iotedge_operation route of None \<Rightarrow> DirectMethod | Some op \<Rightarrow> op) of
       TwinRead \<Rightarrow> bindR (twin_read env device_id module_name) (\<lambda>v. Inr (JsonReply 200 v))
     | TwinWrite \<Rightarrow>
         bindR (read_json_body env request body max_buffered_body_bytes) (\<lambda>payload.
         bindR (twin_write env device_id module_name payload) (\<lambda>v. Inr (JsonReply 200 v)))
     | DirectMethod \<Rightarrow>
         bindR (read_json_body env request body direct_method_max_payload_bytes) (\<lambda>payload.
         direct_method env device_id module_name (rt_method_name route) payload))"

section \<open>Health\<close>

definition sub_or_empty :: "json \<Rightarrow> string \<Rightarrow> json res" where
  "sub_or_empty v k = (case v of
       JObj d \<Rightarrow> Inr (case map_of d k of None \<Rightarrow> JObj [] | Some w \<Rightarrow> w)
     | _ \<Rightarrow> Inl AttributeError)"

text \<open>The canary of an upstream and the modules its agent reports, or None when they cannot be read.\<close>

definition resolve_canary_agent_modules :: "hub_env \<Rightarrow> string \<Rightarrow> (json \<times> json) option res" where
  "resolve_canary_agent_modules env health_device_query =
     bindR (call_hub env (HubPost (''https://'' @ ht_name env @ ''/devices/query?api-version='' @ api_version)
              (JObj [(''query'', JStr (''SELECT deviceId FROM devices WHERE '' @ health_device_query))]))) (\<lambda>resp.
     if hs_status resp \<noteq> 200 then Inr None
     else bindR (response_json resp) (\<lambda>found.
       if \<not> truthy found then Inr None
       else case found of
           JList (JObj device # _) \<Rightarrow>
             (case map_of device ''deviceId'' of
                None \<Rightarrow> Inl (KeyError ''deviceId'')
              | Some (JStr device_id) \<Rightarrow>
                  bindR (module_url (ht_name env) device_id ''$edgeAgent'' []) (\<lambda>url.
                  bindR (call_hub env (HubGet url)) (\<lambda>agent.
                  if hs_status agent \<noteq> 200 then Inr None
                  else bindR (response_json agent) (\<lambda>twin.
                    bindR (sub_or_empty twin ''properties'') (\<lambda>properties.
                    bindR (sub_or_empty (or_obj properties) ''reported'') (\<lambda>reported.
                    bindR (sub_or_empty reported ''modules'') (\<lambda>modules.
                    Inr (Some (JStr device_id, or_obj modules))))))))
              | Some _ \<Rightarrow> Inl (api_error ''Invalid IoT Hub identifier'' [] 400))
         | _ \<Rightarrow> Inl TypeError))"

text \<open>\<open>modules.get(module_name)\<close> and its \<open>runtimeStatus\<close>; None when either is missing.\<close>

definition reported_status :: "json \<Rightarrow> string \<Rightarrow> json option res" where
  "reported_status modules module_name = (case modules of
       JObj d \<Rightarrow>
         (case pget d module_name of
            JNull \<Rightarrow> Inr None
          | JObj entry \<Rightarrow> Inr (map_of entry ''runtimeStatus'')
          | JStr s \<Rightarrow> if is_substring ''runtimeStatus'' s then Inl TypeError else Inr None
          | JList l \<Rightarrow> if list_ex (py_eq (JStr ''runtimeStatus'')) l then Inl TypeError else Inr None
          | _ \<Rightarrow> Inl TypeError)
     | _ \<Rightarrow> Inl AttributeError)"

datatype health = Healthy | Unhealthy | Unknown

definition module_runtime_health :: "json \<Rightarrow> health" where
  "module_runtime_health status =
     (if status = JStr ''running'' then Healthy
      else if status \<in> set (map JStr [''stopped'', ''failed'', ''backoff'', ''unhealthy'']) then Unhealthy
      else Unknown)"

text \<open>A status outside both sets that is not hashable raises TypeError, which is caught like every exception.\<close>

definition check_module_health :: "hub_env \<Rightarrow> string \<Rightarrow> string option \<Rightarrow> health" where
  "check_module_health env module_name health_device_query =
     (if \<not> truthy_str health_device_query then Unknown
      else case resolve_canary_agent_modules env (the health_device_query) of
          Inl _ \<Rightarrow> Unknown
        | Inr None \<Rightarrow> Unknown
        | Inr (Some (_, modules)) \<Rightarrow>
            (case reported_status modules module_name of
               Inr (Some status) \<Rightarrow> module_runtime_health status
             | _ \<Rightarrow> Unknown))"

definition version_satisfies :: "(string \<Rightarrow> json \<Rightarrow> bool) \<Rightarrow> json \<Rightarrow> string \<Rightarrow> bool" where
  "version_satisfies specifier_contains actual_version expected_version =
     (if actual_version = JStr expected_version then True
      else if actual_version = JNull then False
      else specifier_contains expected_version actual_version)"

text \<open>The answer of a health endpoint: None when the request fails, else the status and the JSON body.\<close>

definition check_http_upstream ::
  "(string \<Rightarrow> json \<Rightarrow> bool) \<Rightarrow> (string \<Rightarrow> (nat \<times> json option) option) \<Rightarrow>
     string \<Rightarrow> string \<Rightarrow> string \<Rightarrow> string option \<Rightarrow> health" where
  "check_http_upstream specifier_contains get base_url health_path version_field expected_version =
     (if base_url = [] then Unknown
      else case get (rstrip_chars is_slash base_url @ or_default health_path ''/health'') of
          None \<Rightarrow> Unhealthy
        | Some (status, body) \<Rightarrow>
            if 400 \<le> status then Unhealthy
            else case expected_version of
                None \<Rightarrow> Healthy
              | Some expected \<Rightarrow>
                  if expected = [] then Healthy
                  else case body of
                      None \<Rightarrow> Unhealthy
                    | Some b \<Rightarrow>
                        let actual = (case b of JObj d \<Rightarrow> pget d (or_default version_field ''version'') | _ \<Rightarrow> JNull) in
                        if version_satisfies specifier_contains actual expected then Healthy else Unhealthy)"

text \<open>\<open>in_time\<close> tells whether the probe ends before the timeout.\<close>

definition check_upstream_health ::
  "hub_env \<Rightarrow> (string \<Rightarrow> json \<Rightarrow> bool) \<Rightarrow> (string \<Rightarrow> (nat \<times> json option) option) \<Rightarrow> bool \<Rightarrow> upstream_spec \<Rightarrow> health" where
  "check_upstream_health env specifier_contains get in_time spec =
     (if \<not> in_time then Unknown
      else case spec of
          HttpUpstream base_url health_path version_field expected_version \<Rightarrow>
            check_http_upstream specifier_contains get base_url health_path version_field expected_version
        | IotedgeUpstream module_name health_device_query \<Rightarrow>
            check_module_health env module_name health_device_query)"

text \<open>The registration-time probe: whether it logs a warning.\<close>

definition probe_registration_warns :: "hub_env \<Rightarrow> string \<Rightarrow> string \<Rightarrow> bool" where
  "probe_registration_warns env module_name health_device_query =
     (case resolve_canary_agent_modules env health_device_query of
        Inr (Some (_, modules)) \<Rightarrow> reported_status modules module_name = Inr None
      | _ \<Rightarrow> False)"

section \<open>Properties\<close>

text \<open>
  The URL of a module call names the device and the module it is made for and nothing else can
  be read from it: the segments after \<open>twins\<close> and \<open>modules\<close> decode to exactly the two identifiers,
  whatever characters these contain, and the operation follows in a segment of its own.
\<close>

theorem module_url_identifies:
  assumes "module_url hub device_id module_name (CHR ''/'' # suffix) = Inr url"
    "CHR ''/'' \<notin> set hub" "CHR ''/'' \<notin> set suffix"
  shows "\<exists>d m. split_on (CHR ''/'') url =
      [''https:'', [], hub, ''twins'', d, ''modules'', m, suffix @ ''?api-version='' @ api_version] \<and>
    unquote d = device_id \<and> unquote m = module_name \<and> d \<notin> {[], ''.'', ''..''} \<and> m \<notin> {[], ''.'', ''..''}"
proof -
  have url: "url = ''https://'' @ hub @ ''/twins/'' @ quote device_id @ ''/modules/'' @ quote module_name @
      CHR ''/'' # suffix @ ''?api-version='' @ api_version"
    and ids: "validate_iothub_id device_id = Inr device_id" "validate_iothub_id module_name = Inr module_name"
    using assms(1) by (auto simp: module_url_def encode_iothub_id_Inr)
  have dots: "quote v \<notin> {[], ''.'', ''..''}" if "validate_iothub_id v = Inr v" for v
  proof -
    have "set (quote v) \<subseteq> {CHR ''.''} \<Longrightarrow> quote v = v" by (rule quote_dots)
    moreover have "v \<notin> {[], ''.'', ''..''}" using that by (auto simp: validate_iothub_id_Inr)
    ultimately show ?thesis by auto
  qed
  let ?tail = "suffix @ ''?api-version='' @ api_version"
  have free: "CHR ''/'' \<notin> set ?tail" using assms(3) by (simp add: api_version_def)
  have "url = ''https:'' @ CHR ''/'' # [] @ CHR ''/'' # hub @ CHR ''/'' # ''twins'' @ CHR ''/'' # quote device_id @
      CHR ''/'' # ''modules'' @ CHR ''/'' # quote module_name @ CHR ''/'' # ?tail"
    by (simp add: url)
  then have "split_on (CHR ''/'') url =
      [''https:'', [], hub, ''twins'', quote device_id, ''modules'', quote module_name, ?tail]"
    using quote_no_separator(1) assms(2) free
    by (simp only: split_on_append_sep split_on_free) (simp add: split_on_free)
  then show ?thesis using dots ids unquote_quote by blast
qed

theorem module_url_identifies_witness:
  "\<exists>url. module_url ''hub'' ''d 1?'' ''m'' ''/methods'' = Inl (api_error ''Invalid IoT Hub identifier'' [] 400) \<and>
     module_url ''hub'' ''d?1'' ''m'' ''/methods'' = Inr url \<and> length (split_on (CHR ''/'') url) = 8"
proof -
  have e: "module_url ''hub'' ''d 1?'' ''m'' ''/methods'' = Inl (api_error ''Invalid IoT Hub identifier'' [] 400)" by code_simp
  have "is_ok (module_url ''hub'' ''d?1'' ''m'' ''/methods'')" by code_simp
  then obtain url where u: "module_url ''hub'' ''d?1'' ''m'' ''/methods'' = Inr url" by (auto simp: is_ok_iff)
  from module_url_identifies[OF u] e u show ?thesis by force
qed

end
