(* ===== verification/Ext_Runtime.thy ===== *)
theory Ext_Runtime
  imports Ext_Iotedge
begin

text \<open>
  Live routes (\<open>extensions/runtime.py\<close>): how persisted rows become routes of the three
  applications, what guards them, how a request to one is answered, and the exchange of an
  extension's routes.  Keys are compared by their hashes (\<open>extensions/security.py\<close>).  What FastAPI
  does with a route is an argument: \<open>rn_can_mount\<close> tells whether it can be added, \<open>rn_coerces\<close>
  whether the text of a query parameter can be read at its type; \<open>rn_validate\<close> is a compiled JSON
  Schema validator.
\<close>

section \<open>Environment\<close>

record runtime_env =
  rn_hash :: "string \<Rightarrow> string"
  rn_send :: "upstream_request \<Rightarrow> send_error + http_response"
  rn_hub :: hub_env
  rn_as_str :: "json \<Rightarrow> string"
  rn_validate :: "json \<Rightarrow> json option \<Rightarrow> json list res"
  rn_can_mount :: "route_row \<Rightarrow> bool"
  rn_coerces :: "query_type \<Rightarrow> string \<Rightarrow> bool"

section \<open>Guards\<close>

datatype dependency =
    InternalKeyCheck string
  | DeviceKeyCheck string
  | CallerIdentity
  | PermissionCheck permission_check

text \<open>\<open>hmac.compare_digest\<close> of the two hashes.\<close>

definition keys_match :: "runtime_env \<Rightarrow> string \<Rightarrow> string \<Rightarrow> bool" where
  "keys_match env raw stored_hash = (raw \<noteq> [] \<and> stored_hash \<noteq> [] \<and> rn_hash env raw = stored_hash)"

definition check_internal_key :: "runtime_env \<Rightarrow> string \<Rightarrow> ext_store \<Rightarrow> http_request \<Rightarrow> unit res" where
  "check_internal_key env name st request =
     (let key = get_header ''x-internal-key'' (hq_headers request) in
      bindR (ensure (truthy_str key) (HTTPException 401 (Msg ''Missing X-Internal-Key'' []))) (\<lambda>_.
      ensure (case map_of (xs_extensions st) name of
                None \<Rightarrow> False
              | Some row \<Rightarrow> keys_match env (the key) (case xr_key_hash row of Some h \<Rightarrow> h | None \<Rightarrow> []))
        (HTTPException 401 (Msg ''Invalid X-Internal-Key'' []))))"

definition check_device_key :: "runtime_env \<Rightarrow> string \<Rightarrow> ext_store \<Rightarrow> http_request \<Rightarrow> string res" where
  "check_device_key env name st request =
     (let key = get_header ''x-device-key'' (hq_headers request) in
      bindR (ensure (truthy_str key) (HTTPException 401 (Msg ''Missing X-Device-Key'' []))) (\<lambda>_.
      bindR (resolve_device_key name (rn_hash env (the key)) st) (\<lambda>device_id.
      case device_id of
        None \<Rightarrow> Inl (HTTPException 401 (Msg ''Invalid X-Device-Key'' []))
      | Some d \<Rightarrow>
          let supplied = query_values device_id_name request @
                (case map_of (hq_path_params request) device_id_name of Some v \<Rightarrow> [v] | None \<Rightarrow> []) in
          bindR (ensure (\<not> list_ex (\<lambda>v. v \<noteq> d) supplied)
                   (HTTPException 400 (Msg ''device_id does not match the X-Device-Key identity'' []))) (\<lambda>_.
          Inr d))))"

text \<open>The claims of the token, which \<open>validate_jwt\<close> has verified; none for a request without a valid token.\<close>

definition validate_jwt :: "json dict option \<Rightarrow> json dict res" where
  "validate_jwt token = (case token of
       None \<Rightarrow> Inl (HTTPException 401 (Msg ''Not authenticated'' []))
     | Some claims \<Rightarrow> Inr claims)"

definition caller_identity :: "json dict option \<Rightarrow> request_state \<Rightarrow> request_state res" where
  "caller_identity token state =
     bindR (validate_jwt token) (\<lambda>claims.
     bindR (get_current_user claims) (\<lambda>user_name.
     Inr (state\<lparr>qs_caller := Some (token_user_id claims, user_name)\<rparr>)))"

text \<open>The request as the permission checks read it: a repeated query parameter counts with its last value.\<close>

definition abac_request :: "http_request \<Rightarrow> request" where
  "abac_request request = \<lparr>rq_path_params = hq_path_params request, rq_query_params = rev (hq_query request), rq_body = None\<rparr>"

definition run_dependency ::
  "runtime_env \<Rightarrow> ext_store \<Rightarrow> json dict option \<Rightarrow> http_request \<Rightarrow> request_state \<Rightarrow> dependency \<Rightarrow> request_state res" where
  "run_dependency env st token request state dep = (case dep of
       InternalKeyCheck name \<Rightarrow> bindR (check_internal_key env name st request) (\<lambda>_. Inr state)
     | DeviceKeyCheck name \<Rightarrow> bindR (check_device_key env name st request) (\<lambda>d. Inr (state\<lparr>qs_device := Some d\<rparr>))
     | CallerIdentity \<Rightarrow> caller_identity token state
     | PermissionCheck check \<Rightarrow>
         bindR (validate_jwt token) (\<lambda>claims.
         bindR (abac_permission_check check (abac_request request) claims (app_users (xs_app st))
                  (app_device_meta (xs_app st))) (\<lambda>_. Inr state)))"

section \<open>Routes\<close>

record live_route =
  lr_owner :: string
  lr_row :: route_row
  lr_upstream :: upstream_spec
  lr_signature :: "sig_param list"
  lr_dependencies :: "dependency list"

datatype mounted = PlatformRoute string | ExtensionRoute live_route

definition route_dependencies :: "string \<Rightarrow> route_row \<Rightarrow> dependency list" where
  "route_dependencies name route =
     (case rt_visibility route of
        Internal \<Rightarrow> [InternalKeyCheck name]
      | DeviceIngress \<Rightarrow> [DeviceKeyCheck name]
      | Public \<Rightarrow> CallerIdentity #
          (if truthy_str (rt_required_action route)
           then [PermissionCheck (if rt_scoped route
              then \<lparr>pc_permission = the (rt_required_action route),
                    pc_device_path = Some (or_default (rt_scope_param route) device_id_name),
                    pc_in_query = (rt_scope_in route = InQuery)\<rparr>
              else \<lparr>pc_permission = the (rt_required_action route), pc_device_path = None, pc_in_query = False\<rparr>)]
           else []))"

record built_routes =
  bt_public :: "live_route list"
  bt_internal :: "live_route list"
  bt_field :: "live_route list"

definition add_route_for_visibility :: "live_route \<Rightarrow> built_routes \<Rightarrow> built_routes" where
  "add_route_for_visibility r built = (case rt_visibility (lr_row r) of
       Public \<Rightarrow> built\<lparr>bt_public := bt_public built @ [r]\<rparr>
     | Internal \<Rightarrow> built\<lparr>bt_internal := bt_internal built @ [r]\<rparr>
     | DeviceIngress \<Rightarrow> built\<lparr>bt_field := bt_field built @ [r]\<rparr>)"

definition add_route_from_spec ::
  "runtime_env \<Rightarrow> string \<Rightarrow> upstream_row list \<Rightarrow> built_routes \<Rightarrow> route_row \<times> string \<Rightarrow> built_routes res" where
  "add_route_from_spec env name upstreams built = (\<lambda>(row, key).
     case List.find (\<lambda>u. up_key u = key) (rev upstreams) of
       None \<Rightarrow> Inr built
     | Some u \<Rightarrow>
         bindR (build_signature (route_of_row key row)) (\<lambda>sg.
         bindR (ensure (rn_can_mount env row) (OtherError (Msg ''add_api_route'' []))) (\<lambda>_.
         Inr (add_route_for_visibility
           \<lparr>lr_owner = name, lr_row = row, lr_upstream = up_spec u, lr_signature = sg,
            lr_dependencies = route_dependencies name row\<rparr> built))))"

definition no_routes :: built_routes where
  "no_routes = \<lparr>bt_public = [], bt_internal = [], bt_field = []\<rparr>"

definition build_routes ::
  "runtime_env \<Rightarrow> string \<Rightarrow> upstream_row list \<Rightarrow> (route_row \<times> string) list \<Rightarrow> built_routes res" where
  "build_routes env name upstreams routes = foldR (add_route_from_spec env name upstreams) no_routes routes"

text \<open>The route tables of the applications and the compiled body validators, by route id.\<close>

record live_state =
  lv_public :: "mounted list"
  lv_internal :: "mounted list"
  lv_field :: "mounted list"
  lv_validators :: "(nat \<times> json) list"

definition owned_by :: "string \<Rightarrow> mounted \<Rightarrow> bool" where
  "owned_by name m = (case m of ExtensionRoute r \<Rightarrow> lr_owner r = name | PlatformRoute _ \<Rightarrow> False)"

definition invalidate_routes :: "string \<Rightarrow> mounted list \<Rightarrow> (nat \<times> json) list \<Rightarrow> (nat \<times> json) list" where
  "invalidate_routes name routes validators =
     fold (\<lambda>m. case m of ExtensionRoute r \<Rightarrow> if lr_owner r = name then dpop (rt_id (lr_row r)) else id
                | PlatformRoute _ \<Rightarrow> id) routes validators"

definition exchange :: "string \<Rightarrow> live_route list \<Rightarrow> mounted list \<Rightarrow> mounted list" where
  "exchange name new_routes routes = filter (\<lambda>m. \<not> owned_by name m) routes @ map ExtensionRoute new_routes"

definition publish_routes :: "string \<Rightarrow> built_routes \<Rightarrow> live_state \<Rightarrow> live_state" where
  "publish_routes name built lv =
     \<lparr>lv_public = exchange name (bt_public built) (lv_public lv),
      lv_internal = exchange name (bt_internal built) (lv_internal lv),
      lv_field = exchange name (bt_field built) (lv_field lv),
      lv_validators = invalidate_routes name (lv_public lv @ lv_internal lv @ lv_field lv) (lv_validators lv)\<rparr>"

definition load_all_routes :: "runtime_env \<Rightarrow> ext_store \<Rightarrow> live_state \<Rightarrow> live_state" where
  "load_all_routes env st lv =
     fold (\<lambda>(name, row) lv.
       if \<not> xr_enabled row then lv
       else case build_routes env name (list_upstreams name st) (list_routes name st) of
           Inl _ \<Rightarrow> lv
         | Inr built \<Rightarrow> publish_routes name built lv) (list_extensions_rows st) lv"

section \<open>Answering a request\<close>

text \<open>What FastAPI checks of the bound parameters before it calls the handler.\<close>

definition bind_parameter :: "runtime_env \<Rightarrow> http_request \<Rightarrow> sig_param \<Rightarrow> unit res" where
  "bind_parameter env request p = (case sg_source p of
       FromQuery alias ty required _ \<Rightarrow>
         (case query_get alias request of
            None \<Rightarrow> ensure (\<not> required) (HTTPException 422 (Msg ''missing'' [JStr alias]))
          | Some v \<Rightarrow> ensure (rn_coerces env ty v) (HTTPException 422 (Msg ''type'' [JStr alias])))
     | _ \<Rightarrow> Inr ())"

text \<open>\<open>except APIError as exc: raise HTTPException(exc.status_code, exc.message)\<close>.\<close>

definition as_http_exception :: "'a res \<Rightarrow> 'a res" where
  "as_http_exception r = (case r of Inl (Api c m status) \<Rightarrow> Inl (HTTPException status m) | _ \<Rightarrow> r)"

definition validated_body ::
  "runtime_env \<Rightarrow> live_route \<Rightarrow> (nat \<times> json) list \<Rightarrow> http_request \<Rightarrow> string option res" where
  "validated_body env r validators request =
     (if rt_validation_mode (lr_row r) = Declared \<and> rt_body (lr_row r) \<noteq> None
      then bindR (read_limited_body request max_buffered_body_bytes) (\<lambda>body.
           bindR (parse_json (ht_loads (rn_hub env)) body) (\<lambda>payload.
           let schema = (case map_of validators (rt_id (lr_row r)) of Some s \<Rightarrow> s | None \<Rightarrow> the (rt_body (lr_row r))) in
           case rn_validate env schema payload of
             Inl _ \<Rightarrow> Inl (HTTPException 500 (Msg ''The body schema of this route is misconfigured'' []))
           | Inr errors \<Rightarrow> bindR (ensure (errors = []) (HTTPException 422 (Msg ''errors'' errors))) (\<lambda>_. Inr (Some body))))
      else Inr None)"

definition single_query_param :: "route_row \<Rightarrow> string option" where
  "single_query_param route =
     (if rt_scoped route \<and> rt_scope_in route = InQuery then Some (or_default (rt_scope_param route) device_id_name) else None)"

definition call_upstream ::
  "runtime_env \<Rightarrow> live_route \<Rightarrow> request_state \<Rightarrow> http_request \<Rightarrow> string option \<Rightarrow> reply res" where
  "call_upstream env r state request body = (case lr_upstream r of
       HttpUpstream base_url _ _ _ \<Rightarrow>
         (case rt_upstream_path (lr_row r) of
            None \<Rightarrow> Inl TypeError
          | Some path \<Rightarrow>
              if rt_visibility (lr_row r) = DeviceIngress
              then (case qs_device state of
                  None \<Rightarrow> Inl AttributeError
                | Some d \<Rightarrow> dispatch_http (rn_send env) (rn_as_str env) state request base_url path body [(''X-Device-Id'', d)])
              else dispatch_http (rn_send env) (rn_as_str env) state request base_url path body [])
     | IotedgeUpstream module_name _ \<Rightarrow>
         if rt_visibility (lr_row r) = DeviceIngress then Inl TypeError
         else dispatch_iotedge (rn_hub env) request module_name (lr_row r) body)"

definition handle_route ::
  "runtime_env \<Rightarrow> live_route \<Rightarrow> (nat \<times> json) list \<Rightarrow> request_state \<Rightarrow> http_request \<Rightarrow> reply res" where
  "handle_route env r validators state request =
     bindR (ensure (opt_all (\<lambda>p. \<not> 1 < length (query_values p request)) (single_query_param (lr_row r)))
              (HTTPException 400 (Msg ''Query parameter {} must not be repeated'' []))) (\<lambda>_.
     bindR (validated_body env r validators request) (\<lambda>body.
     as_http_exception (call_upstream env r state request body)))"

text \<open>A request to a live route: the guards in order, the bound parameters, the handler.\<close>

definition serve ::
  "runtime_env \<Rightarrow> ext_store \<Rightarrow> (nat \<times> json) list \<Rightarrow> live_route \<Rightarrow> json dict option \<Rightarrow> http_request \<Rightarrow> reply res" where
  "serve env st validators r token request =
     bindR (foldR (run_dependency env st token request) \<lparr>qs_caller = None, qs_device = None\<rparr> (lr_dependencies r)) (\<lambda>state.
     bindR (check_all (bind_parameter env request) (lr_signature r)) (\<lambda>_.
     handle_route env r validators state request))"

text \<open>The validator that a first request compiles and the later ones find.\<close>

definition remember_validator :: "live_route \<Rightarrow> live_state \<Rightarrow> live_state" where
  "remember_validator r lv = (case map_of (lv_validators lv) (rt_id (lr_row r)) of
       Some _ \<Rightarrow> lv
     | None \<Rightarrow>
         (if rt_validation_mode (lr_row r) = Declared \<and> rt_body (lr_row r) \<noteq> None
          then lv\<lparr>lv_validators := (rt_id (lr_row r), the (rt_body (lr_row r))) # lv_validators lv\<rparr> else lv))"

end
