(* ===== verification/Ext_Lifecycle.thy ===== *)
theory Ext_Lifecycle
  imports Ext_Runtime
begin

text \<open>
  The management endpoints (\<open>extensions/setup.py\<close>) that change what is served: each works on the
  tables and then on the route tables of the three applications.  The state of the process is the
  store, the live routes with their validators, and the routes of the requests in flight.  The lock
  of an extension makes the operations on it steps; requests are steps of their own, so they
  interleave with every operation.
\<close>

record system =
  sy_store :: ext_store
  sy_live :: live_state
  sy_inflight :: "live_route list"

section \<open>Endpoints\<close>

definition build_persisted_routes :: "runtime_env \<Rightarrow> string \<Rightarrow> ext_store \<Rightarrow> built_routes res" where
  "build_persisted_routes rn name st = build_routes rn name (list_upstreams name st) (list_routes name st)"

definition replace_and_mount ::
  "ext_env \<Rightarrow> runtime_env \<Rightarrow> (string \<Rightarrow> json option) \<Rightarrow> string \<Rightarrow> registration \<Rightarrow> system \<Rightarrow>
     extension_detail res \<times> system" where
  "replace_and_mount env rn documents name reg sys =
     (case replace_extension env documents name reg (sy_store sys) of
        (Inl e, st) \<Rightarrow> (Inl e, sys\<lparr>sy_store := st\<rparr>)
      | (Inr detail, st) \<Rightarrow>
          if \<not> xd_enabled detail then (Inr detail, sys\<lparr>sy_store := st\<rparr>)
          else case build_persisted_routes rn name st of
              Inr built \<Rightarrow> (Inr detail, sys\<lparr>sy_store := st, sy_live := publish_routes name built (sy_live sys)\<rparr>)
            | Inl e \<Rightarrow>
                (case disable_extension env name st of
                   (answer, st') \<Rightarrow>
                     (bindR answer (\<lambda>_. Inl (api_error ''Extension {} was saved but could not be mounted and was disabled''
                        [JStr name] 500)),
                      sys\<lparr>sy_store := st', sy_live := publish_routes name no_routes (sy_live sys)\<rparr>)))"

definition deregister_and_unmount :: "string \<Rightarrow> system \<Rightarrow> unit res \<times> system" where
  "deregister_and_unmount name sys = (case deregister_extension name (sy_store sys) of
       Inl e \<Rightarrow> (Inl e, sys)
     | Inr st \<Rightarrow> (Inr (), sys\<lparr>sy_store := st, sy_live := publish_routes name no_routes (sy_live sys)\<rparr>))"

definition enable_and_mount ::
  "ext_env \<Rightarrow> runtime_env \<Rightarrow> (string \<Rightarrow> json option) \<Rightarrow> string \<Rightarrow> system \<Rightarrow> extension_detail res \<times> system" where
  "enable_and_mount env rn documents name sys =
     (let st = refresh_extension_ref_schemas documents name (sy_store sys) in
      case build_persisted_routes rn name st of
        Inl e \<Rightarrow> (Inl (api_error ''Extension {} could not be mounted'' [JStr name] 500), sys\<lparr>sy_store := st\<rparr>)
      | Inr built \<Rightarrow>
          (case enable_extension env name st of
             (Inl e, st') \<Rightarrow> (Inl e, sys\<lparr>sy_store := st'\<rparr>)
           | (Inr detail, st') \<Rightarrow>
               (Inr detail, sys\<lparr>sy_store := st', sy_live := publish_routes name built (sy_live sys)\<rparr>)))"

definition disable_and_unmount :: "ext_env \<Rightarrow> string \<Rightarrow> system \<Rightarrow> extension_detail res \<times> system" where
  "disable_and_unmount env name sys = (case disable_extension env name (sy_store sys) of
       (Inl e, st) \<Rightarrow> (Inl e, sys\<lparr>sy_store := st\<rparr>)
     | (Inr detail, st) \<Rightarrow>
         (Inr detail, sys\<lparr>sy_store := st, sy_live := publish_routes name no_routes (sy_live sys)\<rparr>))"

text \<open>A start of the process: None for a refresh that fails and is rolled back.\<close>

definition hydrate_all_routes ::
  "runtime_env \<Rightarrow> (string \<Rightarrow> json option) option \<Rightarrow> ext_store \<Rightarrow> live_state \<Rightarrow> ext_store \<times> live_state" where
  "hydrate_all_routes rn documents st platform =
     (let st = (case documents of Some d \<Rightarrow> refresh_ref_schemas d st | None \<Rightarrow> st) in
      (st, load_all_routes rn st platform))"

definition list_keys_endpoint :: "string \<Rightarrow> ext_store \<Rightarrow> (string \<times> string option) list res" where
  "list_keys_endpoint name st =
     bindR (ensure (extension_exists name st) (extension_not_found name)) (\<lambda>_. Inr (list_device_keys name st))"

definition revoke_key_endpoint :: "string \<Rightarrow> string \<Rightarrow> ext_store \<Rightarrow> unit res \<times> ext_store" where
  "revoke_key_endpoint name device_id st = (case revoke_device_key name device_id st of
       (True, st') \<Rightarrow> (Inr (), st')
     | (False, st') \<Rightarrow> (Inl (api_error ''No device key for {} on extension {}'' [JStr device_id, JStr name] 404), st'))"

text \<open>The ui sections a user sees, with the cache validator of the answer.\<close>

definition list_ui_endpoint ::
  "(ui_listing list \<Rightarrow> string) \<Rightarrow> json dict \<Rightarrow> (json \<Rightarrow> user_view option) \<Rightarrow> string option \<Rightarrow> ext_store \<Rightarrow>
     nat \<times> ui_listing list option" where
  "list_ui_endpoint etag_of claims users if_none_match st =
     (let entries = list_extension_uis (users (token_user_id claims)) st in
      if if_none_match = Some (etag_of entries) then (304, None) else (200, Some entries))"

section \<open>Steps\<close>

definition live_routes :: "live_state \<Rightarrow> live_route list" where
  "live_routes lv = List.map_filter (\<lambda>m. case m of ExtensionRoute r \<Rightarrow> Some r | PlatformRoute _ \<Rightarrow> None)
     (lv_public lv @ lv_internal lv @ lv_field lv)"

definition platform_only :: "live_state \<Rightarrow> bool" where
  "platform_only lv = (live_routes lv = [] \<and> lv_validators lv = [])"

text \<open>The operations on the tables alone.\<close>

inductive table_step :: "ext_env \<Rightarrow> ((string \<Rightarrow> json option) \<Rightarrow> bool) \<Rightarrow> ext_store \<Rightarrow> ext_store \<Rightarrow> bool"
  for env docs where
  register: "docs documents \<Longrightarrow> wf_registration reg \<Longrightarrow>
    is_ok (accept_registration (ev_ip6 env) (ev_allowlist env) reg) \<Longrightarrow>
    register_extension env documents key reg st = (r, st') \<Longrightarrow> table_step env docs st st'"
| rotate: "rotate_internal_key env key name st = Inr (k, st') \<Longrightarrow> table_step env docs st st'"
| issue: "issue_device_key env key name dev module_id st = Inr (k, st') \<Longrightarrow> table_step env docs st st'"
| revoke: "revoke_device_key name dev st = (b, st') \<Longrightarrow> table_step env docs st st'"
| health: "check_extension_health probe now name st = (h, st') \<Longrightarrow> table_step env docs st st'"
| users: "run_iam op (xs_iam st) = Inr db \<Longrightarrow> table_step env docs st (set_iam db st)"
| catalog: "run_op rx cop (app_catalog (xs_app st)) = Inr cat \<Longrightarrow> table_step env docs st (set_catalog cat st)"

inductive system_step ::
  "ext_env \<Rightarrow> runtime_env \<Rightarrow> ((string \<Rightarrow> json option) \<Rightarrow> bool) \<Rightarrow> system \<Rightarrow> system \<Rightarrow> bool" for env rn docs where
  tables: "table_step env docs (sy_store sys) st \<Longrightarrow> system_step env rn docs sys (sys\<lparr>sy_store := st\<rparr>)"
| replace: "docs documents \<Longrightarrow> wf_registration reg \<Longrightarrow>
    is_ok (accept_registration (ev_ip6 env) (ev_allowlist env) reg) \<Longrightarrow>
    replace_and_mount env rn documents name reg sys = (r, sys') \<Longrightarrow> system_step env rn docs sys sys'"
| deregister: "deregister_and_unmount name sys = (r, sys') \<Longrightarrow> system_step env rn docs sys sys'"
| enable: "docs documents \<Longrightarrow> enable_and_mount env rn documents name sys = (r, sys') \<Longrightarrow> system_step env rn docs sys sys'"
| disable: "disable_and_unmount env name sys = (r, sys') \<Longrightarrow> system_step env rn docs sys sys'"
| restart: "platform_only platform \<Longrightarrow> pred_option docs documents \<Longrightarrow>
    hydrate_all_routes rn documents (sy_store sys) platform = (st, lv) \<Longrightarrow>
    system_step env rn docs sys \<lparr>sy_store = st, sy_live = lv, sy_inflight = []\<rparr>"
| request: "r \<in> set (live_routes (sy_live sys)) \<Longrightarrow>
    system_step env rn docs sys (sys\<lparr>sy_inflight := r # sy_inflight sys\<rparr>)"
| validate: "r \<in> set (sy_inflight sys) \<Longrightarrow>
    system_step env rn docs sys (sys\<lparr>sy_live := remember_validator r (sy_live sys)\<rparr>)"
| respond: "r \<in> set (sy_inflight sys) \<Longrightarrow>
    system_step env rn docs sys (sys\<lparr>sy_inflight := remove1 r (sy_inflight sys)\<rparr>)"

inductive system_reachable :: "ext_env \<Rightarrow> runtime_env \<Rightarrow> ((string \<Rightarrow> json option) \<Rightarrow> bool) \<Rightarrow> system \<Rightarrow> bool"
  for env rn docs where
  initial: "app_ok app \<Longrightarrow> platform_only lv \<Longrightarrow>
    system_reachable env rn docs \<lparr>sy_store = empty_ext_store app, sy_live = lv, sy_inflight = []\<rparr>"
| step: "system_reachable env rn docs sys \<Longrightarrow> system_step env rn docs sys sys' \<Longrightarrow> system_reachable env rn docs sys'"

inductive_cases table_stepE [elim?]: "table_step env docs st st'"
inductive_cases system_stepE [elim?]: "system_step env rn docs sys sys'"

end
