(* ===== verification/Ext_Served.thy ===== *)
theory Ext_Served
  imports Ext_Lifecycle Ext_Properties
begin

text \<open>
  What each operation on the tables does to the part of them that decides what is served: the system
  refines the transition system of the store, and an operation on one extension changes what the
  tables say of that extension only.
\<close>

section \<open>The tables of a system are those of the store's transition system\<close>

lemma table_step_ext: "table_step env docs st st' \<Longrightarrow> ext_step env st st'"
  by (erule table_step.cases) (auto intro: ext_step.intros)

lemma replace_and_mount_store:
  assumes "replace_and_mount env rn documents name reg sys = (r, sys')"
    "wf_registration reg" "is_ok (accept_registration (ev_ip6 env) (ev_allowlist env) reg)"
  shows "(ext_step env)\<^sup>*\<^sup>* (sy_store sys) (sy_store sys')"
proof -
  obtain a st where rep: "replace_extension env documents name reg (sy_store sys) = (a, st)" by fastforce
  have one: "ext_step env (sy_store sys) st" by (rule ext_step.replace[OF assms(2,3) rep])
  obtain b st2 where dis: "disable_extension env name st = (b, st2)" by fastforce
  have two: "ext_step env st st2" by (rule ext_step.disable[OF dis])
  have "sy_store sys' = st \<or> sy_store sys' = st2"
    using assms(1) unfolding replace_and_mount_def rep by (auto simp: dis split: sum.splits if_splits)
  then show ?thesis using one two by auto
qed

lemma enable_and_mount_store:
  assumes "enable_and_mount env rn documents name sys = (r, sys')"
  shows "(ext_step env)\<^sup>*\<^sup>* (sy_store sys) (sy_store sys')"
proof -
  let ?st = "refresh_extension_ref_schemas documents name (sy_store sys)"
  obtain a st where en: "enable_extension env name ?st = (a, st)" by fastforce
  have "ext_step env (sy_store sys) ?st" "ext_step env ?st st"
    by (rule ext_step.refresh, rule ext_step.enable[OF en])
  moreover have "sy_store sys' = ?st \<or> sy_store sys' = st"
    using assms unfolding enable_and_mount_def by (auto simp: en Let_def split: sum.splits)
  ultimately show ?thesis by auto
qed

lemma system_step_store:
  assumes "system_step env rn docs sys sys'"
  shows "(ext_step env)\<^sup>*\<^sup>* (sy_store sys) (sy_store sys')"
  using assms
proof cases
  case (tables st)
  then show ?thesis using table_step_ext by auto
next
  case (deregister name r)
  then show ?thesis
    by (auto simp: deregister_and_unmount_def split: sum.splits
        dest: ext_step.deregister[where env = env] intro: r_into_rtranclp)
next
  case (disable name r)
  obtain a st where d: "disable_extension env name (sy_store sys) = (a, st)" by fastforce
  with disable have "sy_store sys' = st" by (auto simp: disable_and_unmount_def split: sum.splits)
  then show ?thesis using ext_step.disable[OF d] by auto
next
  case (restart platform documents st lv)
  then show ?thesis
    by (auto simp: hydrate_all_routes_def Let_def intro: ext_step.refresh_all split: option.splits)
qed (auto intro: replace_and_mount_store enable_and_mount_store)

lemma ext_steps_reachable: "(ext_step env)\<^sup>*\<^sup>* st st' \<Longrightarrow> ext_reachable env st \<Longrightarrow> ext_reachable env st'"
  by (induction rule: rtranclp_induct) (auto intro: ext_reachable.step)

lemma system_refines_store: "system_reachable env rn docs sys \<Longrightarrow> ext_reachable env (sy_store sys)"
  by (induction rule: system_reachable.induct)
    (auto intro: ext_reachable.initial ext_steps_reachable system_step_store)

lemma system_ok: "system_reachable env rn docs sys \<Longrightarrow> ext_ok (sy_store sys)"
  by (rule ext_reachable_ok[OF system_refines_store])

section \<open>What the tables serve of an extension\<close>

definition bare :: "route_row \<Rightarrow> route_row" where
  "bare r = r\<lparr>rt_validation_mode := NoBody, rt_body := None\<rparr>"

definition served ::
  "string \<Rightarrow> ext_store \<Rightarrow> bool option \<times> (string \<times> upstream_spec) list \<times> (route_row \<times> string) list" where
  "served n st =
     (map_option xr_enabled (map_of (xs_extensions st) n),
      map (\<lambda>u. (up_key u, up_spec u)) (list_upstreams n st),
      map (\<lambda>(r, key). (bare r, key)) (list_routes n st))"

lemma served_keeps:
  "keeps_others name A st st' \<Longrightarrow> ext_ok st \<Longrightarrow> ext_ok st' \<Longrightarrow> n \<noteq> name \<Longrightarrow> served n st' = served n st"
  using keeps_others_lists[of name A st st' n] by (simp add: served_def)

lemma map_filter_map: "map f (List.map_filter g xs) = List.map_filter (\<lambda>x. map_option f (g x)) xs"
  by (induction xs) (auto simp: List.map_filter_simps split: option.split)

lemma map_filter_of_map: "List.map_filter g (map f xs) = List.map_filter (g \<circ> f) xs"
  by (induction xs) (auto simp: List.map_filter_simps split: option.split)

lemma list_routes_mapped:
  assumes "\<And>r. rt_extension (f r) = rt_extension r" "\<And>r. rt_upstream_id (f r) = rt_upstream_id r"
  shows "list_routes n (st\<lparr>xs_routes := map f (xs_routes st)\<rparr>) = map (\<lambda>(r, key). (f r, key)) (list_routes n st)"
  unfolding list_routes_def map_filter_map
  by (simp add: filter_map comp_def assms map_filter_of_map option.map_comp)

lemma find_mapped:
  assumes "\<And>u. up_id (g u) = up_id u"
  shows "List.find (\<lambda>u. up_id u = i) (map g ups) = map_option g (List.find (\<lambda>u. up_id u = i) ups)"
  using assms by (induction ups) auto

lemma list_routes_upstreams_mapped:
  assumes "\<And>u. up_id (g u) = up_id u" "\<And>u. up_key (g u) = up_key u"
  shows "list_routes n (st\<lparr>xs_upstreams := map g (xs_upstreams st)\<rparr>) = list_routes n st"
  by (simp add: list_routes_def find_mapped assms option.map_comp comp_def)

lemma served_routes_mapped:
  assumes "\<And>r. rt_extension (f r) = rt_extension r" "\<And>r. rt_upstream_id (f r) = rt_upstream_id r"
    "\<And>r. bare (f r) = bare r"
  shows "served n (st\<lparr>xs_routes := map f (xs_routes st)\<rparr>) = served n st"
  by (simp add: served_def list_routes_mapped assms list_upstreams_def case_prod_unfold comp_def)

lemma served_upstreams_mapped:
  assumes "\<And>u. up_id (g u) = up_id u" "\<And>u. up_key (g u) = up_key u" "\<And>u. up_extension (g u) = up_extension u"
    "\<And>u. up_spec (g u) = up_spec u"
  shows "served n (st\<lparr>xs_upstreams := map g (xs_upstreams st)\<rparr>) = served n st"
  by (simp add: served_def list_routes_upstreams_mapped assms list_upstreams_def filter_map comp_def)

lemma served_congs [simp]:
  "served n (set_iam db st) = served n st" "served n (set_catalog cat st) = served n st"
  "served n (st\<lparr>xs_device_keys := ks\<rparr>) = served n st"
  by (simp_all add: served_def list_upstreams_def list_routes_def set_catalog_def)

lemma served_update_route: "served n (update_route_validation i m b st) = served n st"
  unfolding update_route_validation_def by (rule served_routes_mapped) (simp_all add: bare_def)

lemma fold_same: "(\<And>x st. g (f x st) = g st) \<Longrightarrow> g (fold f xs st) = g st"
  by (induction xs arbitrary: st) simp_all

lemma served_refresh_pending: "served n (refresh_pending documents pending st) = served n st"
  unfolding refresh_pending_def
  by (rule fold_same) (auto simp: served_update_route split: prod.split option.split)

lemma served_refresh [simp]:
  "served n (refresh_extension_ref_schemas documents name st) = served n st"
  "served n (refresh_ref_schemas documents st) = served n st"
  by (simp_all add: refresh_extension_ref_schemas_def refresh_ref_schemas_def served_refresh_pending)

lemma served_plain_update:
  assumes "update_extension name f st = Inr st'" "\<And>r. xr_enabled (f r) = xr_enabled r"
  shows "served n st' = served n st"
proof -
  have "map_option xr_enabled (map_of (sql_update name f (xs_extensions st)) n)
      = map_option xr_enabled (map_of (xs_extensions st) n)"
    by (simp add: map_of_sql_update option.map_comp comp_def assms(2))
  then show ?thesis using assms(1) by (auto simp: update_extension_Inr served_def list_upstreams_def list_routes_def)
qed

lemma served_set_enabled:
  assumes "set_enabled name b st = Inr st'"
  shows "fst (served name st') = Some b" "snd (served name st') = snd (served name st)"
    "n \<noteq> name \<Longrightarrow> served n st' = served n st"
  using assms
  by (auto simp: set_enabled_def update_extension_Inr served_def list_upstreams_def list_routes_def
      map_of_sql_update extension_exists_def has_key_map_of)

lemma delete_orphaned_frame:
  assumes "delete_orphaned_actions names st = Inr st'"
  shows "\<exists>db. st' = set_iam db st"
  using assms unfolding delete_orphaned_actions_def
proof (induction names arbitrary: st)
  case Nil
  then show ?case using set_iam_self[of st] by (metis foldR.simps(1) Inr_inject)
next
  case (Cons a names)
  then obtain s where s: "(if get_action_owner a st \<noteq> None \<or> is_action_granted_to_any_role a st then Inr st
      else delete_action a st) = Inr s" "\<exists>db. st' = set_iam db s" by auto
  have self: "\<exists>db. x = set_iam db x" for x by (metis set_iam_self)
  have "\<exists>db. s = set_iam db st"
    using s(1) self by (auto simp: delete_action_Inr split: if_splits)
  then show ?case using s(2) by auto
qed

lemma deregister_result:
  assumes "ext_ok st" "deregister_extension name st = Inr st'"
  shows "\<exists>db. st' = delete_extension name (set_iam db st)"
proof -
  have "\<exists>db. strip_actions_from_all_roles (list_extension_actions name st) st = set_iam db st"
    using strip_actions_exact assms(1) by (auto simp: ext_ok_def)
  moreover have "delete_extension name (set_iam db s) = set_iam db (delete_extension name s)" for db s
    by (simp add: delete_extension_def set_iam_def)
  ultimately show ?thesis
    using assms(2) delete_orphaned_frame by (fastforce simp: deregister_extension_def deregister_tables_def Let_def)
qed

lemma served_delete:
  assumes ok: "ext_ok st" and n: "n \<noteq> name"
  shows "served n (delete_extension name st) = served n st"
proof -
  have d: "ext_ok (delete_extension name st)" using ok by (rule ext_ok_delete_extension)
  have "list_routes n (delete_extension name st) = list_routes n st"
    unfolding list_routes_others[OF ok n] list_routes_others[OF d n] by (simp add: delete_extension_def filter_filter)
  moreover have "list_upstreams n (delete_extension name st) = list_upstreams n st"
    using n by (simp add: list_upstreams_def delete_extension_def filter_filter) (rule filter_cong, auto)
  ultimately show ?thesis using n by (simp add: served_def delete_extension_def map_of_dpop)
qed

lemma deregister_served:
  assumes ok: "ext_ok st" and d: "deregister_extension name st = Inr st'"
  shows "n \<noteq> name \<Longrightarrow> served n st' = served n st" "map_of (xs_extensions st') name = None"
proof -
  obtain db where st': "st' = delete_extension name (set_iam db st)" using deregister_result[OF ok d] by blast
  have "st' = set_iam db (delete_extension name st)" by (simp add: st' delete_extension_def set_iam_def)
  then show "n \<noteq> name \<Longrightarrow> served n st' = served n st" by (simp add: served_delete[OF ok])
  show "map_of (xs_extensions st') name = None" by (simp add: st' delete_extension_def map_of_dpop)
qed

text \<open>A table operation leaves everything that is served as it was, but for a newly registered extension.\<close>

lemma served_health: "served n (record_upstream_health i s d t st) = served n st"
  unfolding record_upstream_health_def by (rule served_upstreams_mapped) simp_all

lemma table_step_served:
  assumes "table_step env docs st st'" "ext_ok st" "ext_ok st'"
  shows "(\<forall>n. served n st' = served n st) \<or>
    (\<exists>name. map_of (xs_extensions st) name = None \<and> (\<forall>n. n \<noteq> name \<longrightarrow> served n st' = served n st))"
  using assms(1)
proof cases
  case (register documents reg key r)
  show ?thesis
  proof (cases "st' = st")
    case False
    then have reg: "register_tables env documents key reg st = Inr st'" using register_result[OF register(4)] by simp
    then have "\<not> extension_exists (rg_name reg) st" by (rule register_tables_steps)
    moreover have "served n st' = served n st" if "n \<noteq> rg_name reg" for n
      using register_keeps_others[OF reg] assms(2,3) that by (rule served_keeps)
    ultimately show ?thesis by (auto simp: extension_exists_def has_key_map_of)
  qed simp
next
  case (rotate key name k)
  then obtain h where "update_extension name (\<lambda>r. r\<lparr>xr_key_hash := Some h\<rparr>) st = Inr st'"
    by (auto simp: rotate_internal_key_def set_internal_key_hash_def)
  then have "served n st' = served n st" for n by (rule served_plain_update) simp
  then show ?thesis by simp
next
  case (issue key name dev module_id k)
  then show ?thesis by (auto simp: issue_device_key_def upsert_device_key_def)
next
  case (revoke name dev b)
  then show ?thesis by (auto simp: revoke_device_key_def)
next
  case (health probe now name h)
  have "served n st' = served n st" for n
    using health served_health[of n] by (auto simp: check_extension_health_def Let_def intro!: fold_same split: if_splits)
  then show ?thesis by simp
next
  case (users op db)
  then show ?thesis by simp
next
  case (catalog rx cop cat)
  then show ?thesis by simp
qed

end
