(* ===== verification/Ext_Accepted.thy ===== *)
theory Ext_Accepted
  imports Ext_Served
begin

text \<open>
  Whatever is in the tables is accepted by the manifest models, provided that the OpenAPI documents
  of the upstreams declare body schemas that are objects.  So building the answer of an operation
  never fails after its commit, and every stored route can be turned into a live one.
\<close>

definition object_schemas :: "(string \<Rightarrow> json option) \<Rightarrow> bool" where
  "object_schemas documents =
     (\<forall>url path m v. body_schema_from_document (documents url) path m = Some v \<longrightarrow> (\<exists>d. v = JObj d))"

lemma object_schemasD:
  "object_schemas documents \<Longrightarrow> body_schema_from_document (documents url) path m = Some v \<Longrightarrow> \<exists>d. v = JObj d"
  by (simp add: object_schemas_def)

definition ext_row_ok :: "ext_row \<Rightarrow> bool" where
  "ext_row_ok row = (xr_schema_version row = 1 \<and> opt_all (\<lambda>ui. ui_contract_version ui = 1) (xr_ui row))"

definition upstream_row_ok :: "ext_env \<Rightarrow> upstream_row \<Rightarrow> bool" where
  "upstream_row_ok env u = is_ok (accept_upstream (ev_ip6 env) (ev_allowlist env) (up_spec u))"

definition route_row_ok :: "route_row \<Rightarrow> bool" where
  "route_row_ok r = (row_body_ok r \<and> is_ok (accept_route (route_of_row [] r)))"

definition rows_accepted :: "ext_env \<Rightarrow> ext_store \<Rightarrow> bool" where
  "rows_accepted env st =
     ((\<forall>(_, row) \<in> set (xs_extensions st). ext_row_ok row) \<and>
      list_all (upstream_row_ok env) (xs_upstreams st) \<and> list_all route_row_ok (xs_routes st))"

section \<open>The answer is built\<close>

lemma accept_route_key: "is_ok (accept_route (route_of_row key r)) \<longleftrightarrow> is_ok (accept_route (route_of_row [] r))"
  by (simp add: accept_route_def route_of_row_def)

lemma set_fold_dset:
  "x \<in> set (fold (\<lambda>u. dset (f u) (g u)) us d) \<Longrightarrow> x \<in> set d \<or> (\<exists>u \<in> set us. snd x = g u)"
proof (induction us arbitrary: d)
  case (Cons u us)
  have "x \<in> set (dset k v d) \<Longrightarrow> x \<in> set d \<or> snd x = v" for k v by (induction d) (auto split: if_splits)
  then show ?case using Cons by fastforce
qed simp

lemma list_routes_rows: "(r, key) \<in> set (list_routes n st) \<Longrightarrow> r \<in> set (xs_routes st) \<and> rt_extension r = n"
  by (auto simp: list_routes_def List.map_filter_def split: option.splits)

lemma list_upstreams_rows: "u \<in> set (list_upstreams n st) \<Longrightarrow> u \<in> set (xs_upstreams st) \<and> up_extension u = n"
  by (simp add: list_upstreams_def)

lemma detail_built:
  assumes acc: "rows_accepted env st" and row: "map_of (xs_extensions st) name = Some row"
  shows "\<exists>d. build_detail env name st = Inr d \<and> xd_enabled d = xr_enabled row"
proof -
  have ext: "ext_row_ok row" using acc map_of_SomeD[OF row] by (auto simp: rows_accepted_def)
  have routes: "route_row_ok r" if "(r, key) \<in> set (list_routes name st)" for r key
    using acc list_routes_rows[OF that] by (auto simp: rows_accepted_def list_all_iff)
  have ups: "upstream_row_ok env u" if "u \<in> set (list_upstreams name st)" for u
    using acc list_upstreams_rows[OF that] by (auto simp: rows_accepted_def list_all_iff)
  let ?reg = "\<lparr>rg_schema_version = xr_schema_version row, rg_name = name, rg_description = xr_description row,
      rg_upstreams = fold (\<lambda>u. dset (up_key u) (up_spec u)) (list_upstreams name st) [],
      rg_actions = list_extension_action_specs name st,
      rg_routes = map (\<lambda>(r, key). route_of_row key r) (list_routes name st), rg_ui = xr_ui row\<rparr>"
  have us: "is_ok (accept_upstream (ev_ip6 env) (ev_allowlist env) spec)"
    if "(k, spec) \<in> set (rg_upstreams ?reg)" for k spec
    using set_fold_dset[where d = "[]"] that ups unfolding upstream_row_ok_def by fastforce
  have rs: "is_ok (accept_route route)" if "route \<in> set (rg_routes ?reg)" for route
    using that routes accept_route_key by (auto simp: route_row_ok_def)
  have "is_ok (accept_registration (ev_ip6 env) (ev_allowlist env) ?reg)"
    using us rs ext by (cases "xr_ui row") (auto simp: accept_registration_def ext_row_ok_def)
  moreover have "list_all (row_body_ok \<circ> fst) (list_routes name st)"
    using routes by (auto simp: list_all_iff route_row_ok_def)
  ultimately show ?thesis by (auto simp: build_detail_def row Let_def is_ok_iff)
qed

section \<open>Operations keep the rows accepted\<close>

lemma accepted_update:
  assumes "rows_accepted env st" "update_extension name f st = Inr st'" "\<And>row. ext_row_ok row \<Longrightarrow> ext_row_ok (f row)"
  shows "rows_accepted env st'"
  using assms by (auto simp: rows_accepted_def update_extension_Inr sql_update_def)

lemma accepted_frame:
  assumes "rows_accepted env st" "set (xs_extensions st') \<subseteq> set (xs_extensions st)"
    "set (xs_upstreams st') \<subseteq> set (xs_upstreams st)" "set (xs_routes st') \<subseteq> set (xs_routes st)"
  shows "rows_accepted env st'"
  using assms by (auto simp: rows_accepted_def list_all_iff)

text \<open>The rows of new routes: fresh ids in order, one row per route of the manifest.\<close>

lemma insert_routes_rows:
  assumes "foldR (insert_route name ups) st routes = Inr st'"
  shows "\<exists>new. xs_routes st' = xs_routes st @ new \<and> xs_upstreams st' = xs_upstreams st \<and>
    xs_next_id st' = xs_next_id st + length routes \<and>
    map rt_id new = [xs_next_id st..<xs_next_id st + length routes] \<and>
    (\<forall>r \<in> set new. \<exists>x \<in> set routes. \<exists>u i. r = route_row_of name u i x)"
  using assms
proof (induction routes arbitrary: st)
  case (Cons x routes)
  obtain route mode body where x: "x = (route, mode, body)" by (cases x)
  from Cons.prems obtain s where s: "insert_route name ups st x = Inr s"
    "foldR (insert_route name ups) s routes = Inr st'" by auto
  from s(1) obtain i where ss: "s = st\<lparr>xs_routes := xs_routes st @ [route_row_of name i (xs_next_id st) x],
      xs_next_id := Suc (xs_next_id st)\<rparr>"
    unfolding x insert_route_Inr by blast
  have id: "rt_id (route_row_of name i (xs_next_id st) x) = xs_next_id st" by (simp add: x route_row_of_def)
  from Cons.IH[OF s(2)] obtain new where new: "xs_routes st' = xs_routes s @ new" "xs_upstreams st' = xs_upstreams s"
    "xs_next_id st' = xs_next_id s + length routes" "map rt_id new = [xs_next_id s..<xs_next_id s + length routes]"
    "\<forall>r \<in> set new. \<exists>x \<in> set routes. \<exists>u i. r = route_row_of name u i x" by blast
  then show ?case
    by (intro exI[of _ "route_row_of name i (xs_next_id st) x # new"]) (auto simp: ss id upt_conv_Cons simp del: upt_Suc)
qed simp

lemma replace_routes_rows:
  assumes "replace_upstreams_and_routes name us routes st = Inr st'"
  shows "\<exists>new. xs_routes st' = filter (\<lambda>r. rt_extension r \<noteq> name) (xs_routes st) @ new \<and>
    xs_upstreams st' = filter (\<lambda>u. up_extension u \<noteq> name) (xs_upstreams st) @ new_upstreams name us st \<and>
    xs_next_id st' = xs_next_id st + length us + length routes \<and>
    map rt_id new = [xs_next_id st + length us..<xs_next_id st + length us + length routes] \<and>
    (\<forall>r \<in> set new. \<exists>x \<in> set routes. \<exists>u i. r = route_row_of name u i x)"
  using assms insert_routes_rows[of name "new_upstreams name us st" "with_upstreams name us st" routes st']
  by (simp add: replace_upstreams_and_routes_Inr with_upstreams_def)

lemma stored_row_ok:
  assumes "is_ok (accept_route route)" "resolve_route_validation documents ups route = (mode, body)" "object_schemas documents"
  shows "route_row_ok (route_row_of name u i (route, mode, body))"
proof -
  have scope: "rs_scope_param route \<noteq> []"
    using assms(1) by (auto simp: accept_route_def param_name_ok_def is_ok_iff)
  have "is_ok (accept_route (route_of_row (rs_upstream route) (route_row_of name u i (route, mode, body))))"
    using assms(1) unfolding route_of_stored_row[OF scope] by (auto simp: stored_route_def accept_route_def)
  moreover have "body = None \<or> (\<exists>d. body = Some (JObj d))"
  proof (cases "rs_body route")
    case None
    have "body = None \<or> (\<exists>url path m. body_schema_from_document (documents url) path m = body)"
      using assms(2) by (auto simp: resolve_route_validation_def None split: option.splits if_splits)
    then show ?thesis
    proof (elim disjE exE)
      fix url path m
      assume *: "body_schema_from_document (documents url) path m = body"
      show ?thesis
      proof (cases body)
        case (Some v)
        then show ?thesis using object_schemasD[OF assms(3) *[unfolded Some]] by simp
      qed simp
    qed simp
  qed (use assms(2) in \<open>auto simp: resolve_route_validation_def\<close>)
  then have "row_body_ok (route_row_of name u i (route, mode, body))"
    by (auto simp: row_body_ok_def route_row_of_def)
  ultimately show ?thesis using accept_route_key[of "rs_upstream route"] by (simp add: route_row_ok_def)
qed

lemma accepted_replace_routes:
  assumes acc: "rows_accepted env st" and docs: "object_schemas documents"
    and reg: "is_ok (accept_registration (ev_ip6 env) (ev_allowlist env) reg)"
    and rep: "replace_upstreams_and_routes name (rg_upstreams reg) (prepare_routes documents reg) st = Inr st'"
  shows "rows_accepted env st'"
proof -
  let ?new = "new_upstreams name (rg_upstreams reg) st"
  obtain rows where st': "xs_routes st' = filter (\<lambda>r. rt_extension r \<noteq> name) (xs_routes st) @ rows"
      "xs_upstreams st' = filter (\<lambda>u. up_extension u \<noteq> name) (xs_upstreams st) @ ?new"
    and rows: "\<forall>r \<in> set rows. \<exists>x \<in> set (prepare_routes documents reg). \<exists>u i. r = route_row_of name u i x"
    using replace_routes_rows[OF rep] by blast
  have routes: "is_ok (accept_route route)" if "route \<in> set (rg_routes reg)" for route
    using reg that by (auto simp: accept_registration_def is_ok_iff)
  have specs: "is_ok (accept_upstream (ev_ip6 env) (ev_allowlist env) spec)" if "(k, spec) \<in> set (rg_upstreams reg)" for k spec
    using reg that by (fastforce simp: accept_registration_def is_ok_iff)
  have "route_row_ok r" if r: "r \<in> set rows" for r
  proof -
    obtain route u i where "route \<in> set (rg_routes reg)"
      "r = route_row_of name u i (route, resolve_route_validation documents (rg_upstreams reg) route)"
      using bspec[OF rows r] by (auto simp: prepare_routes_def)
    then show ?thesis by (cases "resolve_route_validation documents (rg_upstreams reg) route")
      (simp add: stored_row_ok[OF routes _ docs])
  qed
  moreover have "upstream_row_ok env u" if u: "u \<in> set ?new" for u
  proof -
    obtain i k spec where "(k, spec) \<in> set (rg_upstreams reg)" "u = upstream_row_of name i (k, spec)"
      using u by (auto dest: set_zip_rightD)
    then show ?thesis using specs by (simp add: upstream_row_ok_def upstream_row_of_def)
  qed
  ultimately show ?thesis
    using acc replace_upstreams_frame(2)[OF rep] by (auto simp: rows_accepted_def st' list_all_iff)
qed

lemma accepted_register:
  assumes acc: "rows_accepted env st" and docs: "object_schemas documents"
    and reg: "is_ok (accept_registration (ev_ip6 env) (ev_allowlist env) reg)"
    and r: "register_tables env documents key reg st = Inr st'"
  shows "rows_accepted env st'"
  using r
proof (rule register_tables_steps)
  fix s1 s2 s3 s4
  assume s: "create_extension (rg_name reg) (rg_description reg) (rg_schema_version reg) st = Inr s1"
    "set_internal_key_hash (rg_name reg) (ev_hash env key) s1 = Inr s2" "set_ui (rg_name reg) (rg_ui reg) s2 = Inr s3"
    and s4: "enroll_actions reg s3 = Inr s4"
    and s5: "replace_upstreams_and_routes (rg_name reg) (rg_upstreams reg) (prepare_routes documents reg) s4 = Inr st'"
  have ui: "rg_schema_version reg = 1" "opt_all (\<lambda>ui. ui_contract_version ui = 1) (rg_ui reg)"
    using reg by (auto simp: accept_registration_def is_ok_iff split: option.splits)
  have "rows_accepted env s1"
    using acc s(1) ui by (auto simp: create_extension_def rows_accepted_def ext_row_ok_def)
  then have "rows_accepted env s2"
    using s(2) unfolding set_internal_key_hash_def by (rule accepted_update) (simp add: ext_row_ok_def)
  then have "rows_accepted env s3"
    using s(3) unfolding set_ui_def by (rule accepted_update) (simp add: ext_row_ok_def ui)
  then have "rows_accepted env s4"
    by (rule accepted_frame) (simp_all add: enroll_frame[OF s4])
  then show ?thesis using docs reg s5 by (rule accepted_replace_routes)
qed

lemma accepted_replace:
  assumes acc: "rows_accepted env st" and docs: "object_schemas documents"
    and reg: "is_ok (accept_registration (ev_ip6 env) (ev_allowlist env) reg)"
    and r: "replace_tables documents name b reg st = Inr st'"
  shows "rows_accepted env st'"
proof -
  from r obtain s1 s2 s3 s4 s5 where s: "set_description name (rg_description reg) st = Inr s1"
    "set_ui name (rg_ui reg) s1 = Inr s2" "set_schema_version name (rg_schema_version reg) s2 = Inr s3"
    "enroll_actions reg (clear_extension_actions name s3) = Inr s4"
    "replace_upstreams_and_routes name (rg_upstreams reg) (prepare_routes documents reg) s4 = Inr s5"
    "delete_orphaned_actions (dropped_actions name reg st) s5 = Inr st'"
    by (auto simp: replace_tables_def Let_def)
  have ui: "rg_schema_version reg = 1" "opt_all (\<lambda>ui. ui_contract_version ui = 1) (rg_ui reg)"
    using reg by (auto simp: accept_registration_def is_ok_iff split: option.splits)
  have "rows_accepted env s1"
    using acc s(1) unfolding set_description_def by (rule accepted_update) (simp add: ext_row_ok_def)
  then have "rows_accepted env s2"
    using s(2) unfolding set_ui_def by (rule accepted_update) (simp add: ext_row_ok_def ui)
  then have "rows_accepted env s3"
    using s(3) unfolding set_schema_version_def by (rule accepted_update) (simp add: ext_row_ok_def ui)
  then have "rows_accepted env s4"
    by (rule accepted_frame) (simp_all add: enroll_frame[OF s(4)] clear_extension_actions_def)
  then have "rows_accepted env s5" using docs reg s(5) by (rule accepted_replace_routes)
  then show ?thesis
    using delete_orphaned_frame[OF s(6)] by (auto intro: accepted_frame)
qed

lemma accepted_refresh_pending:
  assumes docs: "object_schemas documents"
  shows "rows_accepted env st \<Longrightarrow> rows_accepted env (refresh_pending documents pending st)"
  unfolding refresh_pending_def
proof (induction pending arbitrary: st)
  case (Cons p pending)
  have one: "rows_accepted env (update_route_validation i mode body st)"
    if body: "body = None \<or> (\<exists>d. body = Some (JObj d))" for i mode body
  proof -
    have "accept_route (route_of_row [] (r\<lparr>rt_validation_mode := mode, rt_body := body\<rparr>)) = accept_route (route_of_row [] r)" for r
      by (simp add: accept_route_def route_of_row_def)
    moreover have "row_body_ok (r\<lparr>rt_validation_mode := mode, rt_body := body\<rparr>)" for r :: route_row
      using body by (auto simp: row_body_ok_def)
    ultimately have "route_row_ok r \<Longrightarrow> route_row_ok (r\<lparr>rt_validation_mode := mode, rt_body := body\<rparr>)" for r
      by (simp add: route_row_ok_def)
    then show ?thesis
      using Cons.prems by (auto simp: rows_accepted_def update_route_validation_def list_all_iff)
  qed
  obtain r url where p: "p = (r, url)" by (cases p)
  have "rows_accepted env (case body_schema_from_document (documents url) (the (rt_upstream_path r)) (rt_method r) of
         Some v \<Rightarrow> update_route_validation (rt_id r) UpstreamDeclared (Some v) st
       | None \<Rightarrow> update_route_validation (rt_id r) UnreachableRef None st)"
    using object_schemasD[OF docs] one by (auto split: option.split)
  then show ?case using Cons.IH by (simp add: p)
qed simp

lemma accepted_refresh:
  assumes "object_schemas documents" "rows_accepted env st"
  shows "rows_accepted env (refresh_extension_ref_schemas documents name st)"
    "rows_accepted env (refresh_ref_schemas documents st)"
  using assms by (simp_all add: refresh_extension_ref_schemas_def refresh_ref_schemas_def accepted_refresh_pending)

lemma accepted_set_enabled: "rows_accepted env st \<Longrightarrow> set_enabled name b st = Inr st' \<Longrightarrow> rows_accepted env st'"
  unfolding set_enabled_def by (erule(1) accepted_update) (simp add: ext_row_ok_def)

lemma accepted_deregister:
  assumes "ext_ok st" "rows_accepted env st" "deregister_extension name st = Inr st'"
  shows "rows_accepted env st'"
proof -
  obtain db where "st' = delete_extension name (set_iam db st)" using deregister_result[OF assms(1,3)] by blast
  then show ?thesis
    using assms(2) by (intro accepted_frame[OF assms(2)]) (auto simp: delete_extension_def AList.delete_eq)
qed

lemma accepted_table_step:
  assumes "table_step env docs st st'" "\<And>d. docs d \<Longrightarrow> object_schemas d" "rows_accepted env st"
  shows "rows_accepted env st'"
  using assms(1)
proof cases
  case (register documents reg key r)
  then show ?thesis
    using register_result[OF register(4)] accepted_register[OF assms(3) assms(2)] assms(3) by metis
next
  case (rotate key name k)
  then obtain h where "update_extension name (\<lambda>r. r\<lparr>xr_key_hash := Some h\<rparr>) st = Inr st'"
    by (auto simp: rotate_internal_key_def set_internal_key_hash_def)
  with assms(3) show ?thesis by (rule accepted_update) (simp add: ext_row_ok_def)
next
  case (issue key name dev module_id k)
  then show ?thesis using assms(3) by (auto simp: issue_device_key_def upsert_device_key_def rows_accepted_def)
next
  case (revoke name dev b)
  then show ?thesis using assms(3) by (auto simp: revoke_device_key_def rows_accepted_def)
next
  case (health probe now name h)
  have one: "rows_accepted env s \<Longrightarrow> rows_accepted env (record_upstream_health i a d t s)" for s i a d t
    by (auto simp: rows_accepted_def record_upstream_health_def list_all_iff upstream_row_ok_def)
  have "rows_accepted env s \<Longrightarrow> rows_accepted env (fold (\<lambda>u. record_upstream_health (up_id u) (fst (probe u)) (snd (probe u)) now) ups s)" for ups s
    by (induction ups arbitrary: s) (simp_all add: one)
  then show ?thesis using health assms(3) by (auto simp: check_extension_health_def Let_def split: if_splits)
next
  case (users op db)
  then show ?thesis using assms(3) by (simp add: rows_accepted_def)
next
  case (catalog rx cop cat)
  then show ?thesis using assms(3) by (simp add: rows_accepted_def set_catalog_def)
qed

end
