(* ===== verification/Ext_Serving.thy ===== *)
theory Ext_Serving
  imports Ext_Runtime
begin

text \<open>
  What the guards of a live route guarantee about the request that reaches its upstream: a device
  route speaks for the device of its key, a scoped route acts on the device whose permission was
  checked, an internal route needs the current key.
\<close>

section \<open>Built routes\<close>

definition built_live :: "string \<Rightarrow> upstream_row list \<Rightarrow> (route_row \<times> string) list \<Rightarrow> live_route \<Rightarrow> bool" where
  "built_live name upstreams routes r =
     (lr_owner r = name \<and> lr_dependencies r = route_dependencies name (lr_row r) \<and>
      (\<exists>key. (lr_row r, key) \<in> set routes \<and> build_signature (route_of_row key (lr_row r)) = Inr (lr_signature r) \<and>
         (\<exists>u \<in> set upstreams. up_key u = key \<and> lr_upstream r = up_spec u)))"

definition built_ok :: "string \<Rightarrow> upstream_row list \<Rightarrow> (route_row \<times> string) list \<Rightarrow> built_routes \<Rightarrow> bool" where
  "built_ok name upstreams routes built =
     ((\<forall>r \<in> set (bt_public built). rt_visibility (lr_row r) = Public \<and> built_live name upstreams routes r) \<and>
      (\<forall>r \<in> set (bt_internal built). rt_visibility (lr_row r) = Internal \<and> built_live name upstreams routes r) \<and>
      (\<forall>r \<in> set (bt_field built). rt_visibility (lr_row r) = DeviceIngress \<and> built_live name upstreams routes r))"

lemma built_ok_add:
  "built_ok name ups routes built \<Longrightarrow> built_live name ups routes r \<Longrightarrow>
     built_ok name ups routes (add_route_for_visibility r built)"
  by (auto simp: built_ok_def add_route_for_visibility_def split: visibility.split)

lemma find_mem: "List.find P xs = Some x \<Longrightarrow> x \<in> set xs \<and> P x"
  by (induction xs) (auto split: if_splits)

lemma add_route_ok:
  assumes "add_route_from_spec env name ups built x = Inr built'" "x \<in> set routes" "built_ok name ups routes built"
  shows "built_ok name ups routes built'"
proof -
  obtain row key where x: "x = (row, key)" by (cases x)
  show ?thesis
  proof (cases "List.find (\<lambda>u. up_key u = key) (rev ups)")
    case None
    then show ?thesis using assms by (simp add: add_route_from_spec_def x)
  next
    case (Some u)
    then have u: "u \<in> set ups" "up_key u = key" by (auto dest: find_mem)
    let ?r = "\<lambda>sg. \<lparr>lr_owner = name, lr_row = row, lr_upstream = up_spec u, lr_signature = sg,
         lr_dependencies = route_dependencies name row\<rparr>"
    obtain sg where sg: "build_signature (route_of_row key row) = Inr sg"
      and b: "built' = add_route_for_visibility (?r sg) built"
      using assms(1) by (auto simp: add_route_from_spec_def x Some)
    have "built_live name ups routes (?r sg)"
      using sg assms(2) u by (auto simp: built_live_def x)
    then show ?thesis using built_ok_add[OF assms(3)] b by simp
  qed
qed

lemma build_routes_ok:
  assumes "build_routes env name ups routes = Inr built"
  shows "built_ok name ups routes built"
proof -
  have "foldR (add_route_from_spec env name ups) no_routes routes = Inr built"
    using assms by (simp add: build_routes_def)
  then show ?thesis
    by (rule foldR_invariant[where P = "built_ok name ups routes"]) (simp add: built_ok_def no_routes_def, rule add_route_ok)
qed

lemma built_case:
  "(case x of Inl _ \<Rightarrow> False | Inr b \<Rightarrow> list_ex P (f b)) \<Longrightarrow> \<exists>b r. x = Inr b \<and> r \<in> set (f b) \<and> P r"
  by (cases x) (auto simp: list_ex_iff)

section \<open>Device routes\<close>

lemma check_device_key_Inr:
  assumes "check_device_key env name st request = Inr d"
  shows "\<exists>key. get_header ''x-device-key'' (hq_headers request) = Some key \<and> key \<noteq> [] \<and>
    resolve_device_key name (rn_hash env key) st = Inr (Some d) \<and>
    set (query_values device_id_name request) \<subseteq> {d} \<and>
    (\<forall>v. map_of (hq_path_params request) device_id_name = Some v \<longrightarrow> v = d)"
  using assms
  by (auto simp: check_device_key_def Let_def truthy_str_def list_ex_iff split: option.splits)

lemma as_http_exception_Inr [simp]: "as_http_exception r = Inr x \<longleftrightarrow> r = Inr x"
  by (auto simp: as_http_exception_def split: sum.splits exn.splits)

lemma serve_Inr:
  assumes "serve env st vs r token request = Inr reply"
  shows "\<exists>state body. foldR (run_dependency env st token request) \<lparr>qs_caller = None, qs_device = None\<rparr> (lr_dependencies r) = Inr state \<and>
    opt_all (\<lambda>p. length (query_values p request) \<le> 1) (single_query_param (lr_row r)) \<and>
    call_upstream env r state request body = Inr reply"
  using assms by (auto simp: serve_def handle_route_def not_less)

definition sent_reply :: "runtime_env \<Rightarrow> upstream_request \<Rightarrow> reply" where
  "sent_reply env req = (case rn_send env req of
       Inl e \<Rightarrow> JsonReply (int (fst (upstream_error e))) (JObj [(''detail'', JStr (snd (upstream_error e)))])
     | Inr resp \<Rightarrow> StreamedReply (resp\<lparr>hr_headers := response_headers (hr_headers resp)\<rparr>))"

lemma dispatch_http_Inr:
  "dispatch_http (rn_send env) as_str state request base path body trusted = Inr reply \<longleftrightarrow>
     (\<exists>req. build_upstream_request as_str state request base path body trusted = Inr req \<and> reply = sent_reply env req)"
  by (auto simp: dispatch_http_def sent_reply_def split: sum.split)

text \<open>
  C22: A request to a device route is answered only if its key was issued to a device for this very
  extension; the micro-service is told that device and no other, and whatever the caller names as
  \<open>device_id\<close> in the path or the query is that device.
\<close>

theorem device_identity_forwarded:
  assumes "build_routes env name ups routes = Inr built" "r \<in> set (bt_field built)"
    "lr_upstream r = HttpUpstream base health version expected" "rt_upstream_path (lr_row r) = Some path"
    "serve env st vs r token request = Inr reply"
  shows "\<exists>key d state body req. get_header ''x-device-key'' (hq_headers request) = Some key \<and>
    resolve_device_key name (rn_hash env key) st = Inr (Some d) \<and>
    build_upstream_request (rn_as_str env) state request base path body [(''X-Device-Id'', d)] = Inr req \<and>
    reply = sent_reply env req \<and> sent_values ''x-device-id'' (uq_headers req) = [d] \<and>
    set (query_values ''device_id'' request) \<subseteq> {d} \<and>
    map_of (hq_path_params request) ''device_id'' \<in> {None, Some d}"
proof -
  have b: "rt_visibility (lr_row r) = DeviceIngress" "lr_owner r = name"
    "lr_dependencies r = route_dependencies name (lr_row r)"
    using build_routes_ok[OF assms(1)] assms(2) by (auto simp: built_ok_def built_live_def)
  obtain state body where s: "foldR (run_dependency env st token request) \<lparr>qs_caller = None, qs_device = None\<rparr>
      (lr_dependencies r) = Inr state" "call_upstream env r state request body = Inr reply"
    using serve_Inr[OF assms(5)] by blast
  obtain d where d: "check_device_key env name st request = Inr d" "qs_device state = Some d" "qs_caller state = None"
    using s(1) by (auto simp: b route_dependencies_def run_dependency_def)
  obtain req where req: "build_upstream_request (rn_as_str env) state request base path body [(''X-Device-Id'', d)] = Inr req"
    "reply = sent_reply env req"
    using s(2) by (auto simp: call_upstream_def assms(3,4) b d dispatch_http_Inr)
  have "''x-device-id'' \<in> set guarded_headers" by (simp add: guarded_headers_def)
  note sent = guarded_headers_sent[OF req(1) this]
  have "sent_values ''x-device-id'' (forwarding_headers request) = []"
    by (auto simp: sent_values_def forwarding_headers_def caller_header_names split: option.split)
  moreover have "sent_values ''x-device-id'' (caller_identity_headers (rn_as_str env) state) = []"
    by (simp add: caller_identity_headers_def d sent_values_def)
  moreover have "str_lower ''X-Device-Id'' = ''x-device-id''" by code_simp
  ultimately have "sent_values ''x-device-id'' (uq_headers req) = [d]"
    by (simp add: sent) (simp add: sent_values_def)
  then show ?thesis
    using check_device_key_Inr[OF d(1)] req by (cases "map_of (hq_path_params request) ''device_id''")
      (fastforce simp: device_id_name_def)+
qed

definition sample_runtime :: runtime_env where
  "sample_runtime = \<lparr>rn_hash = (\<lambda>s. ''h'' @ s),
     rn_send = (\<lambda>_. Inr \<lparr>hr_status = 200, hr_headers = [], hr_chunks = []\<rparr>),
     rn_hub = \<lparr>ht_name = ''hub'', ht_call = (\<lambda>_. Some \<lparr>hs_status = 200, hs_text = [], hs_json = Some (JObj [])\<rparr>),
       ht_storage = None, ht_sas = None, ht_upload = (\<lambda>_ _. False), ht_new_id = ''1'', ht_loads = (\<lambda>_. None)\<rparr>,
     rn_as_str = (\<lambda>_. ''u''), rn_validate = (\<lambda>_ _. Inr []), rn_can_mount = (\<lambda>_. True), rn_coerces = (\<lambda>_ _. True)\<rparr>"

definition sample_device_row :: route_row where
  "sample_device_row = (route_row_of ''shop'' 0 1 (sample_route, NoBody, None))
     \<lparr>rt_visibility := DeviceIngress, rt_scoped := False, rt_required_action := None, rt_query_params := []\<rparr>"

definition device_store :: ext_store where
  "device_store = one_extension\<lparr>xs_routes := [sample_device_row],
     xs_device_keys := [((''shop'', ''d1''), \<lparr>dk_module_id = None, dk_key_hash = ''hk1''\<rparr>)]\<rparr>"

definition device_request :: http_request where
  "device_request = sample_http_request\<lparr>hq_headers := (''x-device-key'', ''k1'') # hq_headers sample_http_request\<rparr>"

theorem device_identity_forwarded_witness:
  "\<exists>state body req. build_upstream_request (rn_as_str sample_runtime) state device_request ''http://svc''
       ''/v1/items/{item}'' body [(''X-Device-Id'', ''d1'')] = Inr req \<and>
     sent_values ''x-device-id'' (uq_headers req) = [''d1'']"
proof -
  let ?built = "build_routes sample_runtime ''shop'' [sample_upstream_row 0 ''shop''] [(sample_device_row, ''svc'')]"
  have "case ?built of Inl _ \<Rightarrow> False | Inr b \<Rightarrow> list_ex (\<lambda>r.
      lr_upstream r = HttpUpstream ''http://svc'' ''/health'' ''version'' None \<and>
      rt_upstream_path (lr_row r) = Some ''/v1/items/{item}'' \<and>
      is_ok (serve sample_runtime device_store [] r None device_request)) (bt_field b)"
    by code_simp
  from built_case[OF this] obtain b r reply where r: "?built = Inr b" "r \<in> set (bt_field b)"
    "lr_upstream r = HttpUpstream ''http://svc'' ''/health'' ''version'' None"
    "rt_upstream_path (lr_row r) = Some ''/v1/items/{item}''"
    "serve sample_runtime device_store [] r None device_request = Inr reply"
    unfolding is_ok_iff by blast
  from device_identity_forwarded[OF r]
  obtain key d state body req where k: "get_header ''x-device-key'' (hq_headers device_request) = Some key"
    "resolve_device_key ''shop'' (rn_hash sample_runtime key) device_store = Inr (Some d)"
    "build_upstream_request (rn_as_str sample_runtime) state device_request ''http://svc'' ''/v1/items/{item}'' body
       [(''X-Device-Id'', d)] = Inr req" "sent_values ''x-device-id'' (uq_headers req) = [d]" by blast
  have "d = ''d1''"
    using k(1,2) by (simp add: device_request_def get_header_def resolve_device_key_def device_store_def
        sample_runtime_def scalar_one_or_none_def)
  with k(3,4) show ?thesis by blast
qed

section \<open>Scoped routes\<close>

lemma abac_request_params:
  "rq_query_params (abac_request request) = rev (hq_query request)"
  "rq_path_params (abac_request request) = hq_path_params request"
  by (simp_all add: abac_request_def)

lemma query_get_values: "query_get p request = Some d \<Longrightarrow> d \<in> set (query_values p request)"
  by (force simp: query_get_def query_values_def dest: map_of_SomeD)

lemma query_values_single:
  assumes "query_get p request = Some d" "length (query_values p request) \<le> 1"
  shows "query_values p request = [d]"
  using query_get_values[OF assms(1)] assms(2) by (cases "query_values p request") auto


definition sample_query_row :: route_row where
  "sample_query_row = (route_row_of ''shop'' 0 1 (sample_route, NoBody, None))
     \<lparr>rt_required_action := Some ''device.read'', rt_query_params := []\<rparr>"


end
