(* ===== verification/Ext_Live.thy ===== *)
theory Ext_Live
  imports Ext_Accepted Ext_Serving
begin

text \<open>
  What is mounted follows the tables: every live route of an extension is a stored route of a
  registered and enabled extension, behind the guards of its visibility and on the application of
  its visibility.
\<close>

section \<open>Publishing\<close>

definition live_of :: "mounted list \<Rightarrow> live_route list" where
  "live_of routes = List.map_filter (\<lambda>m. case m of ExtensionRoute r \<Rightarrow> Some r | PlatformRoute _ \<Rightarrow> None) routes"

lemma live_of_simps [simp]:
  "live_of [] = []" "live_of (ExtensionRoute r # ms) = r # live_of ms" "live_of (PlatformRoute p # ms) = live_of ms"
  by (simp_all add: live_of_def List.map_filter_simps)

lemma live_of_append [simp]: "live_of (xs @ ys) = live_of xs @ live_of ys"
  by (induction xs) (auto simp: live_of_def List.map_filter_simps split: mounted.split)

lemma live_of_exchange [simp]:
  "live_of (exchange name new routes) = filter (\<lambda>r. lr_owner r \<noteq> name) (live_of routes) @ new"
proof -
  have "live_of (filter (\<lambda>m. \<not> owned_by name m) routes) = filter (\<lambda>r. lr_owner r \<noteq> name) (live_of routes)"
  proof (induction routes)
    case (Cons m routes)
    then show ?case by (cases m) (auto simp: owned_by_def)
  qed simp
  moreover have "live_of (map ExtensionRoute new) = new" by (induction new) simp_all
  ultimately show ?thesis by (simp add: exchange_def)
qed

lemma live_routes_alt: "live_routes lv = live_of (lv_public lv) @ live_of (lv_internal lv) @ live_of (lv_field lv)"
  unfolding live_routes_def live_of_def[symmetric] by simp

definition built_list :: "built_routes \<Rightarrow> live_route list" where
  "built_list built = bt_public built @ bt_internal built @ bt_field built"

lemma live_publish:
  "set (live_routes (publish_routes name built lv)) = {r \<in> set (live_routes lv). lr_owner r \<noteq> name} \<union> set (built_list built)"
  by (auto simp: live_routes_alt publish_routes_def built_list_def)

lemma live_remember [simp]: "live_routes (remember_validator r lv) = live_routes lv"
  by (simp add: remember_validator_def live_routes_def split: option.split)

section \<open>The invariant\<close>

definition mounted_ok :: "ext_store \<Rightarrow> live_route \<Rightarrow> bool" where
  "mounted_ok st r =
     (lr_dependencies r = route_dependencies (lr_owner r) (lr_row r) \<and>
      (case served (lr_owner r) st of (enabled, ups, routes) \<Rightarrow>
         enabled = Some True \<and> (\<exists>key. (bare (lr_row r), key) \<in> set routes \<and> (key, lr_upstream r) \<in> set ups)))"

definition live_ok :: "system \<Rightarrow> bool" where
  "live_ok sys = (\<forall>r \<in> set (live_routes (sy_live sys)). mounted_ok (sy_store sys) r)"

lemma mounted_served: "served (lr_owner r) st' = served (lr_owner r) st \<Longrightarrow> mounted_ok st' r = mounted_ok st r"
  by (simp add: mounted_ok_def)

lemma built_list_live: "built_ok name ups routes built \<Longrightarrow> r \<in> set (built_list built) \<Longrightarrow> built_live name ups routes r"
  by (auto simp: built_ok_def built_list_def)

lemma built_mounted:
  assumes "build_persisted_routes rn name st = Inr built" "r \<in> set (built_list built)"
    "fst (served name st') = Some True" "snd (served name st') = snd (served name st)"
  shows "mounted_ok st' r \<and> lr_owner r = name"
proof -
  have l: "built_live name (list_upstreams name st) (list_routes name st) r"
    using build_routes_ok assms(1,2) built_list_live unfolding build_persisted_routes_def by blast
  then obtain key u where key: "(lr_row r, key) \<in> set (list_routes name st)"
    and u: "u \<in> set (list_upstreams name st)" "up_key u = key" "lr_upstream r = up_spec u"
    by (auto simp: built_live_def)
  have "(bare (lr_row r), key) \<in> set (map (\<lambda>(r, key). (bare r, key)) (list_routes name st))"
    using key by force
  moreover have "(key, lr_upstream r) \<in> set (map (\<lambda>u. (up_key u, up_spec u)) (list_upstreams name st))"
    using u by force
  moreover have "served name st' = (Some True, map (\<lambda>u. (up_key u, up_spec u)) (list_upstreams name st),
      map (\<lambda>(r, key). (bare r, key)) (list_routes name st))"
    using assms(3,4) by (cases "served name st'") (simp add: served_def)
  ultimately show ?thesis using l by (auto simp: mounted_ok_def built_live_def)
qed

lemma live_ok_publish:
  assumes "live_ok sys" "\<And>n. n \<noteq> name \<Longrightarrow> served n st' = served n (sy_store sys)"
    "\<And>r. r \<in> set (built_list built) \<Longrightarrow> mounted_ok st' r"
  shows "live_ok (sys\<lparr>sy_store := st', sy_live := publish_routes name built (sy_live sys)\<rparr>)"
proof -
  have "mounted_ok st' r" if "r \<in> set (live_routes (sy_live sys))" "lr_owner r \<noteq> name" for r
    using assms(1) that(1) mounted_served[OF assms(2)[OF that(2)]] by (simp add: live_ok_def)
  then show ?thesis using assms(3) by (auto simp: live_ok_def live_publish)
qed

lemma live_ok_unpublish:
  assumes "live_ok sys" "\<And>n. n \<noteq> name \<Longrightarrow> served n st' = served n (sy_store sys)"
  shows "live_ok (sys\<lparr>sy_store := st', sy_live := publish_routes name no_routes (sy_live sys)\<rparr>)"
  using assms by (rule live_ok_publish) (auto simp: built_list_def no_routes_def)

lemma live_ok_store:
  assumes "live_ok sys" "\<And>n. fst (served n (sy_store sys)) = Some True \<Longrightarrow> served n st' = served n (sy_store sys)"
  shows "live_ok (sys\<lparr>sy_store := st'\<rparr>)"
proof -
  have "mounted_ok st' r" if "r \<in> set (live_routes (sy_live sys))" for r
  proof -
    have m: "mounted_ok (sy_store sys) r" using assms(1) that by (simp add: live_ok_def)
    then have "fst (served (lr_owner r) (sy_store sys)) = Some True" by (auto simp: mounted_ok_def split: prod.splits)
    then show ?thesis using m mounted_served[OF assms(2)] by simp
  qed
  then show ?thesis by (simp add: live_ok_def)
qed

section \<open>Operations\<close>

text \<open>With accepted rows the answer is always built, so an endpoint either changes nothing or does all its steps.\<close>

lemma disable_extension_result:
  assumes acc: "rows_accepted env st" and wf: "ext_ok st" and d: "disable_extension env name st = (a, st')"
  shows "(\<exists>e. a = Inl e) \<and> \<not> extension_exists name st \<and> st' = st \<or>
    (\<exists>detail. a = Inr detail) \<and> set_enabled name False st = Inr st'"
proof (cases "extension_exists name st")
  case False
  then show ?thesis using d by (auto simp: disable_extension_def ensure_def)
next
  case True
  then obtain s where s: "set_enabled name False st = Inr s" by (auto simp: set_enabled_def update_extension_def)
  have "rows_accepted env s" using acc s by (rule accepted_set_enabled)
  moreover have "map_of (xs_extensions s) name \<noteq> None"
    using s by (auto simp: set_enabled_def update_extension_Inr map_of_sql_update extension_exists_def has_key_map_of)
  ultimately obtain detail where b: "build_detail env name s = Inr detail" using detail_built by (metis not_None_eq)
  show ?thesis using d True s by (auto simp: disable_extension_def b)
qed

lemma disable_and_unmount_result:
  assumes "rows_accepted env (sy_store sys)" "ext_ok (sy_store sys)" "disable_and_unmount env name sys = (r, sys')"
  shows "sys' = sys \<or> (\<exists>st'. set_enabled name False (sy_store sys) = Inr st' \<and>
    sys' = sys\<lparr>sy_store := st', sy_live := publish_routes name no_routes (sy_live sys)\<rparr>)"
proof -
  obtain a st' where d: "disable_extension env name (sy_store sys) = (a, st')" by fastforce
  from disable_extension_result[OF assms(1,2) d] show ?thesis
    using assms(3) by (auto simp: disable_and_unmount_def d)
qed

lemma enable_extension_result:
  assumes acc: "rows_accepted env st" and d: "enable_extension env name st = (a, st')"
  shows "(\<exists>e. a = Inl e) \<and> st' = st \<and> \<not> is_ok (enable_tables name st) \<or>
    (\<exists>detail. a = Inr detail \<and> build_detail env name st' = Inr detail) \<and> enable_tables name st = Inr st' \<and> set_enabled name True st = Inr st'"
proof (cases "enable_tables name st")
  case (Inl e)
  then show ?thesis using d by (auto simp: enable_extension_def)
next
  case (Inr s)
  then have s: "set_enabled name True st = Inr s" by (auto simp: enable_tables_def split: option.splits)
  have "rows_accepted env s" using acc s by (rule accepted_set_enabled)
  moreover have "map_of (xs_extensions s) name \<noteq> None"
    using s by (auto simp: set_enabled_def update_extension_Inr map_of_sql_update extension_exists_def has_key_map_of)
  ultimately obtain detail where b: "build_detail env name s = Inr detail" using detail_built by (metis not_None_eq)
  have e: "st' = s" "a = Inr detail" using d Inr by (simp_all add: enable_extension_def b)
  show ?thesis using s Inr b by (simp add: e)
qed

lemma enable_and_mount_result:
  assumes docs: "object_schemas documents" and acc: "rows_accepted env (sy_store sys)"
    and d: "enable_and_mount env rn documents name sys = (r, sys')"
  defines "st \<equiv> refresh_extension_ref_schemas documents name (sy_store sys)"
  shows "(\<exists>e. r = Inl e) \<and> sys' = sys\<lparr>sy_store := st\<rparr> \<or>
    (\<exists>detail st' built. r = Inr detail \<and> build_persisted_routes rn name st = Inr built \<and>
      enable_tables name st = Inr st' \<and> set_enabled name True st = Inr st' \<and> build_detail env name st' = Inr detail \<and>
      sys' = sys\<lparr>sy_store := st', sy_live := publish_routes name built (sy_live sys)\<rparr>)"
proof (cases "build_persisted_routes rn name st")
  case (Inl e)
  then show ?thesis using d by (auto simp: enable_and_mount_def st_def[symmetric])
next
  case (Inr built)
  obtain a st' where en: "enable_extension env name st = (a, st')" by fastforce
  have "rows_accepted env st" unfolding st_def using docs acc by (rule accepted_refresh)
  note res = enable_extension_result[OF this en]
  have r: "(r, sys') = (case a of Inl e \<Rightarrow> (Inl e, sys\<lparr>sy_store := st'\<rparr>)
      | Inr detail \<Rightarrow> (Inr detail, sys\<lparr>sy_store := st', sy_live := publish_routes name built (sy_live sys)\<rparr>))"
    using d Inr by (cases a) (auto simp: enable_and_mount_def st_def[symmetric] en)
  show ?thesis
  proof (cases a)
    case (Inl e)
    then show ?thesis using r res by simp
  next
    case (Inr detail)
    then show ?thesis using r res \<open>build_persisted_routes rn name st = Inr built\<close> by simp
  qed
qed

lemma replace_tables_enabled:
  assumes "replace_tables documents name b reg st = Inr st'"
  shows "map_option xr_enabled (map_of (xs_extensions st') name) = map_option xr_enabled (map_of (xs_extensions st) name)"
proof -
  from assms obtain s1 s2 s3 s4 s5 where s: "set_description name (rg_description reg) st = Inr s1"
    "set_ui name (rg_ui reg) s1 = Inr s2" "set_schema_version name (rg_schema_version reg) s2 = Inr s3"
    "enroll_actions reg (clear_extension_actions name s3) = Inr s4"
    "replace_upstreams_and_routes name (rg_upstreams reg) (prepare_routes documents reg) s4 = Inr s5"
    "delete_orphaned_actions (dropped_actions name reg st) s5 = Inr st'"
    by (auto simp: replace_tables_def Let_def)
  have "fst (served name s1) = fst (served name st)" "fst (served name s2) = fst (served name s1)"
    "fst (served name s3) = fst (served name s2)"
    using s(1-3) unfolding set_description_def set_ui_def set_schema_version_def
    by (simp_all add: served_plain_update)
  moreover have "xs_extensions st' = xs_extensions s3"
    using delete_orphaned_frame[OF s(6)]
    by (auto simp: replace_upstreams_frame(2)[OF s(5)] enroll_frame(1)[OF s(4)] clear_extension_actions_def)
  ultimately show ?thesis by (simp add: served_def)
qed

lemma replace_and_mount_result:
  assumes docs: "object_schemas documents" and acc: "rows_accepted env (sy_store sys)" and ok: "ext_ok (sy_store sys)"
    and reg: "is_ok (accept_registration (ev_ip6 env) (ev_allowlist env) reg)" and wf: "wf_registration reg"
    and d: "replace_and_mount env rn documents name reg sys = (r, sys')"
  shows "sys' = sys \<or>
    (\<exists>row st. map_of (xs_extensions (sy_store sys)) name = Some row \<and> rg_name reg = name \<and>
      replace_tables documents name (xr_enabled row) reg (sy_store sys) = Inr st \<and>
      (\<not> xr_enabled row \<and> sys' = sys\<lparr>sy_store := st\<rparr> \<or>
       (\<exists>built. xr_enabled row \<and> build_persisted_routes rn name st = Inr built \<and>
          sys' = sys\<lparr>sy_store := st, sy_live := publish_routes name built (sy_live sys)\<rparr>) \<or>
       (\<exists>st'. set_enabled name False st = Inr st' \<and>
          sys' = sys\<lparr>sy_store := st', sy_live := publish_routes name no_routes (sy_live sys)\<rparr>)))"
proof -
  let ?st = "sy_store sys"
  obtain a st where rep: "replace_extension env documents name reg ?st = (a, st)" by fastforce
  show ?thesis
  proof (cases "\<exists>row. map_of (xs_extensions ?st) name = Some row \<and> rg_name reg = name \<and>
      replace_tables documents name (xr_enabled row) reg ?st = Inr st \<and> a = build_detail env name st")
    case False
    then have "(\<exists>e. a = Inl e) \<and> st = ?st"
      using rep by (auto simp: replace_extension_def as_conflict_def split: sum.splits option.splits if_splits)
    then show ?thesis using d by (auto simp: replace_and_mount_def rep)
  next
    case True
    then obtain row where row: "map_of (xs_extensions ?st) name = Some row" "rg_name reg = name"
      and tab: "replace_tables documents name (xr_enabled row) reg ?st = Inr st" and a: "a = build_detail env name st"
      by blast
    have acc': "rows_accepted env st" using acc docs reg tab by (rule accepted_replace)
    have ok': "ext_ok st" using ok wf row(2,1) tab by (rule replace_tables_ok)
    have row': "map_option xr_enabled (map_of (xs_extensions st) name) = Some (xr_enabled row)"
      using replace_tables_enabled[OF tab] row(1) by simp
    then obtain detail where detail: "a = Inr detail" "xd_enabled detail = xr_enabled row"
      using detail_built[OF acc'] unfolding a by force
    obtain b st' where dis: "disable_extension env name st = (b, st')" by fastforce
    have "extension_exists name st" using row' by (auto simp: extension_exists_def has_key_map_of)
    then have set: "set_enabled name False st = Inr st'" using disable_extension_result[OF acc' ok' dis] by simp
    show ?thesis
    proof (cases "xr_enabled row")
      case False
      then have "sys' = sys\<lparr>sy_store := st\<rparr>" using d by (simp add: replace_and_mount_def rep detail)
      then show ?thesis using row tab False by blast
    next
      case True
      show ?thesis
      proof (cases "build_persisted_routes rn name st")
        case (Inl e)
        then have "sys' = sys\<lparr>sy_store := st', sy_live := publish_routes name no_routes (sy_live sys)\<rparr>"
          using d True by (auto simp: replace_and_mount_def rep detail dis)
        then show ?thesis using row tab set by blast
      next
        case (Inr built)
        then have "sys' = sys\<lparr>sy_store := st, sy_live := publish_routes name built (sy_live sys)\<rparr>"
          using d True by (auto simp: replace_and_mount_def rep detail)
        then show ?thesis using row tab Inr True by blast
      qed
    qed
  qed
qed

section \<open>Every step\<close>

lemma load_all_mounted:
  assumes wf: "wf_dict (xs_extensions st)"
    and live: "\<forall>r \<in> set (live_routes lv). mounted_ok st r"
  shows "\<forall>r \<in> set (live_routes (load_all_routes rn st lv)). mounted_ok st r"
proof -
  have "\<forall>r \<in> set (live_routes (fold (\<lambda>(name, row) lv. if \<not> xr_enabled row then lv
       else case build_routes rn name (list_upstreams name st) (list_routes name st) of
           Inl _ \<Rightarrow> lv | Inr built \<Rightarrow> publish_routes name built lv) rows lv)). mounted_ok st r"
    if "set rows \<subseteq> set (xs_extensions st)" for rows
    using that live
  proof (induction rows arbitrary: lv)
    case (Cons p rows)
    obtain name row where p: "p = (name, row)" by (cases p)
    have row: "map_of (xs_extensions st) name = Some row" using Cons.prems(1) wf by (simp add: p)
    show ?case
    proof (cases "\<not> xr_enabled row \<or> (\<exists>e. build_persisted_routes rn name st = Inl e)")
      case True
      then show ?thesis using Cons by (auto simp: p build_persisted_routes_def)
    next
      case False
      then obtain built where b: "build_persisted_routes rn name st = Inr built" and en: "xr_enabled row"
        by (cases "build_persisted_routes rn name st") auto
      have "fst (served name st) = Some True" using row en by (simp add: served_def)
      then have "mounted_ok st r" if "r \<in> set (built_list built)" for r using built_mounted[OF b that] by simp
      then have "\<forall>r \<in> set (live_routes (publish_routes name built lv)). mounted_ok st r"
        using Cons.prems(2) by (auto simp: live_publish)
      then show ?thesis using Cons.IH Cons.prems(1) b en by (simp add: p build_persisted_routes_def)
    qed
  qed simp
  from this[of "list_extensions_rows st"] show ?thesis
    unfolding load_all_routes_def by (simp add: list_extensions_rows_def)
qed

lemma system_step_live:
  assumes step: "system_step env rn docs sys sys'" and docs: "\<And>d. docs d \<Longrightarrow> object_schemas d"
    and ok: "ext_ok (sy_store sys)" "ext_ok (sy_store sys')" and acc: "rows_accepted env (sy_store sys)" and live: "live_ok sys"
  shows "live_ok sys' \<and> rows_accepted env (sy_store sys')"
  using step
proof cases
  case (tables st)
  have "served n st = served n (sy_store sys)" if "fst (served n (sy_store sys)) = Some True" for n
  proof -
    have "map_of (xs_extensions (sy_store sys)) n \<noteq> None" using that by (auto simp: served_def)
    moreover have "ext_ok st" using ok(2) tables(1) by simp
    ultimately show ?thesis using table_step_served[OF tables(2) ok(1)] by metis
  qed
  then show ?thesis
    using live_ok_store[OF live] accepted_table_step[OF tables(2) docs acc] tables(1) by simp
next
  case (replace documents reg name r)
  note o = docs[OF replace(1)]
  from replace_and_mount_result[OF o acc ok(1) replace(3,2,4)] show ?thesis
  proof (elim disjE exE conjE)
    assume "sys' = sys"
    then show ?thesis using live acc by simp
  next
    fix row st
    assume row: "map_of (xs_extensions (sy_store sys)) name = Some row" "rg_name reg = name"
      and tab: "replace_tables documents name (xr_enabled row) reg (sy_store sys) = Inr st"
    have ok': "ext_ok st" using ok(1) replace(2) row(2,1) tab by (rule replace_tables_ok)
    have acc': "rows_accepted env st" using acc o replace(3) tab by (rule accepted_replace)
    have others: "served n st = served n (sy_store sys)" if "n \<noteq> name" for n
      using replace_keeps_others[OF tab row(2)] ok(1) ok' that by (rule served_keeps)
    have en: "fst (served name st) = Some (xr_enabled row)"
      using replace_tables_enabled[OF tab] row(1) by (simp add: served_def)
    { assume "\<not> xr_enabled row" and s: "sys' = sys\<lparr>sy_store := st\<rparr>"
      then have "fst (served name (sy_store sys)) \<noteq> Some True" using row(1) by (simp add: served_def)
      then have "live_ok sys'" using live_ok_store[OF live] others unfolding s by metis
      then show ?thesis using acc' s by simp }
    { fix built assume e: "xr_enabled row" and b: "build_persisted_routes rn name st = Inr built"
        and s: "sys' = sys\<lparr>sy_store := st, sy_live := publish_routes name built (sy_live sys)\<rparr>"
      have "mounted_ok st r" if "r \<in> set (built_list built)" for r
        using built_mounted[OF b that] en e by simp
      then have "live_ok sys'" unfolding s using live others by (intro live_ok_publish) auto
      then show ?thesis using acc' s by simp }
    { fix st' assume d: "set_enabled name False st = Inr st'"
        and s: "sys' = sys\<lparr>sy_store := st', sy_live := publish_routes name no_routes (sy_live sys)\<rparr>"
      have "live_ok sys'"
        unfolding s using live others served_set_enabled(3)[OF d] by (intro live_ok_unpublish) auto
      then show ?thesis using accepted_set_enabled[OF acc' d] s by simp }
  qed
next
  case (deregister name r)
  show ?thesis
  proof (cases "deregister_extension name (sy_store sys)")
    case (Inl e)
    then show ?thesis using deregister live acc by (simp add: deregister_and_unmount_def)
  next
    case (Inr st)
    then have s: "sys' = sys\<lparr>sy_store := st, sy_live := publish_routes name no_routes (sy_live sys)\<rparr>"
      using deregister by (simp add: deregister_and_unmount_def)
    have "live_ok sys'" unfolding s using live deregister_served(1)[OF ok(1) Inr] by (rule live_ok_unpublish)
    then show ?thesis using accepted_deregister[OF ok(1) acc Inr] s by simp
  qed
next
  case (enable documents name r)
  let ?st = "refresh_extension_ref_schemas documents name (sy_store sys)"
  note o = docs[OF enable(1)]
  have acc': "rows_accepted env ?st" using o acc by (rule accepted_refresh)
  from enable_and_mount_result[OF o acc enable(2)] show ?thesis
  proof (elim disjE exE conjE)
    assume "sys' = sys\<lparr>sy_store := ?st\<rparr>"
    then show ?thesis using live_ok_store[OF live] acc' by simp
  next
    fix st' built
    assume b: "build_persisted_routes rn name ?st = Inr built" and en: "set_enabled name True ?st = Inr st'"
      and s: "sys' = sys\<lparr>sy_store := st', sy_live := publish_routes name built (sy_live sys)\<rparr>"
    have "mounted_ok st' r" if "r \<in> set (built_list built)" for r
      using built_mounted[OF b that] served_set_enabled(1,2)[OF en] by simp
    then have "live_ok sys'"
      unfolding s using live served_set_enabled(3)[OF en] by (intro live_ok_publish) auto
    then show ?thesis using accepted_set_enabled[OF acc' en] s by simp
  qed
next
  case (disable name r)
  from disable_and_unmount_result[OF acc ok(1) disable] show ?thesis
  proof (elim disjE exE conjE)
    fix st'
    assume d: "set_enabled name False (sy_store sys) = Inr st'"
      and s: "sys' = sys\<lparr>sy_store := st', sy_live := publish_routes name no_routes (sy_live sys)\<rparr>"
    have "live_ok sys'" unfolding s using live served_set_enabled(3)[OF d] by (rule live_ok_unpublish)
    then show ?thesis using accepted_set_enabled[OF acc d] s by simp
  qed (use live acc in simp)
next
  case (restart platform documents st lv)
  have st: "st = (case documents of Some d \<Rightarrow> refresh_ref_schemas d (sy_store sys) | None \<Rightarrow> sy_store sys)"
    and lv: "lv = load_all_routes rn st platform"
    using restart(4) by (auto simp: hydrate_all_routes_def Let_def)
  have "wf_dict (xs_extensions st)" using ok(2) restart(1) by (simp add: ext_ok_def)
  then have "\<forall>r \<in> set (live_routes lv). mounted_ok st r"
    unfolding lv using restart(2) by (intro load_all_mounted) (simp_all add: platform_only_def)
  moreover have "rows_accepted env st"
    using accepted_refresh(2)[OF docs acc] restart(3) acc unfolding st by (cases documents) simp_all
  ultimately show ?thesis using restart(1) by (simp add: live_ok_def)
next
  case (request r)
  then show ?thesis using live acc by (simp add: live_ok_def)
next
  case (validate r)
  then show ?thesis using live acc by (simp add: live_ok_def)
next
  case (respond r)
  then show ?thesis using live acc by (simp add: live_ok_def)
qed

lemma system_live:
  assumes "system_reachable env rn docs sys" "\<And>d. docs d \<Longrightarrow> object_schemas d"
  shows "live_ok sys \<and> rows_accepted env (sy_store sys)"
  using assms(1)
proof (induction rule: system_reachable.induct)
  case (initial app lv)
  then show ?case by (simp add: live_ok_def platform_only_def rows_accepted_def empty_ext_store_def)
next
  case (step sys sys')
  have "system_reachable env rn docs sys'" using step(1,2) by (rule system_reachable.step)
  then show ?case using system_step_live[OF step(2) assms(2)] system_ok step by blast
qed

end
