(* ===== verification/Ext_Liveness.thy ===== *)
theory Ext_Liveness
  imports Ext_Live
begin

text \<open>
  Enabling works: the routes of accepted rows can always be built, so an extension that clashes with
  no other enabled one is enabled on request and then all its routes are live, each on the
  application of its visibility.
\<close>

lemma find_first: "x \<in> set xs \<Longrightarrow> P x \<Longrightarrow> \<exists>y. List.find P xs = Some y"
  by (induction xs) auto

lemma stored_routes_listed:
  assumes "ext_ok st"
  shows "map fst (list_routes name st) = filter (\<lambda>r. rt_extension r = name) (xs_routes st)"
    and "(r, key) \<in> set (list_routes name st) \<Longrightarrow> \<exists>u \<in> set (list_upstreams name st). up_key u = key"
proof -
  have ids: "distinct (map up_id (xs_upstreams st))" using assms by (simp add: ext_ok_def upstreams_ok_def)
  have found: "\<exists>u. List.find (\<lambda>u. up_id u = rt_upstream_id r) (xs_upstreams st) = Some u \<and> u \<in> set (list_upstreams name st)"
    if r: "r \<in> set (xs_routes st)" "rt_extension r = name" for r
  proof -
    have "routes_ok (xs_extensions st) (xs_upstreams st) (im_actions (xs_iam st)) (xs_routes st) (xs_next_id st)"
      using assms by (simp add: ext_ok_def)
    then obtain v where v: "v \<in> set (xs_upstreams st)" "up_id v = rt_upstream_id r" "up_extension v = name"
      using r by (auto simp: routes_ok_def)
    then show ?thesis using find_by_id[OF ids v(1)] by (simp add: list_upstreams_def)
  qed
  have "map fst (List.map_filter (\<lambda>r. map_option (\<lambda>u. (r, up_key u))
         (List.find (\<lambda>u. up_id u = rt_upstream_id r) (xs_upstreams st))) rows) = rows"
    if "set rows \<subseteq> {r \<in> set (xs_routes st). rt_extension r = name}" for rows
    using that
  proof (induction rows)
    case (Cons r rows)
    then obtain u where "List.find (\<lambda>u. up_id u = rt_upstream_id r) (xs_upstreams st) = Some u" using found by force
    then show ?case using Cons by (simp add: List.map_filter_simps)
  qed (simp add: List.map_filter_simps)
  from this[of "filter (\<lambda>r. rt_extension r = name) (xs_routes st)"]
  show "map fst (list_routes name st) = filter (\<lambda>r. rt_extension r = name) (xs_routes st)"
    unfolding list_routes_def by auto
  show "\<exists>u \<in> set (list_upstreams name st). up_key u = key" if "(r, key) \<in> set (list_routes name st)"
    using that found by (fastforce simp: list_routes_def List.map_filter_def split: option.splits)
qed

definition with_visibility :: "visibility \<Rightarrow> (route_row \<times> string) list \<Rightarrow> route_row list" where
  "with_visibility v routes = filter (\<lambda>r. rt_visibility r = v) (map fst routes)"

lemma with_visibility_simps [simp]:
  "with_visibility v [] = []"
  "with_visibility v (x # xs) = (if rt_visibility (fst x) = v then fst x # with_visibility v xs else with_visibility v xs)"
  by (simp_all add: with_visibility_def)

lemma add_routes_total:
  assumes "\<And>r key. (r, key) \<in> set routes \<Longrightarrow> is_ok (build_signature (route_of_row key r)) \<and> rn_can_mount rn r \<and>
    (\<exists>u \<in> set ups. up_key u = key)"
  shows "\<exists>built. foldR (add_route_from_spec rn name ups) start routes = Inr built \<and>
    map lr_row (bt_public built) = map lr_row (bt_public start) @ with_visibility Public routes \<and>
    map lr_row (bt_internal built) = map lr_row (bt_internal start) @ with_visibility Internal routes \<and>
    map lr_row (bt_field built) = map lr_row (bt_field start) @ with_visibility DeviceIngress routes"
  using assms
proof (induction routes arbitrary: start)
  case (Cons x routes)
  obtain row key where x: "x = (row, key)" by (cases x)
  obtain u where u: "List.find (\<lambda>u. up_key u = key) (rev ups) = Some u"
    using Cons.prems[of row key] find_first[where xs = "rev ups" and P = "\<lambda>u. up_key u = key"] by (auto simp: x)
  obtain sg where sg: "build_signature (route_of_row key row) = Inr sg" and can: "rn_can_mount rn row"
    using Cons.prems[of row key] by (auto simp: x is_ok_iff)
  let ?r = "\<lparr>lr_owner = name, lr_row = row, lr_upstream = up_spec u, lr_signature = sg,
      lr_dependencies = route_dependencies name row\<rparr>"
  have add: "add_route_from_spec rn name ups start x = Inr (add_route_for_visibility ?r start)"
    by (simp add: add_route_from_spec_def x u sg can)
  obtain built where b: "foldR (add_route_from_spec rn name ups) (add_route_for_visibility ?r start) routes = Inr built"
    "map lr_row (bt_public built) = map lr_row (bt_public (add_route_for_visibility ?r start)) @ with_visibility Public routes"
    "map lr_row (bt_internal built) = map lr_row (bt_internal (add_route_for_visibility ?r start)) @ with_visibility Internal routes"
    "map lr_row (bt_field built) = map lr_row (bt_field (add_route_for_visibility ?r start)) @ with_visibility DeviceIngress routes"
    using Cons.IH[of "add_route_for_visibility ?r start"] Cons.prems by (meson list.set_intros(2))
  then show ?case
    by (intro exI[of _ built]) (cases "rt_visibility row"; simp add: add[unfolded x] add_route_for_visibility_def x)
qed simp

lemma build_persisted_total:
  assumes ok: "ext_ok st" and acc: "rows_accepted env st" and can: "\<And>r. rt_extension r = name \<Longrightarrow> rn_can_mount rn r"
  shows "\<exists>built. build_persisted_routes rn name st = Inr built \<and>
    map lr_row (bt_public built) = with_visibility Public (list_routes name st) \<and>
    map lr_row (bt_internal built) = with_visibility Internal (list_routes name st) \<and>
    map lr_row (bt_field built) = with_visibility DeviceIngress (list_routes name st)"
proof -
  have "is_ok (build_signature (route_of_row key r)) \<and> rn_can_mount rn r \<and> (\<exists>u \<in> set (list_upstreams name st). up_key u = key)"
    if rk: "(r, key) \<in> set (list_routes name st)" for r key
  proof -
    have row: "r \<in> set (xs_routes st)" "rt_extension r = name" using list_routes_rows[OF rk] by simp_all
    then have "is_ok (accept_route (route_of_row key r))"
      using acc accept_route_key[of key r] by (auto simp: rows_accepted_def list_all_iff route_row_ok_def)
    from signature_built[OF this] show ?thesis
      using can row(2) stored_routes_listed(2)[OF ok rk] by (auto simp: is_ok_iff)
  qed
  from add_routes_total[where start = no_routes, OF this] show ?thesis
    by (auto simp: build_persisted_routes_def build_routes_def no_routes_def)
qed

section \<open>Enabling\<close>

lemma refresh_pending_frame:
  "xs_extensions (refresh_pending documents pending st) = xs_extensions st"
  unfolding refresh_pending_def
  by (rule fold_same) (auto simp: update_route_validation_def split: prod.split option.split)

lemma refresh_frame [simp]:
  "xs_extensions (refresh_extension_ref_schemas documents name st) = xs_extensions st"
  by (simp add: refresh_extension_ref_schemas_def refresh_pending_frame)

definition live_rows :: "string \<Rightarrow> mounted list \<Rightarrow> route_row list" where
  "live_rows name routes = map lr_row (filter (\<lambda>r. lr_owner r = name) (live_of routes))"

lemma live_rows_exchange:
  "\<forall>r \<in> set new. lr_owner r = name \<Longrightarrow> live_rows name (exchange name new routes) = map lr_row new"
  by (simp add: live_rows_def filter_filter)

lemma with_visibility_bare:
  "map bare (with_visibility v routes) = filter (\<lambda>r. rt_visibility r = v) (map (bare \<circ> fst) routes)"
proof (induction routes)
  case (Cons x routes)
  then show ?case by (simp add: bare_def)
qed simp

lemma enabled_and_mounted:
  assumes ok: "ext_ok (sy_store sys)" and acc: "rows_accepted env (sy_store sys)" and docs: "object_schemas documents"
    and row: "map_of (xs_extensions (sy_store sys)) name = Some row"
    and free: "clash_free (xs_extensions (sy_store sys)) name (xr_ui row)"
    and can: "\<And>r. rt_extension r = name \<Longrightarrow> rn_can_mount rn r"
  defines "stored \<equiv> list_routes name (refresh_extension_ref_schemas documents name (sy_store sys))"
  shows "\<exists>detail sys'. enable_and_mount env rn documents name sys = (Inr detail, sys') \<and> xd_enabled detail \<and>
    live_rows name (lv_public (sy_live sys')) = with_visibility Public stored \<and>
    live_rows name (lv_internal (sy_live sys')) = with_visibility Internal stored \<and>
    live_rows name (lv_field (sy_live sys')) = with_visibility DeviceIngress stored"
proof -
  let ?st = "refresh_extension_ref_schemas documents name (sy_store sys)"
  have ok': "ext_ok ?st" using ok by (simp add: refresh_extension_ref_schemas_def ext_ok_refresh)
  have acc': "rows_accepted env ?st" using docs acc by (rule accepted_refresh)
  obtain built where b: "build_persisted_routes rn name ?st = Inr built"
    "map lr_row (bt_public built) = with_visibility Public stored"
    "map lr_row (bt_internal built) = with_visibility Internal stored"
    "map lr_row (bt_field built) = with_visibility DeviceIngress stored"
    using build_persisted_total[OF ok' acc' can] unfolding stored_def by blast
  have own: "lr_owner r = name" if "r \<in> set (built_list built)" for r
    using build_routes_ok b(1) that built_list_live unfolding build_persisted_routes_def built_live_def by blast
  have row': "map_of (xs_extensions ?st) name = Some row" using row by simp
  have "is_ok (check_replace_conflicts name (xr_ui row) ?st)"
    using check_replace_conflicts_ok[OF ext_ok_wf[OF ok']] free by simp
  then have "enable_tables name ?st = set_enabled name True ?st" by (auto simp: enable_tables_def row is_ok_iff)
  moreover obtain st' where st': "set_enabled name True ?st = Inr st'"
    using row' by (auto simp: set_enabled_def update_extension_def extension_exists_def has_key_map_of)
  ultimately have tab: "enable_tables name ?st = Inr st'" by simp
  have "rows_accepted env st'" using acc' st' by (rule accepted_set_enabled)
  moreover have "map_of (xs_extensions st') name = Some (row\<lparr>xr_enabled := True\<rparr>)"
    using st' row' by (auto simp: set_enabled_def update_extension_Inr map_of_sql_update)
  ultimately obtain detail where d: "build_detail env name st' = Inr detail" "xd_enabled detail"
    using detail_built by fastforce
  have "enable_and_mount env rn documents name sys =
      (Inr detail, sys\<lparr>sy_store := st', sy_live := publish_routes name built (sy_live sys)\<rparr>)"
    by (simp add: enable_and_mount_def Let_def b(1) enable_extension_def tab d(1))
  moreover have "\<forall>r \<in> set (bt_public built). lr_owner r = name" "\<forall>r \<in> set (bt_internal built). lr_owner r = name"
    "\<forall>r \<in> set (bt_field built). lr_owner r = name"
    using own by (simp_all add: built_list_def)
  ultimately show ?thesis using d(2) b(2-4) by (simp add: publish_routes_def live_rows_exchange)
qed

end
