(* ===== verification/Ext_Validators.thy ===== *)
theory Ext_Validators
  imports Ext_Live
begin

text \<open>
  The cache of compiled body validators is transparent.  A route id stands for one declared body for
  ever: new rows get new ids, and a refresh never makes a body a declared one.  The rows considered
  are those of the tables, of the live routes and of the routes of requests in flight, which may
  compile a validator after their route is gone.
\<close>

definition declared_bodies :: "route_row set \<Rightarrow> (nat \<times> json option) set" where
  "declared_bodies rows = {(rt_id r, rt_body r) | r. r \<in> rows \<and> rt_validation_mode r = Declared}"

lemma declared_bodies_Un [simp]: "declared_bodies (A \<union> B) = declared_bodies A \<union> declared_bodies B"
  by (auto simp: declared_bodies_def)

lemma declared_bodies_mono: "A \<subseteq> B \<Longrightarrow> declared_bodies A \<subseteq> declared_bodies B"
  by (auto simp: declared_bodies_def)

section \<open>The tables\<close>

definition bodies_grow :: "ext_store \<Rightarrow> ext_store \<Rightarrow> bool" where
  "bodies_grow st st' =
     (xs_next_id st \<le> xs_next_id st' \<and>
      (\<exists>new. declared_bodies (set (xs_routes st')) \<subseteq> declared_bodies (set (xs_routes st)) \<union> new \<and>
         single_valued new \<and> fst ` new \<subseteq> {xs_next_id st..<xs_next_id st'}))"

lemma bodies_grow_same:
  "xs_next_id st' = xs_next_id st \<Longrightarrow> declared_bodies (set (xs_routes st')) \<subseteq> declared_bodies (set (xs_routes st)) \<Longrightarrow>
     bodies_grow st st'"
  unfolding bodies_grow_def by (intro conjI exI[of _ "{}"]) auto

lemma bodies_grow_refl [simp]: "bodies_grow st st"
  by (rule bodies_grow_same) simp_all

lemma single_valued_disjoint:
  "single_valued A \<Longrightarrow> single_valued B \<Longrightarrow> fst ` A \<inter> fst ` B = {} \<Longrightarrow> single_valued (A \<union> B)"
  unfolding single_valued_def by (auto simp: disjoint_iff) (metis fst_conv imageI)+

lemma bodies_grow_trans:
  assumes "bodies_grow st s" "bodies_grow s st'"
  shows "bodies_grow st st'"
proof -
  obtain A where A: "declared_bodies (set (xs_routes s)) \<subseteq> declared_bodies (set (xs_routes st)) \<union> A" "single_valued A"
    "fst ` A \<subseteq> {xs_next_id st..<xs_next_id s}" "xs_next_id st \<le> xs_next_id s"
    using assms(1) by (auto simp: bodies_grow_def)
  obtain B where B: "declared_bodies (set (xs_routes st')) \<subseteq> declared_bodies (set (xs_routes s)) \<union> B" "single_valued B"
    "fst ` B \<subseteq> {xs_next_id s..<xs_next_id st'}" "xs_next_id s \<le> xs_next_id st'"
    using assms(2) by (auto simp: bodies_grow_def)
  have "fst ` A \<inter> fst ` B = {}" using A(3) B(3) by fastforce
  then have "single_valued (A \<union> B)" using A(2) B(2) by (rule single_valued_disjoint[rotated 2])
  moreover have "fst ` (A \<union> B) \<subseteq> {xs_next_id st..<xs_next_id st'}" using A(3,4) B(3,4) by fastforce
  ultimately show ?thesis
    unfolding bodies_grow_def using A(1,4) B(1,4) by (intro conjI exI[of _ "A \<union> B"]) auto
qed

lemma update_extension_rows:
  "update_extension name f st = Inr st' \<Longrightarrow> xs_routes st' = xs_routes st \<and> xs_next_id st' = xs_next_id st"
  by (auto simp: update_extension_Inr)

lemma bodies_grow_routes:
  assumes "replace_upstreams_and_routes name us routes st = Inr st'"
  shows "bodies_grow st st'"
proof -
  obtain new where new: "xs_routes st' = filter (\<lambda>r. rt_extension r \<noteq> name) (xs_routes st) @ new"
    "xs_next_id st' = xs_next_id st + length us + length routes"
    "map rt_id new = [xs_next_id st + length us..<xs_next_id st + length us + length routes]"
    using replace_routes_rows[OF assms] by blast
  have "distinct (map rt_id new)" using new(3) by simp
  then have "single_valued (declared_bodies (set new))"
    by (auto simp: single_valued_def declared_bodies_def distinct_map inj_on_def)
  moreover have "set (map rt_id new) \<subseteq> {xs_next_id st..<xs_next_id st'}" unfolding new(2,3) by auto
  then have "fst ` declared_bodies (set new) \<subseteq> {xs_next_id st..<xs_next_id st'}"
    by (auto simp: declared_bodies_def)
  moreover have "declared_bodies (set (xs_routes st')) \<subseteq> declared_bodies (set (xs_routes st)) \<union> declared_bodies (set new)"
    by (auto simp: new(1) declared_bodies_def)
  ultimately show ?thesis unfolding bodies_grow_def using new(2) by auto
qed

lemma bodies_grow_register:
  assumes "register_tables env documents key reg st = Inr st'"
  shows "bodies_grow st st'"
  using assms
proof (rule register_tables_steps)
  fix s1 s2 s3 s4
  assume s: "create_extension (rg_name reg) (rg_description reg) (rg_schema_version reg) st = Inr s1"
    "set_internal_key_hash (rg_name reg) (ev_hash env key) s1 = Inr s2" "set_ui (rg_name reg) (rg_ui reg) s2 = Inr s3"
    and s4: "enroll_actions reg s3 = Inr s4"
    and s5: "replace_upstreams_and_routes (rg_name reg) (rg_upstreams reg) (prepare_routes documents reg) s4 = Inr st'"
  have "xs_routes s1 = xs_routes st \<and> xs_next_id s1 = xs_next_id st" using s(1) by (auto simp: create_extension_def)
  moreover have "xs_routes s3 = xs_routes s1 \<and> xs_next_id s3 = xs_next_id s1"
    using s(2,3) unfolding set_internal_key_hash_def set_ui_def by (auto dest!: update_extension_rows)
  ultimately have "bodies_grow st s4" by (intro bodies_grow_same) (simp_all add: enroll_frame[OF s4])
  then show ?thesis using bodies_grow_routes[OF s5] by (rule bodies_grow_trans)
qed

lemma bodies_grow_replace:
  assumes "replace_tables documents name b reg st = Inr st'"
  shows "bodies_grow st st'"
proof -
  from assms obtain s1 s2 s3 s4 s5 where s: "set_description name (rg_description reg) st = Inr s1"
    "set_ui name (rg_ui reg) s1 = Inr s2" "set_schema_version name (rg_schema_version reg) s2 = Inr s3"
    "enroll_actions reg (clear_extension_actions name s3) = Inr s4"
    "replace_upstreams_and_routes name (rg_upstreams reg) (prepare_routes documents reg) s4 = Inr s5"
    "delete_orphaned_actions (dropped_actions name reg st) s5 = Inr st'"
    by (auto simp: replace_tables_def Let_def)
  have "xs_routes s3 = xs_routes st \<and> xs_next_id s3 = xs_next_id st"
    using s(1-3) unfolding set_description_def set_ui_def set_schema_version_def by (auto dest!: update_extension_rows)
  then have "bodies_grow st s4"
    by (intro bodies_grow_same) (simp_all add: enroll_frame[OF s(4)] clear_extension_actions_def)
  moreover have "bodies_grow s4 s5" using s(5) by (rule bodies_grow_routes)
  moreover have "bodies_grow s5 st'" using delete_orphaned_frame[OF s(6)] by (auto intro: bodies_grow_same)
  ultimately show ?thesis using bodies_grow_trans by blast
qed

lemma bodies_update_route:
  assumes "mode \<noteq> Declared"
  shows "bodies_grow st (update_route_validation i mode body st)"
  using assms by (intro bodies_grow_same) (auto simp: update_route_validation_def declared_bodies_def)

lemma fold_grows: "(\<And>x s. bodies_grow s (f x s)) \<Longrightarrow> bodies_grow st (fold f xs st)"
proof (induction xs arbitrary: st)
  case (Cons x xs)
  then show ?case using bodies_grow_trans[of st "f x st"] by simp
qed simp

lemma bodies_refresh: "bodies_grow st (refresh_pending documents pending st)"
  unfolding refresh_pending_def
  by (rule fold_grows) (auto intro: bodies_update_route split: prod.split option.split)

lemma ext_step_bodies:
  assumes "ext_step env st st'" and ok: "ext_ok st"
  shows "bodies_grow st st'"
  using assms(1)
proof cases
  case (register reg documents key r)
  then show ?thesis using register_result[OF register(3)] bodies_grow_register by auto
next
  case (replace reg documents name r)
  then show ?thesis using replace_result[OF replace(3)] bodies_grow_replace by auto
next
  case (deregister name)
  obtain db where "st' = delete_extension name (set_iam db st)" using deregister_result[OF ok deregister] by blast
  then show ?thesis by (intro bodies_grow_same) (auto simp: delete_extension_def declared_bodies_def)
next
  case (enable name r)
  then have "st' = st \<or> (\<exists>b. set_enabled name b st = Inr st')"
    by (auto simp: enable_extension_def enable_tables_def split: sum.splits option.splits)
  then show ?thesis
    by (auto simp: set_enabled_def dest!: update_extension_rows intro: bodies_grow_same)
next
  case (disable name r)
  then have "st' = st \<or> (\<exists>b. set_enabled name b st = Inr st')"
    by (auto simp: disable_extension_def split: sum.splits)
  then show ?thesis
    by (auto simp: set_enabled_def dest!: update_extension_rows intro: bodies_grow_same)
next
  case (rotate key name k)
  then show ?thesis
    by (auto simp: rotate_internal_key_def set_internal_key_hash_def dest!: update_extension_rows intro: bodies_grow_same)
next
  case (issue key name dev module_id k)
  then show ?thesis by (auto simp: issue_device_key_def upsert_device_key_def intro: bodies_grow_same)
next
  case (revoke name dev b)
  then show ?thesis by (auto simp: revoke_device_key_def intro: bodies_grow_same)
next
  case (health probe now name h)
  have "bodies_grow s (record_upstream_health i a d t s)" for s i a d t
    by (rule bodies_grow_same) (simp_all add: record_upstream_health_def)
  then show ?thesis using health by (auto simp: check_extension_health_def Let_def intro!: fold_grows split: if_splits)
next
  case (refresh documents name)
  then show ?thesis by (simp add: refresh_extension_ref_schemas_def bodies_refresh)
next
  case (refresh_all documents)
  then show ?thesis by (simp add: refresh_ref_schemas_def bodies_refresh)
next
  case (users op db)
  then show ?thesis by (intro bodies_grow_same) simp_all
next
  case (catalog rx cop cat)
  then show ?thesis by (intro bodies_grow_same) (simp_all add: set_catalog_def)
qed

lemma ext_steps_bodies:
  assumes "(ext_step env)\<^sup>*\<^sup>* st st'" "ext_ok st"
  shows "bodies_grow st st' \<and> ext_ok st'"
  using assms
  by (induction rule: rtranclp_induct) (auto intro: bodies_grow_trans ext_step_bodies ext_step_ok)

section \<open>The system\<close>

definition all_rows :: "system \<Rightarrow> route_row set" where
  "all_rows sys = set (xs_routes (sy_store sys)) \<union> lr_row ` set (live_routes (sy_live sys)) \<union> lr_row ` set (sy_inflight sys)"

definition system_bodies :: "system \<Rightarrow> (nat \<times> json option) set" where
  "system_bodies sys = declared_bodies (all_rows sys) \<union> {(i, Some s) | i s. (i, s) \<in> set (lv_validators (sy_live sys))}"

definition bodies_ok :: "system \<Rightarrow> bool" where
  "bodies_ok sys = (single_valued (system_bodies sys) \<and> (\<forall>p \<in> system_bodies sys. fst p < xs_next_id (sy_store sys)))"

lemma invalidate_subset: "set (invalidate_routes name routes validators) \<subseteq> set validators"
  unfolding invalidate_routes_def
proof (induction routes arbitrary: validators)
  case (Cons m routes)
  have "set (dpop i vs) \<subseteq> set vs" for i and vs :: "(nat \<times> json) list" by (auto simp: AList.delete_eq)
  then show ?case using Cons by (cases m) (auto, blast)
qed simp

lemma publish_validators: "set (lv_validators (publish_routes name built lv)) \<subseteq> set (lv_validators lv)"
  by (simp add: publish_routes_def invalidate_subset)

lemma built_rows:
  assumes "build_persisted_routes rn name st = Inr built"
  shows "lr_row ` set (built_list built) \<subseteq> set (xs_routes st)"
proof
  fix row assume "row \<in> lr_row ` set (built_list built)"
  then obtain r where r: "r \<in> set (built_list built)" "row = lr_row r" by blast
  then have "built_live name (list_upstreams name st) (list_routes name st) r"
    using build_routes_ok assms built_list_live unfolding build_persisted_routes_def by blast
  then show "row \<in> set (xs_routes st)" using list_routes_rows by (auto simp: built_live_def r(2))
qed

lemma fold_keeps: "P s \<Longrightarrow> (\<And>x s. P s \<Longrightarrow> P (f x s)) \<Longrightarrow> P (fold f xs s)"
  by (induction xs arbitrary: s) simp_all

lemma load_all_rows:
  "lr_row ` set (live_routes (load_all_routes rn st lv)) \<subseteq> lr_row ` set (live_routes lv) \<union> set (xs_routes st) \<and>
   set (lv_validators (load_all_routes rn st lv)) \<subseteq> set (lv_validators lv)" (is "?P (load_all_routes rn st lv)")
  unfolding load_all_routes_def
proof (rule fold_keeps[where P = ?P])
  fix x :: "string \<times> ext_row" and s
  assume s: "?P s"
  obtain name row where x: "x = (name, row)" by (cases x)
  show "?P ((\<lambda>(name, row) lv. if \<not> xr_enabled row then lv
       else case build_routes rn name (list_upstreams name st) (list_routes name st) of
           Inl _ \<Rightarrow> lv | Inr built \<Rightarrow> publish_routes name built lv) x s)"
  proof (cases "build_persisted_routes rn name st")
    case (Inl e)
    then show ?thesis using s by (simp add: x build_persisted_routes_def)
  next
    case (Inr built)
    have "lr_row ` set (live_routes (publish_routes name built s)) \<subseteq> lr_row ` set (live_routes s) \<union> set (xs_routes st)"
      using built_rows[OF Inr] by (auto simp: live_publish)
    also have "\<dots> \<subseteq> lr_row ` set (live_routes lv) \<union> set (xs_routes st)" using s by simp
    finally have "?P (publish_routes name built s)" using s publish_validators[of name built s] by (meson order_trans)
    then show ?thesis using s Inr by (simp add: x build_persisted_routes_def)
  qed
qed simp

lemma system_step_bodies:
  assumes step: "system_step env rn docs sys sys'" and ok: "ext_ok (sy_store sys)"
  shows "system_bodies sys' \<subseteq> system_bodies sys \<union> declared_bodies (set (xs_routes (sy_store sys')))"
proof -
  have publish: "system_bodies (sys\<lparr>sy_store := st, sy_live := publish_routes name built (sy_live sys)\<rparr>)
      \<subseteq> system_bodies sys \<union> declared_bodies (set (xs_routes st))"
    if "lr_row ` set (built_list built) \<subseteq> set (xs_routes st)" for st name built
    using that publish_validators[of name built "sy_live sys"]
    by (fastforce simp: system_bodies_def all_rows_def declared_bodies_def live_publish)
  have none: "lr_row ` set (built_list no_routes) \<subseteq> set (xs_routes st)" for st
    by (simp add: built_list_def no_routes_def)
  have store: "system_bodies (sys\<lparr>sy_store := st\<rparr>) \<subseteq> system_bodies sys \<union> declared_bodies (set (xs_routes st))" for st
    by (auto simp: system_bodies_def all_rows_def declared_bodies_def)
  have stored: "sys' = sys\<lparr>sy_store := st\<rparr> \<Longrightarrow> ?thesis" for st using store[of st] by simp
  have published: "sys' = sys\<lparr>sy_store := st, sy_live := publish_routes name built (sy_live sys)\<rparr> \<Longrightarrow>
      lr_row ` set (built_list built) \<subseteq> set (xs_routes st) \<Longrightarrow> ?thesis" for st name built
    using publish[of built st name] by simp
  show ?thesis
    using step
  proof cases
    case (tables st)
    then show ?thesis using store by simp
  next
    case (replace documents reg name r)
    obtain a st where rep: "replace_extension env documents name reg (sy_store sys) = (a, st)" by fastforce
    obtain b st' where dis: "disable_extension env name st = (b, st')" by fastforce
    have "sys' = sys\<lparr>sy_store := st\<rparr> \<or>
        (\<exists>built. build_persisted_routes rn name st = Inr built \<and>
           sys' = sys\<lparr>sy_store := st, sy_live := publish_routes name built (sy_live sys)\<rparr>) \<or>
        sys' = sys\<lparr>sy_store := st', sy_live := publish_routes name no_routes (sy_live sys)\<rparr>"
      using replace(4) unfolding replace_and_mount_def rep by (auto simp: dis split: sum.splits if_splits)
    then show ?thesis
      by (elim disjE exE conjE) (erule stored, erule published[OF _ built_rows], assumption, rule published[OF _ none])
  next
    case (deregister name r)
    then have "sys' = sys \<or> (\<exists>st. sys' = sys\<lparr>sy_store := st, sy_live := publish_routes name no_routes (sy_live sys)\<rparr>)"
      by (auto simp: deregister_and_unmount_def split: sum.splits)
    then show ?thesis by (elim disjE exE) (simp, rule published[OF _ none])
  next
    case (enable documents name r)
    let ?st = "refresh_extension_ref_schemas documents name (sy_store sys)"
    obtain a st' where en: "enable_extension env name ?st = (a, st')" by fastforce
    have routes: "xs_routes st' = xs_routes ?st"
      using en by (auto simp: enable_extension_def enable_tables_def set_enabled_def split: sum.splits option.splits
          dest!: update_extension_rows)
    have "sys' = sys\<lparr>sy_store := ?st\<rparr> \<or> sys' = sys\<lparr>sy_store := st'\<rparr> \<or>
        (\<exists>built. build_persisted_routes rn name ?st = Inr built \<and>
           sys' = sys\<lparr>sy_store := st', sy_live := publish_routes name built (sy_live sys)\<rparr>)"
      using enable(2) unfolding enable_and_mount_def Let_def by (auto simp: en split: sum.splits)
    then show ?thesis
    proof (elim disjE exE conjE)
      fix built
      assume b: "build_persisted_routes rn name ?st = Inr built"
        and s: "sys' = sys\<lparr>sy_store := st', sy_live := publish_routes name built (sy_live sys)\<rparr>"
      from s show ?thesis by (rule published) (simp add: routes built_rows[OF b])
    qed (erule stored)+
  next
    case (disable name r)
    obtain a st where d: "disable_extension env name (sy_store sys) = (a, st)" by fastforce
    then have "sys' = sys\<lparr>sy_store := st\<rparr> \<or>
        sys' = sys\<lparr>sy_store := st, sy_live := publish_routes name no_routes (sy_live sys)\<rparr>"
      using disable by (auto simp: disable_and_unmount_def split: sum.splits)
    then show ?thesis by (elim disjE) (erule stored, rule published[OF _ none])
  next
    case (restart platform documents st lv)
    have "lv = load_all_routes rn st platform" using restart(4) by (auto simp: hydrate_all_routes_def Let_def)
    then show ?thesis
      using restart(1,2) load_all_rows[of rn st platform]
      by (auto simp: system_bodies_def all_rows_def platform_only_def declared_bodies_def)
  next
    case (request r)
    then show ?thesis by (auto simp: system_bodies_def all_rows_def declared_bodies_def)
  next
    case (validate r)
    have "set (lv_validators (remember_validator r (sy_live sys))) \<subseteq> set (lv_validators (sy_live sys)) \<union>
        {(rt_id (lr_row r), s) | s. rt_validation_mode (lr_row r) = Declared \<and> rt_body (lr_row r) = Some s}"
      by (auto simp: remember_validator_def split: option.splits)
    then show ?thesis using validate
      by (fastforce simp: system_bodies_def all_rows_def declared_bodies_def)
  next
    case (respond r)
    have "set (remove1 r (sy_inflight sys)) \<subseteq> set (sy_inflight sys)" by (rule set_remove1_subset)
    then show ?thesis using respond by (auto simp: system_bodies_def all_rows_def declared_bodies_def)
  qed
qed

lemma system_bodies_ok:
  assumes "system_reachable env rn docs sys"
  shows "bodies_ok sys"
  using assms
proof (induction rule: system_reachable.induct)
  case (initial app lv)
  then show ?case
    by (simp add: bodies_ok_def system_bodies_def all_rows_def platform_only_def empty_ext_store_def declared_bodies_def
        single_valued_def)
next
  case (step sys sys')
  have ok: "ext_ok (sy_store sys)" using step(1) by (rule system_ok)
  have "bodies_grow (sy_store sys) (sy_store sys')"
    using ext_steps_bodies[OF system_step_store[OF step(2)] ok] by simp
  then obtain new where new: "declared_bodies (set (xs_routes (sy_store sys')))
      \<subseteq> declared_bodies (set (xs_routes (sy_store sys))) \<union> new" "single_valued new"
    "fst ` new \<subseteq> {xs_next_id (sy_store sys)..<xs_next_id (sy_store sys')}"
    "xs_next_id (sy_store sys) \<le> xs_next_id (sy_store sys')"
    by (auto simp: bodies_grow_def)
  have old: "declared_bodies (set (xs_routes (sy_store sys))) \<subseteq> system_bodies sys"
    by (auto simp: system_bodies_def all_rows_def)
  have sub: "system_bodies sys' \<subseteq> system_bodies sys \<union> new"
    using system_step_bodies[OF step(2) ok] new(1) old by blast
  have "fst ` system_bodies sys \<inter> fst ` new = {}"
    using step(3) new(3) by (fastforce simp: bodies_ok_def)
  then have "single_valued (system_bodies sys \<union> new)"
    using step(3) new(2) by (intro single_valued_disjoint) (simp_all add: bodies_ok_def)
  then have "single_valued (system_bodies sys')" using sub by (rule single_valued_subset[rotated])
  moreover have "fst p < xs_next_id (sy_store sys')" if "p \<in> system_bodies sys'" for p
    using sub that step(3) new(3,4) by (force simp: bodies_ok_def)
  ultimately show ?case by (simp add: bodies_ok_def)
qed

lemma cached_validator:
  assumes "system_reachable env rn docs sys" "r \<in> set (live_routes (sy_live sys)) \<union> set (sy_inflight sys)"
    "rt_validation_mode (lr_row r) = Declared" "map_of (lv_validators (sy_live sys)) (rt_id (lr_row r)) = Some s"
  shows "rt_body (lr_row r) = Some s"
proof -
  have "(rt_id (lr_row r), rt_body (lr_row r)) \<in> system_bodies sys"
    using assms(2,3) by (auto simp: system_bodies_def all_rows_def declared_bodies_def)
  moreover have "(rt_id (lr_row r), Some s) \<in> system_bodies sys"
    using map_of_SomeD[OF assms(4)] by (auto simp: system_bodies_def)
  ultimately show ?thesis
    using system_bodies_ok[OF assms(1)] by (auto simp: bodies_ok_def dest: single_valuedD)
qed

lemma serve_uncached:
  assumes "system_reachable env rn docs sys" "r \<in> set (live_routes (sy_live sys)) \<union> set (sy_inflight sys)"
  shows "serve rn st (lv_validators (sy_live sys)) r token request = serve rn st [] r token request"
proof -
  have "validated_body rn r (lv_validators (sy_live sys)) request = validated_body rn r [] request"
  proof (cases "rt_validation_mode (lr_row r) = Declared \<and> rt_body (lr_row r) \<noteq> None")
    case True
    then have "(case map_of (lv_validators (sy_live sys)) (rt_id (lr_row r)) of Some s \<Rightarrow> s | None \<Rightarrow> the (rt_body (lr_row r)))
        = the (rt_body (lr_row r))"
      using cached_validator[OF assms] by (auto split: option.split)
    then show ?thesis using True by (simp add: validated_body_def)
  qed (auto simp: validated_body_def)
  then show ?thesis by (simp add: serve_def handle_route_def)
qed

end
