(* ===== verification/Ext_Live_Properties.thy ===== *)
theory Ext_Live_Properties
  imports Ext_Liveness Ext_Validators
begin

text \<open>
  What the management endpoints guarantee of the live routes in every reachable state of the process.
\<close>

section \<open>A sample system\<close>

lemma no_documents_object: "object_schemas no_documents"
  by (simp add: object_schemas_def no_documents_def body_schema_from_document_def)

definition start_system :: system where
  "start_system = \<lparr>sy_store = empty_ext_store sample_state,
     sy_live = \<lparr>lv_public = [PlatformRoute ''health''], lv_internal = [], lv_field = [], lv_validators = []\<rparr>, sy_inflight = []\<rparr>"

definition registered_system :: system where
  "registered_system = start_system\<lparr>sy_store := one_extension\<rparr>"

definition enabled_system :: system where
  "enabled_system = snd (enable_and_mount sample_env sample_runtime no_documents ''shop'' registered_system)"

lemma start_reachable: "system_reachable env rn docs start_system"
  unfolding start_system_def
  by (rule system_reachable.initial[OF sample_state_ok]) (simp add: platform_only_def live_routes_def List.map_filter_simps)

lemma registered_reachable: "system_reachable sample_env sample_runtime object_schemas registered_system"
proof -
  have "table_step sample_env object_schemas (empty_ext_store sample_state) one_extension"
    unfolding one_extension_def
    by (rule table_step.register[where docs = object_schemas, OF no_documents_object samples_accepted(3,1) prod.collapse[symmetric]])
  then have "table_step sample_env object_schemas (sy_store start_system) one_extension" by (simp add: start_system_def)
  then show ?thesis
    unfolding registered_system_def using start_reachable system_step.tables system_reachable.step by blast
qed

lemma enabled_reachable: "system_reachable sample_env sample_runtime object_schemas enabled_system"
  unfolding enabled_system_def
  by (rule system_reachable.step[OF registered_reachable])
    (rule system_step.enable[where docs = object_schemas, OF no_documents_object prod.collapse[symmetric]])

definition sample_live :: live_route where
  "sample_live = hd (live_routes (sy_live enabled_system))"

lemma enabled_values:
  "map (\<lambda>r. (lr_owner r, rt_path (lr_row r))) (live_routes (sy_live enabled_system)) = [(''shop'', ''/items/{item}'')]"
  "map_option xr_enabled (map_of (xs_extensions (sy_store enabled_system)) ''shop'') = Some True"
  by code_simp+

section \<open>Mounted is enabled\<close>

lemma route_dependencies_bare: "route_dependencies n (bare r) = route_dependencies n r"
  by (cases "rt_visibility r") (simp_all add: route_dependencies_def bare_def)



section \<open>Enabling\<close>



section \<open>The validator cache\<close>

text \<open>
  C26: The cache of compiled body validators is transparent: a request, to a live route or still in
  flight while its route is replaced, disabled or deregistered, is answered exactly as if the
  schema of its own route had been compiled for it alone.
\<close>

theorem validator_cache_transparent:
  assumes "system_reachable env rn docs sys" "r \<in> set (live_routes (sy_live sys)) \<union> set (sy_inflight sys)"
  shows "serve rn st (lv_validators (sy_live sys)) r token request = serve rn st [] r token request"
  using assms by (rule serve_uncached)

text \<open>A request that compiles its validator only after its extension is disabled leaves it in the cache.\<close>

definition declared_route :: route_spec where
  "declared_route = sample_route\<lparr>rs_method := POST, rs_query_params := [], rs_scoped := False,
     rs_body := Some [(''type'', JStr ''object'')]\<rparr>"

definition declared_row :: route_row where
  "declared_row = route_row_of ''shop'' 0 1 (declared_route, Declared, Some (JObj [(''type'', JStr ''object'')]))"

definition declared_registration :: registration where
  "declared_registration = sample_registration\<lparr>rg_routes := [declared_route]\<rparr>"

definition declared_store :: ext_store where
  "declared_store = snd (register_extension sample_env no_documents ''k'' declared_registration (empty_ext_store sample_state))"

lemma declared_store_value [code]:
  "declared_store = one_extension\<lparr>xs_app := sample_app\<lparr>app_iam := (app_iam sample_app)\<lparr>im_actions :=
     sql_update ''item.read'' (\<lambda>_. \<lparr>ac_description = ''i'', ac_is_global = True\<rparr>) (im_actions (app_iam sample_app))\<rparr>\<rparr>,
     xs_routes := [declared_row]\<rparr>"
  by code_simp

definition late_route :: live_route where
  "late_route = \<lparr>lr_owner = ''shop'', lr_row = declared_row, lr_upstream = HttpUpstream ''http://svc'' ''/health'' ''version'' None,
     lr_signature = [\<lparr>sg_name = ''request'', sg_source = FromRequest\<rparr>, \<lparr>sg_name = ''item'', sg_source = FromPath\<rparr>],
     lr_dependencies = route_dependencies ''shop'' declared_row\<rparr>"

definition declared_system :: system where
  "declared_system = start_system\<lparr>sy_store := declared_store\<rparr>"

definition declared_enabled :: system where
  "declared_enabled = snd (enable_and_mount sample_env sample_runtime no_documents ''shop'' declared_system)"

lemma declared_enabled_value [code]:
  "declared_enabled = \<lparr>sy_store = declared_store\<lparr>xs_extensions := [(''shop'', sample_row ''hk'' True (sample_ui ''r1'' ''x''))]\<rparr>,
     sy_live = \<lparr>lv_public = [PlatformRoute ''health'', ExtensionRoute late_route], lv_internal = [], lv_field = [],
       lv_validators = []\<rparr>, sy_inflight = []\<rparr>"
  by code_simp

definition disabled_inflight :: system where
  "disabled_inflight = snd (disable_and_unmount sample_env ''shop'' (declared_enabled\<lparr>sy_inflight := [late_route]\<rparr>))"

lemma disabled_inflight_value:
  "disabled_inflight = \<lparr>sy_store = declared_store,
     sy_live = \<lparr>lv_public = [PlatformRoute ''health''], lv_internal = [], lv_field = [], lv_validators = []\<rparr>,
     sy_inflight = [late_route]\<rparr>"
  by code_simp

definition late_system :: system where
  "late_system = disabled_inflight\<lparr>sy_live := remember_validator late_route (sy_live disabled_inflight)\<rparr>"

lemma declared_accepted:
  "is_ok (accept_registration (ev_ip6 sample_env) (ev_allowlist sample_env) declared_registration)"
  "wf_registration declared_registration"
  by code_simp+

lemma late_reachable: "system_reachable sample_env sample_runtime object_schemas late_system"
proof -
  let ?R = "system_reachable sample_env sample_runtime object_schemas"
  have "table_step sample_env object_schemas (sy_store start_system) declared_store"
    unfolding declared_store_def start_system_def system.simps
    by (rule table_step.register[where docs = object_schemas, OF no_documents_object declared_accepted(2,1) prod.collapse[symmetric]])
  then have "?R declared_system"
    unfolding declared_system_def using start_reachable system_step.tables system_reachable.step by blast
  then have one: "?R declared_enabled"
    unfolding declared_enabled_def
    by (rule system_reachable.step)
      (rule system_step.enable[where docs = object_schemas, OF no_documents_object prod.collapse[symmetric]])
  have "late_route \<in> set (live_routes (sy_live declared_enabled))"
    by (simp add: declared_enabled_value live_routes_alt)
  then have "?R (declared_enabled\<lparr>sy_inflight := late_route # sy_inflight declared_enabled\<rparr>)"
    by (rule system_reachable.step[OF one system_step.request])
  then have "?R (declared_enabled\<lparr>sy_inflight := [late_route]\<rparr>)" by (simp add: declared_enabled_value)
  then have "?R disabled_inflight"
    unfolding disabled_inflight_def
    by (rule system_reachable.step) (rule system_step.disable[OF prod.collapse[symmetric]])
  then show ?thesis
    unfolding late_system_def
    by (rule system_reachable.step) (rule system_step.validate, simp add: disabled_inflight_value)
qed

theorem validator_cache_transparent_witness:
  "lv_validators (sy_live late_system) \<noteq> [] \<and> live_routes (sy_live late_system) = [] \<and>
     serve sample_runtime declared_store (lv_validators (sy_live late_system)) late_route (Some sample_token) sample_http_request
       = serve sample_runtime declared_store [] late_route (Some sample_token) sample_http_request"
proof -
  have "late_route \<in> set (live_routes (sy_live late_system)) \<union> set (sy_inflight late_system)"
    by (simp add: late_system_def disabled_inflight_value)
  note same = validator_cache_transparent[OF late_reachable this]
  have "lv_validators (sy_live late_system) \<noteq> [] \<and> live_routes (sy_live late_system) = []"
    by (simp add: late_system_def disabled_inflight_value remember_validator_def late_route_def declared_row_def
        route_row_of_def live_routes_alt)
  then show ?thesis using same by blast
qed

section \<open>The manifest endpoints never fail on what is stored\<close>



section \<open>A schema that is no object\<close>

text \<open>
  The hypothesis on the documents is needed.  An upstream may declare the schema \<open>true\<close>, which JSON
  Schema allows; it is stored as the body of the route, and from then on the answers of the endpoints
  raise after their commit.  After a restart has mounted the extension, disabling it marks it as
  disabled and leaves its routes live.
\<close>

definition true_schema :: "string \<Rightarrow> json option" where
  "true_schema url = Some (JObj [(''paths'', JObj [(''/v1/items/{item}'', JObj [(''post'', JObj [(''requestBody'',
     JObj [(''content'', JObj [(''application/json'', JObj [(''schema'', JBool True)])])])])])])])"

definition ref_registration :: registration where
  "ref_registration = sample_registration\<lparr>rg_routes := [declared_route\<lparr>rs_body := None, rs_body_ref := True\<rparr>]\<rparr>"

definition ref_row :: route_row where
  "ref_row = route_row_of ''shop'' 0 1 (declared_route\<lparr>rs_body := None, rs_body_ref := True\<rparr>, UpstreamDeclared, Some (JBool True))"

definition ref_store :: ext_store where
  "ref_store = snd (register_extension sample_env true_schema ''k'' ref_registration (empty_ext_store sample_state))"

lemma ref_store_value [code]: "ref_store = declared_store\<lparr>xs_routes := [ref_row]\<rparr>"
  by code_simp

definition stuck_enabled :: system where
  "stuck_enabled = snd (enable_and_mount sample_env sample_runtime true_schema ''shop'' (start_system\<lparr>sy_store := ref_store\<rparr>))"

lemma stuck_enabled_value [code]:
  "stuck_enabled = start_system\<lparr>sy_store := ref_store\<lparr>xs_extensions := [(''shop'', sample_row ''hk'' True (sample_ui ''r1'' ''x''))]\<rparr>\<rparr>"
  by code_simp

definition stuck_restarted :: system where
  "stuck_restarted = (case hydrate_all_routes sample_runtime (Some true_schema) (sy_store stuck_enabled) (sy_live start_system) of
     (st, lv) \<Rightarrow> \<lparr>sy_store = st, sy_live = lv, sy_inflight = []\<rparr>)"

lemma stuck_restarted_value [code]:
  "stuck_restarted = \<lparr>sy_store = sy_store stuck_enabled,
     sy_live = \<lparr>lv_public = [PlatformRoute ''health'', ExtensionRoute (late_route\<lparr>lr_row := ref_row\<rparr>)],
       lv_internal = [], lv_field = [], lv_validators = []\<rparr>, sy_inflight = []\<rparr>"
  by code_simp

definition stuck_disabled :: system where
  "stuck_disabled = snd (disable_and_unmount sample_env ''shop'' stuck_restarted)"

lemma stuck_disabled_value:
  "stuck_disabled = stuck_restarted\<lparr>sy_store := ref_store\<rparr>"
  "\<not> is_ok (fst (disable_and_unmount sample_env ''shop'' stuck_restarted))"
  by code_simp+

lemma ref_accepted:
  "is_ok (accept_registration (ev_ip6 sample_env) (ev_allowlist sample_env) ref_registration)"
  "wf_registration ref_registration"
  by code_simp+

lemma disabled_extension_stays_mounted:
  "system_reachable sample_env sample_runtime (\<lambda>_. True) stuck_disabled \<and>
   (\<exists>r \<in> set (live_routes (sy_live stuck_disabled)). lr_owner r = ''shop'') \<and>
   map_option xr_enabled (map_of (xs_extensions (sy_store stuck_disabled)) ''shop'') = Some False"
proof (intro conjI)
  let ?R = "system_reachable sample_env sample_runtime (\<lambda>_. True)"
  have "table_step sample_env (\<lambda>_. True) (sy_store start_system) ref_store"
    unfolding ref_store_def start_system_def system.simps
    by (rule table_step.register[where docs = "\<lambda>_. True", OF _ ref_accepted(2,1) prod.collapse[symmetric]]) simp
  then have "?R (start_system\<lparr>sy_store := ref_store\<rparr>)"
    using start_reachable system_step.tables system_reachable.step by blast
  then have "?R stuck_enabled"
    unfolding stuck_enabled_def
    by (rule system_reachable.step) (rule system_step.enable[where docs = "\<lambda>_. True", OF _ prod.collapse[symmetric]], simp)
  then have "?R stuck_restarted"
    unfolding stuck_restarted_def
    by (rule system_reachable.step)
      (simp only: case_prod_unfold, rule system_step.restart[where platform = "sy_live start_system", OF _ _ prod.collapse[symmetric]],
        simp_all add: start_system_def platform_only_def live_routes_alt)
  then show "?R stuck_disabled"
    unfolding stuck_disabled_def
    by (rule system_reachable.step) (rule system_step.disable[OF prod.collapse[symmetric]])
  show "\<exists>r \<in> set (live_routes (sy_live stuck_disabled)). lr_owner r = ''shop''"
    by (simp add: stuck_disabled_value(1) stuck_restarted_value live_routes_alt late_route_def)
  show "map_option xr_enabled (map_of (xs_extensions (sy_store stuck_disabled)) ''shop'') = Some False"
    by (simp add: stuck_disabled_value(1) ref_store_value declared_store_value one_extension_value sample_row_def)
qed

end
