(* ===== verification/Py_Values.thy ===== *)
theory Py_Values
  imports Py_String
begin

text \<open>
  The built-ins of Python that the device and Smart EMS code applies to values it has just read
  from a service: \<open>str\<close> and \<open>int\<close>, subscription, \<open>get\<close>, iteration and \<open>len\<close> of a value of any type,
  with the exception each raises when the type is wrong, and \<open>sorted\<close> on strings.
\<close>

section \<open>Conversions\<close>

text \<open>\<open>str(v)\<close> of a float, a list or a dictionary is the parameter \<open>rep\<close>.\<close>

definition int_text :: "int \<Rightarrow> string" where
  "int_text i = (if i < 0 then CHR ''-'' # digits_of (nat (- i)) else digits_of (nat i))"

fun py_str :: "(json \<Rightarrow> string) \<Rightarrow> json \<Rightarrow> string" where
  "py_str rep (JStr s) = s"
| "py_str rep JNull = ''None''"
| "py_str rep (JBool b) = (if b then ''True'' else ''False'')"
| "py_str rep (JInt i) = int_text i"
| "py_str rep v = rep v"

text \<open>
  \<open>int(s)\<close>: white space around the numeral, a sign and single underscores between digits are
  allowed, and at most 4300 digits; anything else raises ValueError (here None).
\<close>

definition unsigned_int :: "string \<Rightarrow> nat option" where
  "unsigned_int s =
     (let parts = split_on CHR ''_'' s in
      if list_all (\<lambda>p. p \<noteq> [] \<and> list_all is_digit p) parts \<and> int (length (concat parts)) \<le> 4300
      then Some (nat_of_digits (concat parts)) else None)"

definition py_int :: "string \<Rightarrow> int option" where
  "py_int s = (case str_strip s of
       CHR ''-'' # r \<Rightarrow> map_option (\<lambda>n. - int n) (unsigned_int r)
     | CHR ''+'' # r \<Rightarrow> map_option int (unsigned_int r)
     | r \<Rightarrow> map_option int (unsigned_int r))"

section \<open>Values of unknown type\<close>

definition subscript :: "json \<Rightarrow> string \<Rightarrow> json res" where
  "subscript v k = (case v of
       JObj d \<Rightarrow> (case map_of d k of None \<Rightarrow> Inl (KeyError k) | Some x \<Rightarrow> Inr x)
     | _ \<Rightarrow> Inl TypeError)"

definition dict_get :: "json \<Rightarrow> string \<Rightarrow> json res" where
  "dict_get v k = (case v of JObj d \<Rightarrow> Inr (pget d k) | _ \<Rightarrow> Inl AttributeError)"

definition dict_get_or :: "json \<Rightarrow> string \<Rightarrow> json \<Rightarrow> json res" where
  "dict_get_or v k dflt = (case v of
       JObj d \<Rightarrow> Inr (case map_of d k of None \<Rightarrow> dflt | Some x \<Rightarrow> x)
     | _ \<Rightarrow> Inl AttributeError)"

fun iterate :: "json \<Rightarrow> json list res" where
  "iterate (JList l) = Inr l"
| "iterate (JObj d) = Inr (map (\<lambda>(k, _). JStr k) d)"
| "iterate (JStr s) = Inr (map (\<lambda>c. JStr [c]) s)"
| "iterate _ = Inl TypeError"

fun py_len :: "json \<Rightarrow> nat res" where
  "py_len (JList l) = Inr (length l)"
| "py_len (JObj d) = Inr (length d)"
| "py_len (JStr s) = Inr (length s)"
| "py_len _ = Inl TypeError"

text \<open>\<open>[f(x) for x in xs]\<close> with an \<open>f\<close> that may raise.\<close>

primrec mapR :: "('a \<Rightarrow> 'e + 'b) \<Rightarrow> 'a list \<Rightarrow> 'e + 'b list" where
  "mapR f [] = Inr []"
| "mapR f (x # xs) = bindR (f x) (\<lambda>y. bindR (mapR f xs) (\<lambda>ys. Inr (y # ys)))"

lemma mapR_Inr_iff [res_simps]: "mapR f xs = Inr ys \<longleftrightarrow> list_all2 (\<lambda>x y. f x = Inr y) xs ys"
proof (induction xs arbitrary: ys)
  case (Cons x xs)
  then show ?case by (cases ys) auto
qed auto

lemma mapR_pure [simp]: "mapR (\<lambda>x. Inr (f x)) xs = Inr (map f xs)"
  by (induction xs) auto

section \<open>Strings in order\<close>

text \<open>Python compares strings code point by code point; \<open>sorted\<close> of a set of strings.\<close>

fun str_le :: "string \<Rightarrow> string \<Rightarrow> bool" where
  "str_le [] t = True"
| "str_le (c # s) [] = False"
| "str_le (c # s) (d # t) = (c = d \<and> str_le s t \<or> (of_char c :: nat) < of_char d)"

lemma str_le_refl [simp]: "str_le s s"
  by (induction s) auto

lemma str_le_trans: "str_le s t \<Longrightarrow> str_le t u \<Longrightarrow> str_le s u"
proof (induction s t arbitrary: u rule: str_le.induct)
  case (3 c s d t)
  then show ?case by (cases u) auto
qed auto

lemma str_le_total: "str_le s t \<or> str_le t s"
  by (induction s t rule: str_le.induct) (auto simp: nat_neq_iff)

lemma str_le_antisym: "str_le s t \<Longrightarrow> str_le t s \<Longrightarrow> s = t"
proof (induction s t rule: str_le.induct)
  case (1 t)
  then show ?case by (cases t) auto
qed auto

text \<open>\<open>list(dict.fromkeys(xs))\<close>: the first occurrence of each element.\<close>

definition unique_first :: "'a list \<Rightarrow> 'a list" where
  "unique_first xs = rev (remdups (rev xs))"

lemma set_unique_first [simp]: "set (unique_first xs) = set xs"
  and distinct_unique_first [simp]: "distinct (unique_first xs)"
  by (simp_all add: unique_first_def)

lemma unique_first_Nil_iff [simp]: "unique_first xs = [] \<longleftrightarrow> xs = []"
  by (simp add: unique_first_def)

section \<open>Query parameters\<close>

text \<open>\<open>QueryParams.get\<close> reads the last value of a name, \<open>getlist\<close> all of them.\<close>

type_synonym query = "(string \<times> string) list"

definition last_value :: "query \<Rightarrow> string \<Rightarrow> string option" where
  "last_value q name = map_of (rev q) name"

definition all_values :: "query \<Rightarrow> string \<Rightarrow> string list" where
  "all_values q name = map snd (filter (\<lambda>(k, _). k = name) q)"

end
