(* ===== verification/Device_Listing.thy ===== *)
theory Device_Listing
  imports Device_Repo Abac Py_Values
begin

text \<open>
  Reading devices (\<open>routers/devices/routes/get_devices.py\<close>, \<open>get_devices_with_data.py\<close>,
  \<open>get_device_meta_values.py\<close> and their routes in \<open>routers/devices/router.py\<close>): the filters and the
  page a query asks for, the order of the rows, and what of the result a caller's scopes let
  through.  What PostgreSQL decides is a parameter: \<open>pg_text\<close> is \<open>->>\<close> on a value that is not a
  string, \<open>pg_le\<close> the collation of text and \<open>pg_created\<close> the creation time of a device.
\<close>

record pg_env =
  pg_text :: "json \<Rightarrow> string"
  pg_le :: "string \<Rightarrow> string \<Rightarrow> bool"
  pg_created :: "string \<Rightarrow> nat"
  pg_repr :: "json \<Rightarrow> string"

section \<open>The list of devices\<close>

text \<open>\<open>_META_DEEP_OBJECT_RE\<close>, whose \<open>$\<close> also matches before a final newline.\<close>

definition meta_key :: "string \<Rightarrow> string option" where
  "meta_key k =
     (let r = drop 5 k;
          s = (if r \<noteq> [] \<and> last r = CHR 0x0A then butlast r else r) in
      if starts_with k ''meta['' \<and> s \<noteq> [] \<and> last s = CHR '']'' \<and> CHR 0x0A \<notin> set s
      then Some (butlast s) else None)"

definition add_metadata_filter ::
  "string option dict \<Rightarrow> string \<times> string \<Rightarrow> string option dict res" where
  "add_metadata_filter metadata_filters = (\<lambda>(raw_key, raw_value).
     case meta_key raw_key of
       None \<Rightarrow> Inr metadata_filters
     | Some key \<Rightarrow>
         bindR (ensure (key \<noteq> []) (api_error ''Metadata filter key cannot be empty'' [] 400)) (\<lambda>_.
         bindR (ensure (\<not> has_key metadata_filters key)
                  (api_error ''Duplicate metadata filter for key '' [JStr key] 400)) (\<lambda>_.
         Inr (dset key (if raw_value \<noteq> [] then Some raw_value else None) metadata_filters))))"

definition extract_metadata_filters :: "query \<Rightarrow> string option dict res" where
  "extract_metadata_filters = foldR add_metadata_filter []"

text \<open>
  The snapshot cache: what the last refresh stored for each device of the hub, and the view that
  joins it to the device table.
\<close>

type_synonym snapshot = "(json \<times> json) list option"

definition joined_status :: "pg_env \<Rightarrow> snapshot \<Rightarrow> string \<Rightarrow> string option list" where
  "joined_status env snap device_id =
     (case map (\<lambda>(_, st). astext (pg_text env) st)
             (filter (\<lambda>(name, _). astext (pg_text env) name = Some device_id)
               (case snap of None \<Rightarrow> [] | Some entries \<Rightarrow> entries)) of
        [] \<Rightarrow> [None]
      | statuses \<Rightarrow> statuses)"

definition get_devices_joined_snapshot ::
  "pg_env \<Rightarrow> snapshot \<Rightarrow> catalog \<Rightarrow> (device_view \<times> string option) list" where
  "get_devices_joined_snapshot env snap db =
     concat (map (\<lambda>v. map (Pair v) (joined_status env snap (dw_device_id v))) (get_devices_metadata db))"

record device_item =
  di_device_id :: string
  di_type_id :: string
  di_status :: string
  di_metadata :: "resolved_field dict"

definition raw_values :: "resolved_field dict \<Rightarrow> json dict" where
  "raw_values = map (\<lambda>(k, rf). (k, rf_value rf))"

definition status_or_unknown :: "string option \<Rightarrow> string" where
  "status_or_unknown s = (case s of None \<Rightarrow> ''Unknown'' | Some t \<Rightarrow> if t = [] then ''Unknown'' else t)"

definition list_devices ::
  "pg_env \<Rightarrow> (json dict \<Rightarrow> bool) \<Rightarrow> query \<Rightarrow> snapshot \<Rightarrow> catalog \<Rightarrow> device_item list res" where
  "list_devices env accepts q snap db =
     bindR (extract_metadata_filters q) (\<lambda>metadata_filters.
     let matching = get_device_ids_by_metadata_filters (pg_text env) metadata_filters db in
     if metadata_filters \<noteq> [] \<and> matching = [] then Inr []
     else Inr (map (\<lambda>(v, st). \<lparr>di_device_id = dw_device_id v, di_type_id = dw_type_id v,
                               di_status = status_or_unknown st, di_metadata = dw_metadata v\<rparr>)
            (filter (\<lambda>(v, _). (metadata_filters = [] \<or> dw_device_id v \<in> set matching) \<and>
                               accepts (raw_values (dw_metadata v)))
              (get_devices_joined_snapshot env snap db))))"

definition list_devices_route ::
  "pg_env \<Rightarrow> json dict \<Rightarrow> user_lookup \<Rightarrow> query \<Rightarrow> snapshot \<Rightarrow> catalog \<Rightarrow> device_item list res" where
  "list_devices_route env auth_context users q snap db =
     bindR (abac_device_list_filter ''device.read'' auth_context users) (\<lambda>f.
     list_devices env (filter_device f) q snap db)"

section \<open>The values in use\<close>

definition add_meta_value :: "pg_env \<Rightarrow> string list dict \<Rightarrow> string \<times> json \<Rightarrow> string list dict" where
  "add_meta_value env meta_values = (\<lambda>(key, v).
     let text = str_strip (py_str (pg_repr env) v) in
     if v = JNull \<or> text = [] then meta_values
     else dset key (List.insert text (case map_of meta_values key of None \<Rightarrow> [] | Some vs \<Rightarrow> vs)) meta_values)"

definition get_device_meta_values :: "pg_env \<Rightarrow> (json dict \<Rightarrow> bool) \<Rightarrow> catalog \<Rightarrow> string list dict" where
  "get_device_meta_values env accepts db =
     map (\<lambda>(key, vs). (key, order_rows str_le vs))
       (fold (\<lambda>(_, dv) meta_values.
           if accepts (dv_data dv) then foldl (add_meta_value env) meta_values (dv_data dv) else meta_values)
         (devices db) [])"

section \<open>Devices with data\<close>

definition key_char :: "char \<Rightarrow> bool" where
  "key_char c = (is_alnum c \<or> c = CHR ''_'')"

definition valid_key :: "string \<Rightarrow> bool" where
  "valid_key k = (k \<noteq> [] \<and> list_all key_char k)"

definition fields_param :: "query \<Rightarrow> string \<Rightarrow> string list res" where
  "fields_param q name =
     bindR (check_all (\<lambda>key. ensure (valid_key key) (api_error ''Invalid {} {}'' [JStr name, JStr key] 400))
              (all_values q name)) (\<lambda>_.
     Inr (unique_first (all_values q name)))"

definition int_param :: "query \<Rightarrow> string \<Rightarrow> int \<Rightarrow> int \<Rightarrow> int option \<Rightarrow> int res" where
  "int_param q name default_value minimum maximum =
     (case last_value q name of
        None \<Rightarrow> Inr default_value
      | Some raw \<Rightarrow> (case py_int raw of
            None \<Rightarrow> Inl (api_error ''{} must be an integer'' [JStr name] 400)
          | Some v \<Rightarrow>
              if v < minimum \<or> (case maximum of None \<Rightarrow> False | Some m \<Rightarrow> m < v)
              then Inl (case maximum of
                  None \<Rightarrow> api_error ''{} must be at least {}'' [JStr name, JInt minimum] 400
                | Some m \<Rightarrow> api_error ''{} must be between {} and {}'' [JStr name, JInt minimum, JInt m] 400)
              else Inr v))"

definition device_data_prefix :: string where
  "device_data_prefix = ''device_data.''"

definition order_by_param :: "query \<Rightarrow> string res" where
  "order_by_param q =
     (let order_by = (case last_value q ''order_by'' of None \<Rightarrow> ''created_at'' | Some s \<Rightarrow> s) in
      if order_by = ''created_at'' then Inr order_by
      else if starts_with order_by device_data_prefix \<and> valid_key (drop (length device_data_prefix) order_by)
      then Inr order_by
      else Inl (api_error ''order_by must be created_at or device_data.<key>'' [] 400))"

definition descending_param :: "query \<Rightarrow> bool res" where
  "descending_param q =
     (let order = (case last_value q ''order'' of None \<Rightarrow> ''desc'' | Some s \<Rightarrow> s) in
      bindR (ensure (order \<in> {''asc'', ''desc''}) (api_error ''order must be asc or desc'' [] 400)) (\<lambda>_.
      Inr (order = ''desc'')))"

text \<open>\<open>ORDER BY <column> ASC|DESC NULLS LAST, device_id ASC\<close>.\<close>

fun nulls_last :: "('k \<Rightarrow> 'k \<Rightarrow> bool) \<Rightarrow> bool \<Rightarrow> 'k option \<Rightarrow> 'k option \<Rightarrow> bool \<Rightarrow> bool" where
  "nulls_last le desc None None tie = tie"
| "nulls_last le desc None (Some b) tie = False"
| "nulls_last le desc (Some a) None tie = True"
| "nulls_last le desc (Some a) (Some b) tie = (if a = b then tie else if desc then le b a else le a b)"

definition sort_before ::
  "pg_env \<Rightarrow> string \<Rightarrow> bool \<Rightarrow> (string \<times> device_row \<Rightarrow> string \<times> device_row \<Rightarrow> bool) res" where
  "sort_before env order_by desc =
     (let key = drop (length device_data_prefix) order_by;
          text_at = (\<lambda>dv. astext (pg_text env) (pget (dv_data dv) key)) in
      if order_by = ''created_at'' then
        Inr (\<lambda>(i, _) (j, _). nulls_last (\<le>) desc (Some (pg_created env i)) (Some (pg_created env j)) (pg_le env i j))
      else if starts_with order_by device_data_prefix \<and> key \<noteq> [] then
        Inr (\<lambda>(i, v) (j, w). nulls_last (pg_le env) desc (text_at v) (text_at w) (pg_le env i j))
      else Inl (api_error ''Unsupported order_by {}'' [JStr order_by] 400))"

text \<open>\<open>OFFSET\<close> is a 64-bit integer: the driver's error for a larger one.\<close>

definition data_error :: exn where
  "data_error = OtherError (Msg ''DataError: bigint out of range'' [])"

definition select_devices_with_data ::
  "pg_env \<Rightarrow> string list \<Rightarrow> string list \<Rightarrow> string \<Rightarrow> bool \<Rightarrow> nat option \<Rightarrow> nat \<Rightarrow> catalog \<Rightarrow>
     device_row dict res" where
  "select_devices_with_data env device_fields endpoint_fields order_by desc limit offset db =
     bindR (sort_before env order_by desc) (\<lambda>before.
     bindR (ensure (int offset < 2 ^ 63) data_error) (\<lambda>_.
     Inr (get_rows_with_data before device_fields endpoint_fields limit offset db)))"

record data_item =
  xi_device_id :: string
  xi_type_id :: string
  xi_data :: "json dict"
  xi_endpoints :: "(string \<times> endpoint_row) list"

record data_page =
  xp_total :: nat
  xp_items :: "data_item list"

definition default_page_size :: int where "default_page_size = 100"
definition max_page_size :: int where "max_page_size = 1000"

record data_query =
  dq_device_fields :: "string list"
  dq_endpoint_fields :: "string list"
  dq_order_by :: string
  dq_descending :: bool
  dq_page :: int
  dq_page_size :: int

definition data_query_of :: "query \<Rightarrow> data_query res" where
  "data_query_of q =
     bindR (fields_param q ''device_field'') (\<lambda>device_fields.
     bindR (fields_param q ''endpoint_field'') (\<lambda>endpoint_fields.
     bindR (ensure (\<not> (device_fields = [] \<and> endpoint_fields = []))
              (api_error ''At least one device_field or endpoint_field is required'' [] 400)) (\<lambda>_.
     bindR (order_by_param q) (\<lambda>order_by.
     bindR (descending_param q) (\<lambda>desc.
     bindR (int_param q ''page'' 1 1 None) (\<lambda>page.
     bindR (int_param q ''page_size'' default_page_size 1 (Some max_page_size)) (\<lambda>page_size.
     Inr \<lparr>dq_device_fields = device_fields, dq_endpoint_fields = endpoint_fields, dq_order_by = order_by,
          dq_descending = desc, dq_page = page, dq_page_size = page_size\<rparr>)))))))"

definition data_items :: "data_query \<Rightarrow> catalog \<Rightarrow> device_row dict \<Rightarrow> data_item list" where
  "data_items dq db page_devices =
     (let grouped = get_endpoints_with_fields (map fst page_devices) (dq_endpoint_fields dq) db in
      map (\<lambda>(k, dv). \<lparr>xi_device_id = k, xi_type_id = dv_type_id dv, xi_data = dv_data dv,
                      xi_endpoints = (case map_of grouped k of None \<Rightarrow> [] | Some eps \<Rightarrow> eps)\<rparr>) page_devices)"

definition get_devices_with_data ::
  "pg_env \<Rightarrow> query \<Rightarrow> bool \<Rightarrow> (json dict \<Rightarrow> bool) \<Rightarrow> catalog \<Rightarrow> data_page res" where
  "get_devices_with_data env q is_unrestricted accepts db =
     bindR (data_query_of q) (\<lambda>dq.
     let limit = nat (dq_page_size dq); offset = nat ((dq_page dq - 1) * dq_page_size dq) in
     if is_unrestricted then
       bindR (select_devices_with_data env (dq_device_fields dq) (dq_endpoint_fields dq) (dq_order_by dq)
                (dq_descending dq) (Some limit) offset db) (\<lambda>page_devices.
       Inr \<lparr>xp_total = count_devices_with_data (dq_device_fields dq) (dq_endpoint_fields dq) db,
            xp_items = data_items dq db page_devices\<rparr>)
     else
       bindR (select_devices_with_data env (dq_device_fields dq) (dq_endpoint_fields dq) (dq_order_by dq)
                (dq_descending dq) None 0 db) (\<lambda>matches.
       let visible = filter (\<lambda>(_, dv). accepts (dv_data dv)) matches in
       Inr \<lparr>xp_total = length visible, xp_items = data_items dq db (page_of (Some limit) offset visible)\<rparr>))"

definition get_devices_with_data_route ::
  "pg_env \<Rightarrow> json dict \<Rightarrow> user_lookup \<Rightarrow> query \<Rightarrow> catalog \<Rightarrow> data_page res" where
  "get_devices_with_data_route env auth_context users q db =
     bindR (abac_device_list_filter ''device.read'' auth_context users) (\<lambda>device_read.
     bindR (abac_device_list_filter ''device.endpoint.read'' auth_context users) (\<lambda>endpoint_read.
     get_devices_with_data env q (lf_is_unrestricted device_read \<and> lf_is_unrestricted endpoint_read)
       (\<lambda>meta. filter_device device_read meta \<and> filter_device endpoint_read meta) db))"

end
