(* ===== verification/Device_Listing_Properties.thy ===== *)
theory Device_Listing_Properties
  imports Device_Listing
begin

text \<open>
  What paging shows a caller with scopes: the same pages as an unrestricted caller would see in a
  database that holds only the devices within those scopes.  The one step that needs an argument
  is that filtering commutes with \<open>ORDER BY\<close>, which holds for every total preorder.
\<close>

section \<open>Sorting\<close>

locale row_order =
  fixes before :: "'a \<Rightarrow> 'a \<Rightarrow> bool"
  assumes before_trans: "before x y \<Longrightarrow> before y z \<Longrightarrow> before x z"
    and before_total: "before x y \<or> before y x"
begin

lemma set_insert_by [simp]: "set (insert_by before x ys) = insert x (set ys)"
  by (induction ys) auto

lemma sorted_insert_by: "sorted_wrt before ys \<Longrightarrow> sorted_wrt before (insert_by before x ys)"
proof (induction ys)
  case (Cons y ys)
  have "before y x" if "\<not> before x y"
    using that before_total by blast
  with Cons show ?case by (auto intro: before_trans)
qed simp

lemma sorted_order_rows: "sorted_wrt before (order_rows before rows)"
  unfolding order_rows_def by (induction rows) (auto intro: sorted_insert_by)

lemma insert_by_first: "\<forall>y \<in> set ys. before x y \<Longrightarrow> insert_by before x ys = x # ys"
  by (cases ys) auto

lemma filter_insert_by:
  "sorted_wrt before ys \<Longrightarrow>
     filter P (insert_by before x ys) = (if P x then insert_by before x (filter P ys) else filter P ys)"
proof (induction ys)
  case (Cons y ys)
  have "\<forall>z \<in> set (y # ys). before x z" if "before x y"
    using Cons.prems that by (auto intro: before_trans)
  then have "insert_by before x (filter P (y # ys)) = x # filter P (y # ys)" if "before x y"
    using that by (intro insert_by_first) auto
  with Cons show ?case by auto
qed simp

lemma filter_order_rows: "filter P (order_rows before rows) = order_rows before (filter P rows)"
  unfolding order_rows_def
proof (induction rows)
  case (Cons r rows)
  with sorted_order_rows[of rows] show ?case by (simp add: filter_insert_by order_rows_def)
qed simp

lemma length_order_rows: "length (order_rows before rows) = length rows"
proof -
  have "length (insert_by before x ys) = Suc (length ys)" for x ys
    by (induction ys) auto
  then show ?thesis unfolding order_rows_def by (induction rows) auto
qed

end

text \<open>The collation of the database is a linear order of texts.\<close>

definition linear_collation :: "(string \<Rightarrow> string \<Rightarrow> bool) \<Rightarrow> bool" where
  "linear_collation le = ((\<forall>a. le a a) \<and> (\<forall>a b c. le a b \<longrightarrow> le b c \<longrightarrow> le a c) \<and>
     (\<forall>a b. le a b \<longrightarrow> le b a \<longrightarrow> a = b) \<and> (\<forall>a b. le a b \<or> le b a))"

interpretation str_order: row_order str_le
  by unfold_locales (erule (1) str_le_trans, rule str_le_total)

lemma linear_str_le: "linear_collation str_le"
  unfolding linear_collation_def
  by (intro conjI allI impI str_le_refl str_le_total) (erule (1) str_le_trans, erule (1) str_le_antisym)

lemma nulls_last_trans:
  assumes "\<And>a b c. le a b \<Longrightarrow> le b c \<Longrightarrow> le a c" "\<And>a b. le a b \<Longrightarrow> le b a \<Longrightarrow> a = b" "t1 \<Longrightarrow> t2 \<Longrightarrow> t3"
  shows "nulls_last le desc x y t1 \<Longrightarrow> nulls_last le desc y z t2 \<Longrightarrow> nulls_last le desc x z t3"
  by (cases x; cases y; cases z; simp split: if_splits; metis assms)

lemma nulls_last_total:
  assumes "\<And>a b. le a b \<or> le b a" "t \<or> t'"
  shows "nulls_last le desc x y t \<or> nulls_last le desc y x t'"
  using assms by (cases x; cases y) auto

lemma row_order_nulls_last:
  assumes le: "\<And>a b c. le a b \<Longrightarrow> le b c \<Longrightarrow> le a c" "\<And>a b. le a b \<Longrightarrow> le b a \<Longrightarrow> a = b"
      "\<And>a b. le a b \<or> le b a"
    and tie: "\<And>r s u. tie r s \<Longrightarrow> tie s u \<Longrightarrow> tie r u" "\<And>r s. tie r s \<or> tie s r"
  shows "row_order (\<lambda>r s. nulls_last le desc (f r) (f s) (tie r s))"
proof
  fix r s u
  show "nulls_last le desc (f r) (f s) (tie r s) \<Longrightarrow> nulls_last le desc (f s) (f u) (tie s u) \<Longrightarrow>
      nulls_last le desc (f r) (f u) (tie r u)"
    by (rule nulls_last_trans[OF le(1,2) tie(1)])
  show "nulls_last le desc (f r) (f s) (tie r s) \<or> nulls_last le desc (f s) (f r) (tie s r)"
    by (rule nulls_last_total[OF le(3) tie(2)])
qed

lemma sort_before_order:
  assumes le: "linear_collation (pg_le env)" and s: "sort_before env order_by desc = Inr before"
  shows "row_order before"
proof -
  have l: "\<And>a b c. pg_le env a b \<Longrightarrow> pg_le env b c \<Longrightarrow> pg_le env a c"
    "\<And>a b. pg_le env a b \<Longrightarrow> pg_le env b a \<Longrightarrow> a = b" "\<And>a b. pg_le env a b \<or> pg_le env b a"
    using le unfolding linear_collation_def by blast+
  have created: "row_order (\<lambda>r s :: string \<times> device_row. nulls_last (\<le>) desc
      (Some (pg_created env (fst r))) (Some (pg_created env (fst s))) (pg_le env (fst r) (fst s)))"
    by (rule row_order_nulls_last[OF _ _ _ l(1) l(3)]) auto
  have texts: "row_order (\<lambda>r s :: string \<times> device_row. nulls_last (pg_le env) desc
      (g (snd r)) (g (snd s)) (pg_le env (fst r) (fst s)))" for g
    by (rule row_order_nulls_last[OF l l(1) l(3)])
  show ?thesis
    using s created texts by (auto simp: sort_before_def Let_def case_prod_beta' split: if_splits)
qed

section \<open>Scoped pages\<close>

text \<open>The database that holds only the devices a caller may see.\<close>

definition visible_part :: "(json dict \<Rightarrow> bool) \<Rightarrow> catalog \<Rightarrow> catalog" where
  "visible_part accepts db = db\<lparr>devices := filter (\<lambda>(_, dv). accepts (dv_data dv)) (devices db)\<rparr>"

lemma condition_visible_part [simp]:
  "devices_with_data_condition (visible_part accepts db) dfs efs = devices_with_data_condition db dfs efs"
  by (simp add: devices_with_data_condition_def visible_part_def fun_eq_iff)

lemma endpoints_visible_part [simp]:
  "get_endpoints_with_fields ids efs (visible_part accepts db) = get_endpoints_with_fields ids efs db"
  by (simp add: get_endpoints_with_fields_def visible_part_def)

lemma items_visible_part [simp]: "data_items dq (visible_part accepts db) rows = data_items dq db rows"
  by (simp add: data_items_def)

lemma matching_visible_part:
  "filter (devices_with_data_condition db dfs efs) (devices (visible_part accepts db)) =
     filter (\<lambda>(_, dv). accepts (dv_data dv)) (filter (devices_with_data_condition db dfs efs) (devices db))"
  by (auto simp: visible_part_def intro: filter_cong)

lemma scoped_rows:
  assumes le: "linear_collation (pg_le env)" and s: "sort_before env order_by desc = Inr before"
  shows "get_rows_with_data before dfs efs limit offset (visible_part accepts db) =
       page_of limit offset (filter (\<lambda>(_, dv). accepts (dv_data dv)) (get_rows_with_data before dfs efs None 0 db))"
    and "count_devices_with_data dfs efs (visible_part accepts db) =
       length (filter (\<lambda>(_, dv). accepts (dv_data dv)) (get_rows_with_data before dfs efs None 0 db))"
proof -
  have ord: "row_order before" using sort_before_order[OF le s] .
  note sorting = row_order.filter_order_rows[OF ord] row_order.length_order_rows[OF ord]
  show "get_rows_with_data before dfs efs limit offset (visible_part accepts db) =
       page_of limit offset (filter (\<lambda>(_, dv). accepts (dv_data dv)) (get_rows_with_data before dfs efs None 0 db))"
    by (simp add: get_rows_with_data_def matching_visible_part page_of_def sorting)
  show "count_devices_with_data dfs efs (visible_part accepts db) =
       length (filter (\<lambda>(_, dv). accepts (dv_data dv)) (get_rows_with_data before dfs efs None 0 db))"
    by (simp add: get_rows_with_data_def count_devices_with_data_def matching_visible_part page_of_def sorting)
qed

text \<open>
  C28: A caller who is restricted to scopes gets, for every query, exactly the page and the total
  that an unrestricted caller gets from a database holding only the devices within those scopes:
  the same devices in the same order with the same endpoints, so neither the page boundaries nor
  the total reveal a device out of scope.  The exception is an offset beyond 64 bits, which the
  unrestricted query cannot express.
\<close>

theorem scoped_page_is_visible_page:
  assumes "linear_collation (pg_le env)"
  shows "get_devices_with_data env q False accepts db =
           get_devices_with_data env q True accepts (visible_part accepts db) \<or>
         get_devices_with_data env q True accepts (visible_part accepts db) = Inl data_error"
proof (cases "data_query_of q")
  case (Inr dq)
  then show ?thesis
    by (cases "sort_before env (dq_order_by dq) (dq_descending dq)")
      (auto simp: get_devices_with_data_def select_devices_with_data_def scoped_rows[OF assms] Let_def
         bindR_Inl_iff ensure_Inl_iff)
qed (simp add: get_devices_with_data_def)

definition sample_pg :: pg_env where
  "sample_pg = \<lparr>pg_text = (\<lambda>_. []), pg_le = str_le, pg_created = length, pg_repr = (\<lambda>_. [])\<rparr>"

definition two_sites :: catalog where
  "two_sites = \<lparr>device_types = [(''default'', \<lparr>ty_label = ''Default'', ty_description = None,
       ty_fields = [(''site'', [(''type'', JStr ''string''), (''default'', JStr ''A'')])]\<rparr>)],
     devices = [(''d2'', \<lparr>dv_type_id = ''default'', dv_data = [(''site'', JStr ''B'')]\<rparr>),
                (''d1'', \<lparr>dv_type_id = ''default'', dv_data = [(''site'', JStr ''A'')]\<rparr>),
                (''d0'', \<lparr>dv_type_id = ''default'', dv_data = []\<rparr>)],
     endpoint_types = [], endpoints = [], service_types = [], services = []\<rparr>"

definition at_site_A :: "json dict \<Rightarrow> bool" where
  "at_site_A meta = (pget meta ''site'' = JStr ''A'')"

lemma scoped_page_sample:
  "get_devices_with_data sample_pg [(''device_field'', ''site''), (''page_size'', ''1'')] True at_site_A
     (visible_part at_site_A two_sites) =
   Inr \<lparr>xp_total = 1, xp_items = [\<lparr>xi_device_id = ''d1'', xi_type_id = ''default'',
     xi_data = [(''site'', JStr ''A'')], xi_endpoints = []\<rparr>]\<rparr>"
  by code_simp

theorem scoped_page_is_visible_page_witness:
  "get_devices_with_data sample_pg [(''device_field'', ''site''), (''page_size'', ''1'')] False at_site_A two_sites =
   Inr \<lparr>xp_total = 1, xp_items = [\<lparr>xi_device_id = ''d1'', xi_type_id = ''default'',
     xi_data = [(''site'', JStr ''A'')], xi_endpoints = []\<rparr>]\<rparr>"
  using scoped_page_is_visible_page[of sample_pg "[(''device_field'', ''site''), (''page_size'', ''1'')]" at_site_A two_sites]
  unfolding scoped_page_sample by (simp add: sample_pg_def linear_str_le)

section \<open>Which devices are listed\<close>

lemma listed_device:
  assumes "list_devices env accepts q snap db = Inr items" "item \<in> set items"
  obtains v where "v \<in> set (get_devices_metadata db)" "di_device_id item = dw_device_id v"
    "di_metadata item = dw_metadata v" "accepts (raw_values (dw_metadata v))"
  using assms by (auto simp: list_devices_def get_devices_joined_snapshot_def Let_def split: if_splits)

text \<open>
  The list applies the scopes to the resolved values, in which a field without a value holds the
  default of its type, while the check of one device applies them to the stored values: a device
  can be listed to a caller who may not read it.
\<close>

lemma default_widens_listing:
  "list_devices sample_pg at_site_A [(''meta[site]'', [])] None two_sites = Inr
     [\<lparr>di_device_id = ''d1'', di_type_id = ''default'', di_status = ''Unknown'',
       di_metadata = [(''site'', \<lparr>rf_value = JStr ''A'',
         rf_field = Some [(''type'', JStr ''string''), (''default'', JStr ''A'')]\<rparr>)]\<rparr>]"
  "map_sum id (map di_device_id) (list_devices sample_pg at_site_A [] None two_sites) = Inr [''d1'', ''d0'']"
  "map_option at_site_A (get_device_meta_raw ''d0'' two_sites) = Some False"
  by code_simp+

end
