(* ===== verification/Remote.thy ===== *)
theory Remote
  imports Device_Listing Iothub_Id
begin

text \<open>
  Operations that call other services (\<open>async_requests.py\<close>): a step of such an operation reads and
  updates the world, which is the database and the log of every request sent so far, and returns
  a value or raises; what was done before an exception stays done.  A service is the function
  \<open>rm_answer\<close> from the requests it has seen and the next one to its answer, None when the request
  fails; so a service may keep any state of its own.
\<close>

section \<open>Requests and the world\<close>

datatype http_verb = HttpGet | HttpPost | HttpPut | HttpPatch | HttpDelete

record http_call =
  hc_verb :: http_verb
  hc_url :: string
  hc_headers :: "string dict"
  hc_body :: json

record http_answer =
  ha_status :: nat
  ha_text :: string
  ha_json :: "json option"
  ha_headers :: "string dict"

text \<open>What the class \<open>SmartEMS\<close> keeps between calls.\<close>

record sems_session =
  ss_token :: json
  ss_refresh_token :: json
  ss_init_done :: bool

record world =
  wd_calls :: "http_call list"
  wd_sems :: sems_session
  wd_db :: catalog
  wd_snapshot :: snapshot
  wd_vars :: "string dict"

text \<open>
  The configuration and the libraries: \<open>rm_loads\<close> is \<open>json.loads\<close>, \<open>rm_yaml\<close> is \<open>yaml.safe_load\<close>,
  \<open>rm_days\<close> the whole days and \<open>rm_seconds\<close> the seconds since an ISO time stamp (None when it does
  not parse), \<open>rm_identity\<close> the token of the workload identity.
\<close>

record remote =
  rm_answer :: "http_call list \<Rightarrow> http_call \<Rightarrow> http_answer option"
  rm_hub :: string
  rm_sems :: string
  rm_sems_user :: json
  rm_sems_password :: json
  rm_sas :: "string option"
  rm_identity :: "string option"
  rm_template :: string
  rm_repr :: "json \<Rightarrow> string"
  rm_loads :: "string \<Rightarrow> json option"
  rm_yaml :: "string \<Rightarrow> json option"
  rm_days :: "string \<Rightarrow> int option"
  rm_seconds :: "string \<Rightarrow> int option"

section \<open>Steps\<close>

text \<open>None is the result of a step that never returns: the hub can send page after page.\<close>

type_synonym 'a act = "world \<Rightarrow> ('a res \<times> world) option"

definition returnA :: "'a \<Rightarrow> 'a act" where
  "returnA x w = Some (Inr x, w)"

definition raiseA :: "exn \<Rightarrow> 'a act" where
  "raiseA e w = Some (Inl e, w)"

definition liftA :: "'a res \<Rightarrow> 'a act" where
  "liftA r w = Some (r, w)"

definition readA :: "(world \<Rightarrow> 'a) \<Rightarrow> 'a act" where
  "readA f w = Some (Inr (f w), w)"

definition bindA :: "'a act \<Rightarrow> ('a \<Rightarrow> 'b act) \<Rightarrow> 'b act" where
  "bindA m f w = (case m w of None \<Rightarrow> None | Some (Inl e, w') \<Rightarrow> Some (Inl e, w') | Some (Inr x, w') \<Rightarrow> f x w')"

definition ensureA :: "bool \<Rightarrow> exn \<Rightarrow> unit act" where
  "ensureA b e = liftA (ensure b e)"

text \<open>\<open>try: m except Exception as e: h(e)\<close>.\<close>

definition catchA :: "'a act \<Rightarrow> (exn \<Rightarrow> 'a act) \<Rightarrow> 'a act" where
  "catchA m h w = (case m w of None \<Rightarrow> None | Some (Inl e, w') \<Rightarrow> h e w' | Some (Inr x, w') \<Rightarrow> Some (Inr x, w'))"

text \<open>A repository operation either commits or leaves the database as it is.\<close>

definition dbA :: "(catalog \<Rightarrow> ('a \<times> catalog) res) \<Rightarrow> 'a act" where
  "dbA f w = Some (case f (wd_db w) of Inl e \<Rightarrow> (Inl e, w) | Inr (x, db') \<Rightarrow> (Inr x, w\<lparr>wd_db := db'\<rparr>))"

primrec foldA :: "('s \<Rightarrow> 'a \<Rightarrow> 's act) \<Rightarrow> 's \<Rightarrow> 'a list \<Rightarrow> 's act" where
  "foldA f s [] = returnA s"
| "foldA f s (x # xs) = bindA (f s x) (\<lambda>s'. foldA f s' xs)"

definition send :: "remote \<Rightarrow> http_call \<Rightarrow> http_answer act" where
  "send env c w =
     (let w' = w\<lparr>wd_calls := wd_calls w @ [c]\<rparr> in
      case rm_answer env (wd_calls w) c of
        None \<Rightarrow> Some (Inl (OtherError (Msg ''RequestError'' [])), w')
      | Some a \<Rightarrow> Some (Inr a, w'))"

definition get_async :: "remote \<Rightarrow> string \<Rightarrow> string dict \<Rightarrow> http_answer act" where
  "get_async env url headers =
     send env \<lparr>hc_verb = HttpGet, hc_url = url, hc_headers = headers, hc_body = JNull\<rparr>"

definition post_async :: "remote \<Rightarrow> string \<Rightarrow> json \<Rightarrow> string dict \<Rightarrow> http_answer act" where
  "post_async env url body headers =
     send env \<lparr>hc_verb = HttpPost, hc_url = url, hc_headers = headers, hc_body = body\<rparr>"

definition put_async :: "remote \<Rightarrow> string \<Rightarrow> json \<Rightarrow> string dict \<Rightarrow> http_answer act" where
  "put_async env url body headers =
     send env \<lparr>hc_verb = HttpPut, hc_url = url, hc_headers = headers, hc_body = body\<rparr>"

definition patch_async :: "remote \<Rightarrow> string \<Rightarrow> json \<Rightarrow> string dict \<Rightarrow> http_answer act" where
  "patch_async env url body headers =
     send env \<lparr>hc_verb = HttpPatch, hc_url = url, hc_headers = headers, hc_body = body\<rparr>"

definition delete_async :: "remote \<Rightarrow> string \<Rightarrow> string dict \<Rightarrow> http_answer act" where
  "delete_async env url headers =
     send env \<lparr>hc_verb = HttpDelete, hc_url = url, hc_headers = headers, hc_body = JNull\<rparr>"

definition answer_json :: "http_answer \<Rightarrow> json res" where
  "answer_json a = (case ha_json a of
       None \<Rightarrow> Inl (ValueError (Msg ''Expecting value'' [])) | Some v \<Rightarrow> Inr v)"

definition backend_failure :: "string \<Rightarrow> http_answer \<Rightarrow> exn" where
  "backend_failure t a = Api IoTBackendAPIError (Msg t [JStr (ha_text a)]) (ha_status a)"

definition get_iothub_auth_headers :: "remote \<Rightarrow> string dict res" where
  "get_iothub_auth_headers env =
     (if truthy_str (rm_sas env) then Inr [(''Authorization'', the (rm_sas env))]
      else case rm_identity env of
        Some token \<Rightarrow> Inr [(''Authorization'', ''Bearer '' @ token)]
      | None \<Rightarrow> Inl (Api IoTBackendAPIError (Msg ''No valid authentication method for IoT Hub.'' []) 500))"

section \<open>Rules\<close>

named_theorems act_simps \<open>the result of one step\<close>

lemma returnA_simps [act_simps, simp]:
  "returnA x w = Some (Inr x, w)" "raiseA e w = Some (Inl e, w)" "liftA r w = Some (r, w)"
  "readA f w = Some (Inr (f w), w)" "ensureA b e w = Some (ensure b e, w)"
  by (simp_all add: returnA_def raiseA_def liftA_def readA_def ensureA_def)

lemma bindA_return [act_simps, simp]: "bindA (returnA x) f w = f x w" "bindA (raiseA e) f w = Some (Inl e, w)"
  "bindA (liftA (Inr x)) f w = f x w" "bindA (liftA (Inl e)) f w = Some (Inl e, w)" "bindA (readA g) f w = f (g w) w"
  "bindA (ensureA b e) k w = (if b then k () w else Some (Inl e, w))"
  by (simp_all add: bindA_def)

lemma bindA_Inr_iff [act_simps, res_simps]:
  "bindA m f w = Some (Inr y, w') \<longleftrightarrow> (\<exists>x v. m w = Some (Inr x, v) \<and> f x v = Some (Inr y, w'))"
  by (auto simp: bindA_def split: prod.splits sum.splits option.splits)

lemma bindA_Inl_iff: "bindA m f w = Some (Inl e, w') \<longleftrightarrow>
    m w = Some (Inl e, w') \<or> (\<exists>x v. m w = Some (Inr x, v) \<and> f x v = Some (Inl e, w'))"
  by (auto simp: bindA_def split: prod.splits sum.splits option.splits)

lemma bindA_Some_iff: "bindA m f w = Some r \<longleftrightarrow>
    (\<exists>e v. m w = Some (Inl e, v) \<and> r = (Inl e, v)) \<or> (\<exists>x v. m w = Some (Inr x, v) \<and> f x v = Some r)"
  by (auto simp: bindA_def split: prod.splits sum.splits option.splits)

lemma catchA_Some_iff: "catchA m h w = Some r \<longleftrightarrow>
    (\<exists>x v. m w = Some (Inr x, v) \<and> r = (Inr x, v)) \<or> (\<exists>e v. m w = Some (Inl e, v) \<and> h e v = Some r)"
  by (auto simp: catchA_def split: prod.splits sum.splits option.splits)

text \<open>
  A relation between the worlds before and after that every step of an operation satisfies, and
  that composes, holds for the operation.  The ones used below: what is stored does not change,
  and the log of requests only grows.
\<close>

definition stepwise :: "(world \<Rightarrow> world \<Rightarrow> bool) \<Rightarrow> 'a act \<Rightarrow> bool" where
  "stepwise R m = (\<forall>w r w'. m w = Some (r, w') \<longrightarrow> R w w')"

lemma stepwiseD: "stepwise R m \<Longrightarrow> m w = Some (r, w') \<Longrightarrow> R w w'"
  unfolding stepwise_def by blast

locale world_relation =
  fixes R :: "world \<Rightarrow> world \<Rightarrow> bool"
  assumes R_refl [simp, intro]: "R w w"
    and R_trans: "R u v \<Longrightarrow> R v w \<Longrightarrow> R u w"
begin

lemma sw_return [intro!]: "stepwise R (returnA x)" "stepwise R (raiseA e)" "stepwise R (liftA r)" "stepwise R (readA f)"
  "stepwise R (ensureA b e)"
  by (simp_all add: stepwise_def)

lemma sw_bind [intro!]: "stepwise R m \<Longrightarrow> (\<And>x. stepwise R (f x)) \<Longrightarrow> stepwise R (bindA m f)"
  unfolding stepwise_def bindA_Some_iff by (blast intro: R_trans)

lemma sw_catch [intro!]: "stepwise R m \<Longrightarrow> (\<And>e. stepwise R (h e)) \<Longrightarrow> stepwise R (catchA m h)"
  unfolding stepwise_def catchA_Some_iff by (blast intro: R_trans)

lemma sw_fold [intro!]: "(\<And>s x. stepwise R (f s x)) \<Longrightarrow> stepwise R (foldA f s xs)"
  by (induction xs arbitrary: s) auto

lemma sw_if [intro!]: "(b \<Longrightarrow> stepwise R m) \<Longrightarrow> (\<not> b \<Longrightarrow> stepwise R m') \<Longrightarrow> stepwise R (if b then m else m')"
  by simp

lemma sw_option [intro!]: "stepwise R m \<Longrightarrow> (\<And>x. stepwise R (f x)) \<Longrightarrow>
    stepwise R (case v of None \<Rightarrow> m | Some x \<Rightarrow> f x)"
  by (cases v) simp_all

lemma sw_json [intro!]:
  "stepwise R a \<Longrightarrow> (\<And>x. stepwise R (b x)) \<Longrightarrow> (\<And>x. stepwise R (c x)) \<Longrightarrow> (\<And>x. stepwise R (d x)) \<Longrightarrow>
    (\<And>x. stepwise R (f x)) \<Longrightarrow> (\<And>x. stepwise R (g x)) \<Longrightarrow> (\<And>x. stepwise R (h x)) \<Longrightarrow>
    stepwise R (case v of JNull \<Rightarrow> a | JBool x \<Rightarrow> b x | JInt x \<Rightarrow> c x | JFloat x \<Rightarrow> d x | JStr x \<Rightarrow> f x
      | JList x \<Rightarrow> g x | JObj x \<Rightarrow> h x)"
  by (cases v) simp_all

lemma sw_prod [intro!]: "(\<And>x y. stepwise R (f x y)) \<Longrightarrow> stepwise R (case p of (x, y) \<Rightarrow> f x y)"
  by (cases p) simp

end

text \<open>The stored data: the catalogue, the snapshot and the template variables.\<close>

definition same_store :: "world \<Rightarrow> world \<Rightarrow> bool" where
  "same_store w w' = (wd_db w' = wd_db w \<and> wd_snapshot w' = wd_snapshot w \<and> wd_vars w' = wd_vars w)"

definition log_grows :: "world \<Rightarrow> world \<Rightarrow> bool" where
  "log_grows w w' = (\<exists>cs. wd_calls w' = wd_calls w @ cs)"

definition calls_only :: "(http_call \<Rightarrow> bool) \<Rightarrow> world \<Rightarrow> world \<Rightarrow> bool" where
  "calls_only P w w' = (\<exists>cs. wd_calls w' = wd_calls w @ cs \<and> list_all P cs)"

interpretation store: world_relation same_store
  by unfold_locales (auto simp: same_store_def)

interpretation grows: world_relation log_grows
  by unfold_locales (auto simp: log_grows_def)

interpretation only: world_relation "calls_only P" for P
  by unfold_locales (fastforce simp: calls_only_def)+

lemma send_result:
  "send env c w = Some (r, w') \<longleftrightarrow> w' = w\<lparr>wd_calls := wd_calls w @ [c]\<rparr> \<and>
     r = (case rm_answer env (wd_calls w) c of None \<Rightarrow> Inl (OtherError (Msg ''RequestError'' [])) | Some a \<Rightarrow> Inr a)"
  by (auto simp: send_def Let_def split: option.splits)

lemma store_send [intro]: "stepwise same_store (send env c)"
  by (simp add: stepwise_def same_store_def send_result)

lemma grows_send [intro]: "stepwise log_grows (send env c)"
  by (auto simp: stepwise_def log_grows_def send_result)

lemma only_send [intro]: "P c \<Longrightarrow> stepwise (calls_only P) (send env c)"
  by (auto simp: stepwise_def calls_only_def send_result)

lemma store_calls [intro!]:
  "stepwise same_store (get_async env url hs)" "stepwise same_store (post_async env url b hs)"
  "stepwise same_store (put_async env url b hs)" "stepwise same_store (patch_async env url b hs)"
  "stepwise same_store (delete_async env url hs)"
  by (auto simp: get_async_def post_async_def put_async_def patch_async_def delete_async_def)

lemma grows_calls [intro!]:
  "stepwise log_grows (get_async env url hs)" "stepwise log_grows (post_async env url b hs)"
  "stepwise log_grows (put_async env url b hs)" "stepwise log_grows (patch_async env url b hs)"
  "stepwise log_grows (delete_async env url hs)"
  by (auto simp: get_async_def post_async_def put_async_def patch_async_def delete_async_def)

lemma log_grows_dbA [intro]: "stepwise log_grows (dbA f)"
  by (auto simp: stepwise_def dbA_def log_grows_def split: sum.splits prod.splits)

end
