(* ===== verification/Sems.thy ===== *)
theory Sems
  imports Remote
begin

text \<open>
  The client of Smart EMS (\<open>smart_ems.py\<close>): its session, the device and template lookups, the
  device updates, the secrets and the batch variables, and the functions that read what Smart EMS
  answers.  Every request carries the token of the session; an answer whose status is not the
  expected one raises \<open>SEMSError\<close> with that status.
\<close>

section \<open>Requests\<close>

abbreviation sems_error :: "string \<Rightarrow> json list \<Rightarrow> nat \<Rightarrow> exn" where
  "sems_error t args status \<equiv> Api SEMSError (Msg t args) status"

definition sems_error_message :: string where
  "sems_error_message = ''Error during SmartEMS communication''"

definition device_not_found_message :: string where
  "device_not_found_message = ''Device not found''"

definition fmt :: "remote \<Rightarrow> json \<Rightarrow> string" where
  "fmt env v = py_str (rm_repr env) v"

definition sems_headers :: "remote \<Rightarrow> world \<Rightarrow> string dict" where
  "sems_headers env w = [(''Authorization'', ''Bearer '' @ fmt env (ss_token (wd_sems w)))]"

definition sems_post :: "remote \<Rightarrow> string \<Rightarrow> json \<Rightarrow> http_answer act" where
  "sems_post env path body =
     bindA (readA (sems_headers env)) (\<lambda>headers. post_async env (rm_sems env @ path) body headers)"

definition sems_get :: "remote \<Rightarrow> string \<Rightarrow> http_answer act" where
  "sems_get env path = bindA (readA (sems_headers env)) (\<lambda>headers. get_async env (rm_sems env @ path) headers)"

definition sems_delete :: "remote \<Rightarrow> string \<Rightarrow> http_answer act" where
  "sems_delete env path = bindA (readA (sems_headers env)) (\<lambda>headers. delete_async env (rm_sems env @ path) headers)"

definition filter_by :: "string \<Rightarrow> string \<Rightarrow> json \<Rightarrow> json" where
  "filter_by name kind v =
     JObj [(''filterBy'', JStr name), (''filterType'', JStr kind), (''filterValue'', v)]"

definition sort_by :: "string \<Rightarrow> string \<Rightarrow> json" where
  "sort_by field direction = JObj [(''field'', JStr field), (''direction'', JStr direction)]"

definition answer_get :: "http_answer \<Rightarrow> string \<Rightarrow> json res" where
  "answer_get a key = bindR (answer_json a) (\<lambda>v. dict_get v key)"

text \<open>\<open>int(v)\<close> of a JSON value.\<close>

fun json_int :: "json \<Rightarrow> int res" where
  "json_int (JInt i) = Inr i"
| "json_int (JBool b) = Inr (if b then 1 else 0)"
| "json_int (JFloat q) = Inr (if q < 0 then - \<lfloor>- q\<rfloor> else \<lfloor>q\<rfloor>)"
| "json_int (JStr s) = (case py_int s of None \<Rightarrow> Inl (ValueError (Msg ''invalid literal for int()'' [])) | Some i \<Rightarrow> Inr i)"
| "json_int _ = Inl TypeError"

text \<open>\<open>v[0]\<close>.\<close>

fun first_of :: "json \<Rightarrow> json res" where
  "first_of (JList (x # _)) = Inr x"
| "first_of (JStr (c # _)) = Inr (JStr [c])"
| "first_of (JList []) = Inl (OtherError (Msg ''IndexError'' []))"
| "first_of (JStr []) = Inl (OtherError (Msg ''IndexError'' []))"
| "first_of (JObj _) = Inl (KeyError ''0'')"
| "first_of _ = Inl TypeError"

section \<open>The session\<close>

definition set_session :: "(sems_session \<Rightarrow> sems_session) \<Rightarrow> unit act" where
  "set_session f w = Some (Inr (), w\<lparr>wd_sems := f (wd_sems w)\<rparr>)"

text \<open>
  \<open>init\<close>: an exception of the login, or a login without a token, leaves the session as it was with
  \<open>init_done\<close> cleared.
\<close>

definition init_session :: "remote \<Rightarrow> unit act" where
  "init_session env =
     bindA (catchA
       (bindA (post_async env (rm_sems env @ ''/web/api/authentication/login_check'')
                 (JObj [(''username'', rm_sems_user env), (''password'', rm_sems_password env)]) []) (\<lambda>a.
        bindA (liftA (answer_get a ''token'')) (\<lambda>token. returnA (token, Some a))))
       (\<lambda>_. returnA (JNull, None))) (\<lambda>(token, answer).
     if token \<noteq> JNull then
       bindA (set_session (\<lambda>s. s\<lparr>ss_token := token\<rparr>)) (\<lambda>_.
       bindA (liftA (answer_get (the answer) ''refreshToken'')) (\<lambda>refresh.
       set_session (\<lambda>s. s\<lparr>ss_refresh_token := refresh, ss_init_done := True\<rparr>)))
     else set_session (\<lambda>s. s\<lparr>ss_init_done := False\<rparr>))"

definition refresh_session :: "remote \<Rightarrow> unit act" where
  "refresh_session env =
     bindA (readA (\<lambda>w. ss_refresh_token (wd_sems w))) (\<lambda>refresh_token.
     bindA (post_async env (rm_sems env @ ''/web/api/authentication/token/refresh'')
              (JObj [(''refreshToken'', refresh_token)]) []) (\<lambda>a.
     if ha_status a = 200 then
       bindA (liftA (answer_get a ''token'')) (\<lambda>token.
       bindA (set_session (\<lambda>s. s\<lparr>ss_token := token\<rparr>)) (\<lambda>_.
       bindA (liftA (answer_get a ''refreshToken'')) (\<lambda>refresh.
       set_session (\<lambda>s. s\<lparr>ss_refresh_token := refresh\<rparr>))))
     else
       bindA (set_session (\<lambda>s. s\<lparr>ss_init_done := False\<rparr>)) (\<lambda>_. init_session env)))"

text \<open>One round of the background task \<open>init_smart_ems\<close>, which logs an exception and goes on.\<close>

definition session_round :: "remote \<Rightarrow> unit act" where
  "session_round env =
     catchA (bindA (readA (\<lambda>w. ss_init_done (wd_sems w))) (\<lambda>done.
               if done then refresh_session env else init_session env))
       (\<lambda>_. returnA ())"

section \<open>Devices\<close>

text \<open>\<open>DEVICE_SERIAL_NUMBER_PATTERN\<close>: optional prefixes in either case, then the digits.\<close>

definition drop_prefix :: "string \<Rightarrow> string \<Rightarrow> string" where
  "drop_prefix p s = (if starts_with (str_lower s) p then drop (length p) s else s)"

definition serial_number :: "string \<Rightarrow> string option" where
  "serial_number device =
     (let r = drop_prefix ''e'' (drop_prefix ''fht-'' (drop_prefix ''eg-'' device));
          digits = (if r \<noteq> [] \<and> last r = CHR 0x0A then butlast r else r) in
      if digits \<noteq> [] \<and> list_all is_digit digits then Some digits else None)"

definition validate_and_extract_serial_number :: "string \<Rightarrow> string res" where
  "validate_and_extract_serial_number device =
     (case serial_number device of
        None \<Rightarrow> Inl (api_error ''device id: {} does not follow proper convention for smart ems'' [JStr device] 400)
      | Some s \<Rightarrow> Inr s)"

definition check_if_template_is_available :: "json \<Rightarrow> unit res" where
  "check_if_template_is_available dev_info =
     bindR (dict_get dev_info ''template'') (\<lambda>template.
     bindR (dict_get dev_info ''serialNumber'') (\<lambda>serial.
     ensure (template \<noteq> JNull) (sems_error ''no template assigned to device: {}'' [serial] 400)))"

primrec first_edge_gateway :: "bool \<Rightarrow> json list \<Rightarrow> json option res" where
  "first_edge_gateway require_template [] = Inr None"
| "first_edge_gateway require_template (device_info # results) =
     bindR (subscript device_info ''deviceType'') (\<lambda>device_type.
     bindR (subscript device_type ''name'') (\<lambda>name.
     if name = JStr ''Edge gateway with VPN Container Client'' then
       bindR (if require_template then check_if_template_is_available device_info else Inr ()) (\<lambda>_.
       Inr (Some device_info))
     else if name = JStr ''Edge gateway'' then Inr (Some device_info)
     else first_edge_gateway require_template results))"

definition select_device_from_results :: "json \<Rightarrow> string \<Rightarrow> bool \<Rightarrow> json option res" where
  "select_device_from_results results serial require_template =
     bindR (py_len results) (\<lambda>n.
     if n \<in> {1, 2} then
       bindR (iterate results) (\<lambda>infos.
       bindR (first_edge_gateway require_template infos) (\<lambda>found.
       case found of
         Some device_info \<Rightarrow> Inr (Some device_info)
       | None \<Rightarrow> Inl (sems_error ''uncertain conditions for device {}'' [JStr serial] 400)))
     else Inr None)"

definition get_device_by_serial :: "remote \<Rightarrow> string \<Rightarrow> bool \<Rightarrow> json option act" where
  "get_device_by_serial env device require_template =
     bindA (liftA (validate_and_extract_serial_number device)) (\<lambda>serial.
     bindA (sems_post env ''/web/api/device/list'' (JObj
         [(''page'', JInt 1), (''rowsPerPage'', JInt 10), (''sorting'', JList [sort_by ''createdAt'' ''desc'']),
          (''filters'', JObj [(''serialNumber'', filter_by ''serialNumber'' ''equal'' (JStr serial)),
             (''deviceType'', filter_by ''deviceType'' ''equalMultiple'' (JList [JInt 9, JInt 10]))])])) (\<lambda>a.
     bindA (ensureA (ha_status a = 200) (sems_error sems_error_message [] (ha_status a))) (\<lambda>_.
     bindA (liftA (answer_get a ''results'')) (\<lambda>results.
     liftA (select_device_from_results results serial require_template)))))"

subsection \<open>Pages\<close>

text \<open>\<open>get_paginated_results\<close>: the first page tells the number of rows; the pages after it follow.\<close>

definition page_body :: "json dict \<Rightarrow> int \<Rightarrow> int \<Rightarrow> json" where
  "page_body request_body page rows_per_page =
     JObj (dset ''rowsPerPage'' (JInt rows_per_page) (dset ''page'' (JInt page) request_body))"

definition results_page :: "remote \<Rightarrow> string \<Rightarrow> json dict \<Rightarrow> int \<Rightarrow> int \<Rightarrow> (json list \<times> http_answer) act" where
  "results_page env path request_body rows_per_page page =
     bindA (sems_post env path (page_body request_body page rows_per_page)) (\<lambda>a.
     bindA (ensureA (ha_status a = 200) (sems_error sems_error_message [] (ha_status a))) (\<lambda>_.
     bindA (liftA (answer_get a ''results'')) (\<lambda>results.
     bindA (liftA (iterate results)) (\<lambda>rows. returnA (rows, a)))))"

definition total_pages :: "int \<Rightarrow> int \<Rightarrow> int" where
  "total_pages row_count rows_per_page = row_count div rows_per_page + 1"

definition get_paginated_results :: "remote \<Rightarrow> string \<Rightarrow> json dict \<Rightarrow> int \<Rightarrow> json list act" where
  "get_paginated_results env path request_body rows_per_page =
     bindA (results_page env path request_body rows_per_page 1) (\<lambda>(first_rows, a).
     bindA (liftA (answer_get a ''rowCount'')) (\<lambda>row_count.
     bindA (liftA (json_int row_count)) (\<lambda>n.
     if n \<le> rows_per_page then returnA first_rows
     else foldA (\<lambda>rows page. bindA (results_page env path request_body rows_per_page page) (\<lambda>(page_rows, _).
              returnA (rows @ page_rows)))
            first_rows [2..total_pages n rows_per_page])))"

definition get_device_list :: "remote \<Rightarrow> json list act" where
  "get_device_list env = get_paginated_results env ''/web/api/device/list''
     [(''sorting'', JList [sort_by ''createdAt'' ''desc'']),
      (''filters'', JObj [(''deviceType'',
         filter_by ''deviceType'' ''equalMultiple'' (JList [JInt 8, JInt 9, JInt 10]))])] 300"

definition get_vpn_client_by_serial :: "remote \<Rightarrow> string \<Rightarrow> json act" where
  "get_vpn_client_by_serial env device =
     bindA (liftA (validate_and_extract_serial_number device)) (\<lambda>serial.
     bindA (sems_post env ''/web/api/device/list'' (JObj
         [(''page'', JInt 1), (''rowsPerPage'', JInt 10), (''sorting'', JList [sort_by ''createdAt'' ''desc'']),
          (''filters'', JObj [(''deviceType'', filter_by ''deviceType'' ''equalMultiple'' (JList [JInt 8])),
             (''name'', filter_by ''name'' ''like'' (JStr serial))])])) (\<lambda>a.
     bindA (ensureA (ha_status a = 200) (sems_error sems_error_message [] (ha_status a))) (\<lambda>_.
     bindA (liftA (answer_get a ''results'')) (\<lambda>results.
     bindA (liftA (py_len results)) (\<lambda>n.
     if n = 1 then liftA (first_of results)
     else raiseA (sems_error ''device filter for <{}> matches {} devices'' [JStr serial, JInt (int n)] 400))))))"

subsection \<open>Firmware\<close>

definition command_status :: "json \<Rightarrow> json res" where
  "command_status cmd =
     bindR (subscript cmd ''commandName'') (\<lambda>name.
     bindR (subscript cmd ''commandStatus'') (\<lambda>status.
     bindR (subscript cmd ''createdAt'') (\<lambda>created.
     bindR (subscript cmd ''updatedAt'') (\<lambda>updated.
     Inr (JObj [(''cmdName'', name), (''status'', status), (''created'', created), (''updated'', updated)])))))"

definition production_template_name :: "json \<Rightarrow> json res" where
  "production_template_name template =
     (if template = JNull then Inr (JStr ''not assigned'') else dict_get template ''representation'')"

definition get_firmware_update_status :: "remote \<Rightarrow> string \<Rightarrow> json act" where
  "get_firmware_update_status env serial =
     bindA (get_device_by_serial env serial True) (\<lambda>found.
     bindA (ensureA (found \<noteq> None) (sems_error device_not_found_message [] 500)) (\<lambda>_.
     let device_info = the found in
     bindA (liftA (bindR (subscript device_info ''template'') (\<lambda>t. dict_get t ''productionTemplate''))) (\<lambda>template.
     bindA (liftA (production_template_name template)) (\<lambda>template_name.
     bindA (liftA (subscript device_info ''id'')) (\<lambda>device_id.
     bindA (liftA (dict_get_or device_info ''firmwareVersion1'' (JStr ''unknown''))) (\<lambda>firmware_version.
     bindA (liftA (subscript device_info ''reinstallFirmware1'')) (\<lambda>firmware_scheduled.
     bindA (liftA (subscript device_info ''reinstallConfig1'')) (\<lambda>config_scheduled.
     bindA (liftA (subscript device_info ''enabled'')) (\<lambda>enabled.
     bindA (liftA (dict_get_or device_info ''seenAt'' (JStr ''never seen''))) (\<lambda>last_seen.
     bindA (liftA (dict_get_or device_info ''hardwareVersion'' (JStr ''unknown''))) (\<lambda>hardware_version.
     bindA (sems_post env ''/web/api/devicecommand/list'' (JObj
         [(''page'', JInt 1), (''rowsPerPage'', JInt 10),
          (''sorting'', JList [sort_by ''createdAt'' ''desc'', sort_by ''id'' ''desc'']),
          (''filters'', JObj [(''device'', filter_by ''device'' ''equal'' device_id)])])) (\<lambda>a.
     bindA (ensureA (ha_status a = 200) (sems_error sems_error_message [] (ha_status a))) (\<lambda>_.
     bindA (liftA (answer_get a ''results'')) (\<lambda>results.
     bindA (liftA (bindR (iterate results) (mapR command_status))) (\<lambda>commands.
     returnA (JObj
       [(''deviceFirmwareVersion'', firmware_version), (''deviceEnabled'', enabled), (''deviceTemplate'', template_name),
        (''deviceLastSeen'', last_seen), (''deviceHardwareVersion'', hardware_version),
        (''firmwareUpdateScheduled'', firmware_scheduled), (''configUpdateScheduled'', config_scheduled),
        (''edgeCommandStatus'', JList commands)]))))))))))))))))"

text \<open>\<open>FIRMWARE_VERSION_PATTERN\<close> on the stripped text; every failure to read it gives False.\<close>

definition firmware_version_at_least :: "json \<Rightarrow> nat \<Rightarrow> nat \<Rightarrow> bool" where
  "firmware_version_at_least firmware min_major min_minor =
     (case firmware of
        JStr s \<Rightarrow>
          (let t = str_strip s;
               major = takeWhile is_digit t;
               rest = dropWhile is_digit t;
               minor = takeWhile is_digit (tl rest) in
           s \<noteq> [] \<and> s \<noteq> ''unknown'' \<and> major \<noteq> [] \<and> rest \<noteq> [] \<and> hd rest = CHR ''.'' \<and> minor \<noteq> [] \<and>
           int (length major) \<le> 4300 \<and> int (length minor) \<le> 4300 \<and>
           (min_major < nat_of_digits major \<or>
            min_major = nat_of_digits major \<and> min_minor \<le> nat_of_digits minor))
      | _ \<Rightarrow> False)"

end
