(* ===== verification/Sems_Admin.thy ===== *)
theory Sems_Admin
  imports Sems
begin

text \<open>
  The second half of \<open>smart_ems.py\<close>: what Smart EMS reports about a rejected update, the requests
  that change devices, their configuration, containers, secrets and labels, the variables set for
  all devices at once, and the body that repeats a device's present values in an update.
\<close>

section \<open>Validation errors\<close>

definition str_join :: "string \<Rightarrow> string list \<Rightarrow> string" where
  "str_join sep xs = (case xs of [] \<Rightarrow> [] | y # ys \<Rightarrow> y @ concat (map (\<lambda>z. sep @ z) ys))"

definition own_errors :: "(json \<Rightarrow> string) \<Rightarrow> string \<Rightarrow> json dict \<Rightarrow> string list" where
  "own_errors rep path errors_obj =
     (case map_of errors_obj ''errors'' of
        Some (JList l) \<Rightarrow> List.map_filter (\<lambda>e. case e of
            JObj err \<Rightarrow> map_option (\<lambda>m. path @ '': '' @ py_str rep m) (map_of err ''message'')
          | _ \<Rightarrow> None) l
      | _ \<Rightarrow> [])"

definition child_path :: "string \<Rightarrow> string \<Rightarrow> string" where
  "child_path path field = (if path \<noteq> [] then path @ ''.'' @ field else field)"

definition index_path :: "string \<Rightarrow> nat \<Rightarrow> string" where
  "index_path path i = path @ ''['' @ digits_of i @ '']''"

text \<open>
  The child nodes of an error report, each with its path: the entries of the object or the list
  under \<open>children\<close>.
\<close>

definition error_children :: "string \<Rightarrow> json dict \<Rightarrow> (string \<times> json) list" where
  "error_children path errors_obj =
     (case map_of errors_obj ''children'' of
        Some (JObj d) \<Rightarrow> map (\<lambda>(k, v). (child_path path k, v)) d
      | Some (JList l) \<Rightarrow> map (\<lambda>(i, v). (index_path path i, v)) (enumerate 0 l)
      | _ \<Rightarrow> [])"

lemma size_dict_member: "(k, v) \<in> set d \<Longrightarrow> size v < size (JObj d)"
  by (induction d) auto

lemma size_list_member: "v \<in> set l \<Longrightarrow> size v < size (JList l)"
  by (induction l) auto

lemma size_nth: "i < length l \<Longrightarrow> size (l ! i) < Suc (size_list size (l :: json list))"
  using size_list_member[OF nth_mem] by simp

lemma error_children_smaller:
  assumes "(path', v) \<in> set (error_children path d)"
  shows "size v < size (JObj d)"
proof (cases "map_of d ''children''")
  case (Some c)
  then have "size c < size (JObj d)"
    by (intro size_dict_member map_of_SomeD)
  moreover have "size v < size c"
    using assms Some by (auto simp: error_children_def in_set_enumerate_eq split: json.splits
        dest: size_dict_member intro: size_nth)
  ultimately show ?thesis by simp
qed (use assms in \<open>simp add: error_children_def\<close>)

function extract_field_errors :: "(json \<Rightarrow> string) \<Rightarrow> json \<Rightarrow> string \<Rightarrow> string list" where
  "extract_field_errors rep errors_obj path =
     (case errors_obj of
        JObj d \<Rightarrow> own_errors rep path d @
          concat (map (\<lambda>(p, v). extract_field_errors rep v p) (error_children path d))
      | _ \<Rightarrow> [])"
  by pat_completeness auto
termination
  by (relation "measure (\<lambda>(rep, v, path). size v)") (auto dest: error_children_smaller)

declare extract_field_errors.simps [simp del]

definition parse_validation_errors :: "(json \<Rightarrow> string) \<Rightarrow> json \<Rightarrow> json" where
  "parse_validation_errors rep error_response =
     (case error_response of
        JObj d \<Rightarrow>
          if \<not> has_key d ''errors'' then error_response
          else
            let field_errors = extract_field_errors rep (pget d ''errors'') [] in
            if field_errors \<noteq> []
            then JStr (''Validation failed for fields: '' @ str_join ''; '' field_errors)
            else JStr (''Validation failed: '' @
                   py_str rep (case map_of d ''message'' of None \<Rightarrow> JStr ''Unknown error'' | Some m \<Rightarrow> m))
      | _ \<Rightarrow> error_response)"

section \<open>Templates and devices\<close>

definition get_template_by_template_name :: "remote \<Rightarrow> string \<Rightarrow> json act" where
  "get_template_by_template_name env template_name =
     bindA (sems_post env ''/web/api/template/list'' (JObj
         [(''page'', JInt 1), (''rowsPerPage'', JInt 2), (''sorting'', JList []),
          (''filters'', JObj [(''nameFilter'', filter_by ''name'' ''equal'' (JStr template_name))])])) (\<lambda>a.
     bindA (ensureA (ha_status a = 200)
              (sems_error ''Could not find template by template_name {}'' [JStr template_name] (ha_status a))) (\<lambda>_.
     bindA (liftA (answer_get a ''results'')) (\<lambda>results.
     bindA (ensureA (results \<noteq> JNull)
              (sems_error ''Results are empty for template_name {}'' [JStr template_name] 400)) (\<lambda>_.
     bindA (liftA (py_len results)) (\<lambda>n.
     bindA (ensureA (n \<noteq> 0)
              (sems_error ''Could not find template by template_name {}'' [JStr template_name] 400)) (\<lambda>_.
     bindA (ensureA (\<not> 1 < n)
              (sems_error ''Multiple templates found by template_name {}'' [JStr template_name] 400)) (\<lambda>_.
     liftA (first_of results))))))))"

definition edit_device :: "remote \<Rightarrow> json \<Rightarrow> json \<Rightarrow> unit act" where
  "edit_device env edge_gateway_id body =
     bindA (sems_post env (''/web/api/device/'' @ fmt env edge_gateway_id) body) (\<lambda>a.
     if ha_status a = 204 \<or> ha_status a = 200 then returnA ()
     else bindA (liftA (answer_json a)) (\<lambda>error.
       raiseA (sems_error ''Error during SmartEMS communication: {}''
                [parse_validation_errors (rm_repr env) error] (ha_status a))))"

definition create_sems_device :: "remote \<Rightarrow> json \<Rightarrow> json act" where
  "create_sems_device env payload =
     bindA (sems_post env ''/web/api/device/create'' payload) (\<lambda>a.
     bindA (liftA (answer_json a)) (\<lambda>v.
     if ha_status a \<in> {200, 201} then returnA v
     else raiseA (sems_error ''Error during SmartEMS communication: {}'' [v] (ha_status a))))"

definition delete_sems_device :: "remote \<Rightarrow> json \<Rightarrow> unit act" where
  "delete_sems_device env device_id =
     bindA (sems_delete env (''/web/api/device/'' @ fmt env device_id)) (\<lambda>a.
     if ha_status a \<in> {200, 204} then returnA ()
     else bindA (liftA (answer_json a)) (\<lambda>error.
       raiseA (sems_error ''Error during SmartEMS communication: {}'' [error] (ha_status a))))"

text \<open>The configuration comes as a JSON text inside the JSON of the answer.\<close>

definition device_config_download :: "remote \<Rightarrow> json \<Rightarrow> json act" where
  "device_config_download env edge_gateway_id =
     bindA (sems_get env (''/web/api/device/'' @ fmt env edge_gateway_id @ ''/generate/config/primary'')) (\<lambda>a.
     bindA (ensureA (ha_status a = 200)
              (sems_error ''could not generate primary config for device <{}>'' [edge_gateway_id] (ha_status a))) (\<lambda>_.
     bindA (liftA (answer_json a)) (\<lambda>text.
     liftA (case text of
         JStr s \<Rightarrow> (case rm_loads env s of None \<Rightarrow> Inl (ValueError (Msg ''Expecting value'' [])) | Some v \<Rightarrow> Inr v)
       | _ \<Rightarrow> Inl TypeError))))"

definition last_seen_default :: string where
  "last_seen_default = ''2022-01-01T00:00:00+00:00''"

text \<open>A key of a Python dict is hashable: not a list and not a dict.\<close>

fun hashable :: "json \<Rightarrow> bool" where
  "hashable (JList _) = False"
| "hashable (JObj _) = False"
| "hashable _ = True"

definition note_last_seen ::
  "remote \<Rightarrow> int \<Rightarrow> (json \<times> json) list \<Rightarrow> json \<Rightarrow> (json \<times> json) list res" where
  "note_last_seen env timerange_in_days devices_last_seen device =
     bindR (subscript device ''deviceType'') (\<lambda>device_type.
     bindR (subscript device_type ''id'') (\<lambda>type_id.
     bindR (subscript device ''serialNumber'') (\<lambda>serial.
     bindR (ensure (hashable serial) TypeError) (\<lambda>_.
     if py_eq type_id (JInt 9) \<and> has_key devices_last_seen serial then Inr devices_last_seen
     else
       bindR (dict_get_or device ''seenAt'' (JStr last_seen_default)) (\<lambda>seen.
       case seen of
         JStr s \<Rightarrow> (case rm_days env s of
             None \<Rightarrow> Inl (ValueError (Msg ''Invalid isoformat string'' []))
           | Some days \<Rightarrow> Inr (dset serial (JObj
               [(''lastSeenAt'', JStr s), (''lastSeenInRange'', JBool (days < timerange_in_days)),
                (''lastSeenRangeInDays'', JInt timerange_in_days)]) devices_last_seen))
       | _ \<Rightarrow> Inl TypeError)))))"

definition get_devices_last_seen :: "remote \<Rightarrow> int \<Rightarrow> (json \<times> json) list act" where
  "get_devices_last_seen env timerange_in_days =
     bindA (sems_post env ''/web/api/device/list'' (JObj
         [(''page'', JInt 1), (''rowsPerPage'', JInt 50),
          (''filters'', JObj
             [(''deviceType'', filter_by ''deviceType'' ''equalMultiple'' (JList [JInt 9, JInt 10])),
              (''enabled'', filter_by ''enabled'' ''boolean'' (JBool True))])])) (\<lambda>a.
     bindA (ensureA (ha_status a = 200) (sems_error sems_error_message [] (ha_status a))) (\<lambda>_.
     bindA (liftA (answer_get a ''results'')) (\<lambda>results.
     liftA (bindR (iterate results) (foldR (note_last_seen env timerange_in_days) [])))))"

section \<open>Containers\<close>

definition is_sems_error :: "exn \<Rightarrow> bool" where
  "is_sems_error e = (case e of Api c _ _ \<Rightarrow> c = SEMSError | _ \<Rightarrow> False)"

definition compose_container :: "json dict \<Rightarrow> json \<Rightarrow> json \<Rightarrow> json dict res" where
  "compose_container containers svcs service_id =
     (case service_id of
        JStr name \<Rightarrow>
          bindR (subscript svcs name) (\<lambda>service.
          bindR (dict_get service ''image'') (\<lambda>image.
          bindR (dict_get_or service ''container_name'' service_id) (\<lambda>container_name.
          case image of
            JStr i \<Rightarrow> Inr (dset name (JObj [(''name'', container_name),
                        (''version'', JStr (last (split_on CHR '':'' i)))]) containers)
          | _ \<Rightarrow> Inl AttributeError)))
      | _ \<Rightarrow> Inl TypeError)"

definition compose_file :: "remote \<Rightarrow> json \<Rightarrow> json dict \<Rightarrow> json \<Rightarrow> json dict res" where
  "compose_file env files containers compose_name =
     (case compose_name of
        JStr name \<Rightarrow>
          bindR (subscript files name) (\<lambda>text.
          bindR (case text of
              JStr s \<Rightarrow> (case rm_yaml env s of None \<Rightarrow> Inl (OtherError (Msg ''YAMLError'' [])) | Some v \<Rightarrow> Inr v)
            | _ \<Rightarrow> Inl AttributeError) (\<lambda>compose_dict.
          bindR (subscript compose_dict ''services'') (\<lambda>svcs.
          bindR (iterate svcs) (\<lambda>ids. foldR (\<lambda>cs i. compose_container cs svcs i) containers ids))))
      | _ \<Rightarrow> Inl TypeError)"

text \<open>
  \<open>get_compose_container\<close>: only a \<open>SEMSError\<close> of the download is caught, so a configuration
  without \<open>docker\<close> raises AttributeError.
\<close>

definition get_compose_container :: "remote \<Rightarrow> string \<Rightarrow> json dict act" where
  "get_compose_container env device_id =
     bindA (get_device_by_serial env device_id False) (\<lambda>found.
     bindA (ensureA (found \<noteq> None) (sems_error device_not_found_message [] 500)) (\<lambda>_.
     bindA (liftA (dict_get (the found) ''id'')) (\<lambda>sems_id.
     bindA (catchA
       (bindA (device_config_download env sems_id) (\<lambda>config.
        bindA (liftA (dict_get config ''docker'')) (\<lambda>docker. liftA (dict_get docker ''compose_files''))))
       (\<lambda>e. if is_sems_error e then returnA JNull else raiseA e)) (\<lambda>files.
     if files = JNull then returnA []
     else liftA (bindR (iterate files) (foldR (compose_file env files) []))))))"

section \<open>Secrets, labels and variables\<close>

definition get_device_secrets_list :: "remote \<Rightarrow> string \<Rightarrow> json act" where
  "get_device_secrets_list env device =
     bindA (get_device_by_serial env device False) (\<lambda>found.
     bindA (ensureA (found \<noteq> None) (sems_error device_not_found_message [] 500)) (\<lambda>_.
     bindA (liftA (dict_get (the found) ''id'')) (\<lambda>device_id.
     bindA (liftA (dict_get_or (the found) ''firmwareVersion1'' (JStr ''unknown''))) (\<lambda>firmware.
     bindA (ensureA (firmware_version_at_least firmware 1 6)
              (Api SEMSFirmwareError (Msg ''Device firmware: {} does not support secret management'' [firmware]) 400)) (\<lambda>_.
     bindA (sems_post env (''/web/api/devicesecret/'' @ fmt env device_id @ ''/list'')
              (JObj [(''page'', JInt 1), (''rowsPerPage'', JInt 50), (''filters'', JObj [])])) (\<lambda>a.
     bindA (ensureA (ha_status a = 200)
              (sems_error ''error getting secret list for device <{}>'' [device_id] (ha_status a))) (\<lambda>_.
     liftA (answer_json a))))))))"

primrec find_secret :: "string \<Rightarrow> json list \<Rightarrow> json option res" where
  "find_secret secret_name [] = Inr None"
| "find_secret secret_name (secret # secrets) =
     bindR (dict_get secret ''deviceTypeSecret'') (\<lambda>device_type_secret.
     bindR (dict_get device_type_secret ''name'') (\<lambda>name.
     if name = JStr secret_name then Inr (Some secret) else find_secret secret_name secrets))"

definition get_device_secret :: "remote \<Rightarrow> string \<Rightarrow> string \<Rightarrow> json option act" where
  "get_device_secret env device secret_name =
     bindA (get_device_secrets_list env device) (\<lambda>device_secrets.
     liftA (case py_in (JStr ''results'') device_secrets of
         None \<Rightarrow> Inl TypeError
       | Some False \<Rightarrow> Inr None
       | Some True \<Rightarrow>
           bindR (dict_get device_secrets ''results'') (\<lambda>results.
           bindR (iterate results) (find_secret secret_name))))"

definition force_renew_device_secret :: "remote \<Rightarrow> json \<Rightarrow> json act" where
  "force_renew_device_secret env secret_id =
     bindA (sems_get env (''/web/api/devicesecret/'' @ fmt env secret_id @ ''/enable/force/renewal'')) (\<lambda>a.
     bindA (ensureA (ha_status a = 200)
              (sems_error ''error forcing renewal of secret <{}>'' [secret_id] (ha_status a))) (\<lambda>_.
     liftA (answer_json a)))"

definition show_device_secret :: "remote \<Rightarrow> json \<Rightarrow> json act" where
  "show_device_secret env secret_id =
     bindA (sems_get env (''/web/api/devicesecret/'' @ fmt env secret_id @ ''/show'')) (\<lambda>a.
     bindA (ensureA (ha_status a = 200) (sems_error ''error showing secret <{}>'' [secret_id] (ha_status a))) (\<lambda>_.
     liftA (answer_json a)))"

definition get_label_by_name :: "remote \<Rightarrow> string \<Rightarrow> json act" where
  "get_label_by_name env label_name =
     bindA (sems_post env ''/web/api/label/list'' (JObj
         [(''page'', JInt 1), (''rowsPerPage'', JInt 10),
          (''filters'', JObj [(''name'', filter_by ''name'' ''equal'' (JStr label_name))])])) (\<lambda>a.
     bindA (ensureA (ha_status a = 200) (sems_error ''Could not fetch label {}'' [JStr label_name] (ha_status a))) (\<lambda>_.
     bindA (liftA (bindR (answer_json a) (\<lambda>v. dict_get_or v ''results'' (JList [])))) (\<lambda>results.
     bindA (ensureA (truthy results) (sems_error ''Label {} not found in SEMS'' [JStr label_name] 404)) (\<lambda>_.
     liftA (first_of results)))))"

definition ids_of_devices :: "json list \<Rightarrow> json list res" where
  "ids_of_devices ds =
     bindR (mapR (\<lambda>d. dict_get d ''id'') ds) (\<lambda>ids. Inr (filter truthy ids))"

definition batch_variable :: "remote \<Rightarrow> string \<Rightarrow> json dict \<Rightarrow> string \<Rightarrow> bool act" where
  "batch_variable env path extra failure =
     bindA (get_device_list env) (\<lambda>ds.
     bindA (liftA (ids_of_devices ds)) (\<lambda>device_ids.
     if device_ids = [] then returnA False
     else
       bindA (sems_post env path (JObj ([(''sorting'', JList [sort_by ''id'' ''asc'']), (''ids'', JList device_ids)] @ extra))) (\<lambda>a.
       if ha_status a \<in> {200, 204} then returnA True
       else raiseA (sems_error failure [] (ha_status a)))))"

definition set_variable_for_all_devices :: "remote \<Rightarrow> string \<Rightarrow> string \<Rightarrow> bool act" where
  "set_variable_for_all_devices env name v =
     batch_variable env ''/web/api/device/batch/variable/add''
       [(''name'', JStr name), (''variableValue'', JStr v)]
       ''Error during SmartEMS communication: batch variable set failed''"

definition delete_variable_for_all_devices :: "remote \<Rightarrow> string \<Rightarrow> bool act" where
  "delete_variable_for_all_devices env name =
     batch_variable env ''/web/api/device/batch/variable/delete'' [(''name'', JStr name)]
       ''Error during SmartEMS communication: batch variable delete failed''"

section \<open>Repeating a device's values\<close>

definition entry_ids :: "json \<Rightarrow> json list res" where
  "entry_ids v = bindR (iterate v) (mapR (\<lambda>entry. subscript entry ''id''))"

definition variable_entry :: "json \<Rightarrow> json res" where
  "variable_entry v =
     bindR (subscript v ''name'') (\<lambda>name.
     bindR (subscript v ''variableValue'') (\<lambda>variable_value.
     Inr (JObj [(''name'', name), (''variableValue'', variable_value)])))"

definition endpoint_entry :: "json list \<Rightarrow> json \<Rightarrow> json res" where
  "endpoint_entry access_tags endpoint =
     bindR (dict_get endpoint ''name'') (\<lambda>name.
     bindR (dict_get endpoint ''physicalIp'') (\<lambda>physical_ip.
     bindR (dict_get endpoint ''virtualIpHostPart'') (\<lambda>host_part.
     Inr (JObj [(''accessTags'', JList access_tags), (''name'', name), (''physicalIp'', physical_ip),
                (''virtualIpHostPart'', host_part)]))))"

definition copied :: "json dict \<Rightarrow> string list \<Rightarrow> json dict" where
  "copied d keys = map (\<lambda>k. (k, pget d k)) keys"

definition generate_resp_from_device_info :: "json \<Rightarrow> json dict res" where
  "generate_resp_from_device_info device_info =
     (case device_info of
        JObj d \<Rightarrow>
          let get_or = (\<lambda>k dflt. case map_of d k of None \<Rightarrow> dflt | Some v \<Rightarrow> v) in
          bindR (entry_ids (get_or ''accessTags'' (JList []))) (\<lambda>access_tags.
          bindR (bindR (iterate (get_or ''variables'' (JList []))) (mapR variable_entry)) (\<lambda>variables.
          bindR (entry_ids (get_or ''labels'' (JList []))) (\<lambda>labels.
          let base = [(''name'', pget d ''name''), (''labels'', JList labels), (''accessTags'', JList access_tags),
                      (''staging'', pget d ''staging''), (''enabled'', pget d ''enabled''),
                      (''variables'', JList variables), (''description'', pget d ''description'')] in
          bindR (dict_get (get_or ''deviceType'' (JObj [])) ''communicationProcedure'') (\<lambda>procedure.
          bindR (if procedure \<in> {JStr ''edgeGateway'', JStr ''edgeGatewayWithVpnContainerClient''}
                 then bindR (if pget d ''template'' = JNull then Inr JNull else dict_get (pget d ''template'') ''id'')
                        (\<lambda>template_id. Inr (dupdate base ((''template'', template_id) #
                           copied d [''reinstallFirmware1'', ''reinstallConfig1'', ''requestConfigData'', ''endorsementKey'',
                             ''registrationId'', ''hardwareVersion'', ''serialNumber''])))
                 else Inr base) (\<lambda>base.
          if procedure \<in> {JStr ''vpnContainerClient'', JStr ''edgeGatewayWithVpnContainerClient''}
          then
            bindR (if pget d ''endpointDevices'' = JNull then Inr []
                   else bindR (iterate (pget d ''endpointDevices'')) (mapR (endpoint_entry access_tags))) (\<lambda>endpoint_devices.
            Inr (dupdate base ((''endpointDevices'', JList endpoint_devices) #
                   copied d [''masqueradeType'', ''masquerades'', ''virtualSubnetCidr''])))
          else Inr base)))))
      | _ \<Rightarrow> Inl AttributeError)"

end
