(* ===== verification/Device_Lifecycle.thy ===== *)
theory Device_Lifecycle
  imports Sems_Admin
begin

text \<open>
  Devices across three systems: the database, the IoT Hub and Smart EMS.  \<open>create_device.py\<close> inserts
  the row, registers the identity and the Smart EMS device, and undoes what it can when a step
  fails; \<open>delete_device.py\<close> goes the other way; \<open>get_devices.py\<close> refreshes the snapshot cache from
  the hub page by page; the status and tag routes read and write one device of the hub
  (\<open>routers/general/routes\<close>).
\<close>

section \<open>URLs of the hub\<close>

definition hub_device_url :: "remote \<Rightarrow> string \<Rightarrow> string" where
  "hub_device_url env encoded_device =
     ''https://'' @ rm_hub env @ ''/devices/'' @ encoded_device @ ''?api-version=2021-04-12''"

definition hub_twin_url :: "remote \<Rightarrow> string \<Rightarrow> string \<Rightarrow> string" where
  "hub_twin_url env encoded_device version =
     ''https://'' @ rm_hub env @ ''/twins/'' @ encoded_device @ ''?api-version='' @ version"

definition hub_query_url :: "remote \<Rightarrow> string" where
  "hub_query_url env = ''https://'' @ rm_hub env @ ''/devices/query?api-version=2021-04-12''"

section \<open>Queries, page by page\<close>

text \<open>
  One page of a query: the rows, and the continuation token of the next page.  The names of the
  answer's headers are in lower case.
\<close>

definition query_headers :: "string dict \<Rightarrow> string dict \<Rightarrow> string option \<Rightarrow> string dict" where
  "query_headers auth extra token =
     dupdate (if truthy_str token then dset ''x-ms-continuation'' (the token) auth else auth) extra"

definition query_row :: "json \<Rightarrow> (json \<times> json) res" where
  "query_row row =
     bindR (subscript row ''deviceId'') (\<lambda>device_id.
     bindR (subscript row ''connectionState'') (\<lambda>state. Inr (device_id, state)))"

definition query_rows :: "http_answer \<Rightarrow> (json \<times> json) list res" where
  "query_rows a = bindR (answer_json a) (\<lambda>v. bindR (iterate v) (mapR query_row))"

definition hub_page ::
  "remote \<Rightarrow> string \<Rightarrow> string dict \<Rightarrow> string option \<Rightarrow> ((json \<times> json) list \<times> string option) act" where
  "hub_page env query extra token =
     bindA (liftA (get_iothub_auth_headers env)) (\<lambda>auth.
     bindA (post_async env (hub_query_url env) (JObj [(''query'', JStr query)])
              (query_headers auth extra token)) (\<lambda>a.
     bindA (ensureA (ha_status a = 200)
              (backend_failure ''could not retrieve any device from iot-hub: {}'' a)) (\<lambda>_.
     bindA (liftA (query_rows a)) (\<lambda>rows.
     returnA (rows, map_of (ha_headers a) ''x-ms-continuation'')))))"

text \<open>The loop ends when a page carries no token; a hub that always sends one keeps it running.\<close>

partial_function (option) hub_query ::
  "remote \<Rightarrow> string \<Rightarrow> string dict \<Rightarrow> string option \<Rightarrow> (json \<times> json) list \<Rightarrow> world \<Rightarrow>
     ((json \<times> json) list res \<times> world) option" where
  "hub_query env query extra token rows w =
     (case hub_page env query extra token w of
        None \<Rightarrow> None
      | Some (Inl e, w') \<Rightarrow> Some (Inl e, w')
      | Some (Inr (page, next), w') \<Rightarrow>
          (case next of None \<Rightarrow> Some (Inr (rows @ page), w')
           | Some t \<Rightarrow> hub_query env query extra (Some t) (rows @ page) w'))"

text \<open>The same loop with the test of the page in a function of its own, for evaluation.\<close>

definition continue_query ::
  "remote \<Rightarrow> string \<Rightarrow> string dict \<Rightarrow> (json \<times> json) list \<Rightarrow>
     (((json \<times> json) list \<times> string option) res \<times> world) option \<Rightarrow> ((json \<times> json) list res \<times> world) option" where
  "continue_query env query extra rows p =
     (case p of
        None \<Rightarrow> None
      | Some (Inl e, w') \<Rightarrow> Some (Inl e, w')
      | Some (Inr (page, next), w') \<Rightarrow>
          (case next of None \<Rightarrow> Some (Inr (rows @ page), w')
           | Some t \<Rightarrow> hub_query env query extra (Some t) (rows @ page) w'))"

lemma continue_query_code [code]:
  "continue_query env query extra rows None = None"
  "continue_query env query extra rows (Some (Inl e, w')) = Some (Inl e, w')"
  "continue_query env query extra rows (Some (Inr (page, None), w')) = Some (Inr (rows @ page), w')"
  "continue_query env query extra rows (Some (Inr (page, Some t), w')) = hub_query env query extra (Some t) (rows @ page) w'"
  by (simp_all add: continue_query_def)

lemma hub_query_code [code]:
  "hub_query env query extra token rows w = continue_query env query extra rows (hub_page env query extra token w)"
  by (subst hub_query.simps) (simp add: continue_query_def)

definition json_content :: "string dict" where
  "json_content = [(''Content-Type'', ''application/json'')]"

definition states_query :: string where
  "states_query = ''SELECT deviceId, connectionState FROM devices''"

text \<open>The names in the query are those of the module \<open>$edgeHub\<close>, quoted with \<open>CHR 0x27\<close>.\<close>

definition edgehub_query :: string where
  "edgehub_query = ''SELECT deviceId, moduleId, connectionState FROM devices.modules WHERE moduleId = '' @
     [CHR 0x27] @ ''$edgeHub'' @ [CHR 0x27]"

text \<open>A later row of a device replaces the state of an earlier one; the keys must be hashable.\<close>

definition get_device_map_edgehub :: "remote \<Rightarrow> (json \<times> json) list act" where
  "get_device_map_edgehub env =
     bindA (hub_query env edgehub_query json_content None []) (\<lambda>rows.
     bindA (ensureA (list_all (\<lambda>(device_id, _). hashable device_id) rows) TypeError) (\<lambda>_.
     returnA (dupdate [] rows)))"

definition with_edgehub_state :: "(json \<times> json) list \<Rightarrow> json \<times> json \<Rightarrow> json \<times> json" where
  "with_edgehub_state edgehub_map = (\<lambda>(name, state).
     (name, case map_of edgehub_map name of None \<Rightarrow> state | Some s \<Rightarrow> if s \<noteq> JNull then s else state))"

definition upsert_device_snapshot :: "(json \<times> json) list \<Rightarrow> unit act" where
  "upsert_device_snapshot entries w = Some (Inr (), w\<lparr>wd_snapshot := Some entries\<rparr>)"

definition populate_cache :: "remote \<Rightarrow> unit act" where
  "populate_cache env =
     bindA (hub_query env states_query (dset ''x-ms-max-item-count'' ''2000'' json_content) None []) (\<lambda>entries.
     bindA (catchA (bindA (get_device_map_edgehub env) (\<lambda>m. returnA (Some m))) (\<lambda>_. returnA None)) (\<lambda>edgehub.
     case edgehub of
       None \<Rightarrow> returnA ()
     | Some edgehub_map \<Rightarrow>
         bindA (ensureA (list_all (\<lambda>(name, _). hashable name) entries) TypeError) (\<lambda>_.
         upsert_device_snapshot (map (with_edgehub_state edgehub_map) entries))))"

section \<open>Tags and status of one device\<close>

definition backend_text :: "http_answer \<Rightarrow> exn" where
  "backend_text a = backend_failure [] a"

text \<open>\<open>current_device_tags["deployment"] = deployment_tag\<close> on the tags of the twin, or on none.\<close>

definition with_deployment :: "json \<Rightarrow> string \<Rightarrow> json res" where
  "with_deployment twin deployment_tag =
     (case py_in (JStr ''tags'') twin of
        None \<Rightarrow> Inl TypeError
      | Some present \<Rightarrow>
          bindR (if present then dict_get twin ''tags'' else Inr (JObj [])) (\<lambda>tags.
          case tags of
            JObj d \<Rightarrow> Inr (JObj [(''tags'', JObj (dset ''deployment'' (JStr deployment_tag) d))])
          | _ \<Rightarrow> Inl TypeError))"

definition put_deployment_tag :: "remote \<Rightarrow> string \<Rightarrow> string \<Rightarrow> unit act" where
  "put_deployment_tag env device deployment_tag =
     bindA (liftA (encode_iothub_id device)) (\<lambda>encoded_device.
     bindA (liftA (get_iothub_auth_headers env)) (\<lambda>headers.
     let url = hub_twin_url env encoded_device ''2020-05-31-preview'' in
     bindA (get_async env url headers) (\<lambda>a.
     bindA (ensureA (ha_status a = 200) (backend_text a)) (\<lambda>_.
     bindA (liftA (answer_json a)) (\<lambda>twin.
     bindA (liftA (with_deployment twin deployment_tag)) (\<lambda>tags_patch.
     bindA (patch_async env url tags_patch headers) (\<lambda>b.
     ensureA (ha_status b = 200) (backend_text b))))))))"

definition get_deployment_tag :: "remote \<Rightarrow> string \<Rightarrow> json act" where
  "get_deployment_tag env device =
     bindA (liftA (encode_iothub_id device)) (\<lambda>encoded_device.
     bindA (liftA (get_iothub_auth_headers env)) (\<lambda>headers.
     bindA (get_async env (hub_twin_url env encoded_device ''2020-05-31-preview'') headers) (\<lambda>a.
     bindA (ensureA (ha_status a = 200) (backend_text a)) (\<lambda>_.
     bindA (liftA (answer_json a)) (\<lambda>twin.
     liftA (bindR (dict_get_or twin ''tags'' (JObj [])) (\<lambda>tags. dict_get tags ''deployment'')))))))"

text \<open>Both twins are requested before either answer is read.\<close>

definition get_iot_hub_connection_status :: "remote \<Rightarrow> string \<Rightarrow> (json \<times> json) act" where
  "get_iot_hub_connection_status env device_id =
     bindA (liftA (encode_iothub_id device_id)) (\<lambda>encoded_device.
     bindA (liftA (get_iothub_auth_headers env)) (\<lambda>headers.
     bindA (get_async env (hub_twin_url env encoded_device ''2021-04-12'') headers) (\<lambda>a.
     bindA (get_async env (''https://'' @ rm_hub env @ ''/twins/'' @ encoded_device @
              ''/modules/%24edgeHub?api-version=2020-05-31-preview'') headers) (\<lambda>b.
     bindA (ensureA (ha_status a = 200)
              (backend_failure ''could not retrieve any device from iot-hub: {}'' a)) (\<lambda>_.
     bindA (liftA (bindR (answer_json a) (\<lambda>v. subscript v ''connectionState''))) (\<lambda>runtime.
     bindA (ensureA (ha_status b = 200) (backend_failure ''could not get twin of edgeHub module: {}'' b)) (\<lambda>_.
     bindA (liftA (answer_get b ''connectionState'')) (\<lambda>iot_hub.
     returnA (if iot_hub = JStr ''Connected'' \<and> runtime = JStr ''Disconnected'' then JStr ''Connected'' else runtime,
              iot_hub)))))))))"

text \<open>The lookup interval is the environment variable as a number of seconds.\<close>

definition epoch :: string where
  "epoch = ''1970-01-01T00:00:00+00:00''"

definition get_sems_connection_status :: "remote \<Rightarrow> int \<Rightarrow> json \<Rightarrow> string res" where
  "get_sems_connection_status env lookup_interval smart_ems_device =
     bindR (dict_get_or smart_ems_device ''seenAt'' (JStr epoch)) (\<lambda>seen.
     case seen of
       JStr s \<Rightarrow> (case rm_seconds env s of
           None \<Rightarrow> Inl (ValueError (Msg ''Invalid isoformat string'' []))
         | Some n \<Rightarrow> Inr (if n < lookup_interval then ''Connected'' else ''Disconnected''))
     | _ \<Rightarrow> Inl TypeError)"

text \<open>A missing Smart EMS device is None, whose \<open>get\<close> raises AttributeError.\<close>

definition found_or_none :: "json option \<Rightarrow> json" where
  "found_or_none found = (case found of None \<Rightarrow> JNull | Some d \<Rightarrow> d)"

record connection_status =
  cn_runtime :: json
  cn_iot_hub :: json
  cn_sems :: string

definition get_device_connection_status :: "remote \<Rightarrow> int \<Rightarrow> string \<Rightarrow> connection_status act" where
  "get_device_connection_status env lookup_interval device_id =
     bindA (get_iot_hub_connection_status env device_id) (\<lambda>(runtime, iot_hub).
     bindA (get_device_by_serial env device_id True) (\<lambda>found.
     bindA (liftA (get_sems_connection_status env lookup_interval (found_or_none found))) (\<lambda>sems.
     returnA \<lparr>cn_runtime = runtime, cn_iot_hub = iot_hub, cn_sems = sems\<rparr>)))"

definition is_cellular :: "json \<Rightarrow> bool res" where
  "is_cellular v = bindR (dict_get v ''representation'') (\<lambda>r. Inr (r = JStr ''cellular''))"

fun any_cellular :: "json list \<Rightarrow> bool res" where
  "any_cellular [] = Inr False"
| "any_cellular (v # vs) = bindR (is_cellular v) (\<lambda>b. if b then Inr True else any_cellular vs)"

definition template_name_of :: "json \<Rightarrow> json res" where
  "template_name_of device =
     bindR (dict_get device ''template'') (\<lambda>template.
     bindR (if template \<noteq> JNull then dict_get template ''productionTemplate'' else Inr JNull) (\<lambda>production.
     production_template_name production))"

definition get_smart_ems_device_summary :: "json \<Rightarrow> json dict res" where
  "get_smart_ems_device_summary device =
     bindR (dict_get device ''variables'') (\<lambda>variables.
     bindR (bindR (iterate (if truthy variables then variables else JList [])) any_cellular) (\<lambda>cellular.
     bindR (template_name_of device) (\<lambda>template_name.
     bindR (dict_get device ''enabled'') (\<lambda>enabled.
     bindR (dict_get_or device ''hardwareVersion'' (JStr ''unknown'')) (\<lambda>hardware_version.
     bindR (dict_get_or device ''firmwareVersion1'' (JStr ''unknown'')) (\<lambda>firmware_version.
     bindR (dict_get device ''reinstallFirmware1'') (\<lambda>update_firmware.
     Inr [(''enabled'', enabled), (''hardwareVersion'', hardware_version), (''firmwareVersion'', firmware_version),
          (''updateFirmware'', update_firmware), (''template'', template_name), (''cellular'', JBool cellular)])))))))"

definition info_variable :: "json \<Rightarrow> json res" where
  "info_variable v =
     bindR (subscript v ''representation'') (\<lambda>r.
     bindR (subscript v ''variableValue'') (\<lambda>x. Inr (JObj [(''toString'', r), (''variableValue'', x)])))"

definition template_part :: "json \<Rightarrow> string \<Rightarrow> json res" where
  "template_part template key = (if template \<noteq> JNull then dict_get template key else Inr JNull)"

definition get_smart_ems_device_data :: "json \<Rightarrow> json dict res" where
  "get_smart_ems_device_data device =
     bindR (dict_get device ''variables'') (\<lambda>vs.
     bindR (bindR (iterate vs) (mapR info_variable)) (\<lambda>variables.
     bindR (template_name_of device) (\<lambda>template_name.
     bindR (dict_get device ''template'') (\<lambda>template.
     bindR (subscript device ''deviceType'') (\<lambda>device_type.
     bindR (dict_get device_type ''id'') (\<lambda>type_id.
     bindR (dict_get device_type ''name'') (\<lambda>type_name.
     bindR (dict_get_or device ''seenAt'' (JStr ''never seen'')) (\<lambda>last_seen.
     bindR (dict_get_or device ''hardwareVersion'' (JStr ''unknown'')) (\<lambda>hardware_version.
     bindR (dict_get_or device ''firmwareVersion1'' (JStr ''unknown'')) (\<lambda>firmware_version.
     bindR (dict_get_or device ''description'' (JStr [])) (\<lambda>description.
     bindR (dict_get device ''enabled'') (\<lambda>enabled.
     bindR (dict_get device ''reinstallFirmware1'') (\<lambda>update_firmware.
     bindR (template_part template ''id'') (\<lambda>template_id.
     bindR (template_part template ''createdAt'') (\<lambda>template_created.
     bindR (template_part template ''updatedAt'') (\<lambda>template_updated.
     Inr [(''enabled'', enabled), (''lastSeenAt'', last_seen), (''hardwareVersion'', hardware_version),
          (''updateFirmware'', update_firmware), (''semsTemplate'', JStr []), (''firmwareVersion'', firmware_version),
          (''template'', JObj [(''toString'', template_name), (''id'', template_id),
             (''createdAt'', template_created), (''updatedAt'', template_updated)]),
          (''deviceTypeId'', type_id), (''deviceTypeName'', type_name), (''description'', description),
          (''variables'', JList variables)]))))))))))))))))"

definition get_smart_ems_device_info :: "remote \<Rightarrow> string \<Rightarrow> json dict act" where
  "get_smart_ems_device_info env device =
     bindA (get_device_by_serial env device True) (\<lambda>found. liftA (get_smart_ems_device_data (found_or_none found)))"

record device_detail =
  dd_device_id :: string
  dd_device_status :: string
  dd_status :: connection_status
  dd_metadata :: "resolved_field dict"
  dd_last_seen :: json
  dd_summary :: "json dict"

text \<open>\<open>get_device_joined_snapshot\<close> reads one row: two of them would raise MultipleResultsFound.\<close>

definition get_device_joined_snapshot ::
  "pg_env \<Rightarrow> string \<Rightarrow> snapshot \<Rightarrow> catalog \<Rightarrow> (device_view \<times> string option) option res" where
  "get_device_joined_snapshot pg device_id snap db =
     (case map_of (devices db) device_id of
        None \<Rightarrow> Inr None
      | Some _ \<Rightarrow>
          bindR (scalar_one_or_none (joined_status pg snap device_id)) (\<lambda>status.
          bindR (get_device_metadata device_id db) (\<lambda>view.
          Inr (map_option (\<lambda>v. (v, Option.bind status id)) view))))"

definition get_device :: "pg_env \<Rightarrow> remote \<Rightarrow> int \<Rightarrow> string \<Rightarrow> device_detail act" where
  "get_device pg env lookup_interval device_id =
     bindA (readA (\<lambda>w. get_device_joined_snapshot pg device_id (wd_snapshot w) (wd_db w))) (\<lambda>row.
     bindA (liftA row) (\<lambda>found.
     bindA (ensureA (found \<noteq> None) (api_error ''Device {} not found'' [JStr device_id] 404)) (\<lambda>_.
     bindA (get_device_by_serial env device_id True) (\<lambda>sems_found.
     let sems_device = found_or_none sems_found in
     bindA (liftA (get_smart_ems_device_summary sems_device)) (\<lambda>summary.
     bindA (liftA (get_sems_connection_status env lookup_interval sems_device)) (\<lambda>sems.
     bindA (get_iot_hub_connection_status env device_id) (\<lambda>(runtime, iot_hub).
     bindA (liftA (dict_get sems_device ''seenAt'')) (\<lambda>last_seen.
     returnA \<lparr>dd_device_id = device_id, dd_device_status = status_or_unknown (snd (the found)),
       dd_status = \<lparr>cn_runtime = runtime, cn_iot_hub = iot_hub, cn_sems = sems\<rparr>,
       dd_metadata = dw_metadata (fst (the found)), dd_last_seen = last_seen, dd_summary = summary\<rparr>))))))))"

end
