(* ===== verification/Device_Saga.thy ===== *)
theory Device_Saga
  imports Device_Lifecycle
begin

text \<open>
  Creating and deleting a device (\<open>routers/devices/routes/create_device.py\<close>, \<open>delete_device.py\<close>).
  The flags \<open>created_in_db\<close> and \<open>created_in_iothub\<close> of the source tell its handler what to undo; here
  each is the handler around the steps that follow the one that sets it, the inner one deleting
  the identity before the outer one deletes the row, as the source does.
\<close>

section \<open>Creating\<close>

text \<open>What the body says.\<close>

record new_device =
  nw_metadata :: json
  nw_type_id :: json
  nw_registration_id :: string

definition new_device_of :: "string \<Rightarrow> json \<Rightarrow> new_device res" where
  "new_device_of device_id body =
     bindR (dict_get_or body ''meta'' (JObj [])) (\<lambda>meta.
     bindR (dict_get body ''type_id'') (\<lambda>type_id.
     bindR (dict_get_or body ''registration_id_generated'' (JStr [])) (\<lambda>registration.
     bindR (case registration of JStr s \<Rightarrow> Inr (str_strip s) | _ \<Rightarrow> Inl AttributeError) (\<lambda>registration_id.
     Inr \<lparr>nw_metadata = or_obj meta, nw_type_id = (if truthy type_id then type_id else JStr default_type_id),
          nw_registration_id = (if registration_id = [] then device_id else registration_id)\<rparr>))))"

text \<open>
  The insert.  A type that is not a text fails in the driver; a \<open>meta\<close> that is not an object when
  the first field of the type is looked up in it.
\<close>

definition insert_device :: "regex_engine \<Rightarrow> string \<Rightarrow> new_device \<Rightarrow> catalog \<Rightarrow> (device_row \<times> catalog) res" where
  "insert_device rx device_id n db =
     bindR (case nw_type_id n of JStr t \<Rightarrow> Inr t | _ \<Rightarrow> Inl (OtherError (Msg ''ProgrammingError'' []))) (\<lambda>type_id.
     bindR (get_type_or_raise ''DeviceType'' type_id (device_types db)) (\<lambda>_.
     bindR (case nw_metadata n of JObj d \<Rightarrow> Inr d | _ \<Rightarrow> Inl AttributeError) (\<lambda>metadata.
     create_device_row rx device_id metadata type_id db)))"

definition identity_body :: "string \<Rightarrow> json" where
  "identity_body device_id = JObj
     [(''deviceId'', JStr device_id),
      (''authentication'', JObj [(''type'', JStr ''sas''),
         (''symmetricKey'', JObj [(''primaryKey'', JNull), (''secondaryKey'', JNull)])]),
      (''capabilities'', JObj [(''iotEdge'', JBool True)])]"

text \<open>An identity that exists already counts as registered.\<close>

definition put_accepted :: "http_answer \<Rightarrow> bool" where
  "put_accepted a = (ha_status a \<in> {200, 201, 409})"

definition connection_string :: "remote \<Rightarrow> string \<Rightarrow> json \<Rightarrow> string" where
  "connection_string env device_id primary_key =
     ''HostName='' @ rm_hub env @ '';DeviceId='' @ device_id @ '';SharedAccessKey='' @ fmt env primary_key"

definition hub_connection_string :: "remote \<Rightarrow> string \<Rightarrow> string \<Rightarrow> string dict \<Rightarrow> string act" where
  "hub_connection_string env device_id url headers =
     bindA (get_async env url headers) (\<lambda>a.
     bindA (ensureA (ha_status a = 200) (backend_text a)) (\<lambda>_.
     liftA (bindR (answer_json a) (\<lambda>v.
       bindR (subscript v ''authentication'') (\<lambda>auth.
       bindR (subscript auth ''symmetricKey'') (\<lambda>key.
       bindR (subscript key ''primaryKey'') (\<lambda>primary_key.
       Inr (connection_string env device_id primary_key))))))))"

definition variables_to_set :: "string dict \<Rightarrow> string \<Rightarrow> string \<Rightarrow> string dict" where
  "variables_to_set template_variables registration_id conn =
     filter (\<lambda>(_, v). v \<noteq> [])
       (dset ''device_connection_string'' conn (dset ''registration_id_generated'' registration_id template_variables))"

text \<open>The value of the first variable of that name.\<close>

primrec first_variable :: "json \<Rightarrow> json list \<Rightarrow> json res" where
  "first_variable name [] = Inr JNull"
| "first_variable name (var # vars) =
     bindR (subscript var ''name'') (\<lambda>n.
     if n = name then dict_get var ''variableValue'' else first_variable name vars)"

definition variable_pair :: "json \<Rightarrow> (json \<times> json) res" where
  "variable_pair var = bindR (dict_get var ''name'') (\<lambda>n. bindR (dict_get var ''variableValue'') (\<lambda>v. Inr (n, v)))"

definition merged_variables :: "json list \<Rightarrow> string dict \<Rightarrow> json list res" where
  "merged_variables vars to_set =
     bindR (mapR variable_pair vars) (\<lambda>pairs.
     let named = filter (\<lambda>(n, _). truthy n) pairs in
     bindR (ensure (list_all (\<lambda>(n, _). hashable n) named) TypeError) (\<lambda>_.
     Inr (map (\<lambda>(n, v). JObj [(''name'', n), (''variableValue'', v)])
       (dupdate (dupdate [] named) (map (\<lambda>(n, v). (JStr n, JStr v)) to_set)))))"

definition update_sems_device :: "remote \<Rightarrow> json \<Rightarrow> string \<Rightarrow> string dict \<Rightarrow> unit act" where
  "update_sems_device env sems_device conn to_set =
     bindA (liftA (generate_resp_from_device_info sems_device)) (\<lambda>clean_body.
     bindA (liftA (iterate (case map_of clean_body ''variables'' of None \<Rightarrow> JList [] | Some v \<Rightarrow> v))) (\<lambda>variables.
     bindA (liftA (first_variable (JStr ''device_connection_string'') variables)) (\<lambda>existing.
     bindA (ensureA (\<not> (truthy existing \<and> existing \<noteq> JStr conn))
              (api_error ''SEMS device already has different connection string'' [] 400)) (\<lambda>_.
     bindA (liftA (merged_variables variables to_set)) (\<lambda>merged.
     bindA (liftA (subscript sems_device ''id'')) (\<lambda>sems_id.
     edit_device env sems_id (JObj (dset ''variables'' (JList merged) clean_body))))))))"

definition device_type_param :: "remote \<Rightarrow> json \<Rightarrow> json option \<Rightarrow> json res" where
  "device_type_param env body template =
     (if template \<noteq> None \<and> truthy (the template) then
        bindR (dict_get_or (the template) ''deviceType'' (JObj [])) (\<lambda>device_type.
        bindR (dict_get_or device_type ''id'' (JInt 9)) (\<lambda>i. Inr (JStr (fmt env i))))
      else dict_get_or body ''deviceType'' (JStr ''9''))"

definition sems_payload :: "string \<Rightarrow> json dict \<Rightarrow> json \<Rightarrow> json \<Rightarrow> string dict \<Rightarrow> json" where
  "sems_payload device_id body device_type template_id to_set = JObj
     ([(''name'', JStr device_id), (''serialNumber'', JStr device_id)] @
      copied body [''imei'', ''model'', ''registrationId'', ''endorsementKey'', ''hardwareVersion''] @
      [(''description'', case map_of body ''description'' of None \<Rightarrow> JStr [] | Some v \<Rightarrow> v),
       (''deviceType'', device_type),
       (''variables'', JList (map (\<lambda>(n, v). JObj [(''name'', JStr n), (''variableValue'', JStr v)]) to_set)),
       (''enabled'', JBool True), (''staging'', JBool False), (''template'', template_id)])"

definition template_id_of :: "json option \<Rightarrow> json" where
  "template_id_of template = (case template of
       None \<Rightarrow> JNull
     | Some t \<Rightarrow> (case dict_get t ''id'' of Inl _ \<Rightarrow> JNull | Inr i \<Rightarrow> i))"

definition register_in_sems :: "remote \<Rightarrow> string \<Rightarrow> json \<Rightarrow> string \<Rightarrow> string \<Rightarrow> unit act" where
  "register_in_sems env device_id body registration_id conn =
     bindA (get_device_by_serial env device_id False) (\<lambda>sems_device.
     bindA (readA wd_vars) (\<lambda>template_variables.
     let to_set = variables_to_set template_variables registration_id conn in
     bindA (catchA (bindA (get_template_by_template_name env (rm_template env)) (\<lambda>t. returnA (Some t)))
              (\<lambda>_. returnA None)) (\<lambda>template.
     if sems_device \<noteq> None \<and> truthy (the sems_device) then
       update_sems_device env (the sems_device) conn to_set
     else
       bindA (liftA (device_type_param env body template)) (\<lambda>device_type.
       bindA (liftA (case body of JObj d \<Rightarrow> Inr d | _ \<Rightarrow> Inl AttributeError)) (\<lambda>fields.
       bindA (create_sems_device env (sems_payload device_id fields device_type (template_id_of template) to_set)) (\<lambda>_.
       returnA ()))))))"

text \<open>Steps 4 to 6, after the hub has accepted the identity.\<close>

definition provision :: "remote \<Rightarrow> string \<Rightarrow> json \<Rightarrow> string \<Rightarrow> string \<Rightarrow> string dict \<Rightarrow> unit act" where
  "provision env device_id body registration_id url headers =
     bindA (hub_connection_string env device_id url headers) (\<lambda>conn.
     bindA (register_in_sems env device_id body registration_id conn) (\<lambda>_.
     bindA (catchA (put_deployment_tag env device_id ''base'') (\<lambda>_. returnA ())) (\<lambda>_.
     populate_cache env)))"

text \<open>The two halves of the handler.  A failing request to delete the identity is ignored.\<close>

definition undo_identity :: "remote \<Rightarrow> string \<Rightarrow> string dict \<Rightarrow> exn \<Rightarrow> unit act" where
  "undo_identity env url headers e =
     bindA (catchA (bindA (delete_async env url headers) (\<lambda>_. returnA ())) (\<lambda>_. returnA ())) (\<lambda>_. raiseA e)"

definition undo_row :: "string \<Rightarrow> exn \<Rightarrow> unit act" where
  "undo_row device_id e =
     bindA (dbA (\<lambda>db. Inr ((), delete_device_row device_id db))) (\<lambda>_. raiseA e)"

definition register_identity :: "remote \<Rightarrow> string \<Rightarrow> string \<Rightarrow> json \<Rightarrow> string \<Rightarrow> unit act" where
  "register_identity env device_id encoded_device body registration_id =
     (let url = hub_device_url env encoded_device in
      bindA (liftA (get_iothub_auth_headers env)) (\<lambda>headers.
      bindA (put_async env url (identity_body device_id) headers) (\<lambda>a.
      bindA (ensureA (put_accepted a) (backend_text a)) (\<lambda>_.
      catchA (provision env device_id body registration_id url headers) (undo_identity env url headers)))))"

definition create_device :: "regex_engine \<Rightarrow> remote \<Rightarrow> string \<Rightarrow> json \<Rightarrow> device_row act" where
  "create_device rx env device_id body =
     bindA (liftA (encode_iothub_id device_id)) (\<lambda>encoded_device.
     bindA (liftA (new_device_of device_id body)) (\<lambda>n.
     bindA (readA (\<lambda>w. device_exists device_id (wd_db w))) (\<lambda>present.
     bindA (ensureA (\<not> present) (api_error ''Device {} already exists'' [JStr device_id] 409)) (\<lambda>_.
     bindA (dbA (insert_device rx device_id n)) (\<lambda>device.
     bindA (catchA (register_identity env device_id encoded_device body (nw_registration_id n)) (undo_row device_id)) (\<lambda>_.
     returnA device))))))"

section \<open>Deleting\<close>

text \<open>\<open>get_resp.json().get("etag") or get_resp.headers.get("etag")\<close>.\<close>

definition etag_of :: "http_answer \<Rightarrow> json res" where
  "etag_of a = bindR (answer_get a ''etag'') (\<lambda>v.
     Inr (if truthy v then v
          else case map_of (ha_headers a) ''etag'' of None \<Rightarrow> JNull | Some e \<Rightarrow> JStr e))"

definition delete_identity :: "remote \<Rightarrow> string \<Rightarrow> string \<Rightarrow> unit act" where
  "delete_identity env device_id encoded_device =
     (let url = hub_device_url env encoded_device in
      bindA (liftA (get_iothub_auth_headers env)) (\<lambda>headers.
      bindA (get_async env url headers) (\<lambda>a.
      if ha_status a = 404 then returnA ()
      else
        bindA (ensureA (ha_status a = 200) (backend_failure ''Could not retrieve device from iot-hub before delete: {}'' a)) (\<lambda>_.
        bindA (liftA (etag_of a)) (\<lambda>etag.
        bindA (ensureA (truthy etag) (Api IoTBackendAPIError
                 (Msg ''Could not retrieve etag for device {} from iot-hub.'' [JStr device_id]) 502)) (\<lambda>_.
        bindA (delete_async env url (dset ''If-Match'' (fmt env etag) headers)) (\<lambda>b.
        ensureA (ha_status b \<in> {200, 202, 204, 404})
          (backend_failure ''Could not delete device from iot-hub: {}'' b))))))))"

definition delete_device :: "remote \<Rightarrow> string \<Rightarrow> unit act" where
  "delete_device env device_id =
     bindA (liftA (encode_iothub_id device_id)) (\<lambda>encoded_device.
     bindA (readA (\<lambda>w. device_exists device_id (wd_db w))) (\<lambda>present.
     bindA (ensureA present (api_error ''Device {} not found'' [JStr device_id] 404)) (\<lambda>_.
     bindA (get_device_by_serial env device_id False) (\<lambda>sems_device.
     bindA (if sems_device \<noteq> None \<and> truthy (the sems_device)
            then bindA (liftA (subscript (the sems_device) ''id'')) (delete_sems_device env)
            else returnA ()) (\<lambda>_.
     bindA (delete_identity env device_id encoded_device) (\<lambda>_.
     dbA (\<lambda>db. Inr ((), delete_device_row device_id db))))))))"

end
