(* ===== verification/Device_Saga_Properties.thy ===== *)
theory Device_Saga_Properties
  imports Device_Saga
begin

text \<open>
  What holds of a creation or a deletion however the hub and Smart EMS answer.  Most steps only
  send requests: a relation between worlds that every such request satisfies holds for them all,
  so one locale carries the facts about the store and those about the log of requests.
\<close>

section \<open>Steps that only ask and update elsewhere\<close>

definition quiet_verb :: "http_call \<Rightarrow> bool" where
  "quiet_verb c = (hc_verb c \<in> {HttpGet, HttpPost, HttpPatch})"

locale quiet_relation = world_relation +
  assumes R_send: "quiet_verb c \<Longrightarrow> stepwise R (send env c)"
begin

lemma sw_calls [intro!]: "stepwise R (get_async env url hs)" "stepwise R (post_async env url b hs)"
  "stepwise R (patch_async env url b hs)"
  by (auto simp: get_async_def post_async_def patch_async_def quiet_verb_def intro!: R_send)

lemma sw_sems [intro!]: "stepwise R (sems_post env path b)" "stepwise R (sems_get env path)"
  by (auto simp: sems_post_def sems_get_def)

lemma sw_devices [intro!]:
  "stepwise R (get_device_by_serial env d b)" "stepwise R (get_template_by_template_name env t)"
  "stepwise R (edit_device env i body)" "stepwise R (create_sems_device env payload)"
  by (auto simp: get_device_by_serial_def get_template_by_template_name_def edit_device_def create_sems_device_def)

lemma sw_page [intro!]: "stepwise R (hub_page env query extra token)"
  by (auto simp: hub_page_def)

lemma sw_query [intro!]: "stepwise R (hub_query env query extra token rows)"
proof -
  have "R w (snd r)" if "hub_query env query extra token rows w = Some r" for w r
  proof (rule hub_query.raw_induct[where P = "\<lambda>env query extra token rows w r. R w (snd r)", OF _ that], goal_cases)
    case (1 hub_query env query extra token rows w r)
    show ?case
    proof (cases "hub_page env query extra token w")
      case (Some p)
      obtain res w1 where p: "p = (res, w1)" by (cases p)
      have one: "R w w1" using sw_page Some p by (metis stepwiseD)
      show ?thesis
      proof (cases res)
        case (Inl e)
        with 1(2) Some p one show ?thesis by auto
      next
        case (Inr q)
        obtain page nxt where q: "q = (page, nxt)" by (cases q)
        show ?thesis
        proof (cases nxt)
          case None
          with 1(2) Some p Inr q one show ?thesis by auto
        next
          case (Some t)
          with 1(2) \<open>hub_page env query extra token w = Some p\<close> p Inr q
          have "hub_query env query extra (Some t) (rows @ page) w1 = Some r" by simp
          from 1(1)[OF this] one show ?thesis by (rule R_trans[rotated])
        qed
      qed
    qed (use 1(2) in simp)
  qed
  then show ?thesis unfolding stepwise_def by fastforce
qed

lemma sw_edgehub [intro!]: "stepwise R (get_device_map_edgehub env)"
  by (auto simp: get_device_map_edgehub_def)

lemma sw_tag [intro!]: "stepwise R (put_deployment_tag env device tag)"
  by (auto simp: put_deployment_tag_def Let_def)

lemma sw_register [intro!]: "stepwise R (register_in_sems env device_id body registration_id conn)"
proof -
  have "stepwise R (update_sems_device env sems_device conn to_set)" for sems_device to_set
    by (auto simp: update_sems_device_def)
  then show ?thesis
    unfolding register_in_sems_def Let_def by (intro sw_bind sw_if sw_catch sw_return sw_devices)
qed

lemma sw_connection_string [intro!]: "stepwise R (hub_connection_string env device_id url headers)"
  by (auto simp: hub_connection_string_def)

end

definition other_calls :: "http_call \<Rightarrow> bool" where
  "other_calls c = (hc_verb c \<noteq> HttpPut \<and> hc_verb c \<noteq> HttpDelete)"

interpretation quiet_store: quiet_relation same_store
  by unfold_locales auto

interpretation quiet_log: quiet_relation "calls_only other_calls"
  by unfold_locales (auto simp: quiet_verb_def other_calls_def)

section \<open>Steps that fail\<close>

text \<open>A relation that holds whenever the step raises.\<close>

definition failing :: "(world \<Rightarrow> world \<Rightarrow> bool) \<Rightarrow> 'a act \<Rightarrow> bool" where
  "failing R m = (\<forall>w e w'. m w = Some (Inl e, w') \<longrightarrow> R w w')"

lemma failingD: "failing R m \<Longrightarrow> m w = Some (Inl e, w') \<Longrightarrow> R w w'"
  unfolding failing_def by blast

context world_relation
begin

lemma failing_step: "stepwise R m \<Longrightarrow> failing R m"
  unfolding failing_def stepwise_def by blast

lemma failing_bind: "stepwise R m \<Longrightarrow> (\<And>x. failing R (f x)) \<Longrightarrow> failing R (bindA m f)"
  unfolding failing_def stepwise_def bindA_Inl_iff by (blast intro: R_trans)

lemma failing_catch: "failing R m \<Longrightarrow> (\<And>e. failing R (h e)) \<Longrightarrow> failing R (catchA m h)"
  unfolding failing_def catchA_Some_iff by (blast intro: R_trans)

end

lemma failing_populate: "failing same_store (populate_cache env)"
proof -
  have "failing same_store (upsert_device_snapshot es)" for es
    by (simp add: failing_def upsert_device_snapshot_def)
  then have last: "failing same_store (case edgehub of None \<Rightarrow> returnA ()
      | Some m \<Rightarrow> bindA (ensureA (b m) TypeError) (\<lambda>_. upsert_device_snapshot (es m)))" for edgehub b es
    by (cases edgehub) (simp_all add: store.failing_step store.sw_return store.failing_bind)
  show ?thesis
    unfolding populate_cache_def by (intro store.failing_bind last) auto
qed

lemma failing_provision: "failing same_store (provision env device_id body registration_id url headers)"
  unfolding provision_def by (intro store.failing_bind failing_populate) auto

lemma failing_register: "failing same_store (register_identity env device_id encoded_device body registration_id)"
proof -
  have "stepwise same_store (undo_identity env url headers e)" for url headers e
    by (auto simp: undo_identity_def)
  then show ?thesis
    unfolding register_identity_def Let_def
    by (intro store.failing_bind store.failing_catch failing_provision store.failing_step) auto
qed

text \<open>Deleting the row that was just inserted gives back the catalogue.\<close>

lemma insert_device_Inr:
  assumes "insert_device rx d n db = Inr (row, db')"
  shows "\<not> has_key (devices db) d" "db' = db\<lparr>devices := devices db @ [(d, row)]\<rparr>"
  using assms by (auto simp: insert_device_def create_device_row_def Let_def split: json.splits)

lemma delete_inserted_row:
  assumes ok: "catalog_ok db" and new: "\<not> has_key (devices db) d"
  shows "delete_device_row d (db\<lparr>devices := devices db @ [(d, row)]\<rparr>) = db"
proof -
  have unused: "ep_device_id ep \<noteq> d" if "(k, ep) \<in> set (endpoints db)" for k ep
    using ok new that by (auto simp: catalog_ok_def references_ok_def list_all_iff)
  have "filter (\<lambda>(k, ep). ep_device_id ep \<noteq> d) (endpoints db) = endpoints db"
    "filter (\<lambda>(k, ep). ep_device_id ep = d) (endpoints db) = []"
    using unused by (auto intro!: filter_True simp: filter_empty_conv)
  moreover have "\<forall>p \<in> set (devices db). d \<noteq> fst p"
    using new by (auto simp: has_key_iff)
  then have "dpop d (devices db @ [(d, row)]) = devices db"
    by (simp add: AList.delete_eq case_prod_beta)
  ultimately show ?thesis
    by (simp add: delete_device_row_def delete_device_cascade_def delete_endpoints_where_def)
qed

section \<open>A failed creation\<close>

lemma create_device_failing:
  assumes "create_device rx env d body w = Some (Inl e, w')"
  shows "w' = w \<or>
    (\<exists>encoded n row db v e'. encode_iothub_id d = Inr encoded \<and> new_device_of d body = Inr n \<and>
       insert_device rx d n (wd_db w) = Inr (row, db) \<and>
       register_identity env d encoded body (nw_registration_id n) (w\<lparr>wd_db := db\<rparr>) = Some (Inl e', v) \<and>
       w' = v\<lparr>wd_db := delete_device_row d (wd_db v)\<rparr>)"
proof (cases "encode_iothub_id d")
  case (Inr encoded)
  show ?thesis
  proof (cases "new_device_of d body")
    case nw: (Inr n)
    show ?thesis
    proof (cases "device_exists d (wd_db w)")
      case False
      with assms Inr nw obtain row v where
        ins: "dbA (insert_device rx d n) w = Some (Inl e, w') \<or>
          dbA (insert_device rx d n) w = Some (Inr row, v) \<and>
          catchA (register_identity env d encoded body (nw_registration_id n)) (undo_row d) v = Some (Inl e, w')"
        by (auto simp: create_device_def bindA_Inl_iff)
      then show ?thesis
        using Inr nw by (auto simp: dbA_def catchA_Some_iff undo_row_def bindA_Some_iff split: sum.splits)
    qed (use assms Inr nw in \<open>simp add: create_device_def\<close>)
  qed (use assms Inr in \<open>simp add: create_device_def\<close>)
qed (use assms in \<open>simp add: create_device_def\<close>)

text \<open>
  C34: A creation that fails at any step, whatever the hub and Smart EMS answered before, leaves the
  database as it was: the inserted row is gone with nothing else removed, and neither the snapshot
  of the hub nor the template variables have changed.
\<close>

theorem failed_creation_keeps_store:
  assumes "catalog_ok (wd_db w)" "create_device rx env d body w = Some (Inl e, w')"
  shows "same_store w w'"
  using create_device_failing[OF assms(2)]
proof (elim disjE exE conjE)
  fix encoded n row db v e'
  assume ins: "insert_device rx d n (wd_db w) = Inr (row, db)"
    and reg: "register_identity env d encoded body (nw_registration_id n) (w\<lparr>wd_db := db\<rparr>) = Some (Inl e', v)"
    and w': "w' = v\<lparr>wd_db := delete_device_row d (wd_db v)\<rparr>"
  have "same_store (w\<lparr>wd_db := db\<rparr>) v" by (rule failingD[OF failing_register reg])
  then show ?thesis
    using delete_inserted_row[OF assms(1) insert_device_Inr(1)[OF ins], of row] insert_device_Inr(2)[OF ins]
    by (simp add: same_store_def w')
qed (simp add: same_store_def)

section \<open>The identity of the hub\<close>

lemma log_populate: "stepwise (calls_only other_calls) (populate_cache env)"
proof -
  have "stepwise (calls_only other_calls) (upsert_device_snapshot es)" for es
    by (simp add: stepwise_def upsert_device_snapshot_def calls_only_def)
  then show ?thesis by (auto simp: populate_cache_def)
qed

lemma log_provision: "stepwise (calls_only other_calls) (provision env device_id body registration_id url headers)"
  unfolding provision_def by (intro only.sw_bind only.sw_catch log_populate) auto

definition put_identity :: "remote \<Rightarrow> string \<Rightarrow> string \<Rightarrow> string dict \<Rightarrow> http_call" where
  "put_identity env device_id encoded headers =
     \<lparr>hc_verb = HttpPut, hc_url = hub_device_url env encoded, hc_headers = headers, hc_body = identity_body device_id\<rparr>"

definition withdraw :: "http_call \<Rightarrow> http_call" where
  "withdraw put = \<lparr>hc_verb = HttpDelete, hc_url = hc_url put, hc_headers = hc_headers put, hc_body = JNull\<rparr>"

text \<open>The log of a registration that fails, from its first request on.\<close>

lemma failing_register_log:
  assumes "register_identity env d encoded body rid w = Some (Inl e, w')"
  shows "wd_calls w' = wd_calls w \<or>
    (\<exists>headers mid. wd_calls w' = wd_calls w @ put_identity env d encoded headers # mid \<and>
       (\<forall>a. rm_answer env (wd_calls w) (put_identity env d encoded headers) = Some a \<longrightarrow> put_accepted a \<longrightarrow>
        (\<exists>rest. mid = rest @ [withdraw (put_identity env d encoded headers)] \<and> list_all other_calls rest)) \<and>
       (mid = [] \<or> (\<exists>rest. mid = rest @ [withdraw (put_identity env d encoded headers)] \<and> list_all other_calls rest)))"
proof (cases "get_iothub_auth_headers env")
  case (Inl e')
  with assms show ?thesis by (simp add: register_identity_def Let_def)
next
  case (Inr headers)
  let ?put = "put_identity env d encoded headers"
  let ?w1 = "w\<lparr>wd_calls := wd_calls w @ [?put]\<rparr>"
  have sent: "put_async env (hub_device_url env encoded) (identity_body d) headers = send env ?put"
    by (simp add: put_async_def put_identity_def)
  show ?thesis
  proof (cases "\<exists>a. rm_answer env (wd_calls w) ?put = Some a \<and> put_accepted a")
    case False
    with assms Inr have "wd_calls w' = wd_calls w @ [?put]"
      by (auto simp: register_identity_def Let_def sent bindA_Inl_iff send_result ensure_def split: option.splits if_splits)
    with False show ?thesis by (intro disjI2 exI[of _ headers] exI[of _ "[]"]) auto
  next
    case True
    with assms Inr have "catchA (provision env d body rid (hub_device_url env encoded) headers)
        (undo_identity env (hub_device_url env encoded) headers) ?w1 = Some (Inl e, w')"
      by (auto simp: register_identity_def Let_def sent bindA_Inl_iff send_result ensure_def split: option.splits)
    then obtain e' v where p: "provision env d body rid (hub_device_url env encoded) headers ?w1 = Some (Inl e', v)"
      and u: "undo_identity env (hub_device_url env encoded) headers e' v = Some (Inl e, w')"
      by (auto simp: catchA_Some_iff)
    from stepwiseD[OF log_provision p] obtain rest where
      rest: "wd_calls v = wd_calls w @ ?put # rest" "list_all other_calls rest"
      by (auto simp: calls_only_def)
    have "wd_calls w' = wd_calls v @ [withdraw ?put]"
      using u by (auto simp: undo_identity_def bindA_Inl_iff catchA_Some_iff delete_async_def send_result withdraw_def
          put_identity_def bindA_Some_iff split: option.splits)
    with rest show ?thesis by (intro disjI2 exI[of _ headers]) auto
  qed
qed

text \<open>
  C35: When the hub accepted the identity of the new device and the creation then fails, the last
  request of the creation withdraws that identity: a DELETE of the URL the PUT went to, with the
  same headers.  No failing creation leaves an accepted registration without that request.
\<close>

theorem failed_creation_withdraws_identity:
  assumes "create_device rx env d body w = Some (Inl e, w')"
    and "wd_calls w' = wd_calls w @ earlier @ put # later" "hc_verb put = HttpPut"
    and "rm_answer env (wd_calls w @ earlier) put = Some a" "put_accepted a"
  shows "\<exists>rest. later = rest @ [withdraw put]"
  using create_device_failing[OF assms(1)]
proof (elim disjE exE conjE)
  assume "w' = w"
  with assms(2) show ?thesis by simp
next
  fix encoded n row db v e'
  assume "register_identity env d encoded body (nw_registration_id n) (w\<lparr>wd_db := db\<rparr>) = Some (Inl e', v)"
    and "w' = v\<lparr>wd_db := delete_device_row d (wd_db v)\<rparr>"
  with failing_register_log[of env d encoded body "nw_registration_id n" "w\<lparr>wd_db := db\<rparr>" e' v] assms(2)
  obtain headers mid where log: "earlier @ put # later = put_identity env d encoded headers # mid"
    and accepted: "\<And>a. rm_answer env (wd_calls w) (put_identity env d encoded headers) = Some a \<Longrightarrow> put_accepted a \<Longrightarrow>
        \<exists>rest. mid = rest @ [withdraw (put_identity env d encoded headers)] \<and> list_all other_calls rest"
    and mid: "mid = [] \<or> (\<exists>rest. mid = rest @ [withdraw (put_identity env d encoded headers)] \<and> list_all other_calls rest)"
    by auto
  have "hc_verb c \<noteq> HttpPut" if "c \<in> set mid" for c
    using mid that by (auto simp: list_all_iff other_calls_def withdraw_def)
  then have "earlier = []" using log assms(3) by (cases earlier) auto
  with log accepted assms(4,5) show ?thesis by fastforce
qed

section \<open>A creation that succeeds\<close>

definition sets_variable :: "string \<Rightarrow> string \<Rightarrow> http_call \<Rightarrow> bool" where
  "sets_variable name v c =
     (hc_verb c = HttpPost \<and>
      (case hc_body c of
         JObj body \<Rightarrow> (case pget body ''variables'' of
             JList vars \<Rightarrow> JObj [(''name'', JStr name), (''variableValue'', JStr v)] \<in> set vars
           | _ \<Rightarrow> False)
       | _ \<Rightarrow> False))"

lemma variables_to_set_connection:
  assumes "conn \<noteq> []"
  shows "(''device_connection_string'', conn) \<in> set (variables_to_set vars rid conn)"
proof -
  have "map_of (dset ''device_connection_string'' conn (dset ''registration_id_generated'' rid vars))
      ''device_connection_string'' = Some conn" by simp
  then show ?thesis using assms by (simp add: variables_to_set_def map_of_mem)
qed

lemma wf_variables_to_set: "wf_dict vars \<Longrightarrow> wf_dict (variables_to_set vars rid conn)"
  unfolding variables_to_set_def by (auto intro!: distinct_map_filter)

lemma merged_variables_connection:
  assumes "merged_variables vars to_set = Inr merged" "(n, v) \<in> set to_set" "wf_dict to_set"
  shows "JObj [(''name'', JStr n), (''variableValue'', JStr v)] \<in> set merged"
proof -
  let ?j = "map (\<lambda>(n, v). (JStr n, JStr v)) to_set"
  have wf: "wf_dict ?j"
    using assms(3) by (simp add: comp_def case_prod_beta distinct_map inj_on_def)
  have "(JStr n, JStr v) \<in> set ?j" using assms(2) by force
  with wf have "map_of ?j (JStr n) = Some (JStr v)" by simp
  then have "map_of (dupdate base ?j) (JStr n) = Some (JStr v)" for base
    by (simp add: map_of_dupdate[OF wf])
  then have "(JStr n, JStr v) \<in> set (dupdate base ?j)" for base
    by (rule map_of_SomeD)
  then show ?thesis using assms(1) by (force simp: merged_variables_def Let_def)
qed

lemma sems_post_logged:
  assumes "sems_post env path body w = Some (Inr a, w')"
  shows "\<exists>headers. wd_calls w' = wd_calls w @
    [\<lparr>hc_verb = HttpPost, hc_url = rm_sems env @ path, hc_headers = headers, hc_body = body\<rparr>]"
  using assms by (auto simp: sems_post_def post_async_def send_result)

lemma edit_logged:
  assumes "edit_device env i body w = Some (Inr (), w')"
  shows "\<exists>c. hc_verb c = HttpPost \<and> hc_body c = body \<and> wd_calls w' = wd_calls w @ [c]"
  using assms sems_post_logged unfolding edit_device_def
  by (fastforce simp: bindA_Some_iff split: if_splits)

lemma create_sems_logged:
  assumes "create_sems_device env body w = Some (Inr r, w')"
  shows "\<exists>c. hc_verb c = HttpPost \<and> hc_body c = body \<and> wd_calls w' = wd_calls w @ [c]"
  using assms sems_post_logged unfolding create_sems_device_def
  by (fastforce simp: bindA_Some_iff split: if_splits)

lemma update_sets_connection:
  assumes "update_sems_device env dev conn to_set w = Some (Inr (), w')"
    "(n, v) \<in> set to_set" "wf_dict to_set"
  shows "\<exists>c. sets_variable n v c \<and> wd_calls w' = wd_calls w @ [c]"
proof -
  from assms(1) obtain vars merged i clean where m: "merged_variables vars to_set = Inr merged"
    and e: "edit_device env i (JObj (dset ''variables'' (JList merged) clean)) w = Some (Inr (), w')"
    by (auto simp: update_sems_device_def bindA_Inr_iff split: if_splits)
  from edit_logged[OF e] merged_variables_connection[OF m assms(2,3)] show ?thesis
    by (auto simp: sets_variable_def)
qed

lemma payload_sets_variable:
  assumes "(n, v) \<in> set to_set" "hc_verb c = HttpPost" "hc_body c = sems_payload d body t i to_set"
  shows "sets_variable n v c"
  using assms by (force simp: sets_variable_def sems_payload_def copied_def)

lemma registered_in_sems:
  assumes "register_in_sems env d body rid conn w = Some (Inr (), w')" "wf_dict (wd_vars w)" "conn \<noteq> []"
  shows "\<exists>cs. wd_calls w' = wd_calls w @ cs \<and> (\<exists>c \<in> set cs. sets_variable ''device_connection_string'' conn c)"
proof -
  from assms(1) obtain found w1 template w2 where
    one: "get_device_by_serial env d False w = Some (Inr found, w1)"
    and two: "catchA (bindA (get_template_by_template_name env (rm_template env)) (\<lambda>t. returnA (Some t)))
        (\<lambda>_. returnA None) w1 = Some (Inr template, w2)"
    and rest: "(if found \<noteq> None \<and> truthy (the found)
        then update_sems_device env (the found) conn (variables_to_set (wd_vars w1) rid conn)
        else bindA (liftA (device_type_param env body template)) (\<lambda>device_type.
          bindA (liftA (case body of JObj d \<Rightarrow> Inr d | _ \<Rightarrow> Inl AttributeError)) (\<lambda>fields.
          bindA (create_sems_device env (sems_payload d fields device_type (template_id_of template)
              (variables_to_set (wd_vars w1) rid conn))) (\<lambda>_. returnA ())))) w2 = Some (Inr (), w')"
    unfolding register_in_sems_def Let_def bindA_Inr_iff by (auto simp del: bindA_return)
  have "same_store w w1" using one by (rule stepwiseD[OF quiet_store.sw_devices(1)])
  with assms(2,3) have v: "(''device_connection_string'', conn) \<in> set (variables_to_set (wd_vars w1) rid conn)"
    "wf_dict (variables_to_set (wd_vars w1) rid conn)"
    by (auto simp: same_store_def intro: variables_to_set_connection wf_variables_to_set)
  have "calls_only other_calls w w1" using one by (rule stepwiseD[OF quiet_log.sw_devices(1)])
  moreover have "stepwise (calls_only other_calls)
      (catchA (bindA (get_template_by_template_name env (rm_template env)) (\<lambda>t. returnA (Some t))) (\<lambda>_. returnA None))"
    by auto
  then have "calls_only other_calls w1 w2" using two by (rule stepwiseD)
  ultimately obtain cs where cs: "wd_calls w2 = wd_calls w @ cs" by (auto simp: calls_only_def)
  have "\<exists>c. sets_variable ''device_connection_string'' conn c \<and> wd_calls w' = wd_calls w2 @ [c]"
  proof (cases "found \<noteq> None \<and> truthy (the found)")
    case True
    with rest have "update_sems_device env (the found) conn (variables_to_set (wd_vars w1) rid conn) w2 = Some (Inr (), w')"
      by simp
    from update_sets_connection[OF this v] show ?thesis .
  next
    case False
    with rest obtain fields t r w3 where
      "create_sems_device env (sems_payload d fields t (template_id_of template)
          (variables_to_set (wd_vars w1) rid conn)) w2 = Some (Inr r, w3)" "w3 = w'"
      by (auto simp: bindA_Inr_iff)
    from create_sems_logged[OF this(1)] this(2) payload_sets_variable[OF v(1)] show ?thesis by auto
  qed
  with cs show ?thesis by auto
qed

definition same_db :: "world \<Rightarrow> world \<Rightarrow> bool" where
  "same_db w w' = (wd_db w' = wd_db w)"

interpretation quiet_db: quiet_relation same_db
  by unfold_locales (auto simp: same_db_def stepwise_def send_result)

lemma db_provision: "stepwise same_db (provision env device_id body registration_id url headers)"
proof -
  have "stepwise same_db (upsert_device_snapshot es)" for es
    by (simp add: stepwise_def upsert_device_snapshot_def same_db_def)
  then have "stepwise same_db (populate_cache env)"
    by (auto simp: populate_cache_def)
  then show ?thesis unfolding provision_def by (intro quiet_db.sw_bind quiet_db.sw_catch) auto
qed

lemma provision_registers:
  assumes "provision env d body rid url headers w = Some (Inr u, w')" "wf_dict (wd_vars w)"
  shows "\<exists>key cs. wd_calls w' = wd_calls w @ cs \<and>
    (\<exists>c \<in> set cs. sets_variable ''device_connection_string'' (connection_string env d key) c)"
proof -
  from assms(1) obtain conn w1 w2 where
    h: "hub_connection_string env d url headers w = Some (Inr conn, w1)"
    and r: "register_in_sems env d body rid conn w1 = Some (Inr (), w2)"
    and rest: "bindA (catchA (put_deployment_tag env d ''base'') (\<lambda>_. returnA ())) (\<lambda>_. populate_cache env) w2 = Some (Inr u, w')"
    unfolding provision_def bindA_Inr_iff by (metis old.unit.exhaust)
  from h obtain key where key: "conn = connection_string env d key"
    by (auto simp: hub_connection_string_def bindA_Some_iff split: if_splits)
  have "same_store w w1" using h by (rule stepwiseD[OF quiet_store.sw_connection_string])
  with assms(2) have wf: "wf_dict (wd_vars w1)" by (simp add: same_store_def)
  have "conn \<noteq> []" by (simp add: key connection_string_def)
  note sems = registered_in_sems[OF r wf this]
  have "stepwise (calls_only other_calls)
      (bindA (catchA (put_deployment_tag env d ''base'') (\<lambda>_. returnA ())) (\<lambda>_. populate_cache env))"
    by (intro only.sw_bind only.sw_catch log_populate) auto
  from stepwiseD[OF this rest] stepwiseD[OF quiet_log.sw_connection_string h] sems key show ?thesis
    by (fastforce simp: calls_only_def)
qed

lemma registered_identity:
  assumes "register_identity env d encoded body rid w = Some (Inr u, w')"
  shows "\<exists>headers a. rm_answer env (wd_calls w) (put_identity env d encoded headers) = Some a \<and> put_accepted a \<and>
    provision env d body rid (hub_device_url env encoded) headers
      (w\<lparr>wd_calls := wd_calls w @ [put_identity env d encoded headers]\<rparr>) = Some (Inr u, w')"
  using assms
  by (auto simp: register_identity_def Let_def bindA_Inr_iff catchA_Some_iff undo_identity_def put_async_def
      send_result put_identity_def bindA_Some_iff split: if_splits option.splits)

lemma create_device_Inr:
  assumes "create_device rx env d body w = Some (Inr row, w')"
  obtains encoded n db where "encode_iothub_id d = Inr encoded" "insert_device rx d n (wd_db w) = Inr (row, db)"
    "register_identity env d encoded body (nw_registration_id n) (w\<lparr>wd_db := db\<rparr>) = Some (Inr (), w')"
  using assms
  by (auto simp: create_device_def bindA_Inr_iff catchA_Some_iff undo_row_def dbA_def
      split: if_splits sum.splits)


section \<open>Deleting\<close>

lemma store_delete_sems: "stepwise same_store (delete_sems_device env i)"
  by (auto simp: delete_sems_device_def sems_delete_def)

lemma store_delete_identity: "stepwise same_store (delete_identity env d encoded)"
  by (auto simp: delete_identity_def Let_def)

text \<open>The hub no longer has the identity: it did not know it, or it accepted its deletion.\<close>

definition identity_gone :: "remote \<Rightarrow> string \<Rightarrow> world \<Rightarrow> bool" where
  "identity_gone env url w' =
     (\<exists>calls c a. wd_calls w' = calls @ [c] \<and> hc_url c = url \<and> rm_answer env calls c = Some a \<and>
        (hc_verb c = HttpGet \<and> ha_status a = 404 \<or> hc_verb c = HttpDelete \<and> ha_status a \<in> {200, 202, 204, 404}))"

lemma identity_goneI:
  "wd_calls w' = calls @ [c] \<Longrightarrow> hc_url c = url \<Longrightarrow> rm_answer env calls c = Some a \<Longrightarrow>
    hc_verb c = HttpGet \<and> ha_status a = 404 \<or> hc_verb c = HttpDelete \<and> ha_status a \<in> {200, 202, 204, 404} \<Longrightarrow>
    identity_gone env url w'"
  unfolding identity_gone_def by blast

lemma delete_identity_Inr:
  assumes "delete_identity env d encoded w = Some (Inr u, w')"
  shows "identity_gone env (hub_device_url env encoded) w'"
  using assms
  by (auto simp: delete_identity_def Let_def get_async_def delete_async_def bindA_Inr_iff send_result
      split: if_splits option.splits intro!: identity_goneI)

text \<open>
  C37: The database is the last to forget a device.  A deletion that fails leaves everything stored
  as it was; one that succeeds has removed the row of an existing device, with what depends on it
  and nothing else, and its last request is the one by which the hub answered that the identity is
  unknown or deleted.
\<close>

theorem database_forgets_last:
  assumes "delete_device env d w = Some (r, w')"
  shows "case r of
      Inl e \<Rightarrow> same_store w w'
    | Inr _ \<Rightarrow> has_key (devices (wd_db w)) d \<and> wd_db w' = delete_device_row d (wd_db w) \<and>
        (\<exists>encoded. encode_iothub_id d = Inr encoded \<and> identity_gone env (hub_device_url env encoded) w')"
proof (cases r)
  case (Inl e)
  have "failing same_store (dbA (\<lambda>db. Inr ((), delete_device_row d db)))"
    by (simp add: failing_def dbA_def)
  then have "failing same_store (delete_device env d)"
    unfolding delete_device_def
    by (intro store.failing_bind store_delete_identity) (auto intro: store_delete_sems)
  from failingD[OF this] assms Inl show ?thesis by simp
next
  case (Inr u)
  with assms obtain encoded where enc: "encode_iothub_id d = Inr encoded"
    by (cases "encode_iothub_id d") (auto simp: delete_device_def)
  with assms Inr have present: "has_key (devices (wd_db w)) d"
    by (auto simp: delete_device_def device_exists_def split: if_splits)
  let ?forget = "\<lambda>found. if found \<noteq> None \<and> truthy (the found)
      then bindA (liftA (subscript (the found) ''id'')) (delete_sems_device env) else returnA ()"
  from assms Inr enc present have "bindA (get_device_by_serial env d False) (\<lambda>found. bindA (?forget found) (\<lambda>_.
      bindA (delete_identity env d encoded) (\<lambda>_. dbA (\<lambda>db. Inr ((), delete_device_row d db))))) w = Some (Inr u, w')"
    by (simp add: delete_device_def device_exists_def)
  then obtain found w0 w1 w2 x y where one: "get_device_by_serial env d False w = Some (Inr found, w0)"
    and two: "?forget found w0 = Some (Inr x, w1)" and three: "delete_identity env d encoded w1 = Some (Inr y, w2)"
    and four: "dbA (\<lambda>db. Inr ((), delete_device_row d db)) w2 = Some (Inr u, w')"
    unfolding bindA_Inr_iff by blast
  have "stepwise same_store (?forget found)"
    by (auto intro: store_delete_sems)
  from stepwiseD[OF quiet_store.sw_devices(1) one] stepwiseD[OF this two] stepwiseD[OF store_delete_identity three]
  have "wd_db w2 = wd_db w" by (simp add: same_store_def)
  moreover have w': "w' = w2\<lparr>wd_db := delete_device_row d (wd_db w2)\<rparr>"
    using four by (simp add: dbA_def)
  moreover have "identity_gone env (hub_device_url env encoded) w'"
    using delete_identity_Inr[OF three] by (simp add: w' identity_gone_def)
  ultimately show ?thesis using Inr enc present by auto
qed

section \<open>Refreshing the snapshot\<close>

definition query_call :: "remote \<Rightarrow> string \<Rightarrow> string dict \<Rightarrow> http_call" where
  "query_call env query headers =
     \<lparr>hc_verb = HttpPost, hc_url = hub_query_url env, hc_headers = headers, hc_body = JObj [(''query'', JStr query)]\<rparr>"

text \<open>The hub answers a query with these pages, each naming the token the next one is asked with.\<close>

fun serves :: "remote \<Rightarrow> string \<Rightarrow> string dict \<Rightarrow> string dict \<Rightarrow> string option \<Rightarrow> (json \<times> json) list list \<Rightarrow> bool" where
  "serves env query extra auth token [] = False"
| "serves env query extra auth token (page # pages) =
     (\<exists>a. (\<forall>calls. rm_answer env calls (query_call env query (query_headers auth extra token)) = Some a) \<and>
        ha_status a = 200 \<and> query_rows a = Inr page \<and>
        (case map_of (ha_headers a) ''x-ms-continuation'' of
           None \<Rightarrow> pages = []
         | Some t \<Rightarrow> serves env query extra auth (Some t) pages))"

lemma hub_query_reads_pages:
  assumes "get_iothub_auth_headers env = Inr auth"
  shows "serves env query extra auth token pages \<Longrightarrow>
    \<exists>calls. hub_query env query extra token rows w =
      Some (Inr (rows @ concat pages), w\<lparr>wd_calls := wd_calls w @ calls\<rparr>)"
proof (induction pages arbitrary: token rows w)
  case (Cons page pages)
  let ?c = "query_call env query (query_headers auth extra token)"
  from Cons.prems obtain a where a: "rm_answer env (wd_calls w) ?c = Some a" "ha_status a = 200" "query_rows a = Inr page"
    and tl: "case map_of (ha_headers a) ''x-ms-continuation'' of None \<Rightarrow> pages = []
         | Some t \<Rightarrow> serves env query extra auth (Some t) pages"
    by auto
  let ?w = "w\<lparr>wd_calls := wd_calls w @ [?c]\<rparr>"
  have post: "post_async env (hub_query_url env) (JObj [(''query'', JStr query)]) (query_headers auth extra token) w =
      Some (Inr a, ?w)"
    using a(1) by (simp add: post_async_def send_def query_call_def Let_def)
  have page: "hub_page env query extra token w =
      Some (Inr (page, map_of (ha_headers a) ''x-ms-continuation''), ?w)"
    using a(2,3) assms by (simp add: hub_page_def bindA_def post)
  show ?case
  proof (cases "map_of (ha_headers a) ''x-ms-continuation''")
    case None
    with tl page show ?thesis by (subst hub_query.simps) auto
  next
    case (Some t)
    with tl have "serves env query extra auth (Some t) pages" by simp
    from Cons.IH[OF this, of "rows @ page" ?w] Some page show ?thesis by (subst hub_query.simps) auto
  qed
qed simp

text \<open>
  C38: A refresh of the snapshot returns whenever the hub answers both queries with finitely many
  pages, and stores the devices of all pages in order, each with the state of its \<open>$edgeHub\<close>
  module where that query lists one and with its own state otherwise; nothing else that is stored
  changes.
\<close>

theorem refresh_stores_every_page:
  assumes "get_iothub_auth_headers env = Inr auth"
    and "serves env states_query (dset ''x-ms-max-item-count'' ''2000'' json_content) auth None pages"
    and "serves env edgehub_query json_content auth None modules"
    and "list_all (\<lambda>(name, _). hashable name) (concat pages)" "list_all (\<lambda>(name, _). hashable name) (concat modules)"
  shows "\<exists>w'. populate_cache env w = Some (Inr (), w') \<and> wd_db w' = wd_db w \<and> wd_vars w' = wd_vars w \<and>
    wd_snapshot w' = Some (map (with_edgehub_state (dupdate [] (concat modules))) (concat pages))"
proof -
  from hub_query_reads_pages[OF assms(1,2), of "[]" w] obtain calls where
    one: "hub_query env states_query (dset ''x-ms-max-item-count'' ''2000'' json_content) None [] w =
      Some (Inr (concat pages), w\<lparr>wd_calls := wd_calls w @ calls\<rparr>)" by auto
  let ?w = "w\<lparr>wd_calls := wd_calls w @ calls\<rparr>"
  from hub_query_reads_pages[OF assms(1,3), of "[]" ?w] obtain calls' where
    two: "hub_query env edgehub_query json_content None [] ?w =
      Some (Inr (concat modules), ?w\<lparr>wd_calls := wd_calls ?w @ calls'\<rparr>)" by auto
  have three: "get_device_map_edgehub env ?w = Some (Inr (dupdate [] (concat modules)), ?w\<lparr>wd_calls := wd_calls ?w @ calls'\<rparr>)"
    using assms(5) by (simp add: get_device_map_edgehub_def bindA_def two)
  show ?thesis
    using assms(4) by (simp add: populate_cache_def bindA_def catchA_def one three upsert_device_snapshot_def)
qed

end
