(* ===== verification/Device_Samples.thy ===== *)
theory Device_Samples
  imports Device_Saga_Properties
begin

text \<open>
  The properties of creating, deleting and refreshing at concrete services: a hub and a Smart EMS
  that answer by method and URL, once with every step succeeding and once with Smart EMS refusing
  the new device.
\<close>

section \<open>Services\<close>

definition answer_of :: "nat \<Rightarrow> json \<Rightarrow> http_answer" where
  "answer_of status v = \<lparr>ha_status = status, ha_text = [], ha_json = Some v, ha_headers = [(''etag'', ''e1'')]\<rparr>"

definition sample_device_url :: string where
  "sample_device_url = ''https://hub/devices/eg-1?api-version=2021-04-12''"

definition sample_twin_url :: string where
  "sample_twin_url = ''https://hub/twins/eg-1?api-version=2020-05-31-preview''"

definition sample_answers :: "nat \<Rightarrow> ((http_verb \<times> string) \<times> http_answer) list" where
  "sample_answers create_status =
     [((HttpPut, sample_device_url), answer_of 201 (JObj [])),
      ((HttpGet, sample_device_url), answer_of 200 (JObj [(''authentication'',
          JObj [(''symmetricKey'', JObj [(''primaryKey'', JStr ''k1'')])])])),
      ((HttpDelete, sample_device_url), answer_of 204 JNull),
      ((HttpPost, ''https://sems/web/api/device/list''), answer_of 200 (JObj [(''results'', JList [])])),
      ((HttpPost, ''https://sems/web/api/template/list''), answer_of 404 JNull),
      ((HttpPost, ''https://sems/web/api/device/create''), answer_of create_status (JObj [])),
      ((HttpGet, sample_twin_url), answer_of 200 (JObj [])),
      ((HttpPatch, sample_twin_url), answer_of 200 (JObj [])),
      ((HttpPost, ''https://hub/devices/query?api-version=2021-04-12''), answer_of 200
         (JList [JObj [(''deviceId'', JStr ''eg-1''), (''connectionState'', JStr ''Connected'')]]))]"

definition sample_remote :: "nat \<Rightarrow> remote" where
  "sample_remote create_status =
     \<lparr>rm_answer = (\<lambda>_ c. map_of (sample_answers create_status) (hc_verb c, hc_url c)),
      rm_hub = ''hub'', rm_sems = ''https://sems'', rm_sems_user = JNull, rm_sems_password = JNull,
      rm_sas = Some ''sas'', rm_identity = None, rm_template = ''t'', rm_repr = (\<lambda>_. []),
      rm_loads = (\<lambda>_. None), rm_yaml = (\<lambda>_. None), rm_days = (\<lambda>_. None), rm_seconds = (\<lambda>_. None)\<rparr>"

definition sample_world :: world where
  "sample_world = \<lparr>wd_calls = [], wd_sems = \<lparr>ss_token = JStr ''s1'', ss_refresh_token = JNull, ss_init_done = True\<rparr>,
     wd_db = \<lparr>device_types = [(''default'', \<lparr>ty_label = ''Default'', ty_description = None, ty_fields = []\<rparr>)],
       devices = [], endpoint_types = [], endpoints = [], service_types = [], services = []\<rparr>,
     wd_snapshot = None, wd_vars = [(''region'', ''eu'')]\<rparr>"

lemma sample_world_ok: "catalog_ok (wd_db sample_world)" "wf_dict (wd_vars sample_world)"
  by code_simp+

definition any_regex :: regex_engine where
  "any_regex _ = (\<lambda>_. Inr True)"

section \<open>Creating\<close>

abbreviation creation :: "nat \<Rightarrow> (device_row res \<times> world) option" where
  "creation status \<equiv> create_device any_regex (sample_remote status) ''eg-1'' (JObj [(''meta'', JObj [(''site'', JStr ''A'')])]) sample_world"

definition creation_succeeds :: "(device_row res \<times> world) option \<Rightarrow> bool" where
  "creation_succeeds r = (case r of Some (Inr _, _) \<Rightarrow> True | _ \<Rightarrow> False)"

lemma sample_creation_succeeds: "creation_succeeds (creation 201)"
  by code_simp

text \<open>Smart EMS refuses the device after the hub has accepted its identity.\<close>

definition fails_after_accepted_put :: "nat \<Rightarrow> (device_row res \<times> world) option \<Rightarrow> bool" where
  "fails_after_accepted_put status r =
     (case r of
        Some (Inl _, w') \<Rightarrow>
          (case wd_calls w' of
             put # later \<Rightarrow> hc_verb put = HttpPut \<and>
               (case rm_answer (sample_remote status) [] put of Some a \<Rightarrow> put_accepted a | None \<Rightarrow> False)
           | [] \<Rightarrow> False)
      | _ \<Rightarrow> False)"

lemma sample_creation_fails: "fails_after_accepted_put 400 (creation 400)"
  by code_simp

lemma sample_failure:
  obtains e w' put later a where "creation 400 = Some (Inl e, w')" "wd_calls w' = put # later" "hc_verb put = HttpPut"
    "rm_answer (sample_remote 400) [] put = Some a" "put_accepted a"
  using sample_creation_fails
  by (auto simp: fails_after_accepted_put_def split: option.splits prod.splits sum.splits list.splits)

theorem failed_creation_keeps_store_witness:
  "\<exists>e w'. creation 400 = Some (Inl e, w') \<and> same_store sample_world w'"
proof -
  obtain e w' where r: "creation 400 = Some (Inl e, w')" using sample_failure by blast
  from failed_creation_keeps_store[OF sample_world_ok(1) r] r show ?thesis by blast
qed

theorem failed_creation_withdraws_identity_witness:
  "\<exists>e w' put rest. creation 400 = Some (Inl e, w') \<and> hc_verb put = HttpPut \<and>
     wd_calls w' = put # rest @ [withdraw put]"
proof -
  obtain e w' put later a where r: "creation 400 = Some (Inl e, w')" and log: "wd_calls w' = put # later"
    and put: "hc_verb put = HttpPut" "rm_answer (sample_remote 400) [] put = Some a" "put_accepted a"
    by (rule sample_failure)
  have "wd_calls sample_world = []" by (simp add: sample_world_def)
  with log put failed_creation_withdraws_identity[OF r, of "[]" put later a] r show ?thesis by auto
qed


section \<open>Deleting\<close>

definition stocked_world :: world where
  "stocked_world = sample_world\<lparr>wd_db := (wd_db sample_world)
     \<lparr>devices := [(''eg-1'', \<lparr>dv_type_id = ''default'', dv_data = []\<rparr>)]\<rparr>\<rparr>"

definition deletion_succeeds :: "(unit res \<times> world) option \<Rightarrow> bool" where
  "deletion_succeeds r = (case r of Some (Inr _, _) \<Rightarrow> True | _ \<Rightarrow> False)"

lemma sample_deletion_succeeds: "deletion_succeeds (delete_device (sample_remote 201) ''eg-1'' stocked_world)"
  by code_simp

theorem database_forgets_last_witness:
  "\<exists>w' encoded. delete_device (sample_remote 201) ''eg-1'' stocked_world = Some (Inr (), w') \<and>
     \<not> has_key (devices (wd_db w')) ''eg-1'' \<and> identity_gone (sample_remote 201) (hub_device_url (sample_remote 201) encoded) w'"
proof -
  obtain w' where r: "delete_device (sample_remote 201) ''eg-1'' stocked_world = Some (Inr (), w')"
    using sample_deletion_succeeds by (auto simp: deletion_succeeds_def split: option.splits prod.splits sum.splits)
  from database_forgets_last[OF r] r show ?thesis
    by (auto simp: delete_device_row_def delete_device_cascade_def has_key_def)
qed

section \<open>Refreshing\<close>

lemma sample_serves:
  "serves (sample_remote 201) states_query (dset ''x-ms-max-item-count'' ''2000'' json_content) [(''Authorization'', ''sas'')] None
     [[(JStr ''eg-1'', JStr ''Connected'')]]"
  "serves (sample_remote 201) edgehub_query json_content [(''Authorization'', ''sas'')] None
     [[(JStr ''eg-1'', JStr ''Connected'')]]"
  by (simp_all add: sample_remote_def sample_answers_def query_call_def hub_query_url_def answer_of_def query_rows_def
      answer_json_def query_row_def subscript_def sample_device_url_def sample_twin_url_def)

theorem refresh_stores_every_page_witness:
  "\<exists>w'. populate_cache (sample_remote 201) sample_world = Some (Inr (), w') \<and>
     wd_snapshot w' = Some [(JStr ''eg-1'', JStr ''Connected'')]"
proof -
  have "get_iothub_auth_headers (sample_remote 201) = Inr [(''Authorization'', ''sas'')]"
    by (simp add: get_iothub_auth_headers_def sample_remote_def truthy_str_def)
  from refresh_stores_every_page[OF this sample_serves, of sample_world] show ?thesis
    by (auto simp: with_edgehub_state_def dupdate_def)
qed

end
