(* ===== verification/Ip_Address.thy ===== *)
theory Ip_Address
  imports Py_Values
begin

text \<open>
  The part of Python's \<open>ipaddress\<close> module that the network discovery uses: reading IPv4 and IPv6
  addresses from text, writing them, and the network of a given prefix length around an address.
  An address is its number; None stands for the ValueError of a text that is no address.
\<close>

section \<open>IPv4 addresses\<close>

definition parse_octet :: "string \<Rightarrow> int option" where
  "parse_octet s =
     (if s \<noteq> [] \<and> list_all is_digit s \<and> length s \<le> 3 \<and> (s = ''0'' \<or> hd s \<noteq> CHR ''0'') \<and>
         nat_of_digits s \<le> 255
      then Some (int (nat_of_digits s)) else None)"

fun number_of_octets :: "int option list \<Rightarrow> int option" where
  "number_of_octets [Some a, Some b, Some c, Some d] = Some (((a * 256 + b) * 256 + c) * 256 + d)"
| "number_of_octets _ = None"

definition ipv4_of :: "string \<Rightarrow> int option" where
  "ipv4_of s =
     (if CHR ''/'' \<in> set s then None
      else number_of_octets (map parse_octet (split_on CHR ''.'' s)))"

definition octets_text :: "int \<Rightarrow> int \<Rightarrow> int \<Rightarrow> int \<Rightarrow> string" where
  "octets_text a b c d =
     int_text a @ ''.'' @ int_text b @ ''.'' @ int_text c @ ''.'' @ int_text d"

definition ipv4_text :: "int \<Rightarrow> string" where
  "ipv4_text n = octets_text (n div 16777216 mod 256) (n div 65536 mod 256) (n div 256 mod 256) (n mod 256)"

section \<open>IPv6 addresses\<close>

definition hex_char :: "nat \<Rightarrow> char" where
  "hex_char n = ''0123456789abcdef'' ! n"

fun hex_text :: "nat \<Rightarrow> string" where
  "hex_text n = (if n < 16 then [hex_char n] else hex_text (n div 16) @ [hex_char (n mod 16)])"

declare hex_text.simps [simp del]

definition hex_digit_value :: "char \<Rightarrow> int option" where
  "hex_digit_value c =
     (if is_digit c then Some (of_char c - 48)
      else if c \<in> set ''abcdef'' then Some (of_char c - 87)
      else if c \<in> set ''ABCDEF'' then Some (of_char c - 55) else None)"

fun hextet_value :: "int \<Rightarrow> string \<Rightarrow> int option" where
  "hextet_value n [] = Some n"
| "hextet_value n (c # s) =
     (case hex_digit_value c of None \<Rightarrow> None | Some d \<Rightarrow> hextet_value (16 * n + d) s)"

definition parse_hextet :: "string \<Rightarrow> int option" where
  "parse_hextet s = (if s = [] \<or> 4 < length s then None else hextet_value 0 s)"

fun number_of_hextets :: "int \<Rightarrow> int option list \<Rightarrow> int option" where
  "number_of_hextets n [] = Some n"
| "number_of_hextets n (None # hs) = None"
| "number_of_hextets n (Some h # hs) = number_of_hextets (65536 * n + h) hs"

text \<open>An address may end in the dotted form of its last 32 bits.\<close>

definition embedded_ipv4 :: "string list \<Rightarrow> string list option" where
  "embedded_ipv4 parts =
     (if CHR ''.'' \<in> set (last parts)
      then map_option (\<lambda>n. butlast parts @ [hex_text (nat (n div 65536)), hex_text (nat (n mod 65536))])
             (ipv4_of (last parts))
      else Some parts)"

text \<open>The position of \<open>::\<close>, an empty part other than the first and the last.\<close>

definition skips :: "string list \<Rightarrow> nat list" where
  "skips parts = filter (\<lambda>i. parts ! i = []) [1..<length parts - 1]"

definition number_of_parts :: "string list \<Rightarrow> int option" where
  "number_of_parts parts =
     (case skips parts of
        [] \<Rightarrow> if length parts = 8 \<and> hd parts \<noteq> [] \<and> last parts \<noteq> []
              then number_of_hextets 0 (map parse_hextet parts) else None
      | [k] \<Rightarrow>
          let hi = (if hd parts = [] then k - 1 else k);
              lo = (if last parts = [] then length parts - k - 2 else length parts - k - 1) in
          if hd parts = [] \<and> hi \<noteq> 0 \<or> last parts = [] \<and> lo \<noteq> 0 \<or> 8 \<le> hi + lo then None
          else number_of_hextets 0 (map parse_hextet (take hi parts) @ replicate (8 - (hi + lo)) (Some 0) @
                                    map parse_hextet (drop (length parts - lo) parts))
      | _ \<Rightarrow> None)"

definition ipv6_of :: "string \<Rightarrow> int option" where
  "ipv6_of s =
     (case partition_on CHR ''%'' s of (addr, sep, scope) \<Rightarrow>
        if CHR ''/'' \<in> set s \<or> sep \<and> (scope = [] \<or> CHR ''%'' \<in> set scope) \<or> addr = [] then None
        else let parts = split_on CHR '':'' addr in
          if length parts < 3 then None
          else (case embedded_ipv4 parts of
              None \<Rightarrow> None
            | Some parts \<Rightarrow> if 9 < length parts then None else number_of_parts parts))"

text \<open>The first of the longest runs of two or more zero parts is written \<open>::\<close>.\<close>

fun longest_zeros :: "int \<Rightarrow> int \<times> int \<Rightarrow> int \<times> int \<Rightarrow> string list \<Rightarrow> int \<times> int" where
  "longest_zeros i best cur [] = best"
| "longest_zeros i (bs, bl) (cs, cl) (h # hs) =
     (if h = ''0''
      then let cl' = cl + 1; cs' = (if cs = - 1 then i else cs) in
           longest_zeros (i + 1) (if bl < cl' then (cs', cl') else (bs, bl)) (cs', cl') hs
      else longest_zeros (i + 1) (bs, bl) (- 1, 0) hs)"

definition compress_hextets :: "string list \<Rightarrow> string list" where
  "compress_hextets hs =
     (case longest_zeros 0 (- 1, 0) (- 1, 0) hs of (start, len) \<Rightarrow>
        if 1 < len
        then (if start = 0 then [[]] else []) @ take (nat start) hs @ [[]] @
             drop (nat (start + len)) (hs @ (if start + len = int (length hs) then [[]] else []))
        else hs)"

fun join_with :: "string \<Rightarrow> string list \<Rightarrow> string" where
  "join_with sep [] = []"
| "join_with sep [w] = w"
| "join_with sep (w # ws) = w @ sep @ join_with sep ws"

definition ipv6_text :: "int \<Rightarrow> string" where
  "ipv6_text n =
     join_with '':'' (compress_hextets
       (map (\<lambda>i. hex_text (nat (n div 65536 ^ (7 - i) mod 65536))) [0..<8]))"

section \<open>Addresses and networks\<close>

definition ip_address :: "string \<Rightarrow> int option" where
  "ip_address s = (case ipv4_of s of Some n \<Rightarrow> Some n | None \<Rightarrow> ipv6_of s)"

record network =
  nw_bits :: int
  nw_address :: int
  nw_prefixlen :: int

definition block :: "int \<Rightarrow> int \<Rightarrow> int" where
  "block bits prefixlen = 2 ^ nat (bits - prefixlen)"

definition network_around :: "int \<Rightarrow> int \<Rightarrow> int \<Rightarrow> network option" where
  "network_around bits n prefixlen =
     (if 0 \<le> n \<and> n < 2 ^ nat bits \<and> 0 \<le> prefixlen \<and> prefixlen \<le> bits
      then Some \<lparr>nw_bits = bits, nw_address = n div block bits prefixlen * block bits prefixlen,
                 nw_prefixlen = prefixlen\<rparr>
      else None)"

definition broadcast_address :: "network \<Rightarrow> int" where
  "broadcast_address nw = nw_address nw + block (nw_bits nw) (nw_prefixlen nw) - 1"

text \<open>\<open>ip_network\<close> of a number, and of an address text and a prefix length.\<close>

definition ip_network_of_int :: "int \<Rightarrow> int \<Rightarrow> network option" where
  "ip_network_of_int n prefixlen =
     (case network_around 32 n prefixlen of Some nw \<Rightarrow> Some nw | None \<Rightarrow> network_around 128 n prefixlen)"

definition ipv4_network :: "string \<Rightarrow> int \<Rightarrow> network option" where
  "ipv4_network s prefixlen = Option.bind (ipv4_of s) (\<lambda>n. network_around 32 n prefixlen)"

definition ip_network_of_text :: "string \<Rightarrow> int \<Rightarrow> network option" where
  "ip_network_of_text s prefixlen =
     (case ipv4_network s prefixlen of
        Some nw \<Rightarrow> Some nw
      | None \<Rightarrow> Option.bind (ipv6_of s) (\<lambda>n. network_around 128 n prefixlen))"

definition network_text :: "network \<Rightarrow> string" where
  "network_text nw = (if nw_bits nw = 32 then ipv4_text (nw_address nw) else ipv6_text (nw_address nw))"

definition in_network :: "int \<Rightarrow> network \<Rightarrow> bool" where
  "in_network n nw = (n div block (nw_bits nw) (nw_prefixlen nw) * block (nw_bits nw) (nw_prefixlen nw) = nw_address nw)"

text \<open>\<open>int.bit_length()\<close>.\<close>

function bit_length :: "int \<Rightarrow> int" where
  "bit_length n = (if n \<le> 0 then 0 else 1 + bit_length (n div 2))"
  by pat_completeness auto
termination by (relation "measure nat") auto

declare bit_length.simps [simp del]

end
