(* ===== verification/Net_Tables.thy ===== *)
theory Net_Tables
  imports Endpoint_Repo Service_Repo Ip_Address
begin

text \<open>
  What the network discovery remembers (\<open>db/models/host_status.py\<close>, \<open>network_range.py\<close>,
  \<open>scan_ports.py\<close> and their repositories): the last status of each host and port of a device with
  the time it last changed, the range of a device's automatic scan, the extra ports of a device
  and the ports scanned everywhere.  A time is a number; rows go with their device.
\<close>

section \<open>Tables\<close>

datatype host_state = Online | Offline | Unreachable

type_synonym stamped = "host_state \<times> int"
type_synonym host_statuses = "(string \<times> stamped) list"
type_synonym port_statuses = "((string \<times> int) \<times> stamped) list"

record net_db =
  nd_catalog :: catalog
  nd_hosts :: "((string \<times> string) \<times> stamped) list"
  nd_ports :: "((string \<times> string \<times> int) \<times> stamped) list"
  nd_ranges :: "(string \<times> int) dict"
  nd_device_ports :: "(string \<times> int) list"
  nd_default_ports :: "int list"

text \<open>An \<open>Integer\<close> column takes 32 bits; a foreign key needs its device.\<close>

definition int4 :: "int \<Rightarrow> bool" where
  "int4 n = (- 2147483648 \<le> n \<and> n < 2147483648)"

definition data_error :: exn where
  "data_error = OtherError (Msg ''DataError'' [])"

definition ensure_device :: "string \<Rightarrow> net_db \<Rightarrow> unit res" where
  "ensure_device device_id db = ensure (has_key (devices (nd_catalog db)) device_id) IntegrityError"

definition delete_device_rows :: "string \<Rightarrow> net_db \<Rightarrow> net_db" where
  "delete_device_rows device_id db =
     db\<lparr>nd_catalog := delete_device_cascade device_id (nd_catalog db),
        nd_hosts := filter (\<lambda>((d, _), _). d \<noteq> device_id) (nd_hosts db),
        nd_ports := filter (\<lambda>((d, _, _), _). d \<noteq> device_id) (nd_ports db),
        nd_ranges := dpop device_id (nd_ranges db),
        nd_device_ports := filter (\<lambda>(d, _). d \<noteq> device_id) (nd_device_ports db)\<rparr>"

section \<open>Statuses\<close>

definition get_host_statuses :: "string \<Rightarrow> net_db \<Rightarrow> host_statuses" where
  "get_host_statuses device_id db =
     map (\<lambda>((_, ip), v). (ip, v)) (filter (\<lambda>((d, _), _). d = device_id) (nd_hosts db))"

definition get_port_statuses :: "string \<Rightarrow> net_db \<Rightarrow> port_statuses" where
  "get_port_statuses device_id db =
     map (\<lambda>((_, ip, port), v). ((ip, port), v)) (filter (\<lambda>((d, _, _), _). d = device_id) (nd_ports db))"

definition set_host_statuses :: "string \<Rightarrow> host_statuses \<Rightarrow> net_db \<Rightarrow> net_db res" where
  "set_host_statuses device_id statuses db =
     (if statuses = [] then Inr db
      else bindR (ensure_device device_id db) (\<lambda>_.
        Inr (db\<lparr>nd_hosts := fold (\<lambda>(ip, v). dset (device_id, ip) v) statuses (nd_hosts db)\<rparr>)))"

definition set_port_statuses :: "string \<Rightarrow> port_statuses \<Rightarrow> net_db \<Rightarrow> net_db res" where
  "set_port_statuses device_id statuses db =
     (if statuses = [] then Inr db
      else bindR (ensure (list_all (\<lambda>((_, port), _). int4 port) statuses) data_error) (\<lambda>_.
        bindR (ensure_device device_id db) (\<lambda>_.
        Inr (db\<lparr>nd_ports := fold (\<lambda>((ip, port), v). dset (device_id, ip, port) v) statuses (nd_ports db)\<rparr>))))"

section \<open>Ports and ranges\<close>

definition get_device_ports :: "string \<Rightarrow> net_db \<Rightarrow> int list" where
  "get_device_ports device_id db =
     sort (map snd (filter (\<lambda>(d, _). d = device_id) (nd_device_ports db)))"

definition add_device_ports :: "string \<Rightarrow> int list \<Rightarrow> net_db \<Rightarrow> net_db res" where
  "add_device_ports device_id ports db =
     (if ports = [] then Inr db
      else bindR (ensure (list_all int4 ports) data_error) (\<lambda>_.
        bindR (ensure_device device_id db) (\<lambda>_.
        Inr (db\<lparr>nd_device_ports := nd_device_ports db @
               filter (\<lambda>row. row \<notin> set (nd_device_ports db)) (map (Pair device_id) (remdups ports))\<rparr>))))"

definition get_default_ports :: "net_db \<Rightarrow> int list" where
  "get_default_ports db = sort (nd_default_ports db)"

definition add_default_port :: "int \<Rightarrow> net_db \<Rightarrow> net_db res" where
  "add_default_port port db =
     bindR (ensure (int4 port) data_error) (\<lambda>_.
     Inr (if port \<in> set (nd_default_ports db) then db
          else db\<lparr>nd_default_ports := nd_default_ports db @ [port]\<rparr>))"

definition remove_default_port :: "int \<Rightarrow> net_db \<Rightarrow> net_db res" where
  "remove_default_port port db =
     bindR (ensure (int4 port) data_error) (\<lambda>_.
     Inr (db\<lparr>nd_default_ports := filter (\<lambda>p. p \<noteq> port) (nd_default_ports db)\<rparr>))"

definition get_range :: "string \<Rightarrow> net_db \<Rightarrow> (string \<times> int) option" where
  "get_range device_id db = map_of (nd_ranges db) device_id"

definition set_range :: "string \<Rightarrow> string \<Rightarrow> int \<Rightarrow> net_db \<Rightarrow> net_db res" where
  "set_range device_id network_definition subnet_mask db =
     bindR (ensure (int4 subnet_mask) data_error) (\<lambda>_.
     bindR (ensure_device device_id db) (\<lambda>_.
     Inr (db\<lparr>nd_ranges := dset device_id (network_definition, subnet_mask) (nd_ranges db)\<rparr>)))"

section \<open>The ports of a scan\<close>

definition post_device_scan_ports :: "string \<Rightarrow> int list \<Rightarrow> net_db \<Rightarrow> (int list \<times> net_db) res" where
  "post_device_scan_ports device ports db =
     bindR (add_device_ports device ports db) (\<lambda>db. Inr (get_device_ports device db, db))"

definition add_default_scan_port :: "int \<Rightarrow> net_db \<Rightarrow> (int list \<times> net_db) res" where
  "add_default_scan_port port db =
     bindR (add_default_port port db) (\<lambda>db. Inr (get_default_ports db, db))"

definition remove_default_scan_port :: "int \<Rightarrow> net_db \<Rightarrow> (int list \<times> net_db) res" where
  "remove_default_scan_port port db =
     bindR (remove_default_port port db) (\<lambda>db. Inr (get_default_ports db, db))"

text \<open>\<open>mapping_helpers.py\<close>: the field of a type that has a role, and an instance's value of it.\<close>

definition role_field_key :: "field_def dict \<Rightarrow> role_mapping \<Rightarrow> string \<Rightarrow> string option" where
  "role_field_key type_fields mapping role =
     map_option fst (find (\<lambda>(field_key, mapped_role).
       str_lower (str_strip mapped_role) = role \<and> has_key type_fields field_key) mapping)"

definition resolved_value :: "resolved_field dict \<Rightarrow> string option \<Rightarrow> json" where
  "resolved_value resolved_data field_key =
     (case field_key of
        None \<Rightarrow> JNull
      | Some k \<Rightarrow> (case map_of resolved_data k of None \<Rightarrow> JNull | Some r \<Rightarrow> rf_value r))"

definition stored_role_value :: "json dict \<Rightarrow> string option \<Rightarrow> json" where
  "stored_role_value raw_data field_key =
     (case field_key of
        None \<Rightarrow> JNull
      | Some k \<Rightarrow> if pget raw_data k = JStr [] then JNull else pget raw_data k)"

text \<open>\<open>int(v)\<close> of a stored value; None where it raises TypeError or ValueError.\<close>

definition trunc :: "rat \<Rightarrow> int" where
  "trunc q = (if q < 0 then - \<lfloor>- q\<rfloor> else \<lfloor>q\<rfloor>)"

fun int_of :: "json \<Rightarrow> int option" where
  "int_of (JInt i) = Some i"
| "int_of (JFloat q) = Some (trunc q)"
| "int_of (JBool b) = Some (if b then 1 else 0)"
| "int_of (JStr s) = py_int s"
| "int_of _ = None"

definition get_network_scan_ports :: "string \<Rightarrow> net_db \<Rightarrow> int list" where
  "get_network_scan_ports device db =
     (let cat = nd_catalog db;
          of_service = (\<lambda>service.
            case map_of (service_types cat) (re_type_id service) of
              None \<Rightarrow> None
            | Some st \<Rightarrow>
                int_of (resolved_value (re_data service) (role_field_key (ty_fields st) (ty_mapping st) ''port''))) in
      sort (remdups (get_default_ports db @ get_device_ports device db @
        List.map_filter of_service
          (concat (map (\<lambda>ep. get_services (re_id ep) None cat) (get_endpoints device None cat))))))"

section \<open>The range of a scan\<close>

definition WIDEST_SUBNET_MASK :: int where
  "WIDEST_SUBNET_MASK = 21"

definition NARROWEST_SUBNET_MASK :: int where
  "NARROWEST_SUBNET_MASK = 24"

text \<open>\<open>ip_network\<close> raises a ValueError for a text that is no network.\<close>

definition not_a_network :: "string \<Rightarrow> int \<Rightarrow> exn" where
  "not_a_network s n = ValueError (Msg ''{}/{} does not appear to be an IPv4 or IPv6 network'' [JStr s, JInt n])"

definition network_bounds :: "string \<Rightarrow> int \<Rightarrow> (int \<times> int) res" where
  "network_bounds network_definition subnet_mask =
     (case ip_network_of_text network_definition subnet_mask of
        None \<Rightarrow> Inl (not_a_network network_definition subnet_mask)
      | Some nw \<Rightarrow> Inr (nw_address nw, broadcast_address nw))"

definition covering_mask :: "int \<Rightarrow> int \<Rightarrow> int" where
  "covering_mask lo hi =
     max WIDEST_SUBNET_MASK (min (32 - bit_length (xor lo hi)) NARROWEST_SUBNET_MASK)"

definition covering_network :: "int list \<Rightarrow> (string \<times> int) res" where
  "covering_network points =
     (let lo = Min (set points); hi = Max (set points) in
      case ip_network_of_int lo (covering_mask lo hi) of
        None \<Rightarrow> Inl (not_a_network (int_text lo) (covering_mask lo hi))
      | Some nw \<Rightarrow> Inr (network_text nw, nw_prefixlen nw))"

definition known_ips :: "(json \<Rightarrow> string) \<Rightarrow> string \<Rightarrow> catalog \<Rightarrow> string list" where
  "known_ips rep device cat =
     List.map_filter (\<lambda>ep.
       case map_of (endpoint_types cat) (re_type_id ep) of
         None \<Rightarrow> None
       | Some et \<Rightarrow>
           let v = resolved_value (re_data ep) (role_field_key (ty_fields et) (ty_mapping et) ''ip'') in
           if truthy v then Some (py_str rep v) else None) (get_endpoints device None cat)"

text \<open>The default of a type's \<open>ip\<close> field, when it has one.\<close>

definition default_of_role :: "role_type_row \<Rightarrow> string \<Rightarrow> json" where
  "default_of_role et role =
     (case role_field_key (ty_fields et) (ty_mapping et) role of
        None \<Rightarrow> JNull
      | Some k \<Rightarrow> (case map_of (ty_fields et) k of None \<Rightarrow> JNull | Some fd \<Rightarrow> pget fd ''default''))"

definition suggested_ips :: "(json \<Rightarrow> string) \<Rightarrow> catalog \<Rightarrow> string list" where
  "suggested_ips rep cat =
     foldl (\<lambda>ips (_, et).
       let v = default_of_role et ''ip'' in
       if truthy v \<and> ip_address (py_str rep v) \<noteq> None \<and> py_str rep v \<notin> set ips
       then ips @ [py_str rep v] else ips) [] (endpoint_types cat)"

record network_range =
  nr_range :: "(string \<times> int) option"
  nr_suggested :: "string list"

definition anchored_points :: "int list \<Rightarrow> (string \<times> int) option \<Rightarrow> int list res" where
  "anchored_points points stored =
     (case stored of
        None \<Rightarrow> Inr points
      | Some (network_definition, subnet_mask) \<Rightarrow>
          bindR (network_bounds network_definition subnet_mask) (\<lambda>(lo, hi). Inr (points @ [lo, hi])))"

definition get_network_scan_range ::
  "(json \<Rightarrow> string) \<Rightarrow> string \<Rightarrow> net_db \<Rightarrow> (network_range option \<times> net_db) res" where
  "get_network_scan_range rep device db =
     (let stored = get_range device db; suggested = suggested_ips rep (nd_catalog db) in
      bindR (anchored_points (List.map_filter ip_address (known_ips rep device (nd_catalog db))) stored) (\<lambda>points.
      bindR (if points = [] then Inr (None, db)
             else bindR (covering_network points) (\<lambda>(network_definition, subnet_mask).
               if stored = Some (network_definition, subnet_mask)
               then Inr (Some (network_definition, subnet_mask), db)
               else bindR (set_range device network_definition subnet_mask db) (\<lambda>db.
                 Inr (Some (network_definition, subnet_mask), db)))) (\<lambda>(computed, db).
      Inr (if computed = None \<and> suggested = [] then None
           else Some \<lparr>nr_range = computed, nr_suggested = suggested\<rparr>, db))))"

end
