(* ===== verification/Net_Overview.thy ===== *)
theory Net_Overview
  imports Net_Tables "HOL-Library.Product_Lexorder" "HOL-Library.List_Lexorder" "HOL-Library.Char_ord"
begin

text \<open>
  The network overview (\<open>routes/post_network_overview.py\<close>): the hosts of a scan joined with the
  endpoints and services configured for the device, and the last status of what the scan did
  not reach.  A fold over the hosts threads the two dicts of new statuses, which are written to
  the tables at the end.
\<close>

section \<open>What a scan reports and what is answered\<close>

record network_discover =
  nw_definition :: string
  nw_ports :: "int list"
  nw_mask :: int

record scanned_host =
  sh_ip :: int
  sh_status :: host_state
  sh_ports :: "host_state dict"

record network_scan =
  ns_results :: "scanned_host list"
  ns_definition :: network_discover

datatype mapped_source = Configured | Default | Unidentified

record mapped_port =
  mp_port :: "int option"
  mp_status :: host_state
  mp_changed :: "int option"
  mp_source :: mapped_source
  mp_service_id :: "string option"
  mp_type_id :: "string option"
  mp_type_label :: "string option"
  mp_type_description :: "string option"
  mp_service_data :: "resolved_field dict option"
  mp_browser_kind :: "string option"

record mapped_endpoint =
  me_ip :: "string option"
  me_status :: host_state
  me_changed :: "int option"
  me_source :: mapped_source
  me_endpoint_id :: "string option"
  me_type_id :: "string option"
  me_type_label :: "string option"
  me_type_description :: "string option"
  me_endpoint_data :: "resolved_field dict option"
  me_ports :: "mapped_port list"

record network_overview =
  no_definition :: network_discover
  no_endpoints :: "mapped_endpoint list"

text \<open>What every step reads: \<open>str\<close> of unusual values, the catalog, the statuses before the scan
  and the time.  \<open>oc_created\<close> is the creation time of an endpoint.\<close>

record overview_context =
  oc_rep :: "json \<Rightarrow> string"
  oc_created :: "string \<Rightarrow> int"
  oc_catalog :: catalog
  oc_hosts :: host_statuses
  oc_ports :: port_statuses
  oc_now :: int

type_synonym new_statuses = "host_statuses \<times> port_statuses"

section \<open>Statuses and ports\<close>

definition resolve_status_change :: "stamped option \<Rightarrow> host_state \<Rightarrow> int \<Rightarrow> int" where
  "resolve_status_change previous status now =
     (case previous of None \<Rightarrow> now | Some (s, t) \<Rightarrow> if s \<noteq> status then now else t)"

definition port_number :: "resolved_entity \<Rightarrow> service_type_row \<Rightarrow> int option" where
  "port_number service st =
     (let v = stored_role_value (re_raw_data service) (role_field_key (ty_fields st) (ty_mapping st) ''port'') in
      if v = JNull then None else int_of v)"

definition service_type_of :: "overview_context \<Rightarrow> resolved_entity \<Rightarrow> service_type_row option" where
  "service_type_of cx service = map_of (service_types (oc_catalog cx)) (re_type_id service)"

definition configured_port ::
  "int option \<Rightarrow> host_state \<Rightarrow> int option \<Rightarrow> resolved_entity \<Rightarrow> service_type_row option \<Rightarrow> mapped_port" where
  "configured_port port status changed service st =
     \<lparr>mp_port = port, mp_status = status, mp_changed = changed, mp_source = Configured,
      mp_service_id = Some (re_id service), mp_type_id = Some (re_type_id service),
      mp_type_label = Some (re_type_label service), mp_type_description = re_type_description service,
      mp_service_data = Some (re_data service), mp_browser_kind = Option.bind st ty_browser_kind\<rparr>"

definition unknown_port :: "resolved_entity \<Rightarrow> service_type_row \<Rightarrow> int option \<Rightarrow> mapped_port" where
  "unknown_port service st port = configured_port port Unreachable None service (Some st)"

definition configured_endpoint_at ::
  "string option \<Rightarrow> host_state \<Rightarrow> int option \<Rightarrow> resolved_entity \<Rightarrow> mapped_port list \<Rightarrow> mapped_endpoint" where
  "configured_endpoint_at ip status changed ep ports =
     \<lparr>me_ip = ip, me_status = status, me_changed = changed, me_source = Configured,
      me_endpoint_id = Some (re_id ep), me_type_id = Some (re_type_id ep),
      me_type_label = Some (re_type_label ep), me_type_description = re_type_description ep,
      me_endpoint_data = Some (re_data ep), me_ports = ports\<rparr>"

section \<open>Endpoints that were not scanned\<close>

definition services_of :: "overview_context \<Rightarrow> resolved_entity \<Rightarrow> resolved_entity list" where
  "services_of cx ep = get_services (re_id ep) None (oc_catalog cx)"

definition endpoint_without_ip :: "overview_context \<Rightarrow> resolved_entity \<times> string option \<Rightarrow> mapped_endpoint" where
  "endpoint_without_ip cx = (\<lambda>(ep, stored_ip).
     configured_endpoint_at stored_ip Unreachable None ep
       (List.map_filter (\<lambda>service. case service_type_of cx service of
            None \<Rightarrow> None
          | Some st \<Rightarrow> Some (unknown_port service st (port_number service st))) (services_of cx ep)))"

text \<open>The last status, or offline since now.\<close>

definition last_known :: "stamped option \<Rightarrow> int \<Rightarrow> stamped" where
  "last_known previous now = (case previous of None \<Rightarrow> (Offline, now) | Some p \<Rightarrow> p)"

definition last_known_port :: "overview_context \<Rightarrow> string \<Rightarrow> resolved_entity \<Rightarrow> mapped_port option" where
  "last_known_port cx ip service =
     (case service_type_of cx service of
        None \<Rightarrow> None
      | Some st \<Rightarrow> Some (case port_number service st of
            None \<Rightarrow> unknown_port service st None
          | Some p \<Rightarrow>
              let (status, changed) = last_known (map_of (oc_ports cx) (ip, p)) (oc_now cx) in
              configured_port (Some p) status (Some changed) service (Some st)))"

definition last_known_endpoint :: "overview_context \<Rightarrow> string \<Rightarrow> resolved_entity \<Rightarrow> mapped_endpoint" where
  "last_known_endpoint cx ip ep =
     (let (status, changed) = last_known (map_of (oc_hosts cx) ip) (oc_now cx) in
      configured_endpoint_at (Some ip) status (Some changed) ep
        (List.map_filter (last_known_port cx ip) (services_of cx ep)))"

definition write_port ::
  "overview_context \<Rightarrow> string \<Rightarrow> int \<Rightarrow> host_state \<Rightarrow> new_statuses \<Rightarrow> int \<times> new_statuses" where
  "write_port cx ip port status = (\<lambda>(hosts, ports).
     let changed = resolve_status_change (map_of (oc_ports cx) (ip, port)) status (oc_now cx) in
     (changed, (hosts, dset (ip, port) (status, changed) ports)))"

definition write_host ::
  "overview_context \<Rightarrow> string \<Rightarrow> host_state \<Rightarrow> new_statuses \<Rightarrow> int \<times> new_statuses" where
  "write_host cx ip status = (\<lambda>(hosts, ports).
     let changed = resolve_status_change (map_of (oc_hosts cx) ip) status (oc_now cx) in
     (changed, (dset ip (status, changed) hosts, ports)))"

definition confirmed_offline_port ::
  "overview_context \<Rightarrow> string \<Rightarrow> mapped_port list \<times> new_statuses \<Rightarrow> resolved_entity \<Rightarrow>
     mapped_port list \<times> new_statuses" where
  "confirmed_offline_port cx ip = (\<lambda>(mapped, new) service.
     case service_type_of cx service of
       None \<Rightarrow> (mapped, new)
     | Some st \<Rightarrow> (case port_number service st of
           None \<Rightarrow> (mapped @ [unknown_port service st None], new)
         | Some p \<Rightarrow>
             let (changed, new) = write_port cx ip p Offline new in
             (mapped @ [configured_port (Some p) Offline (Some changed) service (Some st)], new)))"

definition confirmed_offline_endpoint ::
  "overview_context \<Rightarrow> string \<Rightarrow> resolved_entity \<Rightarrow> new_statuses \<Rightarrow> mapped_endpoint \<times> new_statuses" where
  "confirmed_offline_endpoint cx ip ep new =
     (let (mapped, new) = foldl (confirmed_offline_port cx ip) ([], new) (services_of cx ep);
          (changed, new) = write_host cx ip Offline new in
      (configured_endpoint_at (Some ip) Offline (Some changed) ep mapped, new))"

section \<open>The configured endpoints by address\<close>

definition is_probeable_ip :: "(json \<Rightarrow> string) \<Rightarrow> json \<Rightarrow> bool" where
  "is_probeable_ip rep v = (ipv4_of (py_str rep v) \<noteq> None)"

definition stored_ip :: "overview_context \<Rightarrow> resolved_entity \<Rightarrow> json option" where
  "stored_ip cx ep = map_option (\<lambda>et.
     stored_role_value (re_raw_data ep) (role_field_key (ty_fields et) (ty_mapping et) ''ip''))
     (map_of (endpoint_types (oc_catalog cx)) (re_type_id ep))"

definition probed_ip :: "overview_context \<Rightarrow> json \<Rightarrow> string option" where
  "probed_ip cx v = (if truthy v \<and> is_probeable_ip (oc_rep cx) v then Some (py_str (oc_rep cx) v) else None)"

definition shown_ip :: "overview_context \<Rightarrow> json \<Rightarrow> string option" where
  "shown_ip cx v = (if truthy v then Some (py_str (oc_rep cx) v) else None)"

text \<open>\<open>by_ip.setdefault(ip, []).append(endpoint)\<close>.\<close>

definition append_at :: "'k \<Rightarrow> 'a \<Rightarrow> ('k \<times> 'a list) list \<Rightarrow> ('k \<times> 'a list) list" where
  "append_at k x d = dset k ((case map_of d k of None \<Rightarrow> [] | Some xs \<Rightarrow> xs) @ [x]) d"

definition place_endpoint ::
  "overview_context \<Rightarrow> (resolved_entity list) dict \<times> (resolved_entity \<times> string option) list \<Rightarrow> resolved_entity \<Rightarrow>
     (resolved_entity list) dict \<times> (resolved_entity \<times> string option) list" where
  "place_endpoint cx = (\<lambda>(by_ip, without_ip) ep.
     case stored_ip cx ep of
       None \<Rightarrow> (by_ip, without_ip)
     | Some v \<Rightarrow> (case probed_ip cx v of
           Some ip \<Rightarrow> (append_at ip ep by_ip, without_ip)
         | None \<Rightarrow> (by_ip, without_ip @ [(ep, shown_ip cx v)])))"

definition place_endpoints ::
  "overview_context \<Rightarrow> resolved_entity list \<Rightarrow>
     (resolved_entity list) dict \<times> (resolved_entity \<times> string option) list" where
  "place_endpoints cx eps =
     (case foldl (place_endpoint cx) ([], []) eps of (by_ip, without_ip) \<Rightarrow>
        (map (\<lambda>(ip, eps). (ip, sort_key (\<lambda>ep. (oc_created cx (re_id ep), re_id ep)) eps)) by_ip, without_ip))"

section \<open>Suggestions\<close>

text \<open>\<open>setdefault\<close>: the first type with the value keeps it.\<close>

definition set_default :: "'k \<Rightarrow> 'a \<Rightarrow> ('k \<times> 'a) list \<Rightarrow> ('k \<times> 'a) list" where
  "set_default k v d = (if has_key d k then d else d @ [(k, v)])"

definition default_endpoint_types :: "overview_context \<Rightarrow> (string \<times> role_type_row) dict" where
  "default_endpoint_types cx =
     foldl (\<lambda>d (tid, et).
       let v = default_of_role et ''ip'' in
       if truthy v then set_default (py_str (oc_rep cx) v) (tid, et) d else d) []
       (endpoint_types (oc_catalog cx))"

definition default_port_of :: "service_type_row \<Rightarrow> int option" where
  "default_port_of st =
     (case role_field_key (ty_fields st) (ty_mapping st) ''port'' of
        None \<Rightarrow> None
      | Some k \<Rightarrow> (case map_of (ty_fields st) k of
            None \<Rightarrow> None
          | Some fd \<Rightarrow> if pget fd ''default'' = JNull then None else int_of (pget fd ''default'')))"

definition default_service_types :: "overview_context \<Rightarrow> (int \<times> string \<times> service_type_row) list" where
  "default_service_types cx =
     foldl (\<lambda>d (tid, st).
       case default_port_of st of None \<Rightarrow> d | Some p \<Rightarrow> set_default p (tid, st) d) []
       (service_types (oc_catalog cx))"

section \<open>The hosts of the scan\<close>

definition typed_services :: "overview_context \<Rightarrow> resolved_entity list \<Rightarrow> (resolved_entity \<times> service_type_row) list" where
  "typed_services cx = List.map_filter (\<lambda>service. map_option (Pair service) (service_type_of cx service))"

definition claimed_ports :: "overview_context \<Rightarrow> resolved_entity list list \<Rightarrow> int set" where
  "claimed_ports cx servicess =
     set (List.map_filter (\<lambda>(service, st). port_number service st) (typed_services cx (concat servicess)))"

text \<open>The services of an endpoint by port, and those without one.\<close>

definition services_by_port ::
  "overview_context \<Rightarrow> resolved_entity list \<Rightarrow> (int \<times> (resolved_entity \<times> service_type_row) list) list" where
  "services_by_port cx servs =
     foldl (\<lambda>d (service, st). case port_number service st of
         None \<Rightarrow> d | Some p \<Rightarrow> append_at p (service, st) d) [] (typed_services cx servs)"

definition services_without_port ::
  "overview_context \<Rightarrow> resolved_entity list \<Rightarrow> (resolved_entity \<times> service_type_row) list" where
  "services_without_port cx servs =
     filter (\<lambda>(service, st). port_number service st = None) (typed_services cx servs)"

definition suggested_port ::
  "(int \<times> string \<times> service_type_row) list \<Rightarrow> int \<Rightarrow> host_state \<Rightarrow> int \<Rightarrow> mapped_port" where
  "suggested_port defaults p status changed =
     (case map_of defaults p of
        Some (tid, st) \<Rightarrow>
          \<lparr>mp_port = Some p, mp_status = status, mp_changed = Some changed, mp_source = Default,
           mp_service_id = None, mp_type_id = Some tid, mp_type_label = Some (ty_label st),
           mp_type_description = ty_description st, mp_service_data = None,
           mp_browser_kind = ty_browser_kind st\<rparr>
      | None \<Rightarrow>
          \<lparr>mp_port = Some p, mp_status = status, mp_changed = Some changed, mp_source = Unidentified,
           mp_service_id = None, mp_type_id = None, mp_type_label = None,
           mp_type_description = None, mp_service_data = None, mp_browser_kind = None\<rparr>)"

definition configured_ports ::
  "int \<Rightarrow> host_state \<Rightarrow> int \<Rightarrow> (resolved_entity \<times> service_type_row) list \<Rightarrow> mapped_port list" where
  "configured_ports p status changed =
     map (\<lambda>(service, st). configured_port (Some p) status (Some changed) service (Some st))"

text \<open>One scanned port: the services configured on it, or, on the first entry of the host and
  when no endpoint of the host claims it, a suggestion.\<close>

definition scanned_port ::
  "overview_context \<Rightarrow> string \<Rightarrow> nat \<Rightarrow> int set \<Rightarrow> (int \<times> (resolved_entity \<times> service_type_row) list) list \<Rightarrow>
     mapped_port list \<times> new_statuses \<Rightarrow> string \<times> host_state \<Rightarrow> mapped_port list \<times> new_statuses" where
  "scanned_port cx ip index claimed by_port = (\<lambda>(mapped, new) (port_str, status).
     case py_int port_str of
       None \<Rightarrow> (mapped, new)
     | Some p \<Rightarrow>
         let (changed, new) = write_port cx ip p status new in
         (mapped @ (case map_of by_port p of
              Some (s # ss) \<Rightarrow> configured_ports p status changed (s # ss)
            | _ \<Rightarrow> if p \<in> claimed \<or> 0 < index then []
                   else [suggested_port (default_service_types cx) p status changed]), new))"

text \<open>A configured port the scan did not find: offline when the scan looked for it, otherwise
  the last known status.\<close>

definition missing_port ::
  "overview_context \<Rightarrow> string \<Rightarrow> int list \<Rightarrow> int option set \<Rightarrow> mapped_port list \<times> new_statuses \<Rightarrow>
     int \<times> (resolved_entity \<times> service_type_row) list \<Rightarrow> mapped_port list \<times> new_statuses" where
  "missing_port cx ip scope scanned = (\<lambda>(mapped, new) (p, servs).
     if Some p \<in> scanned then (mapped, new)
     else if p \<in> set scope then
       let (changed, new) = write_port cx ip p Offline new in
       (mapped @ configured_ports p Offline changed servs, new)
     else
       let (status, changed) = last_known (map_of (oc_ports cx) (ip, p)) (oc_now cx) in
       (mapped @ configured_ports p status changed servs, new))"

definition host_ports ::
  "overview_context \<Rightarrow> network_discover \<Rightarrow> scanned_host \<Rightarrow> nat \<Rightarrow> int set \<Rightarrow> resolved_entity list \<Rightarrow> new_statuses \<Rightarrow>
     mapped_port list \<times> new_statuses" where
  "host_ports cx nd host index claimed servs new =
     (let ip = ipv4_text (sh_ip host); by_port = services_by_port cx servs;
          (mapped, new) = foldl (scanned_port cx ip index claimed by_port) ([], new) (sh_ports host);
          (mapped, new) = foldl (missing_port cx ip (nw_ports nd) (set (map mp_port mapped))) (mapped, new) by_port in
      (mapped @ map (\<lambda>(service, st). unknown_port service st None) (services_without_port cx servs), new))"

text \<open>A host without a configured endpoint: suggested by a type's default address, or unidentified.\<close>

definition suggested_endpoint ::
  "overview_context \<Rightarrow> string \<Rightarrow> host_state \<Rightarrow> int \<Rightarrow> mapped_port list \<Rightarrow> mapped_endpoint" where
  "suggested_endpoint cx ip status changed ports =
     (case map_of (default_endpoint_types cx) ip of
        Some (tid, et) \<Rightarrow>
          \<lparr>me_ip = Some ip, me_status = status, me_changed = Some changed, me_source = Default,
           me_endpoint_id = None, me_type_id = Some tid, me_type_label = Some (ty_label et),
           me_type_description = ty_description et, me_endpoint_data = None, me_ports = ports\<rparr>
      | None \<Rightarrow>
          \<lparr>me_ip = Some ip, me_status = status, me_changed = Some changed, me_source = Unidentified,
           me_endpoint_id = None, me_type_id = None, me_type_label = None,
           me_type_description = None, me_endpoint_data = None, me_ports = ports\<rparr>)"

definition host_entry ::
  "overview_context \<Rightarrow> network_discover \<Rightarrow> scanned_host \<Rightarrow> int \<Rightarrow> int set \<Rightarrow>
     mapped_endpoint list \<times> new_statuses \<Rightarrow> nat \<times> resolved_entity option \<Rightarrow> mapped_endpoint list \<times> new_statuses" where
  "host_entry cx nd host changed claimed = (\<lambda>(mapped, new) (index, ep).
     let ip = ipv4_text (sh_ip host);
         (ports, new) = host_ports cx nd host index claimed
                          (case ep of None \<Rightarrow> [] | Some ep \<Rightarrow> services_of cx ep) new in
     (mapped @ [case ep of
          Some ep \<Rightarrow> configured_endpoint_at (Some ip) (sh_status host) (Some changed) ep ports
        | None \<Rightarrow> suggested_endpoint cx ip (sh_status host) changed ports], new))"

definition host_endpoints :: "(resolved_entity list) dict \<Rightarrow> string \<Rightarrow> resolved_entity option list" where
  "host_endpoints by_ip ip = (case map_of by_ip ip of None \<Rightarrow> [None] | Some eps \<Rightarrow> map Some eps)"

definition map_host ::
  "overview_context \<Rightarrow> network_discover \<Rightarrow> (resolved_entity list) dict \<Rightarrow>
     mapped_endpoint list \<times> new_statuses \<Rightarrow> scanned_host \<Rightarrow> mapped_endpoint list \<times> new_statuses" where
  "map_host cx nd by_ip = (\<lambda>(mapped, new) host.
     let ip = ipv4_text (sh_ip host);
         (changed, new) = write_host cx ip (sh_status host) new;
         eps = host_endpoints by_ip ip;
         claimed = claimed_ports cx (map (\<lambda>ep. case ep of None \<Rightarrow> [] | Some ep \<Rightarrow> services_of cx ep) eps) in
     foldl (host_entry cx nd host changed claimed) (mapped, new) (zip [0..<length eps] eps))"

section \<open>The overview\<close>

definition missing_host ::
  "overview_context \<Rightarrow> network option \<Rightarrow> string set \<Rightarrow> mapped_endpoint list \<times> new_statuses \<Rightarrow>
     string \<times> resolved_entity list \<Rightarrow> mapped_endpoint list \<times> new_statuses" where
  "missing_host cx scanned_network scanned = (\<lambda>st (ip, eps).
     if ip \<in> scanned then st
     else foldl (\<lambda>(mapped, new) ep.
       if scanned_network \<noteq> None \<and> in_network (the (ipv4_of ip)) (the scanned_network)
       then let (entry, new) = confirmed_offline_endpoint cx ip ep new in (mapped @ [entry], new)
       else (mapped @ [last_known_endpoint cx ip ep], new)) st eps)"

definition scanned_network :: "network_discover \<Rightarrow> network option" where
  "scanned_network nd = ipv4_network (nw_definition nd) (nw_mask nd)"

definition overview_entries ::
  "overview_context \<Rightarrow> network_scan \<Rightarrow> resolved_entity list \<Rightarrow> mapped_endpoint list \<times> new_statuses" where
  "overview_entries cx scan eps =
     (case place_endpoints cx eps of (by_ip, without_ip) \<Rightarrow>
      let (mapped, new) = foldl (map_host cx (ns_definition scan) by_ip) ([], [], []) (ns_results scan);
          (mapped, new) = foldl (missing_host cx (scanned_network (ns_definition scan))
                                   (ipv4_text ` sh_ip ` set (ns_results scan))) (mapped, new) by_ip in
      (mapped @ map (endpoint_without_ip cx) without_ip, new))"

definition overview_context_of ::
  "(json \<Rightarrow> string) \<Rightarrow> (string \<Rightarrow> int) \<Rightarrow> string \<Rightarrow> int \<Rightarrow> net_db \<Rightarrow> overview_context" where
  "overview_context_of rep created device now db =
     \<lparr>oc_rep = rep, oc_created = created, oc_catalog = nd_catalog db,
      oc_hosts = get_host_statuses device db, oc_ports = get_port_statuses device db, oc_now = now\<rparr>"

text \<open>The two tables are written one after the other, each with its own commit.\<close>

definition write_statuses :: "string \<Rightarrow> new_statuses \<Rightarrow> net_db \<Rightarrow> unit res \<times> net_db" where
  "write_statuses device = (\<lambda>(new_hosts, new_ports) db.
     case set_host_statuses device new_hosts db of
       Inl e \<Rightarrow> (Inl e, db)
     | Inr db \<Rightarrow> (case set_port_statuses device new_ports db of
           Inl e \<Rightarrow> (Inl e, db)
         | Inr db \<Rightarrow> (Inr (), db)))"

definition build_network_overview ::
  "(json \<Rightarrow> string) \<Rightarrow> (string \<Rightarrow> int) \<Rightarrow> string \<Rightarrow> network_scan \<Rightarrow> int \<Rightarrow> net_db \<Rightarrow> network_overview res \<times> net_db" where
  "build_network_overview rep created device scan now db =
     (case overview_entries (overview_context_of rep created device now db) scan
             (get_endpoints device None (nd_catalog db)) of
        (mapped, new) \<Rightarrow>
          (case write_statuses device new db of (r, db) \<Rightarrow>
             (bindR r (\<lambda>_. Inr \<lparr>no_definition = ns_definition scan, no_endpoints = mapped\<rparr>), db)))"

definition last_known_entry :: "overview_context \<Rightarrow> resolved_entity \<Rightarrow> mapped_endpoint option" where
  "last_known_entry cx ep =
     (case stored_ip cx ep of
        None \<Rightarrow> None
      | Some v \<Rightarrow> Some (case probed_ip cx v of
            None \<Rightarrow> endpoint_without_ip cx (ep, shown_ip cx v)
          | Some ip \<Rightarrow> last_known_endpoint cx ip ep))"

definition build_last_known_network_overview ::
  "(json \<Rightarrow> string) \<Rightarrow> (string \<Rightarrow> int) \<Rightarrow> string \<Rightarrow> int \<Rightarrow> net_db \<Rightarrow> network_overview" where
  "build_last_known_network_overview rep created device now db =
     \<lparr>no_definition = \<lparr>nw_definition = ''0.0.0.0'', nw_ports = [], nw_mask = 32\<rparr>,
      no_endpoints = List.map_filter (last_known_entry (overview_context_of rep created device now db))
        (get_endpoints device None (nd_catalog db))\<rparr>"

end
