(* ===== verification/Net_Range.thy ===== *)
theory Net_Range
  imports Net_Tables
begin

text \<open>
  The range of a device's automatic scan: it covers what anchors it as long as a block of 2048
  addresses can, has between 256 and 2048 addresses, and is written so that it is read back.
\<close>

section \<open>Blocks of addresses\<close>

lemma bit_length_bound: "0 \<le> n \<Longrightarrow> n < 2 ^ nat (bit_length n) \<and> 0 \<le> bit_length n"
proof (induction n rule: bit_length.induct)
  case (1 n)
  show ?case
  proof (cases "n = 0")
    case True
    then show ?thesis by (simp add: bit_length.simps)
  next
    case False
    with 1 have half: "n div 2 < 2 ^ nat (bit_length (n div 2))" "0 \<le> bit_length (n div 2)" by auto
    have "bit_length n = 1 + bit_length (n div 2)"
      using False 1(2) by (subst bit_length.simps) simp
    with half show ?thesis by (simp add: nat_add_distrib)
  qed
qed

lemma same_block_if_short_xor:
  assumes "0 \<le> lo" "0 \<le> hi" "bit_length (xor lo hi) \<le> int k"
  shows "lo div 2 ^ k = hi div 2 ^ (k :: nat)"
proof -
  have "0 \<le> xor lo hi" using assms by simp
  then have "xor lo hi < 2 ^ nat (bit_length (xor lo hi))" by (simp add: bit_length_bound)
  also have "\<dots> \<le> 2 ^ k" using assms(3) by (intro power_increasing) auto
  finally have "drop_bit k (xor lo hi) = 0"
    using \<open>0 \<le> xor lo hi\<close> by (simp add: drop_bit_eq_div div_pos_pos_trivial)
  then have "xor (drop_bit k lo) (drop_bit k hi) = 0" by simp
  then have "drop_bit k lo = drop_bit k hi"
    by (metis xor.assoc xor.left_neutral xor_self_eq)
  then show ?thesis by (simp add: drop_bit_eq_div)
qed

lemma bit_length_le:
  assumes "n < 2 ^ k"
  shows "bit_length n \<le> int k"
  using assms
proof (induction n arbitrary: k rule: bit_length.induct)
  case (1 n)
  show ?case
  proof (cases "n \<le> 0")
    case True
    then show ?thesis by (simp add: bit_length.simps)
  next
    case False
    with 1(2) obtain j where k: "k = Suc j" by (cases k) auto
    with 1(2) have "n div 2 < 2 ^ j" by auto
    from 1(1)[OF False this] False show ?thesis
      by (subst bit_length.simps) (simp add: k)
  qed
qed

lemma short_xor_if_same_block:
  assumes "0 \<le> lo" "0 \<le> hi" "lo div 2 ^ k = hi div 2 ^ (k :: nat)"
  shows "bit_length (xor lo hi) \<le> int k"
proof (rule bit_length_le)
  from assms(3) have "drop_bit k lo = drop_bit k hi" by (simp add: drop_bit_eq_div)
  then have "drop_bit k (xor lo hi) = 0" by simp
  then show "xor lo hi < 2 ^ k"
    using assms(1,2) by (auto simp: drop_bit_eq_div zdiv_eq_0_iff) (smt (verit) xor_nonnegative_int_iff zero_less_power)
qed

lemma div_between: "(lo :: int) \<le> x \<Longrightarrow> x \<le> hi \<Longrightarrow> lo div b = hi div b \<Longrightarrow> 0 < b \<Longrightarrow> x div b = lo div b"
  using zdiv_mono1[of lo x b] zdiv_mono1[of x hi b] by simp

section \<open>Addresses as text\<close>

lemma split_on_octets:
  "list_all is_digit a \<Longrightarrow> split_on CHR ''.'' (a @ CHR ''.'' # t) = a # split_on CHR ''.'' t"
  by (subst split_on_append_sep, subst split_on_free)
     (auto simp: list_all_iff is_digit_def)

lemma digits_of_no_leading_zero: "0 < n \<Longrightarrow> hd (digits_of n) \<noteq> CHR ''0''"
proof (induction n rule: digits_of.induct)
  case (1 n)
  show ?case
  proof (cases "n < 10")
    case True
    with 1(2) show ?thesis
      by (subst digits_of.simps) (simp add: char_of_eq_iff take_bit_eq_mod)
  next
    case False
    then have "hd (digits_of n) = hd (digits_of (n div 10))"
      by (subst digits_of.simps) (simp add: digits_of_digits)
    with 1(1)[OF False] False show ?thesis by simp
  qed
qed

lemma length_digits_of: "n < 10 ^ Suc k \<Longrightarrow> length (digits_of n) \<le> Suc k"
proof (induction k arbitrary: n)
  case 0
  then show ?case by (subst digits_of.simps) simp
next
  case (Suc k)
  then have "n div 10 < 10 ^ Suc k" by (simp add: div_less_iff_less_mult)
  from Suc.IH[OF this] show ?case by (subst digits_of.simps) simp
qed

lemma zero_digit: "nat_of_digits [char_of (48 :: nat)] = 0"
  using nat_of_digits_of[of 0] by (simp add: digits_of.simps[of 0])

lemma parse_octet_text: "0 \<le> a \<Longrightarrow> a < 256 \<Longrightarrow> parse_octet (int_text a) = Some a"
  using digits_of_digits[of "nat a"] length_digits_of[of "nat a" 2] digits_of_no_leading_zero[of "nat a"]
  by (cases "a = 0") (auto simp: parse_octet_def int_text_def nat_of_digits_of digits_of.simps[of 0] zero_digit)

lemma octet_digits: "0 \<le> a \<Longrightarrow> list_all is_digit (int_text a)"
  by (simp add: int_text_def digits_of_digits)

lemma ipv4_of_octets:
  assumes "0 \<le> a" "a < 256" "0 \<le> b" "b < 256" "0 \<le> c" "c < 256" "0 \<le> d" "d < 256"
  shows "ipv4_of (octets_text a b c d) = Some (((a * 256 + b) * 256 + c) * 256 + d)"
proof -
  have free: "CHR ''.'' \<notin> set (int_text d)"
    using octet_digits[OF assms(7)] by (auto simp: list_all_iff is_digit_def)
  have "CHR ''/'' \<notin> set (octets_text a b c d)"
    using octet_digits[OF assms(1)] octet_digits[OF assms(3)] octet_digits[OF assms(5)] octet_digits[OF assms(7)]
    by (auto simp: octets_text_def list_all_iff is_digit_def)
  moreover have "split_on CHR ''.'' (octets_text a b c d) = map int_text [a, b, c, d]"
    by (simp add: octets_text_def split_on_octets octet_digits assms split_on_free free)
  ultimately show ?thesis
    by (simp add: ipv4_of_def parse_octet_text assms)
qed

lemma ipv4_read_back: "0 \<le> n \<Longrightarrow> n < 2 ^ 32 \<Longrightarrow> ipv4_of (ipv4_text n) = Some n"
proof -
  assume "0 \<le> n" "n < 2 ^ 32"
  then have top: "n div 16777216 mod 256 = n div 65536 div 256" by (simp add: zdiv_zmult2_eq[symmetric])
  have "((a div 65536 div 256 * 256 + a div 65536 mod 256) * 256 + a div 256 mod 256) * 256 + a mod 256 = a" for a :: int
    using div_mult_mod_eq[of "a div 256 div 256" 256] div_mult_mod_eq[of "a div 256" 256] div_mult_mod_eq[of a 256]
    by (simp add: zdiv_zmult2_eq[symmetric])
  moreover have "0 \<le> n div 65536 div 256" "n div 65536 div 256 < 256"
    using \<open>0 \<le> n\<close> \<open>n < 2 ^ 32\<close> by (auto simp: zdiv_zmult2_eq[symmetric])
  ultimately show ?thesis
    unfolding ipv4_text_def by (subst ipv4_of_octets) (auto simp: top)
qed

section \<open>The covering network\<close>

text \<open>A range as the discovery stores it: an IPv4 network of 256 to 2048 addresses, by its first
  address.\<close>

definition range_network :: "string \<times> int \<Rightarrow> network option" where
  "range_network = (\<lambda>(t, m).
     case ipv4_network t m of
       None \<Rightarrow> None
     | Some nw \<Rightarrow> if 21 \<le> m \<and> m \<le> 24 \<and> ipv4_text (nw_address nw) = t then Some nw else None)"

definition addresses :: "network \<Rightarrow> int set" where
  "addresses nw = {nw_address nw .. broadcast_address nw}"

definition v4 :: "int \<Rightarrow> bool" where
  "v4 n = (0 \<le> n \<and> n < 2 ^ 32)"

lemma covering_mask_bounds: "21 \<le> covering_mask lo hi" "covering_mask lo hi \<le> 24"
  by (auto simp: covering_mask_def WIDEST_SUBNET_MASK_def NARROWEST_SUBNET_MASK_def)

lemma block_pos [simp]: "0 < block b p"
  by (simp add: block_def)

lemma covering_mask_block:
  assumes "0 \<le> lo" "0 \<le> hi" "lo div 2048 = hi div 2048"
  shows "lo div block 32 (covering_mask lo hi) = hi div block 32 (covering_mask lo hi)"
proof -
  have "bit_length (xor lo hi) \<le> 11"
    using short_xor_if_same_block[of lo hi 11] assms by simp
  then have "bit_length (xor lo hi) \<le> 32 - covering_mask lo hi"
    by (auto simp: covering_mask_def WIDEST_SUBNET_MASK_def NARROWEST_SUBNET_MASK_def)
  then have "bit_length (xor lo hi) \<le> int (nat (32 - covering_mask lo hi))"
    using covering_mask_bounds[of lo hi] by simp
  from same_block_if_short_xor[OF assms(1,2) this] show ?thesis by (simp add: block_def)
qed

lemma network_around_v4:
  "v4 n \<Longrightarrow> 21 \<le> m \<Longrightarrow> m \<le> 24 \<Longrightarrow>
     network_around 32 n m = Some \<lparr>nw_bits = 32, nw_address = n div block 32 m * block 32 m, nw_prefixlen = m\<rparr>"
  by (simp add: network_around_def v4_def)

lemma network_base_v4: "v4 n \<Longrightarrow> v4 (n div block 32 m * block 32 m)"
proof -
  assume n: "v4 n"
  have "0 \<le> n div block 32 m" using n by (simp add: v4_def pos_imp_zdiv_nonneg_iff)
  moreover have "n div block 32 m * block 32 m \<le> n"
    by (metis block_pos mult.commute pos_mod_sign add_le_cancel_left add.right_neutral mult_div_mod_eq)
  moreover have "0 \<le> n div block 32 m * block 32 m"
    using calculation(1) block_pos[of 32 m] by (simp del: block_pos)
  ultimately show ?thesis using n by (simp add: v4_def)
qed

lemma in_block: "x div b = n div b \<Longrightarrow> 0 < b \<Longrightarrow> x \<in> {n div b * b .. n div b * b + b - (1 :: int)}"
  using div_mult_mod_eq[of x b] pos_mod_sign[of b x] pos_mod_bound[of b x] by (auto simp del: pos_mod_sign pos_mod_bound)

lemma covering_network_v4:
  assumes "points \<noteq> []" "\<forall>p \<in> set points. v4 p"
  defines "lo \<equiv> Min (set points)" and "hi \<equiv> Max (set points)"
  shows "\<exists>t nw. covering_network points = Inr (t, covering_mask lo hi) \<and> range_network (t, covering_mask lo hi) = Some nw \<and>
     lo \<in> addresses nw \<and> (lo div 2048 = hi div 2048 \<longrightarrow> set points \<subseteq> addresses nw)"
proof -
  let ?m = "covering_mask lo hi"
  let ?b = "block 32 ?m"
  let ?nw = "\<lparr>nw_bits = 32, nw_address = lo div ?b * ?b, nw_prefixlen = ?m\<rparr>"
  have lo: "v4 lo" and hi: "v4 hi" using assms(1,2) by (simp_all add: lo_def hi_def)
  have net: "network_around 32 n ?m = Some \<lparr>nw_bits = 32, nw_address = n div ?b * ?b, nw_prefixlen = ?m\<rparr>" if "v4 n" for n
    using network_around_v4[OF that] covering_mask_bounds by blast
  have "covering_network points = Inr (ipv4_text (lo div ?b * ?b), ?m)"
    using net[OF lo] by (simp add: covering_network_def Let_def lo_def hi_def ip_network_of_int_def network_text_def)
  moreover have "range_network (ipv4_text (lo div ?b * ?b), ?m) = Some ?nw"
    using net[OF network_base_v4[OF lo]] network_base_v4[OF lo, of ?m] covering_mask_bounds[of lo hi]
    by (simp add: range_network_def ipv4_network_def ipv4_read_back v4_def)
  moreover have "lo \<in> addresses ?nw"
    using in_block[of lo ?b lo] by (simp add: addresses_def broadcast_address_def)
  moreover have "set points \<subseteq> addresses ?nw" if "lo div 2048 = hi div 2048"
  proof
    fix x assume x: "x \<in> set points"
    have "lo div ?b = hi div ?b"
      using covering_mask_block that lo hi by (simp add: v4_def)
    then have "x div ?b = lo div ?b"
      using x by (intro div_between[of lo x hi]) (simp_all add: lo_def hi_def)
    then show "x \<in> addresses ?nw"
      using in_block[of x ?b lo] by (simp add: addresses_def broadcast_address_def)
  qed
  ultimately show ?thesis by blast
qed

lemma range_size:
  assumes "range_network r = Some nw"
  shows "finite (addresses nw)" "256 \<le> card (addresses nw)" "card (addresses nw) \<le> 2048"
proof -
  obtain m where m: "21 \<le> m" "m \<le> 24" "nw_bits nw = 32" "nw_prefixlen nw = m"
    using assms by (auto simp: range_network_def ipv4_network_def network_around_def bind_eq_Some_conv
        split: prod.splits option.splits if_splits)
  then have "m = 21 \<or> m = 22 \<or> m = 23 \<or> m = 24" by auto
  then have "block 32 m \<in> {2048, 1024, 512, 256}" by (auto simp: block_def)
  then show "finite (addresses nw)" "256 \<le> card (addresses nw)" "card (addresses nw) \<le> 2048"
    using m by (auto simp: addresses_def broadcast_address_def)
qed

section \<open>The range of the automatic scan\<close>

text \<open>What a scan of the device has to reach: the addresses its endpoints resolve to and the range
  stored before.\<close>

definition ranges_ok :: "net_db \<Rightarrow> bool" where
  "ranges_ok db = list_all (\<lambda>(_, r). range_network r \<noteq> None) (nd_ranges db)"

definition stored_addresses :: "string \<Rightarrow> net_db \<Rightarrow> int set" where
  "stored_addresses device db =
     (case Option.bind (get_range device db) range_network of None \<Rightarrow> {} | Some nw \<Rightarrow> addresses nw)"

definition anchors :: "(json \<Rightarrow> string) \<Rightarrow> string \<Rightarrow> net_db \<Rightarrow> int set" where
  "anchors rep device db =
     set (List.map_filter ip_address (known_ips rep device (nd_catalog db))) \<union> stored_addresses device db"

definition only_v4 :: "(json \<Rightarrow> string) \<Rightarrow> string \<Rightarrow> net_db \<Rightarrow> bool" where
  "only_v4 rep device db =
     list_all (\<lambda>ip. opt_all v4 (ip_address ip)) (known_ips rep device (nd_catalog db))"

definition one_block :: "int set \<Rightarrow> bool" where
  "one_block A = (\<forall>x \<in> A. \<forall>y \<in> A. x div 2048 = y div 2048)"

lemma range_network_bounds:
  assumes "range_network (t, m) = Some nw"
  shows "network_bounds t m = Inr (nw_address nw, broadcast_address nw)"
    "v4 (nw_address nw)" "v4 (broadcast_address nw)" "nw_address nw \<le> broadcast_address nw"
proof -
  obtain n where n: "ipv4_of t = Some n" "v4 n" and m: "21 \<le> m" "m \<le> 24"
    and nw: "nw = \<lparr>nw_bits = 32, nw_address = n div block 32 m * block 32 m, nw_prefixlen = m\<rparr>"
    using assms by (auto simp: range_network_def ipv4_network_def network_around_def bind_eq_Some_conv v4_def
        split: option.splits if_splits)
  show "network_bounds t m = Inr (nw_address nw, broadcast_address nw)"
    using network_around_v4[OF n(2) m] by (simp add: network_bounds_def ip_network_of_text_def ipv4_network_def n nw)
  show "v4 (nw_address nw)" using network_base_v4[OF n(2)] by (simp add: nw)
  have "m = 21 \<or> m = 22 \<or> m = 23 \<or> m = 24" using m by auto
  then have "block 32 m \<in> {2048, 1024, 512, 256}" by (auto simp: block_def)
  then show "v4 (broadcast_address nw)" "nw_address nw \<le> broadcast_address nw"
    using n(2) zdiv_mono1[of n 4294967295 2048] zdiv_mono1[of n 4294967295 1024]
      zdiv_mono1[of n 4294967295 512] zdiv_mono1[of n 4294967295 256]
    by (auto simp: nw v4_def broadcast_address_def)
qed

lemma covering_network_all:
  assumes "points \<noteq> []" "\<forall>p \<in> set points. v4 p"
  obtains t m nw where "covering_network points = Inr (t, m)" "range_network (t, m) = Some nw"
    "one_block (set points) \<Longrightarrow> set points \<subseteq> addresses nw"
proof -
  have "one_block (set points) \<Longrightarrow> Min (set points) div 2048 = Max (set points) div 2048"
    using assms(1) by (simp add: one_block_def)
  with covering_network_v4[OF assms] that show thesis by blast
qed

lemma one_block_subset: "one_block A \<Longrightarrow> B \<subseteq> A \<Longrightarrow> one_block B"
  by (auto simp: one_block_def)

lemma stored_range_ok: "ranges_ok db \<Longrightarrow> get_range device db = Some r \<Longrightarrow> \<exists>nw. range_network r = Some nw"
  using map_of_mem[of "nd_ranges db" device r] by (auto simp: ranges_ok_def get_range_def list_all_iff)

lemma anchored_points_ok:
  assumes ok: "ranges_ok db" and v4: "\<forall>p \<in> set ps. v4 p"
  obtains points where "anchored_points ps (get_range device db) = Inr points" "\<forall>p \<in> set points. v4 p"
    "set points \<subseteq> set ps \<union> stored_addresses device db"
    "\<And>nw. set points \<subseteq> addresses nw \<Longrightarrow> set ps \<union> stored_addresses device db \<subseteq> addresses nw"
    "points = [] \<Longrightarrow> get_range device db = None \<and> ps = []"
proof (cases "get_range device db")
  case None
  then show thesis using that[of ps] v4 by (simp add: anchored_points_def stored_addresses_def)
next
  case (Some r)
  obtain t m where r: "r = (t, m)" by (cases r)
  then obtain nw where nw: "range_network (t, m) = Some nw"
    using stored_range_ok[OF ok Some] by auto
  note b = range_network_bounds[OF nw]
  show thesis
  proof (rule that)
    show "anchored_points ps (get_range device db) = Inr (ps @ [nw_address nw, broadcast_address nw])"
      by (simp add: anchored_points_def Some r b(1))
  qed (use v4 b in \<open>auto simp: stored_addresses_def Some r nw addresses_def\<close>)
qed

lemma set_range_Inr:
  "set_range device t m db = Inr db' \<longleftrightarrow>
     int4 m \<and> has_key (devices (nd_catalog db)) device \<and> db' = db\<lparr>nd_ranges := dset device (t, m) (nd_ranges db)\<rparr>"
  by (auto simp: set_range_def ensure_device_def)

lemma range_mask_int4: "range_network (t, m) = Some nw \<Longrightarrow> int4 m"
  by (auto simp: range_network_def int4_def split: option.splits if_splits)

lemma set_dset_subset: "set (dset k v d) \<subseteq> insert (k, v) (set d)"
  by (induction d) auto

lemma ranges_ok_update:
  "ranges_ok db \<Longrightarrow> range_network (t, m) = Some nw \<Longrightarrow>
     ranges_ok (db\<lparr>nd_ranges := dset device (t, m) (nd_ranges db)\<rparr>)"
  using set_dset_subset[of device "(t, m)" "nd_ranges db"] by (fastforce simp: ranges_ok_def list_all_iff)


section \<open>Samples\<close>

text \<open>A device with an endpoint of a type whose address field has a default.\<close>

definition ip_type :: role_type_row where
  "ip_type = \<lparr>ty_label = ''plc'', ty_description = None,
     ty_fields = [(''addr'', [(''type'', JStr ''string''), (''default'', JStr ''192.168.1.1'')])],
     ty_mapping = [(''addr'', ''ip'')]\<rparr>"

definition net_sample :: "json dict \<Rightarrow> (string \<times> int) dict \<Rightarrow> net_db" where
  "net_sample data ranges =
     \<lparr>nd_catalog = \<lparr>device_types = [], devices = [(''d'', \<lparr>dv_type_id = ''t'', dv_data = []\<rparr>)],
        endpoint_types = [(''plc'', ip_type)],
        endpoints = [(''e'', \<lparr>ep_device_id = ''d'', ep_type_id = ''plc'', ep_data = data\<rparr>)],
        service_types = [], services = []\<rparr>,
      nd_hosts = [], nd_ports = [], nd_ranges = ranges, nd_device_ports = [], nd_default_ports = []\<rparr>"

definition no_text :: "json \<Rightarrow> string" where
  "no_text _ = []"

definition near_sample :: net_db where
  "near_sample = net_sample [(''addr'', JStr ''10.0.9.7'')] [(''d'', (''10.0.8.0'', 24))]"

lemma near_range:
  "map_sum id (\<lambda>(r, db). get_range ''d'' db) (get_network_scan_range no_text ''d'' near_sample) =
     Inr (Some (''10.0.8.0'', 23))"
  by code_simp

text \<open>A single address far below moves the stored range away from everything else it covered.\<close>

lemma outlier_moves_range:
  "map_sum id (\<lambda>(r, db). get_range ''d'' db)
     (get_network_scan_range no_text ''d'' (net_sample [(''addr'', JStr ''10.0.0.1'')] [(''d'', (''192.168.1.0'', 24))])) =
   Inr (Some (''10.0.0.0'', 21))"
  by code_simp

text \<open>An endpoint without an address of its own anchors the range at its type's default.\<close>

lemma default_seeds_range:
  "map_sum id (\<lambda>(r, db). get_range ''d'' db) (get_network_scan_range no_text ''d'' (net_sample [] [])) =
   Inr (Some (''192.168.1.0'', 24))"
  by code_simp

text \<open>Next to an IPv4 address, an IPv6 address widens the range to the limit.\<close>

lemma ipv6_address_widens:
  "covering_network [3232235777, 338288524927261089654018896841347694593] = Inr (''192.168.0.0'', 21)"
  by code_simp


end
