(* ===== verification/Net_Statuses.thy ===== *)
theory Net_Statuses
  imports Net_Overview Net_Range
begin

text \<open>
  The statuses a scan writes.  What is written for which host and port depends on the scan and
  the catalog alone, the time stamps on what was stored before.  An induction over the handler,
  stated once for a relation between two runs, gives that two runs on one catalog write the same
  keys and that every status written is the one the scan found.
\<close>

section \<open>What a scan may write\<close>

definition scanned_ips :: "network_scan \<Rightarrow> string set" where
  "scanned_ips scan = ipv4_text ` sh_ip ` set (ns_results scan)"

definition parsed_ports :: "scanned_host \<Rightarrow> int set" where
  "parsed_ports host = {p. \<exists>s st. (s, st) \<in> set (sh_ports host) \<and> py_int s = Some p}"

definition host_write :: "network_scan \<Rightarrow> string \<Rightarrow> host_state \<Rightarrow> bool" where
  "host_write scan ip status =
     ((\<exists>h \<in> set (ns_results scan). ip = ipv4_text (sh_ip h) \<and> status = sh_status h) \<or>
      ip \<notin> scanned_ips scan \<and> status = Offline)"

definition port_write :: "network_scan \<Rightarrow> string \<Rightarrow> int \<Rightarrow> host_state \<Rightarrow> bool" where
  "port_write scan ip p status =
     ((\<exists>h \<in> set (ns_results scan). ip = ipv4_text (sh_ip h) \<and>
         ((\<exists>s. (s, status) \<in> set (sh_ports h) \<and> py_int s = Some p) \<or> p \<notin> parsed_ports h \<and> status = Offline)) \<or>
      ip \<notin> scanned_ips scan \<and> status = Offline)"

lemma foldl_related:
  assumes "P s s'" and "\<And>x s s'. x \<in> set xs \<Longrightarrow> P s s' \<Longrightarrow> P (f s x) (g s' x)"
  shows "P (foldl f s xs) (foldl g s' xs)"
  using assms by (induction xs arbitrary: s s') auto

lemma foldl_invariant:
  assumes "P s" and "\<And>x s. x \<in> set xs \<Longrightarrow> P s \<Longrightarrow> P (f s x)"
  shows "P (foldl f s xs)"
  using assms by (induction xs arbitrary: s) auto

section \<open>Which ports are listed\<close>

lemma suggested_port_number [simp]: "mp_port (suggested_port d p s c) = Some p"
  by (auto simp: suggested_port_def split: option.splits)

lemma configured_ports_numbers [simp]: "map mp_port (configured_ports p s c servs) = map (\<lambda>_. Some p) servs"
  by (simp add: configured_ports_def configured_port_def comp_def case_prod_unfold)

text \<open>The ports one scanned port adds to the list.\<close>

definition added_ports ::
  "overview_context \<Rightarrow> nat \<Rightarrow> int set \<Rightarrow> (int \<times> (resolved_entity \<times> service_type_row) list) list \<Rightarrow>
     int \<Rightarrow> host_state \<Rightarrow> int \<Rightarrow> mapped_port list" where
  "added_ports cx index claimed by_port p status changed =
     (case map_of by_port p of
        Some (s # ss) \<Rightarrow> configured_ports p status changed (s # ss)
      | _ \<Rightarrow> if p \<in> claimed \<or> 0 < index then []
             else [suggested_port (default_service_types cx) p status changed])"

lemma scanned_port_added:
  "fst (scanned_port cx ip index claimed by_port a (port_str, status)) =
     fst a @ (case py_int port_str of None \<Rightarrow> []
       | Some p \<Rightarrow> added_ports cx index claimed by_port p status
           (resolve_status_change (map_of (oc_ports cx) (ip, p)) status (oc_now cx)))"
  by (auto simp: scanned_port_def added_ports_def write_port_def Let_def case_prod_unfold split: option.splits list.splits)

lemma added_ports_numbers: "mp \<in> set (added_ports cx index claimed by_port p status c) \<Longrightarrow> mp_port mp = Some p"
  by (auto simp: added_ports_def configured_ports_def configured_port_def split: option.splits list.splits if_splits)

lemma append_at_wf: "wf_dict d \<Longrightarrow> wf_dict (append_at k x d)"
  by (simp add: append_at_def)

lemma append_at_nonempty:
  "list_all (\<lambda>(_, xs). xs \<noteq> []) d \<Longrightarrow> list_all (\<lambda>(_, xs). xs \<noteq> []) (append_at k x d)"
  unfolding append_at_def by (induction d) auto

lemma services_by_port_invariant:
  "wf_dict (services_by_port cx servs) \<and> list_all (\<lambda>(_, xs). xs \<noteq> []) (services_by_port cx servs)"
  unfolding services_by_port_def
  by (rule foldl_invariant) (auto simp: append_at_wf append_at_nonempty split: option.splits)

lemma foldl_scanned_ports:
  "fst (foldl (scanned_port cx ip index claimed by_port) a entries) =
     fst a @ concat (map (\<lambda>(port_str, status). case py_int port_str of None \<Rightarrow> []
       | Some p \<Rightarrow> added_ports cx index claimed by_port p status
           (resolve_status_change (map_of (oc_ports cx) (ip, p)) status (oc_now cx))) entries)"
  by (induction entries arbitrary: a) (auto simp: scanned_port_added)

text \<open>A port with configured services is in the list of the scanned ones exactly when the scan reported it.\<close>

lemma scanned_are_listed:
  assumes "e \<in> set (services_by_port cx servs)"
  shows "Some (fst e) \<in> set (map mp_port (fst (foldl (scanned_port cx ip index claimed (services_by_port cx servs))
      ([], n) (sh_ports host)))) \<longleftrightarrow> fst e \<in> parsed_ports host"
proof -
  obtain p servs' where p: "e = (p, servs')" by (cases e)
  with assms services_by_port_invariant[of cx servs]
  have "servs' \<noteq> []" "map_of (services_by_port cx servs) p = Some servs'"
    by (auto simp: list_all_iff)
  then obtain s ss where e: "e = (p, s # ss)" "map_of (services_by_port cx servs) p = Some (s # ss)"
    using p by (cases servs') auto
  then have "Some p \<in> mp_port ` set (added_ports cx index claimed (services_by_port cx servs) p st c)" for st c
    by (simp add: added_ports_def flip: set_map)
  then have listed: "Some p \<in> mp_port ` set (added_ports cx index claimed (services_by_port cx servs) q st c) \<longleftrightarrow> q = p"
    for q st c
    by (metis (no_types, lifting) added_ports_numbers imageE option.inject)
  let ?added = "\<lambda>(port_str, status). case py_int port_str of None \<Rightarrow> []
      | Some q \<Rightarrow> added_ports cx index claimed (services_by_port cx servs) q status
           (resolve_status_change (map_of (oc_ports cx) (ip, q)) status (oc_now cx))"
  have "Some p \<in> mp_port ` set (?added x) \<longleftrightarrow> py_int (fst x) = Some p" for x
    by (cases x; cases "py_int (fst x)") (simp_all add: listed)
  then have "Some p \<in> mp_port ` set (concat (map ?added (sh_ports host))) \<longleftrightarrow>
      (\<exists>x \<in> set (sh_ports host). py_int (fst x) = Some p)"
    by (simp add: image_UN)
  then show ?thesis
    by (force simp: e foldl_scanned_ports parsed_ports_def)
qed

section \<open>Two runs side by side\<close>

locale scan_relation =
  fixes cx cx' :: overview_context and scan :: network_scan
    and R :: "new_statuses \<Rightarrow> new_statuses \<Rightarrow> bool"
  assumes same: "oc_catalog cx' = oc_catalog cx" "oc_rep cx' = oc_rep cx" "oc_created cx' = oc_created cx"
    and port_step: "R n n' \<Longrightarrow> port_write scan ip p s \<Longrightarrow>
      R (snd (write_port cx ip p s n)) (snd (write_port cx' ip p s n'))"
    and host_step: "R n n' \<Longrightarrow> host_write scan ip s \<Longrightarrow>
      R (snd (write_host cx ip s n)) (snd (write_host cx' ip s n'))"
begin

lemma same_addresses: "stored_ip cx' = stored_ip cx" "probed_ip cx' = probed_ip cx" "shown_ip cx' = shown_ip cx"
  by (simp_all add: fun_eq_iff stored_ip_def probed_ip_def shown_ip_def same)

lemma same_places: "place_endpoints cx' = place_endpoints cx"
proof -
  have "place_endpoint cx' = place_endpoint cx"
    by (simp add: fun_eq_iff place_endpoint_def same_addresses cong: option.case_cong)
  then show ?thesis by (intro ext) (simp add: place_endpoints_def same)
qed

lemma same_services: "services_of cx' = services_of cx" "service_type_of cx' = service_type_of cx"
  "default_service_types cx' = default_service_types cx"
  by (simp_all add: fun_eq_iff services_of_def service_type_of_def default_service_types_def same)

lemma same_typed_services: "typed_services cx' = typed_services cx"
  by (simp add: fun_eq_iff typed_services_def same_services)

lemma same_ports: "services_by_port cx' = services_by_port cx" "claimed_ports cx' = claimed_ports cx"
  "services_without_port cx' = services_without_port cx"
  by (simp_all add: fun_eq_iff services_by_port_def claimed_ports_def services_without_port_def same_typed_services)

abbreviation ports_related :: "mapped_port list \<times> new_statuses \<Rightarrow> mapped_port list \<times> new_statuses \<Rightarrow> bool" where
  "ports_related a b \<equiv> map mp_port (fst a) = map mp_port (fst b) \<and> R (snd a) (snd b)"

lemma confirmed_offline_port:
  assumes "ports_related a b" "ip \<notin> scanned_ips scan"
  shows "ports_related (confirmed_offline_port cx ip a service) (confirmed_offline_port cx' ip b service)"
  using assms port_step[of "snd a" "snd b" ip _ Offline]
  by (auto simp: confirmed_offline_port_def same_services Let_def configured_port_def unknown_port_def
      port_write_def case_prod_unfold split: option.splits)

lemma confirmed_offline_endpoint:
  assumes "R n n'" "ip \<notin> scanned_ips scan"
  shows "R (snd (confirmed_offline_endpoint cx ip ep n)) (snd (confirmed_offline_endpoint cx' ip ep n'))"
proof -
  have "ports_related (foldl (confirmed_offline_port cx ip) ([], n) (services_of cx ep))
      (foldl (confirmed_offline_port cx' ip) ([], n') (services_of cx ep))"
    using assms by (intro foldl_related[where P = ports_related] confirmed_offline_port) auto
  then show ?thesis
    using assms(2) host_step[of _ _ ip Offline]
    by (simp add: confirmed_offline_endpoint_def same_services Let_def host_write_def case_prod_unfold)
qed

lemma scanned_port:
  assumes "ports_related a b" "host \<in> set (ns_results scan)" "e \<in> set (sh_ports host)"
  defines "ip \<equiv> ipv4_text (sh_ip host)"
  shows "ports_related (scanned_port cx ip index claimed by_port a e) (scanned_port cx' ip index claimed by_port b e)"
proof -
  obtain port_str status where e: "e = (port_str, status)" by (cases e)
  have "port_write scan ip p status" if "py_int port_str = Some p" for p
    using that assms(2,3) e by (auto simp: port_write_def ip_def)
  with assms(1) port_step[of "snd a" "snd b" ip _ status] show ?thesis
    by (auto simp: e scanned_port_def same_services Let_def case_prod_unfold split: option.splits list.splits)
qed

lemma missing_port:
  assumes "ports_related a b" "host \<in> set (ns_results scan)" "fst e \<notin> parsed_ports host \<or> Some (fst e) \<in> scanned"
  defines "ip \<equiv> ipv4_text (sh_ip host)"
  shows "ports_related (missing_port cx ip scope scanned a e) (missing_port cx' ip scope scanned b e)"
proof -
  obtain p servs where e: "e = (p, servs)" by (cases e)
  have "port_write scan ip p Offline" if "Some p \<notin> scanned"
    using that assms(2,3) e by (auto simp: port_write_def ip_def)
  with assms(1) port_step[of "snd a" "snd b" ip p Offline] show ?thesis
    by (auto simp: e missing_port_def Let_def case_prod_unfold)
qed

lemma host_ports:
  assumes n: "R n n'" and host: "host \<in> set (ns_results scan)"
  shows "ports_related (host_ports cx nd host index claimed servs n) (host_ports cx' nd host index claimed servs n')"
proof -
  let ?ip = "ipv4_text (sh_ip host)"
  let ?scan = "\<lambda>cx n. foldl (scanned_port cx ?ip index claimed (services_by_port cx servs)) ([], n) (sh_ports host)"
  let ?miss = "\<lambda>cx n. foldl (missing_port cx ?ip (nw_ports nd) (set (map mp_port (fst (?scan cx n)))))
      (?scan cx n) (services_by_port cx servs)"
  have scan: "ports_related (?scan cx n) (?scan cx' n')"
    unfolding same_ports
  proof (rule foldl_related[where P = ports_related])
    show "ports_related ([], n) ([], n')" using n by simp
  qed (rule scanned_port[OF _ host])
  have covered: "fst e \<notin> parsed_ports host \<or> Some (fst e) \<in> set (map mp_port (fst (?scan cx n)))"
    if "e \<in> set (services_by_port cx servs)" for e
    using scanned_are_listed[OF that] by blast
  have "ports_related (?miss cx n) (?miss cx' n')"
    unfolding same_ports conjunct1[OF scan[unfolded same_ports], symmetric]
    by (rule foldl_related[where P = ports_related], rule scan[unfolded same_ports],
        rule missing_port[OF _ host covered])
  then show ?thesis
    by (simp add: host_ports_def same_ports Let_def case_prod_unfold unknown_port_def configured_port_def comp_def)
qed

abbreviation entries_related :: "mapped_endpoint list \<times> new_statuses \<Rightarrow> mapped_endpoint list \<times> new_statuses \<Rightarrow> bool" where
  "entries_related a b \<equiv> R (snd a) (snd b)"

lemma host_entry:
  assumes "entries_related a b" "host \<in> set (ns_results scan)"
  shows "entries_related (host_entry cx nd host c claimed a e) (host_entry cx' nd host c' claimed b e)"
  using host_ports[OF assms, of nd "fst e" claimed "case snd e of None \<Rightarrow> [] | Some ep \<Rightarrow> services_of cx ep"]
  by (simp add: host_entry_def Let_def case_prod_unfold same_services cong: option.case_cong)

lemma map_host:
  assumes "entries_related a b" "host \<in> set (ns_results scan)"
  shows "entries_related (map_host cx nd by_ip a host) (map_host cx' nd by_ip b host)"
proof -
  have "R (snd (write_host cx (ipv4_text (sh_ip host)) (sh_status host) (snd a)))
      (snd (write_host cx' (ipv4_text (sh_ip host)) (sh_status host) (snd b)))"
    using assms by (intro host_step) (auto simp: host_write_def)
  then show ?thesis
    unfolding map_host_def Let_def case_prod_unfold same_services same_ports
    by (intro foldl_related[where P = entries_related] host_entry[OF _ assms(2)]) simp_all
qed

lemma missing_host:
  assumes "entries_related a b"
  shows "entries_related (missing_host cx net (scanned_ips scan) a e) (missing_host cx' net (scanned_ips scan) b e)"
proof (cases "fst e \<in> scanned_ips scan")
  case True
  then show ?thesis using assms by (simp add: missing_host_def case_prod_unfold)
next
  case False
  have "entries_related (foldl f a (snd e)) (foldl g b (snd e))"
    if "\<And>ep a b. entries_related a b \<Longrightarrow> entries_related (f a ep) (g b ep)" for f g
    using assms that by (intro foldl_related[where P = entries_related]) auto
  then show ?thesis
    using False confirmed_offline_endpoint[OF _ False]
    by (simp add: missing_host_def case_prod_unfold Let_def)
qed

theorem overview_entries:
  assumes "R ([], []) ([], [])"
  shows "R (snd (overview_entries cx scan eps)) (snd (overview_entries cx' scan eps))"
proof -
  let ?by_ip = "fst (place_endpoints cx eps)"
  let ?hosts = "\<lambda>cx. foldl (map_host cx (ns_definition scan) ?by_ip) ([], [], []) (ns_results scan)"
  let ?all = "\<lambda>cx. foldl (missing_host cx (scanned_network (ns_definition scan)) (scanned_ips scan)) (?hosts cx) ?by_ip"
  have "entries_related (?hosts cx) (?hosts cx')"
    by (rule foldl_related[where P = entries_related]) (simp_all add: assms map_host)
  then have "entries_related (?all cx) (?all cx')"
    by (rule foldl_related[where P = entries_related]) (rule missing_host)
  then show ?thesis
    by (simp add: overview_entries_def same_places case_prod_unfold Let_def scanned_ips_def)
qed

end

section \<open>Three relations between runs\<close>

text \<open>Every status written is one the scan allows, with its stamp.\<close>

definition stamped_from :: "('k \<times> stamped) list \<Rightarrow> int \<Rightarrow> ('k \<Rightarrow> host_state \<Rightarrow> bool) \<Rightarrow> ('k \<times> stamped) list \<Rightarrow> bool" where
  "stamped_from previous now allowed new =
     (wf_dict new \<and> (\<forall>(k, s, t) \<in> set new. allowed k s \<and> t = resolve_status_change (map_of previous k) s now))"

definition settled :: "overview_context \<Rightarrow> network_scan \<Rightarrow> new_statuses \<Rightarrow> bool" where
  "settled cx scan = (\<lambda>(hosts, ports).
     stamped_from (oc_hosts cx) (oc_now cx) (host_write scan) hosts \<and>
     stamped_from (oc_ports cx) (oc_now cx) (\<lambda>(ip, p). port_write scan ip p) ports)"

lemma stamped_from_dset:
  "stamped_from previous now allowed new \<Longrightarrow> allowed k s \<Longrightarrow>
     stamped_from previous now allowed (dset k (s, resolve_status_change (map_of previous k) s now) new)"
  using set_dset_subset[of k "(s, resolve_status_change (map_of previous k) s now)" new]
  by (fastforce simp: stamped_from_def)

definition same_keys :: "new_statuses \<Rightarrow> new_statuses \<Rightarrow> bool" where
  "same_keys n n' = (map fst (fst n) = map fst (fst n') \<and> map fst (snd n) = map fst (snd n'))"

lemma same_keys_dset: "map fst x = map fst y \<Longrightarrow> map fst (dset k v x) = map fst (dset k w y)"
  by (simp only: update_keys)

definition later :: "overview_context \<Rightarrow> host_statuses \<Rightarrow> port_statuses \<Rightarrow> int \<Rightarrow> overview_context" where
  "later cx hosts ports now = cx\<lparr>oc_hosts := hosts, oc_ports := ports, oc_now := now\<rparr>"

interpretation settling: scan_relation cx cx scan "\<lambda>n n'. n' = n \<and> settled cx scan n" for cx scan
  by unfold_locales
     (auto simp: settled_def write_port_def write_host_def Let_def stamped_from_dset split: prod.splits)

interpretation keys: scan_relation cx "later cx hosts ports now" scan same_keys for cx hosts ports now scan
  by unfold_locales
     (auto simp: later_def same_keys_def write_port_def write_host_def Let_def intro: same_keys_dset split: prod.splits)

interpretation written: scan_relation cx cx scan "\<lambda>n n'. n' = n \<and> K \<subseteq> fst ` set (fst n)" for cx scan K
  by unfold_locales
     (auto simp: write_port_def write_host_def Let_def fst_set_dset split: prod.splits)

lemma overview_settled: "settled cx scan (snd (overview_entries cx scan eps))"
  using settling.overview_entries[of cx scan eps] by (simp add: settled_def stamped_from_def)

lemma overview_same_keys:
  "same_keys (snd (overview_entries cx scan eps)) (snd (overview_entries (later cx hosts ports now) scan eps))"
  using keys.overview_entries[of cx scan eps] by (simp add: same_keys_def)

section \<open>The tables after a scan\<close>

text \<open>A scan that reports no host and no port twice.\<close>

definition clear_scan :: "network_scan \<Rightarrow> bool" where
  "clear_scan scan =
     (distinct (map sh_ip (ns_results scan)) \<and>
      list_all (\<lambda>h. v4 (sh_ip h) \<and> distinct (List.map_filter (\<lambda>(s, _). py_int s) (sh_ports h))) (ns_results scan))"

lemma ipv4_text_inject: "v4 m \<Longrightarrow> v4 n \<Longrightarrow> ipv4_text m = ipv4_text n \<longleftrightarrow> m = n"
  by (metis ipv4_read_back option.inject v4_def)

lemma clear_scan_host:
  assumes "clear_scan scan" "h \<in> set (ns_results scan)" "h' \<in> set (ns_results scan)"
    "ipv4_text (sh_ip h) = ipv4_text (sh_ip h')"
  shows "h = h'"
proof -
  have "sh_ip h = sh_ip h'" "distinct (map sh_ip (ns_results scan))"
    using assms by (auto simp: clear_scan_def list_all_iff ipv4_text_inject)
  with assms(2,3) show ?thesis by (auto simp: distinct_map inj_on_def)
qed

lemma distinct_map_filter_unique:
  "distinct (List.map_filter (\<lambda>(s, _). py_int s) l) \<Longrightarrow> (a, x) \<in> set l \<Longrightarrow> (b, y) \<in> set l \<Longrightarrow>
     py_int a = Some p \<Longrightarrow> py_int b = Some p \<Longrightarrow> x = y"
  by (induction l) (force simp: map_filter_def split: if_splits)+

lemma host_write_unique:
  "clear_scan scan \<Longrightarrow> host_write scan ip s \<Longrightarrow> host_write scan ip s' \<Longrightarrow> s = s'"
  using clear_scan_host[of scan] by (fastforce simp: host_write_def scanned_ips_def)

lemma port_write_unique:
  assumes "clear_scan scan" "port_write scan ip p s" "port_write scan ip p s'"
  shows "s = s'"
proof (cases "ip \<in> scanned_ips scan")
  case False
  then show ?thesis using assms by (auto simp: port_write_def scanned_ips_def)
next
  case True
  then obtain h where h: "h \<in> set (ns_results scan)" "ip = ipv4_text (sh_ip h)"
    by (auto simp: scanned_ips_def)
  have d: "distinct (List.map_filter (\<lambda>(s, _). py_int s) (sh_ports h))"
    using assms(1) h(1) by (auto simp: clear_scan_def list_all_iff)
  have "(\<exists>a. (a, s) \<in> set (sh_ports h) \<and> py_int a = Some p) \<or> p \<notin> parsed_ports h \<and> s = Offline"
    if "port_write scan ip p s" for s
    using that True clear_scan_host[OF assms(1) h(1)] by (auto simp: port_write_def h(2))
  from this[OF assms(2)] this[OF assms(3)] show ?thesis
    using distinct_map_filter_unique[OF d] by (auto simp: parsed_ports_def)
qed

lemma fold_dset_lookup:
  assumes "inj g" "wf_dict new"
  shows "map_of (fold (\<lambda>(k, v). dset (g k) v) new tbl) (g k) =
    (case map_of new k of None \<Rightarrow> map_of tbl (g k) | Some v \<Rightarrow> Some v)"
  using assms(2)
proof (induction new arbitrary: tbl)
  case (Cons e new)
  obtain a b where e: "e = (a, b)" by (cases e)
  have "map_of new a = None" "wf_dict new"
    using Cons.prems by (simp_all add: e map_of_eq_None_iff)
  with Cons.IH[of "dset (g a) b tbl"] show ?case
    by (cases "k = a") (simp_all add: e update_conv inj_eq[OF assms(1)] split: option.split)
qed simp

lemma dset_id: "map_of tbl k = Some v \<Longrightarrow> dset k v tbl = tbl"
  by (induction tbl) auto

lemma fold_dset_id:
  assumes "\<And>k v. (k, v) \<in> set new \<Longrightarrow> map_of tbl (g k) = Some v"
  shows "fold (\<lambda>(k, v). dset (g k) v) new tbl = tbl"
  using assms
proof (induction new)
  case (Cons e new)
  moreover have "dset (g (fst e)) (snd e) tbl = tbl" using Cons.prems by (cases e) (auto intro: dset_id)
  ultimately show ?case by (simp add: case_prod_unfold)
qed simp

lemma map_of_scoped:
  "map_of (map (\<lambda>((_, k), v). (k, v)) (filter (\<lambda>((d', _), _). d' = d) tbl)) k = map_of tbl (d, k)"
  by (induction tbl) auto

lemma get_host_status: "map_of (get_host_statuses device db) ip = map_of (nd_hosts db) (device, ip)"
  unfolding get_host_statuses_def by (rule map_of_scoped)

lemma get_port_status: "map_of (get_port_statuses device db) ipp = map_of (nd_ports db) (device, ipp)"
  using map_of_scoped[of device "nd_ports db" ipp] by (simp add: get_port_statuses_def case_prod_unfold)

definition upsert :: "string \<Rightarrow> ('k \<times> 'v) list \<Rightarrow> ((string \<times> 'k) \<times> 'v) list \<Rightarrow> ((string \<times> 'k) \<times> 'v) list" where
  "upsert device new tbl = fold (\<lambda>(k, v). dset (device, k) v) new tbl"

lemma write_statuses_Inr:
  "write_statuses device (hosts, ports) db = (Inr (), db') \<longleftrightarrow>
     (hosts = [] \<and> ports = [] \<or> has_key (devices (nd_catalog db)) device) \<and>
     list_all (\<lambda>((_, p), _). int4 p) ports \<and>
     db' = db\<lparr>nd_hosts := upsert device hosts (nd_hosts db), nd_ports := upsert device ports (nd_ports db)\<rparr>"
  by (auto simp: write_statuses_def set_host_statuses_def set_port_statuses_def ensure_device_def upsert_def
      ensure_def bindR_def case_prod_unfold split: sum.splits if_splits)

lemma build_Inr:
  "build_network_overview rep created device scan now db = (Inr ov, db') \<longleftrightarrow>
     (let (mapped, new) = overview_entries (overview_context_of rep created device now db) scan
                            (get_endpoints device None (nd_catalog db)) in
      write_statuses device new db = (Inr (), db') \<and>
      ov = \<lparr>no_definition = ns_definition scan, no_endpoints = mapped\<rparr>)"
  by (auto simp: build_network_overview_def Let_def split: prod.splits)

lemma upsert_lookup: "wf_dict new \<Longrightarrow>
  map_of (upsert device new tbl) (device, k) = (case map_of new k of None \<Rightarrow> map_of tbl (device, k) | Some v \<Rightarrow> Some v)"
  unfolding upsert_def by (rule fold_dset_lookup) (auto simp: inj_def)

text \<open>Writing again what was written before, under new stamps computed from it, changes nothing.\<close>

lemma upsert_again:
  assumes new: "stamped_from prev now allowed new" and new': "stamped_from prev' now' allowed new'"
    and keys: "map fst new = map fst new'" and unique: "\<And>k s s'. allowed k s \<Longrightarrow> allowed k s' \<Longrightarrow> s = s'"
    and prev': "\<And>k. map_of prev' k = map_of (upsert device new tbl) (device, k)"
  shows "upsert device new' (upsert device new tbl) = upsert device new tbl"
  unfolding upsert_def[of _ new']
proof (rule fold_dset_id)
  fix k v assume kv: "(k, v) \<in> set new'"
  then have "k \<in> set (map fst new')" by force
  then obtain w where w: "(k, w) \<in> set new" unfolding keys[symmetric] by auto
  then have "map_of (upsert device new tbl) (device, k) = Some w"
    using new by (simp add: upsert_lookup stamped_from_def)
  moreover have "w = v"
  proof (cases v; cases w)
    fix s t s0 t0 assume v: "v = (s, t)" and w0: "w = (s0, t0)"
    have "allowed k s" "allowed k s0" using new new' kv w by (auto simp: stamped_from_def v w0)
    then have "s = s0" by (rule unique)
    moreover have "t = resolve_status_change (map_of prev' k) s now'"
      using new' kv by (auto simp: stamped_from_def v)
    ultimately show ?thesis
      using prev' \<open>s = s0\<close> \<open>map_of (upsert device new tbl) (device, k) = Some w\<close>
      by (simp add: resolve_status_change_def v w0)
  qed
  ultimately show "map_of (upsert device new tbl) (device, k) = Some v" by simp
qed

lemma overview_context_simps [simp]:
  "oc_hosts (overview_context_of rep created device now db) = get_host_statuses device db"
  "oc_ports (overview_context_of rep created device now db) = get_port_statuses device db"
  "oc_catalog (overview_context_of rep created device now db) = nd_catalog db"
  "oc_now (overview_context_of rep created device now db) = now"
  by (simp_all add: overview_context_of_def)

lemma stamped_ports:
  "stamped_from prev now (\<lambda>(ip, p). port_write scan ip p) new \<Longrightarrow> clear_scan scan \<Longrightarrow>
     (\<lambda>(ip, p). port_write scan ip p) k s \<Longrightarrow> (\<lambda>(ip, p). port_write scan ip p) k s' \<Longrightarrow> s = s'"
  using port_write_unique by (cases k) auto

text \<open>
  C30: repeating a scan.  When a scan that reports no host and no port twice has been answered,
  the same scan on the tables it left, at any later time, leaves them as they are: the time of the
  last status change advances only when a status changes.
\<close>

theorem rescan_keeps_stamps:
  assumes clear: "clear_scan scan"
    and first: "build_network_overview rep created device scan now db = (Inr ov, db')"
  shows "snd (build_network_overview rep created device scan now' db') = db' \<and>
    is_ok (fst (build_network_overview rep created device scan now' db'))"
proof -
  let ?cx = "overview_context_of rep created device now db"
  let ?cx' = "overview_context_of rep created device now' db'"
  let ?eps = "get_endpoints device None (nd_catalog db)"
  obtain mapped hosts ports where run: "overview_entries ?cx scan ?eps = (mapped, hosts, ports)"
    by (metis surj_pair)
  then have w: "write_statuses device (hosts, ports) db = (Inr (), db')"
    using first by (simp add: build_Inr)
  then have db': "db' = db\<lparr>nd_hosts := upsert device hosts (nd_hosts db), nd_ports := upsert device ports (nd_ports db)\<rparr>"
    by (simp add: write_statuses_Inr)
  have later: "?cx' = later ?cx (get_host_statuses device db') (get_port_statuses device db') now'"
    by (simp add: overview_context_of_def later_def db')
  obtain mapped' hosts' ports' where run': "overview_entries ?cx' scan ?eps = (mapped', hosts', ports')"
    by (metis surj_pair)
  have keys: "map fst hosts = map fst hosts'" "map fst ports = map fst ports'"
    using overview_same_keys[of ?cx scan ?eps "get_host_statuses device db'" "get_port_statuses device db'" now']
    by (simp_all add: run run' same_keys_def flip: later)
  have s: "stamped_from (get_host_statuses device db) now (host_write scan) hosts"
      "stamped_from (get_port_statuses device db) now (\<lambda>(ip, p). port_write scan ip p) ports"
    and s': "stamped_from (get_host_statuses device db') now' (host_write scan) hosts'"
      "stamped_from (get_port_statuses device db') now' (\<lambda>(ip, p). port_write scan ip p) ports'"
    using overview_settled[of ?cx scan ?eps] overview_settled[of ?cx' scan ?eps]
    by (simp_all add: run run' settled_def)
  have "upsert device hosts' (nd_hosts db') = nd_hosts db'"
    using upsert_again[OF s(1) s'(1) keys(1) host_write_unique[OF clear], where device = device and tbl = "nd_hosts db"]
    by (simp add: get_host_status db')
  moreover have "upsert device ports' (nd_ports db') = nd_ports db'"
    using upsert_again[OF s(2) s'(2) keys(2) stamped_ports[OF s(2) clear], where device = device and tbl = "nd_ports db"]
    by (simp add: get_port_status db')
  moreover have "list_all (\<lambda>((_, p), _). int4 p) l = list_all (\<lambda>k. int4 (snd k)) (map fst l)" for l :: port_statuses
    by (simp add: list.pred_map comp_def case_prod_unfold)
  moreover have "hosts' = [] \<longleftrightarrow> hosts = []" "ports' = [] \<longleftrightarrow> ports = []"
    using keys by (metis map_is_Nil_conv)+
  ultimately have "write_statuses device (hosts', ports') db' = (Inr (), db')"
    using w by (simp add: write_statuses_Inr db' keys)
  then show ?thesis
    using run' by (simp add: build_network_overview_def db')
qed

definition host_keys :: "mapped_endpoint list \<times> new_statuses \<Rightarrow> string set" where
  "host_keys a = fst ` set (fst (snd a))"

lemma host_keys_kept:
  fixes scan :: network_scan
  assumes "h \<in> set (ns_results scan)" "K \<subseteq> host_keys a"
  shows "K \<subseteq> host_keys (map_host cx nd by_ip a h)" "K \<subseteq> host_keys (host_entry cx nd h c claimed a e)"
  using written.map_host[where K = K and a = a and b = a and cx = cx and scan = scan, OF _ assms(1)]
    written.host_entry[where K = K and a = a and b = a and cx = cx and scan = scan, OF _ assms(1)] assms(2)
  unfolding host_keys_def by blast+

lemma missing_host_keys_kept:
  "K \<subseteq> host_keys a \<Longrightarrow> K \<subseteq> host_keys (missing_host cx net (scanned_ips scan) a e)"
  using written.missing_host[where K = K and a = a and b = a and cx = cx and scan = scan]
  unfolding host_keys_def by blast

lemma host_key_written:
  fixes scan :: network_scan
  assumes "h \<in> set (ns_results scan)"
  shows "ipv4_text (sh_ip h) \<in> host_keys (map_host cx nd by_ip a h)"
proof -
  let ?ip = "ipv4_text (sh_ip h)"
  let ?start = "(fst a, snd (write_host cx ?ip (sh_status h) (snd a)))"
  have "{?ip} \<subseteq> host_keys ?start"
    by (simp add: host_keys_def write_host_def case_prod_unfold Let_def fst_set_dset)
  then have "{?ip} \<subseteq> host_keys (foldl (host_entry cx nd h c claimed) ?start es)" for c claimed es
    by (rule foldl_invariant) (rule host_keys_kept(2)[OF assms])
  then show ?thesis
    by (simp add: map_host_def Let_def case_prod_unfold)
qed

lemma hosts_written:
  "set xs \<subseteq> set (ns_results (scan :: network_scan)) \<Longrightarrow> ipv4_text ` sh_ip ` set xs \<subseteq> host_keys (foldl (map_host cx nd by_ip) a xs)"
proof (induction xs rule: rev_induct)
  case (snoc h xs)
  then have h: "h \<in> set (ns_results scan)"
    and "ipv4_text ` sh_ip ` set xs \<subseteq> host_keys (foldl (map_host cx nd by_ip) a xs)" by simp_all
  from host_keys_kept(1)[OF this] host_key_written[OF h] show ?case by simp
qed simp

lemma scanned_hosts_written: "scanned_ips scan \<subseteq> host_keys (overview_entries cx scan eps)"
proof -
  let ?hosts = "foldl (map_host cx (ns_definition scan) (fst (place_endpoints cx eps))) ([], [], []) (ns_results scan)"
  have "scanned_ips scan \<subseteq> host_keys ?hosts"
    using hosts_written[of "ns_results scan" scan] by (simp add: scanned_ips_def)
  then have "scanned_ips scan \<subseteq> host_keys (foldl (missing_host cx (scanned_network (ns_definition scan))
      (scanned_ips scan)) ?hosts (fst (place_endpoints cx eps)))"
    by (rule foldl_invariant) (rule missing_host_keys_kept)
  then show ?thesis
    by (simp add: overview_entries_def case_prod_unfold Let_def scanned_ips_def host_keys_def)
qed


section \<open>A scan\<close>

definition sample_scan :: network_scan where
  "sample_scan =
     \<lparr>ns_results = [\<lparr>sh_ip = 167774471, sh_status = Online, sh_ports = [(''80'', Online)]\<rparr>,
                    \<lparr>sh_ip = 167774472, sh_status = Online, sh_ports = []\<rparr>],
      ns_definition = \<lparr>nw_definition = ''10.0.9.0'', nw_ports = [80], nw_mask = 24\<rparr>\<rparr>"

definition sample_run :: "int \<Rightarrow> net_db \<Rightarrow> network_overview res \<times> net_db" where
  "sample_run now db = build_network_overview no_text (\<lambda>_. 0) ''d'' sample_scan now db"

lemma sample_run_ok: "is_ok (fst (sample_run 5 near_sample))"
  by code_simp

lemma clear_sample_scan: "clear_scan sample_scan"
  by code_simp

lemma sample_run_Inr:
  "build_network_overview no_text (\<lambda>_. 0) ''d'' sample_scan 5 near_sample =
     (Inr (projr (fst (sample_run 5 near_sample))), snd (sample_run 5 near_sample))"
  using sample_run_ok by (auto simp: is_ok_iff sample_run_def prod_eq_iff)

theorem rescan_keeps_stamps_witness:
  "nd_hosts (snd (sample_run 5 near_sample)) = [((''d'', ''10.0.9.7''), (Online, 5)), ((''d'', ''10.0.9.8''), (Online, 5))] \<and>
   snd (sample_run 9 (snd (sample_run 5 near_sample))) = snd (sample_run 5 near_sample)"
proof
  show "nd_hosts (snd (sample_run 5 near_sample)) = [((''d'', ''10.0.9.7''), (Online, 5)), ((''d'', ''10.0.9.8''), (Online, 5))]"
    by code_simp
qed (use rescan_keeps_stamps[OF clear_sample_scan sample_run_Inr, of 9] in \<open>simp add: sample_run_def\<close>)


end
