(* ===== verification/Net_Complete.thy ===== *)
theory Net_Complete
  imports Net_Statuses "HOL-Library.Multiset"
begin

text \<open>
  The overview is complete: every configured endpoint of the device is listed once, and each with
  all of its services.  Endpoints and services are first sorted into a dict of lists by address or
  port; what is looked up there and what is left over together is everything.
\<close>

section \<open>Dicts of lists\<close>

definition bucket :: "('k \<times> 'a list) list \<Rightarrow> 'k \<Rightarrow> 'a list" where
  "bucket d k = (case map_of d k of None \<Rightarrow> [] | Some xs \<Rightarrow> xs)"

definition contents :: "('k \<times> 'a list) list \<Rightarrow> 'a multiset" where
  "contents d = mset (concat (map snd d))"

lemma contents_simps [simp]: "contents [] = {#}" "contents (e # d) = mset (snd e) + contents d"
  by (simp_all add: contents_def)

lemma contents_append_at: "wf_dict d \<Longrightarrow> contents (append_at k x d) = add_mset x (contents d)"
  unfolding append_at_def
proof (induction d)
  case (Cons e d)
  then show ?case by (cases e) (auto split: option.splits simp: map_of_eq_None_iff)
qed simp

lemma bucket_Cons [simp]: "bucket ((k', xs) # d) k = (if k = k' then xs else bucket d k)"
  by (simp add: bucket_def)

lemma bucket_Nil [simp]: "bucket [] k = []"
  by (simp add: bucket_def)

lemma looked_up:
  assumes "distinct ks" "wf_dict d"
  shows "mset (concat (map (bucket d) ks)) = contents (filter (\<lambda>(k, _). k \<in> set ks) d)"
  using assms(2)
proof (induction d)
  case Nil
  then show ?case by (simp add: concat_eq_Nil_conv)
next
  case (Cons e d)
  obtain k xs where e: "e = (k, xs)" by (cases e)
  have new: "bucket d k = []" using Cons.prems map_of_eq_None_iff[of d k] by (simp add: e bucket_def)
  have "mset (concat (map (bucket (e # d)) js)) =
      (if k \<in> set js then mset xs else {#}) + mset (concat (map (bucket d) js))" if "distinct js" for js
    using that by (induction js) (auto simp: e new)
  from this[OF assms(1)] Cons show ?case by (simp add: e del: bucket_Cons)
qed

lemma contents_split: "contents d = contents (filter P d) + contents (filter (\<lambda>e. \<not> P e) d)"
  by (induction d) auto

lemma map_filter_append [simp]: "List.map_filter f (xs @ ys) = List.map_filter f xs @ List.map_filter f ys"
  by (simp add: map_filter_def)

lemma map_filter_all_Some: "(\<And>x. x \<in> set xs \<Longrightarrow> f x = Some (g x)) \<Longrightarrow> List.map_filter f xs = map g xs"
  by (induction xs) (auto simp: map_filter_simps)

section \<open>The services of an endpoint\<close>

abbreviation service_ids :: "mapped_port list \<Rightarrow> string list" where
  "service_ids \<equiv> List.map_filter mp_service_id"

lemma services_have_types:
  "service \<in> set (get_services eid None cat) \<Longrightarrow> \<exists>st. map_of (service_types cat) (re_type_id service) = Some st"
  unfolding get_services_def set_concat set_map
  by (elim UnionE imageE) (auto simp: serialize_resolved_def split: option.splits; metis)

lemma typed_services_ids:
  "map (re_id \<circ> fst) (typed_services cx (services_of cx ep)) = map re_id (services_of cx ep)"
proof -
  let ?f = "\<lambda>service. map_option (Pair service) (service_type_of cx service)"
  have "?f s = Some (s, the (service_type_of cx s))" if "s \<in> set (services_of cx ep)" for s
    using services_have_types[of s "re_id ep" "oc_catalog cx"] that by (auto simp: services_of_def service_type_of_def)
  then have "typed_services cx (services_of cx ep) = map (\<lambda>s. (s, the (service_type_of cx s))) (services_of cx ep)"
    unfolding typed_services_def by (rule map_filter_all_Some)
  then show ?thesis by simp
qed

lemma service_ids_configured [simp]:
  "service_ids (configured_ports p s c servs) = map (re_id \<circ> fst) servs"
  by (induction servs) (auto simp: configured_ports_def configured_port_def map_filter_simps)

lemma service_ids_added:
  "service_ids (added_ports cx index claimed by_port p s c) = map (re_id \<circ> fst) (bucket by_port p)"
  by (auto simp: added_ports_def bucket_def suggested_port_def map_filter_simps split: option.splits list.splits)

lemma service_ids_scanned:
  "service_ids (fst (foldl (scanned_port cx ip index claimed by_port) a entries)) =
     service_ids (fst a) @
     map (re_id \<circ> fst) (concat (map (bucket by_port) (List.map_filter (\<lambda>(s, _). py_int s) entries)))"
  by (induction entries arbitrary: a)
     (auto simp: scanned_port_added service_ids_added map_filter_simps split: option.splits)

lemma service_ids_missing:
  "service_ids (fst (foldl (missing_port cx ip scope scanned) a d)) =
     service_ids (fst a) @ map (re_id \<circ> fst) (concat (map snd (filter (\<lambda>(p, _). Some p \<notin> scanned) d)))"
  by (induction d arbitrary: a) (auto simp: missing_port_def case_prod_unfold Let_def)

lemma services_sorted:
  "contents (services_by_port cx servs) + mset (services_without_port cx servs) = mset (typed_services cx servs)"
proof -
  let ?step = "\<lambda>d (service, st). case port_number service st of None \<Rightarrow> d | Some p \<Rightarrow> append_at p (service, st) d"
  have "wf_dict d \<Longrightarrow> wf_dict (foldl ?step d xs) \<and>
      contents (foldl ?step d xs) + mset (filter (\<lambda>(service, st). port_number service st = None) xs) = contents d + mset xs"
    for d xs
    by (induction xs arbitrary: d) (auto simp: append_at_wf contents_append_at split: option.splits)
  from this[of "[]" "typed_services cx servs"] show ?thesis
    by (simp add: services_by_port_def services_without_port_def)
qed

lemma service_ids_host:
  assumes "distinct (List.map_filter (\<lambda>(s, _). py_int s) (sh_ports host))"
  shows "mset (service_ids (fst (host_ports cx nd host index claimed servs n))) =
    mset (map (re_id \<circ> fst) (typed_services cx servs))"
proof -
  let ?d = "services_by_port cx servs"
  let ?ip = "ipv4_text (sh_ip host)"
  let ?ks = "List.map_filter (\<lambda>(s, _). py_int s) (sh_ports host)"
  let ?scan = "foldl (scanned_port cx ?ip index claimed ?d) ([], n) (sh_ports host)"
  let ?scanned = "set (map mp_port (fst ?scan))"
  have ks: "set ?ks = parsed_ports host"
    by (force simp: map_filter_def parsed_ports_def)
  have "filter (\<lambda>(p, _). Some p \<notin> ?scanned) ?d = filter (\<lambda>e. \<not> (case e of (p, _) \<Rightarrow> p \<in> set ?ks)) ?d"
    using scanned_are_listed[of _ cx servs ?ip index claimed n host]
    by (intro filter_cong) (auto simp del: set_map simp: ks)
  moreover have "mset (concat (map (bucket ?d) ?ks)) = contents (filter (\<lambda>(p, _). p \<in> set ?ks) ?d)"
    using looked_up[OF assms] services_by_port_invariant[of cx servs] by blast
  ultimately have "mset (concat (map (bucket ?d) ?ks)) + mset (concat (map snd (filter (\<lambda>(p, _). Some p \<notin> ?scanned) ?d))) =
      contents ?d"
    using contents_split[of ?d "\<lambda>(p, _). p \<in> set ?ks"] by (simp add: contents_def)
  moreover have "service_ids (map (\<lambda>(service, st). unknown_port service st None) l) = map (re_id \<circ> fst) l" for l
    by (induction l) (auto simp: map_filter_simps unknown_port_def configured_port_def)
  ultimately show ?thesis
    using services_sorted[of cx servs]
    by (simp add: host_ports_def Let_def case_prod_unfold service_ids_missing service_ids_scanned map_filter_simps
        flip: image_mset_union add.assoc)
qed

text \<open>An entry lists the services of its endpoint.\<close>

definition lists_services :: "catalog \<Rightarrow> mapped_endpoint \<Rightarrow> bool" where
  "lists_services cat e = (\<forall>eid. me_endpoint_id e = Some eid \<longrightarrow>
     mset (service_ids (me_ports e)) = mset (map re_id (get_services eid None cat)))"

lemma lists_services_configured [simp]:
  "lists_services cat (configured_endpoint_at ip s c ep ports) \<longleftrightarrow>
     mset (service_ids ports) = mset (map re_id (get_services (re_id ep) None cat))"
  by (simp add: lists_services_def configured_endpoint_at_def)

lemma lists_services_suggested [simp]: "lists_services cat (suggested_endpoint cx ip s c ports)"
  by (auto simp: lists_services_def suggested_endpoint_def split: option.splits)

lemma service_ids_map_filter:
  assumes "\<And>service st. f service = (case service_type_of cx service of None \<Rightarrow> None | Some st \<Rightarrow> Some (g service st))"
    and "\<And>service st. mp_service_id (g service st) = Some (re_id service)"
  shows "service_ids (List.map_filter f (services_of cx ep)) = map re_id (services_of cx ep)"
proof -
  have "f s = Some (g s (the (service_type_of cx s)))" if "s \<in> set (services_of cx ep)" for s
    using services_have_types[of s "re_id ep" "oc_catalog cx"] that assms(1)
    by (auto simp: services_of_def service_type_of_def)
  then have "List.map_filter f (services_of cx ep) = map (\<lambda>s. g s (the (service_type_of cx s))) (services_of cx ep)"
    by (rule map_filter_all_Some)
  then show ?thesis by (simp add: map_filter_def assms(2) comp_def)
qed

lemma lists_services_without_ip: "lists_services (oc_catalog cx) (endpoint_without_ip cx x)"
proof -
  obtain ep ip where x: "x = (ep, ip)" by (cases x)
  show ?thesis
    unfolding x endpoint_without_ip_def prod.case lists_services_configured
    by (subst service_ids_map_filter) (auto simp: unknown_port_def configured_port_def services_of_def)
qed

lemma lists_services_last_known: "lists_services (oc_catalog cx) (last_known_endpoint cx ip ep)"
proof -
  have "service_ids (List.map_filter (last_known_port cx ip) (services_of cx ep)) = map re_id (services_of cx ep)"
    by (rule service_ids_map_filter[where g = "\<lambda>service st. the (last_known_port (cx\<lparr>oc_catalog := (oc_catalog cx)\<lparr>service_types := [(re_type_id service, st)]\<rparr>\<rparr>) ip service)"])
       (auto simp: last_known_port_def service_type_of_def unknown_port_def configured_port_def
         case_prod_unfold Let_def split: option.split)
  then show ?thesis
    by (simp add: last_known_endpoint_def Let_def case_prod_unfold services_of_def)
qed

lemma confirmed_offline_ids:
  "service_ids (fst (foldl (confirmed_offline_port cx ip) a servs)) =
     service_ids (fst a) @ map re_id (filter (\<lambda>s. service_type_of cx s \<noteq> None) servs)"
  by (induction servs arbitrary: a)
     (auto simp: confirmed_offline_port_def case_prod_unfold Let_def unknown_port_def configured_port_def
        map_filter_simps split: option.splits)

lemma lists_services_confirmed_offline:
  "lists_services (oc_catalog cx) (fst (confirmed_offline_endpoint cx ip ep n))"
proof -
  have "filter (\<lambda>s. service_type_of cx s \<noteq> None) (services_of cx ep) = services_of cx ep"
    using services_have_types[of _ "re_id ep" "oc_catalog cx"]
    by (auto simp: filter_id_conv services_of_def service_type_of_def)
  then show ?thesis
    by (simp add: confirmed_offline_endpoint_def Let_def case_prod_unfold confirmed_offline_ids
        map_filter_simps services_of_def)
qed

section \<open>The endpoints of a device\<close>

abbreviation endpoint_ids :: "mapped_endpoint list \<Rightarrow> string list" where
  "endpoint_ids \<equiv> List.map_filter me_endpoint_id"

lemma endpoint_id_configured [simp]: "me_endpoint_id (configured_endpoint_at ip s c ep ports) = Some (re_id ep)"
  by (simp add: configured_endpoint_at_def)

lemma endpoint_id_suggested [simp]: "me_endpoint_id (suggested_endpoint cx ip s c ports) = None"
  by (simp add: suggested_endpoint_def split: option.split)

lemma endpoint_id_others [simp]:
  "me_endpoint_id (endpoint_without_ip cx x) = Some (re_id (fst x))"
  "me_endpoint_id (last_known_endpoint cx ip ep) = Some (re_id ep)"
  "me_endpoint_id (fst (confirmed_offline_endpoint cx ip ep n)) = Some (re_id ep)"
  by (simp_all add: endpoint_without_ip_def last_known_endpoint_def confirmed_offline_endpoint_def Let_def
      case_prod_unfold)

lemma endpoint_ids_host_entry:
  "endpoint_ids (fst (host_entry cx nd host c claimed a x)) =
     endpoint_ids (fst a) @ map re_id (List.map_filter id [snd x])"
  by (cases "snd x") (simp_all add: host_entry_def Let_def case_prod_unfold map_filter_simps)

lemma endpoint_ids_host_entries:
  "endpoint_ids (fst (foldl (host_entry cx nd host c claimed) a xs)) =
     endpoint_ids (fst a) @ map re_id (List.map_filter id (map snd xs))"
proof (induction xs arbitrary: a)
  case (Cons x xs)
  then show ?case
    by (cases "snd x") (simp_all add: endpoint_ids_host_entry map_filter_simps)
qed (simp add: map_filter_simps)

lemma endpoint_ids_map_host:
  "endpoint_ids (fst (map_host cx nd by_ip a host)) =
     endpoint_ids (fst a) @ map re_id (bucket by_ip (ipv4_text (sh_ip host)))"
proof -
  have "List.map_filter id (host_endpoints by_ip ip) = bucket by_ip ip" for ip
    by (auto simp: host_endpoints_def bucket_def map_filter_def comp_def split: option.split)
  then show ?thesis
    by (simp add: map_host_def Let_def case_prod_unfold endpoint_ids_host_entries)
qed

lemma endpoint_ids_map_hosts:
  "endpoint_ids (fst (foldl (map_host cx nd by_ip) a hosts)) =
     endpoint_ids (fst a) @ map re_id (concat (map (bucket by_ip) (map (ipv4_text \<circ> sh_ip) hosts)))"
  by (induction hosts arbitrary: a) (simp_all add: endpoint_ids_map_host)

lemma endpoint_ids_missing_host:
  "endpoint_ids (fst (missing_host cx net scanned a e)) =
     endpoint_ids (fst a) @ (if fst e \<in> scanned then [] else map re_id (snd e))"
proof -
  let ?step = "\<lambda>(mapped, new) ep.
      if net \<noteq> None \<and> in_network (the (ipv4_of (fst e))) (the net)
      then let (entry, new) = confirmed_offline_endpoint cx (fst e) ep new in (mapped @ [entry], new)
      else (mapped @ [last_known_endpoint cx (fst e) ep], new)"
  have "endpoint_ids (fst (?step a ep)) = endpoint_ids (fst a) @ [re_id ep]" for a ep
    by (simp add: case_prod_unfold Let_def map_filter_simps)
  then have "endpoint_ids (fst (foldl ?step a eps)) = endpoint_ids (fst a) @ map re_id eps" for a eps
    by (induction eps arbitrary: a) simp_all
  then show ?thesis
    by (simp add: missing_host_def case_prod_unfold)
qed

lemma endpoint_ids_missing_hosts:
  "endpoint_ids (fst (foldl (missing_host cx net scanned) a by_ip)) =
     endpoint_ids (fst a) @ map re_id (concat (map snd (filter (\<lambda>e. fst e \<notin> scanned) by_ip)))"
  by (induction by_ip arbitrary: a) (simp_all add: endpoint_ids_missing_host)

lemma endpoints_placed:
  assumes "\<And>ep. ep \<in> set eps \<Longrightarrow> stored_ip cx ep \<noteq> None"
  shows "wf_dict (fst (place_endpoints cx eps)) \<and>
    contents (fst (place_endpoints cx eps)) + mset (map fst (snd (place_endpoints cx eps))) = mset eps"
proof -
  have "(\<And>ep. ep \<in> set xs \<Longrightarrow> stored_ip cx ep \<noteq> None) \<Longrightarrow> wf_dict (fst s) \<Longrightarrow>
      wf_dict (fst (foldl (place_endpoint cx) s xs)) \<and>
      contents (fst (foldl (place_endpoint cx) s xs)) + mset (map fst (snd (foldl (place_endpoint cx) s xs))) =
        contents (fst s) + mset (map fst (snd s)) + mset xs" for s xs
  proof (induction xs arbitrary: s)
    case (Cons ep xs)
    have "wf_dict (fst (place_endpoint cx s ep))"
      using Cons.prems(2) by (auto simp: place_endpoint_def case_prod_unfold append_at_wf split: option.split)
    moreover have "contents (fst (place_endpoint cx s ep)) + mset (map fst (snd (place_endpoint cx s ep))) =
        contents (fst s) + mset (map fst (snd s)) + {#ep#}"
      using Cons.prems(1)[of ep] Cons.prems(2)
      by (auto simp: place_endpoint_def case_prod_unfold contents_append_at split: option.splits)
    ultimately show ?case
      using Cons.IH[of "place_endpoint cx s ep"] Cons.prems(1) by simp
  qed simp
  from this[of eps "([], [])"] assms have placed:
    "wf_dict (fst (foldl (place_endpoint cx) ([], []) eps))"
    "contents (fst (foldl (place_endpoint cx) ([], []) eps)) +
       mset (map fst (snd (foldl (place_endpoint cx) ([], []) eps))) = mset eps" by simp_all
  have "contents (map (\<lambda>(ip, eps). (ip, sort_key f eps)) d) = contents d" for f :: "resolved_entity \<Rightarrow> int \<times> string" and d :: "(resolved_entity list) dict"
    by (induction d) auto
  with placed show ?thesis
    by (simp add: place_endpoints_def case_prod_unfold comp_def)
qed

lemma endpoints_have_types:
  "ep \<in> set (get_endpoints device None cat) \<Longrightarrow> \<exists>et. map_of (endpoint_types cat) (re_type_id ep) = Some et"
  unfolding get_endpoints_def set_concat set_map
  by (elim UnionE imageE) (auto simp: serialize_resolved_def split: option.splits; metis)

lemma overview_lists_endpoints:
  assumes "clear_scan scan" and eps: "\<And>ep. ep \<in> set eps \<Longrightarrow> stored_ip cx ep \<noteq> None"
  shows "mset (endpoint_ids (fst (overview_entries cx scan eps))) = mset (map re_id eps)"
proof -
  let ?by_ip = "fst (place_endpoints cx eps)"
  let ?ks = "map (ipv4_text \<circ> sh_ip) (ns_results scan)"
  have ks: "distinct ?ks"
    using assms(1) unfolding clear_scan_def list_all_iff
    by (auto simp: distinct_map inj_on_def ipv4_text_inject)
  have "mset (concat (map (bucket ?by_ip) ?ks)) + mset (concat (map snd (filter (\<lambda>e. fst e \<notin> set ?ks) ?by_ip))) =
      contents ?by_ip"
    using looked_up[OF ks, of ?by_ip] endpoints_placed[of eps cx, OF eps] contents_split[of ?by_ip "\<lambda>(k, _). k \<in> set ?ks"]
    by (simp add: contents_def case_prod_unfold)
  moreover have "set ?ks = ipv4_text ` sh_ip ` set (ns_results scan)" by (simp add: image_comp)
  moreover have "endpoint_ids (map (endpoint_without_ip cx) l) = map (re_id \<circ> fst) l" for l
    by (induction l) (simp_all add: map_filter_simps)
  ultimately show ?thesis
    using endpoints_placed[of eps cx, OF eps]
    by (simp add: overview_entries_def case_prod_unfold Let_def endpoint_ids_missing_hosts endpoint_ids_map_hosts
        map_filter_simps flip: image_mset_union add.assoc map_map)
qed

section \<open>The overview\<close>

abbreviation all_listed :: "overview_context \<Rightarrow> mapped_endpoint list \<times> new_statuses \<Rightarrow> bool" where
  "all_listed cx a \<equiv> list_all (lists_services (oc_catalog cx)) (fst a)"

lemma host_entry_listed:
  assumes "all_listed cx a" "distinct (List.map_filter (\<lambda>(s, _). py_int s) (sh_ports host))"
  shows "all_listed cx (host_entry cx nd host c claimed a x)"
proof -
  have "image_mset (re_id \<circ> fst) (mset (typed_services cx (get_services (re_id ep) None (oc_catalog cx)))) =
      image_mset re_id (mset (get_services (re_id ep) None (oc_catalog cx)))" for ep :: resolved_entity
    using typed_services_ids[of cx ep] unfolding services_of_def by (metis mset_map)
  then show ?thesis
    using assms(1) service_ids_host[OF assms(2)]
    by (cases "snd x") (auto simp: host_entry_def Let_def case_prod_unfold services_of_def)
qed

lemma map_host_listed:
  assumes "all_listed cx a" "distinct (List.map_filter (\<lambda>(s, _). py_int s) (sh_ports host))"
  shows "all_listed cx (map_host cx nd by_ip a host)"
  using assms(1) unfolding map_host_def Let_def case_prod_unfold
  by (intro foldl_invariant[where P = "all_listed cx"] host_entry_listed[OF _ assms(2)]) simp_all

lemma missing_host_listed:
  assumes "all_listed cx a"
  shows "all_listed cx (missing_host cx net scanned a e)"
proof -
  have "all_listed cx (foldl f a (snd e))" if "\<And>ep a. all_listed cx a \<Longrightarrow> all_listed cx (f a ep)" for f
    using assms that by (intro foldl_invariant[where P = "all_listed cx"]) auto
  then show ?thesis
    using assms by (simp add: missing_host_def case_prod_unfold Let_def lists_services_last_known
        lists_services_confirmed_offline)
qed

lemma overview_listed:
  assumes "clear_scan scan"
  shows "all_listed cx (overview_entries cx scan eps)"
proof -
  let ?hosts = "foldl (map_host cx (ns_definition scan) (fst (place_endpoints cx eps))) ([], [], []) (ns_results scan)"
  have "all_listed cx ?hosts"
    using assms by (intro foldl_invariant[where P = "all_listed cx"] map_host_listed)
      (auto simp: clear_scan_def list_all_iff)
  then have "all_listed cx (foldl (missing_host cx net ips) ?hosts by_ip)" for net ips by_ip
    by (rule foldl_invariant) (rule missing_host_listed)
  then show ?thesis
    by (auto simp: overview_entries_def case_prod_unfold Let_def list_all_iff lists_services_without_ip)
qed

text \<open>
  C29: the overview is complete.  For a scan that reports no host and no port twice, the answer
  lists each endpoint configured for the device exactly once, scanned or not, and each entry of a
  configured endpoint lists each of its services exactly once.
\<close>

theorem overview_is_complete:
  assumes clear: "clear_scan scan"
    and run: "build_network_overview rep created device scan now db = (Inr ov, db')"
  shows "mset (endpoint_ids (no_endpoints ov)) = mset (map re_id (get_endpoints device None (nd_catalog db))) \<and>
    list_all (lists_services (nd_catalog db)) (no_endpoints ov)"
proof -
  let ?cx = "overview_context_of rep created device now db"
  have "no_endpoints ov = fst (overview_entries ?cx scan (get_endpoints device None (nd_catalog db)))"
    using run by (auto simp: build_Inr split: prod.splits)
  moreover have "stored_ip ?cx ep \<noteq> None" if "ep \<in> set (get_endpoints device None (nd_catalog db))" for ep
    using endpoints_have_types[OF that] by (auto simp: stored_ip_def)
  ultimately show ?thesis
    using overview_lists_endpoints[OF clear] overview_listed[OF clear, of ?cx] by simp
qed

theorem overview_is_complete_witness:
  "mset (endpoint_ids (no_endpoints (projr (fst (sample_run 5 near_sample))))) = {#''e''#}"
  using overview_is_complete[OF clear_sample_scan sample_run_Inr]
  by (simp add: near_sample_def net_sample_def get_endpoints_def ip_type_def serialize_resolved_def)

end
