(* ===== verification/Type_Routes.thy ===== *)
theory Type_Routes
  imports Access Net_Tables
begin

text \<open>
  The routers of device types, endpoint types, endpoints, service types and services
  (\<open>routers/device_type/router.py\<close>, \<open>routers/endpoint/router.py\<close>, \<open>routers/service/router.py\<close>): the
  permission check of each route, the checks of the handler and the call of the repository, with
  the error answers.  Reading a dict into a field definition is pydantic's, the parameter
  \<open>te_read\<close>; the bodies arrive parsed.
\<close>

section \<open>Routes\<close>

record site =
  st_iam :: iam
  st_net :: net_db

record type_env =
  te_regex :: regex_engine
  te_regex_ok :: "string \<Rightarrow> bool"
  te_read :: "field_def \<Rightarrow> field_definition option"

definition site_app :: "site \<Rightarrow> app_state" where
  "site_app s = \<lparr>app_catalog = nd_catalog (st_net s), app_iam = st_iam s\<rparr>"

abbreviation site_catalog :: "site \<Rightarrow> catalog" where
  "site_catalog s \<equiv> nd_catalog (st_net s)"

type_synonym 'a route = "site \<Rightarrow> 'a res \<times> site"

text \<open>A check that raises answers for the route, and nothing is done.\<close>

definition guarded :: "(site \<Rightarrow> 'c res) \<Rightarrow> 'a route \<Rightarrow> 'a route" where
  "guarded check body s = (case check s of Inl e \<Rightarrow> (Inl e, s) | Inr _ \<Rightarrow> body s)"

text \<open>A repository call commits, or raises and is rolled back.\<close>

definition put_catalog :: "catalog \<Rightarrow> site \<Rightarrow> site" where
  "put_catalog db s = s\<lparr>st_net := (st_net s)\<lparr>nd_catalog := db\<rparr>\<rparr>"

definition repo_call :: "(catalog \<Rightarrow> ('a \<times> catalog) res) \<Rightarrow> 'a route" where
  "repo_call f s = (case f (site_catalog s) of Inl e \<Rightarrow> (Inl e, s) | Inr (x, db) \<Rightarrow> (Inr x, put_catalog db s))"

definition bind_route :: "'a route \<Rightarrow> ('a \<Rightarrow> 'b route) \<Rightarrow> 'b route" where
  "bind_route m f s = (case m s of (Inl e, s') \<Rightarrow> (Inl e, s') | (Inr x, s') \<Rightarrow> f x s')"

definition answer :: "'a res \<Rightarrow> 'a route" where
  "answer r s = (r, s)"

text \<open>\<open>_handle_api_error\<close> around the handler, and the clause of the update handlers.\<close>

fun handle_api_error :: "'a res \<times> site \<Rightarrow> 'a res \<times> site" where
  "handle_api_error (Inl (Api c m status), s) = (Inl (HTTPException status m), s)"
| "handle_api_error r = r"

fun handle_update_error :: "'a res \<times> site \<Rightarrow> 'a res \<times> site" where
  "handle_update_error (Inl (ValueError m), s) = (Inl (HTTPException 422 m), s)"
| "handle_update_error r = handle_api_error r"

definition not_found :: "string \<Rightarrow> string \<Rightarrow> exn" where
  "not_found kind k = HTTPException 404 (Msg ''{} {} not found'' [JStr kind, JStr k])"

definition found :: "string \<Rightarrow> string \<Rightarrow> 'a option \<Rightarrow> 'a route" where
  "found kind k r = answer (case r of None \<Rightarrow> Inl (not_found kind k) | Some x \<Rightarrow> Inr x)"

section \<open>The permission checks\<close>

definition no_params :: request where
  "no_params = \<lparr>rq_path_params = [], rq_query_params = [], rq_body = None\<rparr>"

definition global_check :: "string \<Rightarrow> json dict \<Rightarrow> site \<Rightarrow> abac_result res" where
  "global_check permission ctx s =
     abac_permission_check \<lparr>pc_permission = permission, pc_device_path = None, pc_in_query = False\<rparr>
       no_params ctx (app_users (site_app s)) (app_device_meta (site_app s))"

definition type_read :: "json dict \<Rightarrow> site \<Rightarrow> abac_result res" where
  "type_read = global_check ''device.endpoint.read''"

definition type_write :: "json dict \<Rightarrow> site \<Rightarrow> abac_result res" where
  "type_write = global_check ''platform.config.write''"

definition device_type_read :: "json dict \<Rightarrow> site \<Rightarrow> abac_result res" where
  "device_type_read ctx s =
     abac_any_permission_check [''platform.config.read'', ''device.read'', ''device.create''] ctx (app_users (site_app s))"

text \<open>The identifier comes as a path or a query parameter.\<close>

definition owner_check :: "string \<Rightarrow> owner \<Rightarrow> string \<Rightarrow> request \<Rightarrow> json dict \<Rightarrow> site \<Rightarrow> abac_result res" where
  "owner_check permission owner param request ctx s =
     abac_resolved_device_check permission owner param request ctx (app_users (site_app s))
       (app_device_meta (site_app s)) (app_endpoint_device (site_app s)) (app_service_device (site_app s))"

definition in_path :: "string \<Rightarrow> string \<Rightarrow> request" where
  "in_path param v = \<lparr>rq_path_params = [(param, v)], rq_query_params = [], rq_body = None\<rparr>"

definition in_query :: "string \<Rightarrow> string \<Rightarrow> request" where
  "in_query param v = \<lparr>rq_path_params = [], rq_query_params = [(param, v)], rq_body = None\<rparr>"

section \<open>Field definitions of a body\<close>

definition without_none :: "json dict \<Rightarrow> json dict" where
  "without_none = filter (\<lambda>(_, v). v \<noteq> JNull)"

text \<open>\<open>model_dump(exclude_none=True)\<close>.\<close>

definition dump_exclude_none :: "field_definition \<Rightarrow> field_def" where
  "dump_exclude_none d =
     map (\<lambda>(k, v). (k, case v of JObj obj \<Rightarrow> JObj (without_none obj) | _ \<Rightarrow> v)) (without_none (dump_field d))"

definition dump_fields :: "field_definition dict \<Rightarrow> field_def dict" where
  "dump_fields = map (\<lambda>(k, d). (k, dump_exclude_none d))"

definition invalid_field :: "string \<Rightarrow> exn" where
  "invalid_field k = HTTPException 422 (Msg ''Invalid field {}'' [JStr k])"

text \<open>The fields of a creation are validated with the body.\<close>

definition accept_fields :: "type_env \<Rightarrow> field_definition dict \<Rightarrow> field_definition dict res" where
  "accept_fields env = mapR (\<lambda>(k, d).
     case accept_field (te_regex_ok env) (te_regex env) d of
       Inl _ \<Rightarrow> Inl (invalid_field k) | Inr d' \<Rightarrow> Inr (k, d'))"

text \<open>The fields a patch would leave are read and validated one by one.\<close>

definition valid_field :: "type_env \<Rightarrow> field_def \<Rightarrow> bool" where
  "valid_field env fd =
     (case te_read env fd of
        None \<Rightarrow> False
      | Some d \<Rightarrow> is_ok (accept_field (te_regex_ok env) (te_regex env) d))"

definition check_merged :: "type_env \<Rightarrow> field_def dict \<Rightarrow> unit res" where
  "check_merged env = check_all (\<lambda>(k, fd). ensure (valid_field env fd) (invalid_field k))"

definition check_field_patch ::
  "type_env \<Rightarrow> string \<Rightarrow> string \<Rightarrow> ('a type_row_scheme) option \<Rightarrow> field_def option dict option \<Rightarrow> unit res" where
  "check_field_patch env kind type_id current patch =
     (case patch of
        None \<Rightarrow> Inr ()
      | Some p \<Rightarrow> (case current of
            None \<Rightarrow> Inl (not_found kind type_id)
          | Some row \<Rightarrow> check_merged env (patch_fields (ty_fields row) p)))"

section \<open>Device types\<close>

definition list_device_types :: "json dict \<Rightarrow> (type_row dict) route" where
  "list_device_types ctx = guarded (device_type_read ctx) (\<lambda>s. (Inr (get_device_types (site_catalog s)), s))"

definition device_type_route :: "string \<Rightarrow> json dict \<Rightarrow> type_row route" where
  "device_type_route type_id ctx =
     guarded (device_type_read ctx) (\<lambda>s. found ''DeviceType'' type_id (get_device_type type_id (site_catalog s)) s)"

definition create_device_type_route ::
  "type_env \<Rightarrow> string \<Rightarrow> string \<Rightarrow> string option \<Rightarrow> field_definition dict \<Rightarrow> json dict \<Rightarrow> type_row route" where
  "create_device_type_route env new_id label description flds ctx =
     guarded (type_write ctx) (bind_route (answer (accept_fields env flds)) (\<lambda>flds s.
       handle_api_error (repo_call (create_device_type new_id label description (dump_fields flds)) s)))"

definition update_device_type_route ::
  "type_env \<Rightarrow> string \<Rightarrow> string option \<Rightarrow> string option \<Rightarrow> field_def option dict option \<Rightarrow> json dict \<Rightarrow> type_row route" where
  "update_device_type_route env type_id label description patch ctx =
     guarded (type_write ctx) (\<lambda>s. handle_api_error
       (bind_route (answer (check_field_patch env ''DeviceType'' type_id (get_device_type type_id (site_catalog s)) patch))
         (\<lambda>_. repo_call (update_device_type type_id label description patch)) s))"

definition delete_device_type_route :: "string \<Rightarrow> json dict \<Rightarrow> unit route" where
  "delete_device_type_route type_id ctx =
     guarded (type_write ctx) (\<lambda>s. handle_api_error
       (repo_call (\<lambda>db. bindR (delete_device_type type_id db) (\<lambda>db'. Inr ((), db'))) s))"

section \<open>Endpoint types and endpoints\<close>

definition list_endpoint_types :: "json dict \<Rightarrow> (role_type_row dict) route" where
  "list_endpoint_types ctx = guarded (type_read ctx) (\<lambda>s. (Inr (endpoint_types (site_catalog s)), s))"

definition endpoint_type_route :: "string \<Rightarrow> json dict \<Rightarrow> role_type_row route" where
  "endpoint_type_route type_id ctx =
     guarded (type_read ctx) (\<lambda>s. found ''EndpointType'' type_id (get_endpoint_type type_id (site_catalog s)) s)"

definition create_endpoint_type_route ::
  "type_env \<Rightarrow> string \<Rightarrow> string \<Rightarrow> string option \<Rightarrow> field_definition dict \<Rightarrow> role_mapping \<Rightarrow> json dict \<Rightarrow> role_type_row route" where
  "create_endpoint_type_route env new_id label description flds mapping ctx =
     guarded (type_write ctx) (bind_route (answer (accept_fields env flds)) (\<lambda>flds s.
       handle_api_error (repo_call (create_endpoint_type new_id label description (dump_fields flds) (Some mapping)) s)))"

definition update_endpoint_type_route ::
  "type_env \<Rightarrow> string \<Rightarrow> string option \<Rightarrow> string option \<Rightarrow> field_def option dict option \<Rightarrow> role_mapping option \<Rightarrow>
     json dict \<Rightarrow> role_type_row route" where
  "update_endpoint_type_route env type_id label description patch mapping ctx =
     guarded (type_write ctx) (\<lambda>s. handle_api_error
       (bind_route (answer (check_field_patch env ''EndpointType'' type_id (get_endpoint_type type_id (site_catalog s)) patch))
         (\<lambda>_. repo_call (update_endpoint_type type_id label description patch mapping)) s))"

definition delete_endpoint_type_route :: "string \<Rightarrow> bool \<Rightarrow> json dict \<Rightarrow> unit route" where
  "delete_endpoint_type_route type_id cascade ctx =
     guarded (type_write ctx) (\<lambda>s. handle_api_error
       (repo_call (\<lambda>db. bindR (delete_endpoint_type type_id cascade db) (\<lambda>db'. Inr ((), db'))) s))"

definition list_endpoints :: "string \<Rightarrow> string option \<Rightarrow> json dict \<Rightarrow> (resolved_entity list) route" where
  "list_endpoints device_id type_id ctx =
     guarded (owner_check ''device.endpoint.read'' OwnerDevice ''device_id'' (in_query ''device_id'' device_id) ctx)
       (\<lambda>s. (Inr (get_endpoints device_id type_id (site_catalog s)), s))"

definition endpoint_route :: "string \<Rightarrow> json dict \<Rightarrow> resolved_entity route" where
  "endpoint_route endpoint_id ctx =
     guarded (owner_check ''device.endpoint.read'' OwnerEndpoint ''endpoint_id'' (in_path ''endpoint_id'' endpoint_id) ctx)
       (\<lambda>s. found ''Endpoint'' endpoint_id (get_endpoint endpoint_id (site_catalog s)) s)"

definition create_endpoint_route ::
  "type_env \<Rightarrow> string \<Rightarrow> string \<Rightarrow> string \<Rightarrow> json dict \<Rightarrow> json dict \<Rightarrow> resolved_entity route" where
  "create_endpoint_route env new_id device_id type_id data ctx =
     guarded (owner_check ''device.endpoint.write'' OwnerDevice ''device_id'' (in_query ''device_id'' device_id) ctx)
       (\<lambda>s. bind_route (found ''Device'' device_id (get_device_meta_raw device_id (site_catalog s))) (\<lambda>_ s.
         handle_api_error (repo_call (create_endpoint (te_regex env) new_id device_id type_id data) s)) s)"

definition update_endpoint_route ::
  "type_env \<Rightarrow> string \<Rightarrow> json dict \<Rightarrow> string option \<Rightarrow> json dict \<Rightarrow> resolved_entity route" where
  "update_endpoint_route env endpoint_id data type_id ctx =
     guarded (owner_check ''device.endpoint.write'' OwnerEndpoint ''endpoint_id'' (in_path ''endpoint_id'' endpoint_id) ctx)
       (\<lambda>s. bind_route (\<lambda>s. handle_update_error
              (repo_call (update_endpoint (te_regex env) endpoint_id (Some data) type_id) s))
              (found ''Endpoint'' endpoint_id) s)"

definition delete_endpoint_route :: "string \<Rightarrow> json dict \<Rightarrow> unit route" where
  "delete_endpoint_route endpoint_id ctx =
     guarded (owner_check ''device.endpoint.write'' OwnerEndpoint ''endpoint_id'' (in_path ''endpoint_id'' endpoint_id) ctx)
       (repo_call (\<lambda>db. Inr ((), delete_endpoint endpoint_id db)))"

section \<open>Service types and services\<close>

definition list_service_types :: "json dict \<Rightarrow> (service_type_row dict) route" where
  "list_service_types ctx = guarded (type_read ctx) (\<lambda>s. (Inr (service_types (site_catalog s)), s))"

definition service_type_route :: "string \<Rightarrow> json dict \<Rightarrow> service_type_row route" where
  "service_type_route type_id ctx =
     guarded (type_read ctx) (\<lambda>s. found ''ServiceType'' type_id (get_service_type type_id (site_catalog s)) s)"

text \<open>The default of the field with the port role; here the role is compared as it is written.\<close>

definition default_port :: "field_definition dict \<Rightarrow> role_mapping \<Rightarrow> int option" where
  "default_port flds mapping =
     (case find (\<lambda>(_, role). role = ''port'') mapping of
        None \<Rightarrow> None
      | Some (port_key, _) \<Rightarrow> (case map_of flds port_key of
            None \<Rightarrow> None
          | Some d \<Rightarrow> if fd_default d = JNull then None else int_of (fd_default d)))"

definition add_port :: "int option \<Rightarrow> unit route" where
  "add_port port s =
     (case port of
        None \<Rightarrow> (Inr (), s)
      | Some p \<Rightarrow> (case add_default_port p (st_net s) of
            Inl e \<Rightarrow> (Inl e, s) | Inr net \<Rightarrow> (Inr (), s\<lparr>st_net := net\<rparr>)))"

definition create_service_type_route ::
  "type_env \<Rightarrow> string \<Rightarrow> string \<Rightarrow> string option \<Rightarrow> field_definition dict \<Rightarrow> string option \<Rightarrow> role_mapping \<Rightarrow>
     json dict \<Rightarrow> service_type_row route" where
  "create_service_type_route env new_id label description flds browser_kind mapping ctx =
     guarded (type_write ctx) (bind_route (answer (accept_fields env flds)) (\<lambda>flds s. handle_api_error
       (bind_route (repo_call (create_service_type new_id label description (dump_fields flds) browser_kind (Some mapping)))
         (\<lambda>row. bind_route (add_port (default_port flds mapping)) (\<lambda>_. answer (Inr row))) s)))"

definition update_service_type_route ::
  "type_env \<Rightarrow> string \<Rightarrow> string option \<Rightarrow> string option \<Rightarrow> field_def option dict option \<Rightarrow> string option option \<Rightarrow>
     role_mapping option \<Rightarrow> json dict \<Rightarrow> service_type_row route" where
  "update_service_type_route env type_id label description patch browser_kind mapping ctx =
     guarded (type_write ctx) (\<lambda>s. handle_api_error
       (bind_route (answer (check_field_patch env ''ServiceType'' type_id (get_service_type type_id (site_catalog s)) patch))
         (\<lambda>_. repo_call (update_service_type type_id label description patch browser_kind mapping)) s))"

definition delete_service_type_route :: "string \<Rightarrow> bool \<Rightarrow> json dict \<Rightarrow> unit route" where
  "delete_service_type_route type_id cascade ctx =
     guarded (type_write ctx) (\<lambda>s. handle_api_error
       (repo_call (\<lambda>db. bindR (delete_service_type type_id cascade db) (\<lambda>db'. Inr ((), db'))) s))"

definition list_services :: "string \<Rightarrow> string option \<Rightarrow> json dict \<Rightarrow> (resolved_entity list) route" where
  "list_services endpoint_id type_id ctx =
     guarded (owner_check ''device.endpoint.read'' OwnerEndpoint ''endpoint_id'' (in_query ''endpoint_id'' endpoint_id) ctx)
       (\<lambda>s. (Inr (get_services endpoint_id type_id (site_catalog s)), s))"

definition service_route :: "string \<Rightarrow> json dict \<Rightarrow> resolved_entity route" where
  "service_route service_id ctx =
     guarded (owner_check ''device.endpoint.read'' OwnerService ''service_id'' (in_path ''service_id'' service_id) ctx)
       (\<lambda>s. found ''Service'' service_id (get_service service_id (site_catalog s)) s)"

definition create_service_route ::
  "type_env \<Rightarrow> string \<Rightarrow> string \<Rightarrow> string \<Rightarrow> json dict \<Rightarrow> json dict \<Rightarrow> resolved_entity route" where
  "create_service_route env new_id endpoint_id type_id data ctx =
     guarded (owner_check ''device.endpoint.write'' OwnerEndpoint ''endpoint_id'' (in_query ''endpoint_id'' endpoint_id) ctx)
       (\<lambda>s. handle_api_error (repo_call (create_service (te_regex env) new_id endpoint_id type_id data) s))"

definition update_service_route :: "type_env \<Rightarrow> string \<Rightarrow> json dict \<Rightarrow> json dict \<Rightarrow> resolved_entity route" where
  "update_service_route env service_id data ctx =
     guarded (owner_check ''device.endpoint.write'' OwnerService ''service_id'' (in_path ''service_id'' service_id) ctx)
       (\<lambda>s. bind_route (\<lambda>s. handle_update_error (repo_call (update_service (te_regex env) service_id data) s))
              (found ''Service'' service_id) s)"

definition delete_service_route :: "string \<Rightarrow> json dict \<Rightarrow> unit route" where
  "delete_service_route service_id ctx =
     guarded (owner_check ''device.endpoint.write'' OwnerService ''service_id'' (in_path ''service_id'' service_id) ctx)
       (repo_call (\<lambda>db. Inr ((), delete_service service_id db)))"

end
