(* ===== verification/Type_Routes_Properties.thy ===== *)
theory Type_Routes_Properties
  imports Type_Routes
begin

text \<open>
  Who may write what: a request to one of the write routes changes something only when the caller
  holds the permission of the route, for a type everywhere or somewhere, for an endpoint or a
  service on the device it belongs to; and the schema's constraints stay intact.
\<close>

section \<open>The requests that write\<close>

datatype catalog_request =
    PostDeviceType string string "string option" "field_definition dict"
  | PatchDeviceType string "string option" "string option" "field_def option dict option"
  | RemoveDeviceType string
  | PostEndpointType string string "string option" "field_definition dict" role_mapping
  | PatchEndpointType string "string option" "string option" "field_def option dict option" "role_mapping option"
  | RemoveEndpointType string bool
  | PostEndpoint string string string "json dict"
  | PatchEndpoint string "json dict" "string option"
  | RemoveEndpoint string
  | PostServiceType string string "string option" "field_definition dict" "string option" role_mapping
  | PatchServiceType string "string option" "string option" "field_def option dict option"
      "string option option" "role_mapping option"
  | RemoveServiceType string bool
  | PostService string string string "json dict"
  | PatchService string "json dict"
  | RemoveService string

definition outcome :: "'a res \<times> site \<Rightarrow> exn option \<times> site" where
  "outcome = (\<lambda>(r, s). (case r of Inl e \<Rightarrow> Some e | Inr _ \<Rightarrow> None, s))"

fun serve_request :: "type_env \<Rightarrow> json dict \<Rightarrow> catalog_request \<Rightarrow> site \<Rightarrow> exn option \<times> site" where
  "serve_request env ctx (PostDeviceType k l d fs) s = outcome (create_device_type_route env k l d fs ctx s)"
| "serve_request env ctx (PatchDeviceType k l d p) s = outcome (update_device_type_route env k l d p ctx s)"
| "serve_request env ctx (RemoveDeviceType k) s = outcome (delete_device_type_route k ctx s)"
| "serve_request env ctx (PostEndpointType k l d fs m) s = outcome (create_endpoint_type_route env k l d fs m ctx s)"
| "serve_request env ctx (PatchEndpointType k l d p m) s = outcome (update_endpoint_type_route env k l d p m ctx s)"
| "serve_request env ctx (RemoveEndpointType k c) s = outcome (delete_endpoint_type_route k c ctx s)"
| "serve_request env ctx (PostEndpoint k dev t e) s = outcome (create_endpoint_route env k dev t e ctx s)"
| "serve_request env ctx (PatchEndpoint k e t) s = outcome (update_endpoint_route env k e t ctx s)"
| "serve_request env ctx (RemoveEndpoint k) s = outcome (delete_endpoint_route k ctx s)"
| "serve_request env ctx (PostServiceType k l d fs b m) s = outcome (create_service_type_route env k l d fs b m ctx s)"
| "serve_request env ctx (PatchServiceType k l d p b m) s = outcome (update_service_type_route env k l d p b m ctx s)"
| "serve_request env ctx (RemoveServiceType k c) s = outcome (delete_service_type_route k c ctx s)"
| "serve_request env ctx (PostService k ep t e) s = outcome (create_service_route env k ep t e ctx s)"
| "serve_request env ctx (PatchService k e) s = outcome (update_service_route env k e ctx s)"
| "serve_request env ctx (RemoveService k) s = outcome (delete_service_route k ctx s)"

text \<open>What a request is about: a type, or something that belongs to a device.\<close>

fun subject_of :: "catalog_request \<Rightarrow> (owner \<times> string) option" where
  "subject_of (PostEndpoint k dev t e) = Some (OwnerDevice, dev)"
| "subject_of (PatchEndpoint k e t) = Some (OwnerEndpoint, k)"
| "subject_of (RemoveEndpoint k) = Some (OwnerEndpoint, k)"
| "subject_of (PostService k ep t e) = Some (OwnerEndpoint, ep)"
| "subject_of (PatchService k e) = Some (OwnerService, k)"
| "subject_of (RemoveService k) = Some (OwnerService, k)"
| "subject_of _ = None"

section \<open>One route\<close>

text \<open>The state a route leaves differs only if its check passed.\<close>

lemma snd_outcome [simp]: "snd (outcome x) = snd x"
  by (simp add: outcome_def case_prod_unfold)

lemma snd_handle [simp]: "snd (handle_api_error x) = snd x" "snd (handle_update_error x) = snd x"
proof -
  show "snd (handle_api_error x) = snd x" for x :: "'a res \<times> site"
    by (cases x rule: handle_api_error.cases) simp_all
  then show "snd (handle_update_error x) = snd x"
    by (cases x rule: handle_update_error.cases) simp_all
qed

lemma guarded_changes:
  "snd (guarded check body s) \<noteq> s \<Longrightarrow> \<exists>c. check s = Inr c \<and> snd (body s) \<noteq> s"
  by (auto simp: guarded_def split: sum.splits)

lemma bind_answer_changes: "snd (bind_route (answer r) f s) \<noteq> s \<Longrightarrow> \<exists>x. r = Inr x \<and> snd (f x s) \<noteq> s"
  by (auto simp: bind_route_def answer_def split: sum.splits)

lemma put_catalog_same [simp]: "put_catalog (site_catalog s) s = s"
  by (simp add: put_catalog_def)

lemma repo_call_changes:
  "snd (repo_call f s) \<noteq> s \<Longrightarrow> \<exists>x db. f (site_catalog s) = Inr (x, db) \<and> db \<noteq> site_catalog s"
  by (auto simp: repo_call_def split: sum.splits)

lemma type_write_caller:
  "type_write ctx s = Inr c \<Longrightarrow>
     \<exists>u. caller ctx (app_users (site_app s)) u \<and> evaluate_permission ''platform.config.write'' u None"
  using authorize_no_device[of "''platform.config.write''" ctx "app_users (site_app s)" "app_device_meta (site_app s)" None]
  by (auto simp: type_write_def global_check_def abac_permission_check_def truthy_str_def evaluate_None is_ok_iff)

definition owner_device :: "site \<Rightarrow> owner \<Rightarrow> string \<Rightarrow> string option" where
  "owner_device s owner v =
     resolve_device_id owner (app_endpoint_device (site_app s)) (app_service_device (site_app s)) v"

text \<open>The caller holds the permission on the device, once that device is there.\<close>

lemma owner_check_caller:
  assumes chk: "owner_check p owner param rq ctx s = Inr c"
    and rq: "rq = in_path param v \<or> rq = in_query param v"
    and dev: "owner_device s owner v = Some d" "app_device_meta (site_app s) d = Some m"
  shows "\<exists>u. caller ctx (app_users (site_app s)) u \<and> evaluate_permission p u (Some m)"
proof -
  have par: "any_param rq param = (if rq = in_path param v \<and> v = [] then None else Some v)"
    using rq by (auto simp: any_param_def in_path_def in_query_def truthy_str_def)
  from authorize_resolved_ok[OF chk[unfolded owner_check_def abac_resolved_device_check_def]]
  obtain u d' where u: "caller ctx (app_users (site_app s)) u"
    and r: "resolve_device owner param rq (app_endpoint_device (site_app s)) (app_service_device (site_app s)) = Inr d'"
    and h: "holds_everywhere p u \<or> (\<exists>dev m. d' = Some dev \<and> app_device_meta (site_app s) dev = Some m \<and> holds_on p u m)"
    by blast
  have "d' = Some dev \<Longrightarrow> dev = d" for dev
    using r par dev(1) by (auto simp: resolve_device_def owner_device_def split: option.splits if_splits)
  then have "holds_on p u m" using h dev(2) holds_everywhere_on by auto
  with u show ?thesis by (auto simp: evaluate_Some)
qed

section \<open>What an operation that changes something presupposes\<close>

lemma delete_endpoint_changes:
  "delete_endpoint k db \<noteq> db \<Longrightarrow> get_endpoint_device_id k db \<noteq> None"
proof (rule ccontr)
  assume changed: "delete_endpoint k db \<noteq> db" and "\<not> get_endpoint_device_id k db \<noteq> None"
  then have "k \<notin> fst ` set (endpoints db)"
    by (simp add: get_endpoint_device_id_def map_of_eq_None_iff)
  then have none: "filter (\<lambda>(k', ep). k' = k) (endpoints db) = []"
    and all: "filter (\<lambda>(k', ep). k' \<noteq> k) (endpoints db) = endpoints db"
    by (force simp: filter_empty_conv filter_id_conv)+
  have "delete_endpoint k db = db"
    by (simp add: delete_endpoint_def delete_endpoints_where_def none all)
  with changed show False by simp
qed

lemma update_endpoint_changes:
  "update_endpoint rx k data tid db = Inr (r, db') \<Longrightarrow> db' \<noteq> db \<Longrightarrow> get_endpoint_device_id k db \<noteq> None"
  by (auto simp: update_endpoint_def get_endpoint_device_id_def split: option.splits)

lemma create_service_needs_endpoint:
  "create_service rx k eid tid data db = Inr (r, db') \<Longrightarrow> get_endpoint_device_id eid db \<noteq> None"
  by (auto simp: create_service_def get_endpoint_device_id_def has_key_def)

lemma service_device_exists:
  assumes "catalog_ok db" "map_of (services db) k = Some sv"
  shows "get_service_device_id k db \<noteq> None"
  using assms map_of_mem[OF assms(2)]
  by (auto simp: get_service_device_id_def catalog_ok_def references_ok_def list_all_iff has_key_def)

lemma update_service_changes:
  "catalog_ok db \<Longrightarrow> update_service rx k data db = Inr (r, db') \<Longrightarrow> db' \<noteq> db \<Longrightarrow> get_service_device_id k db \<noteq> None"
  using service_device_exists by (fastforce simp: update_service_Inr split: option.splits)

lemma delete_service_changes:
  assumes "catalog_ok db" "delete_service k db \<noteq> db"
  shows "get_service_device_id k db \<noteq> None"
proof (cases "map_of (services db) k")
  case None
  then have "dpop k (services db) = services db"
    by (force simp: AList.delete_eq filter_id_conv map_of_eq_None_iff)
  then have "delete_service k db = db" by (simp add: delete_service_def)
  with assms(2) show ?thesis by simp
next
  case (Some sv)
  then show ?thesis by (rule service_device_exists[OF assms(1)])
qed

text \<open>The device of what a request changes exists.\<close>

lemma endpoint_device_stored:
  assumes "catalog_ok (site_catalog s)" "get_endpoint_device_id k (site_catalog s) \<noteq> None"
  shows "\<exists>d m. owner_device s OwnerEndpoint k = Some d \<and> app_device_meta (site_app s) d = Some m"
  using assms endpoint_device_exists
  by (fastforce simp: owner_device_def resolve_device_id_def app_endpoint_device_def app_device_meta_def site_app_def)

lemma service_device_stored:
  assumes "catalog_ok (site_catalog s)" "get_service_device_id k (site_catalog s) \<noteq> None"
  shows "\<exists>d m. owner_device s OwnerService k = Some d \<and> app_device_meta (site_app s) d = Some m"
  using assms endpoint_device_exists service_device_via_endpoint
  by (fastforce simp: owner_device_def resolve_device_id_def app_service_device_def app_device_meta_def site_app_def)

lemma subject_device_stored:
  assumes ok: "catalog_ok (site_catalog s)" and subj: "subject_of r = Some (owner, v)"
    and changed: "snd (serve_request env ctx r s) \<noteq> s"
  shows "\<exists>d m. owner_device s owner v = Some d \<and> app_device_meta (site_app s) d = Some m"
proof (cases r)
  case (PostEndpoint k dev t e)
  with changed subj have "get_device_meta_raw v (site_catalog s) \<noteq> None"
    by (auto simp: create_endpoint_route_def guarded_def bind_route_def found_def answer_def split: sum.splits option.splits)
  then show ?thesis
    using PostEndpoint subj by (auto simp: owner_device_def resolve_device_id_def app_device_meta_def site_app_def)
next
  case (PatchEndpoint k e t)
  with changed have "snd (repo_call (update_endpoint (te_regex env) k (Some e) t) s) \<noteq> s"
    by (auto simp: update_endpoint_route_def bind_route_def found_def answer_def case_prod_unfold
        dest!: guarded_changes split: sum.splits)
  from repo_call_changes[OF this] show ?thesis
    using update_endpoint_changes endpoint_device_stored[OF ok] PatchEndpoint subj by fastforce
next
  case (RemoveEndpoint k)
  with changed subj show ?thesis
    using delete_endpoint_changes endpoint_device_stored[OF ok]
    by (fastforce simp: delete_endpoint_route_def dest!: guarded_changes repo_call_changes)
next
  case (PostService k ep t e)
  with changed subj show ?thesis
    using create_service_needs_endpoint endpoint_device_stored[OF ok]
    by (fastforce simp: create_service_route_def dest!: guarded_changes repo_call_changes)
next
  case (PatchService k e)
  with changed have "snd (repo_call (update_service (te_regex env) k e) s) \<noteq> s"
    by (auto simp: update_service_route_def bind_route_def found_def answer_def case_prod_unfold
        dest!: guarded_changes split: sum.splits)
  from repo_call_changes[OF this] show ?thesis
    using update_service_changes[OF ok] service_device_stored[OF ok] PatchService subj by fastforce
next
  case (RemoveService k)
  with changed subj show ?thesis
    using delete_service_changes[OF ok] service_device_stored[OF ok]
    by (fastforce simp: delete_service_route_def dest!: guarded_changes repo_call_changes)
qed (use subj in simp_all)

section \<open>Every request is a step of the catalogue\<close>

fun on_devices :: "catalog_op \<Rightarrow> bool" where
  "on_devices (CreateDevice k m t) = True"
| "on_devices (UpdateDeviceMetadata k m) = True"
| "on_devices (DeleteDevice k) = True"
| "on_devices _ = False"

lemma run_op_keeps_devices:
  "run_op rx op db = Inr db' \<Longrightarrow> \<not> on_devices op \<Longrightarrow> devices db' = devices db"
  by (cases op)
     (auto simp: create_device_type_def update_device_type_def delete_device_type_def create_endpoint_type_def
        update_endpoint_type_def delete_endpoint_type_def create_endpoint_def update_endpoint_def delete_endpoint_def
        create_service_type_def update_service_type_def delete_service_type_def create_service_def update_service_def
        delete_service_def Let_def split: option.splits if_splits)

definition catalog_step :: "regex_engine \<Rightarrow> site \<Rightarrow> site \<Rightarrow> bool" where
  "catalog_step rx s s' =
     (st_iam s' = st_iam s \<and>
      (site_catalog s' = site_catalog s \<or>
       (\<exists>op. \<not> on_devices op \<and> run_op rx op (site_catalog s) = Inr (site_catalog s'))))"

lemma catalog_step_refl [simp]: "catalog_step rx s s"
  by (simp add: catalog_step_def)

lemma catalog_step_guarded: "(\<And>c. check s = Inr c \<Longrightarrow> catalog_step rx s (snd (body s))) \<Longrightarrow> catalog_step rx s (snd (guarded check body s))"
  by (auto simp: guarded_def split: sum.split)

lemma catalog_step_answer: "(\<And>x. r = Inr x \<Longrightarrow> catalog_step rx s (snd (f x s))) \<Longrightarrow> catalog_step rx s (snd (bind_route (answer r) f s))"
  by (auto simp: bind_route_def answer_def split: sum.split)

lemma catalog_step_found: "catalog_step rx s (snd (m s)) \<Longrightarrow> catalog_step rx s (snd (bind_route m (found kind k) s))"
  by (auto simp: bind_route_def found_def answer_def case_prod_unfold split: sum.split)

lemma catalog_step_call:
  assumes "\<And>x db. f (site_catalog s) = Inr (x, db) \<Longrightarrow> \<exists>op. \<not> on_devices op \<and> run_op rx op (site_catalog s) = Inr db"
  shows "catalog_step rx s (snd (repo_call f s))"
  using assms by (auto simp: repo_call_def catalog_step_def put_catalog_def split: sum.splits)

lemma add_port_catalog: "site_catalog (snd (add_port p s)) = site_catalog s \<and> st_iam (snd (add_port p s)) = st_iam s"
  by (auto simp: add_port_def add_default_port_def split: option.splits sum.splits if_splits)

lemma catalog_step_with_port:
  "catalog_step rx s (snd (m s)) \<Longrightarrow>
     catalog_step rx s (snd (bind_route m (\<lambda>row. bind_route (add_port p) (\<lambda>_. answer (Inr row))) s))"
  using add_port_catalog[of p "snd (m s)"]
  by (auto simp: bind_route_def answer_def catalog_step_def case_prod_unfold split: sum.split)

lemma run_op_of_call:
  assumes "map_sum id snd (f (site_catalog s)) = run_op rx op (site_catalog s)" "\<not> on_devices op"
  shows "catalog_step rx s (snd (repo_call f s))"
proof (rule catalog_step_call)
  fix x db
  assume "f (site_catalog s) = Inr (x, db)"
  with assms show "\<exists>op. \<not> on_devices op \<and> run_op rx op (site_catalog s) = Inr db"
    by (intro exI[of _ op]) (metis map_sum.simps(2) snd_conv)
qed

lemma catalog_step_handle:
  "catalog_step rx s (snd m) \<Longrightarrow> catalog_step rx s (snd (handle_api_error m))"
  "catalog_step rx s (snd m) \<Longrightarrow> catalog_step rx s (snd (handle_update_error m))"
  by simp_all

lemma unit_call: "map_sum id snd (bindR r (\<lambda>db. Inr ((), db))) = r"
  by (cases r) (simp_all add: bindR_def)

lemma catalog_steps:
  fixes rx :: regex_engine
  shows "catalog_step rx s (snd (repo_call (create_device_type k l d fs) s))"
    "catalog_step rx s (snd (repo_call (update_device_type k l' d p) s))"
    "catalog_step rx s (snd (repo_call (\<lambda>db. bindR (delete_device_type k db) (\<lambda>db'. Inr ((), db'))) s))"
    "catalog_step rx s (snd (repo_call (create_endpoint_type k l d fs m) s))"
    "catalog_step rx s (snd (repo_call (update_endpoint_type k l' d p m) s))"
    "catalog_step rx s (snd (repo_call (\<lambda>db. bindR (delete_endpoint_type k c db) (\<lambda>db'. Inr ((), db'))) s))"
    "catalog_step rx s (snd (repo_call (create_endpoint rx k dev t e) s))"
    "catalog_step rx s (snd (repo_call (update_endpoint rx k e' t') s))"
    "catalog_step rx s (snd (repo_call (\<lambda>db. Inr ((), delete_endpoint k db)) s))"
    "catalog_step rx s (snd (repo_call (create_service_type k l d fs b m) s))"
    "catalog_step rx s (snd (repo_call (update_service_type k l' d p b' m) s))"
    "catalog_step rx s (snd (repo_call (\<lambda>db. bindR (delete_service_type k c db) (\<lambda>db'. Inr ((), db'))) s))"
    "catalog_step rx s (snd (repo_call (create_service rx k dev t e) s))"
    "catalog_step rx s (snd (repo_call (update_service rx k e) s))"
    "catalog_step rx s (snd (repo_call (\<lambda>db. Inr ((), delete_service k db)) s))"
  by (rule run_op_of_call[of _ s rx "CreateDeviceType k l d fs"]
        run_op_of_call[of _ s rx "UpdateDeviceType k l' d p"]
        run_op_of_call[of _ s rx "DeleteDeviceType k"]
        run_op_of_call[of _ s rx "CreateEndpointType k l d fs m"]
        run_op_of_call[of _ s rx "UpdateEndpointType k l' d p m"]
        run_op_of_call[of _ s rx "DeleteEndpointType k c"]
        run_op_of_call[of _ s rx "CreateEndpoint k dev t e"]
        run_op_of_call[of _ s rx "UpdateEndpoint k e' t'"]
        run_op_of_call[of _ s rx "DeleteEndpoint k"]
        run_op_of_call[of _ s rx "CreateServiceType k l d fs b m"]
        run_op_of_call[of _ s rx "UpdateServiceType k l' d p b' m"]
        run_op_of_call[of _ s rx "DeleteServiceType k c"]
        run_op_of_call[of _ s rx "CreateService k dev t e"]
        run_op_of_call[of _ s rx "UpdateService k e"]
        run_op_of_call[of _ s rx "DeleteService k"], simp add: unit_call, simp)+

lemmas route_steps = catalog_step_guarded catalog_step_answer catalog_step_found catalog_step_with_port
  catalog_step_handle catalog_steps

lemmas route_defs = create_device_type_route_def update_device_type_route_def delete_device_type_route_def
  create_endpoint_type_route_def update_endpoint_type_route_def delete_endpoint_type_route_def
  create_endpoint_route_def update_endpoint_route_def delete_endpoint_route_def
  create_service_type_route_def update_service_type_route_def delete_service_type_route_def
  create_service_route_def update_service_route_def delete_service_route_def

lemma catalog_step_known: "catalog_step rx s (snd (f s)) \<Longrightarrow> catalog_step rx s (snd (bind_route (found kind k o') (\<lambda>_. f) s))"
  by (auto simp: bind_route_def found_def answer_def split: option.split)

lemma serve_is_step: "catalog_step (te_regex env) s (snd (serve_request env ctx r s))"
  by (cases r; simp only: serve_request.simps snd_outcome route_defs)
     (intro route_steps catalog_step_known)+

section \<open>The permission of every request that changes something\<close>

lemma serve_passes_check:
  assumes "snd (serve_request env ctx r s) \<noteq> s"
  shows "case subject_of r of
      None \<Rightarrow> is_ok (type_write ctx s)
    | Some (owner, v) \<Rightarrow> \<exists>param rq. (rq = in_path param v \<or> rq = in_query param v) \<and>
        is_ok (owner_check ''device.endpoint.write'' owner param rq ctx s)"
  using assms
  by (cases r; clarsimp simp: route_defs is_ok_iff dest!: guarded_changes; blast?)

text \<open>
  C11: A request of the routers of device, endpoint and service types, of endpoints and of services
  that changes anything comes from a caller who holds the permission its subject asks for: for a
  type \<open>platform.config.write\<close>; for an endpoint or a service \<open>device.endpoint.write\<close> on the stored
  metadata of the device it belongs to, which exists.  It leaves devices, users, teams, roles and
  scopes alone and keeps the constraints of the schema.
\<close>

theorem catalog_writes_guarded:
  assumes ok: "catalog_ok (site_catalog s)" and r: "serve_request env ctx r s = (e, s')" and changed: "s' \<noteq> s"
  shows "(\<exists>u. caller ctx (app_users (site_app s)) u \<and>
      (case subject_of r of
         None \<Rightarrow> evaluate_permission ''platform.config.write'' u None
       | Some (owner, v) \<Rightarrow> \<exists>d m. owner_device s owner v = Some d \<and> app_device_meta (site_app s) d = Some m \<and>
           evaluate_permission ''device.endpoint.write'' u (Some m))) \<and>
    st_iam s' = st_iam s \<and> devices (site_catalog s') = devices (site_catalog s) \<and> catalog_ok (site_catalog s')"
proof -
  have s': "s' = snd (serve_request env ctx r s)" using r by simp
  have "\<exists>u. caller ctx (app_users (site_app s)) u \<and>
      (case subject_of r of
         None \<Rightarrow> evaluate_permission ''platform.config.write'' u None
       | Some (owner, v) \<Rightarrow> \<exists>d m. owner_device s owner v = Some d \<and> app_device_meta (site_app s) d = Some m \<and>
           evaluate_permission ''device.endpoint.write'' u (Some m))"
  proof (cases "subject_of r")
    case None
    with serve_passes_check[OF changed[unfolded s']] show ?thesis
      using type_write_caller by (auto simp: is_ok_iff)
  next
    case (Some ov)
    obtain owner v where ov: "ov = (owner, v)" by (cases ov)
    from subject_device_stored[OF ok Some[unfolded ov] changed[unfolded s']]
    obtain d m where "owner_device s owner v = Some d" "app_device_meta (site_app s) d = Some m" by blast
    with serve_passes_check[OF changed[unfolded s']] Some ov owner_check_caller show ?thesis
      by (fastforce simp: is_ok_iff)
  qed
  moreover have "catalog_step (te_regex env) s s'" by (simp add: s' serve_is_step)
  then have "st_iam s' = st_iam s \<and> devices (site_catalog s') = devices (site_catalog s) \<and> catalog_ok (site_catalog s')"
    using ok run_op_ok run_op_keeps_devices by (auto simp: catalog_step_def)
  ultimately show ?thesis by blast
qed

text \<open>A caller with \<open>device.endpoint.write\<close> on the site of \<open>d1\<close> removes one of its services.\<close>

definition writer_site :: site where
  "writer_site =
     \<lparr>st_iam = sample_iam\<lparr>im_role_actions := im_role_actions sample_iam @ [(''r1'', ''device.endpoint.write'')]\<rparr>,
      st_net = \<lparr>nd_catalog = sample_catalog, nd_hosts = [], nd_ports = [], nd_ranges = [], nd_device_ports = [],
        nd_default_ports = []\<rparr>\<rparr>"

definition plain_env :: type_env where
  "plain_env = \<lparr>te_regex = no_regex, te_regex_ok = (\<lambda>_. True), te_read = (\<lambda>_. None)\<rparr>"

lemma writer_removes:
  "services (site_catalog (snd (serve_request plain_env sample_token (RemoveService ''s1'') writer_site))) = []"
  by code_simp

theorem catalog_writes_guarded_witness:
  "\<exists>u d m. caller sample_token (app_users (site_app writer_site)) u \<and>
     owner_device writer_site OwnerService ''s1'' = Some d \<and> app_device_meta (site_app writer_site) d = Some m \<and>
     evaluate_permission ''device.endpoint.write'' u (Some m)"
proof -
  obtain e s' where r: "serve_request plain_env sample_token (RemoveService ''s1'') writer_site = (e, s')"
    by (cases "serve_request plain_env sample_token (RemoveService ''s1'') writer_site")
  have "catalog_ok (site_catalog writer_site)"
    using reachable_ok[OF sample_reachable] by (simp add: writer_site_def)
  moreover have "services (site_catalog s') = []" "services (site_catalog writer_site) \<noteq> []"
    using writer_removes by (simp only: r snd_conv) (simp add: writer_site_def sample_catalog_def)
  then have "s' \<noteq> writer_site" by metis
  ultimately have
    "(\<exists>u. caller sample_token (app_users (site_app writer_site)) u \<and>
      (case subject_of (RemoveService ''s1'') of
         None \<Rightarrow> evaluate_permission ''platform.config.write'' u None
       | Some (owner, v) \<Rightarrow> \<exists>d m. owner_device writer_site owner v = Some d \<and>
           app_device_meta (site_app writer_site) d = Some m \<and>
           evaluate_permission ''device.endpoint.write'' u (Some m)))"
    using catalog_writes_guarded[OF _ r] by blast
  then show ?thesis by simp
qed

end
