(* ===== verification/Renewal.thy ===== *)
theory Renewal
  imports Sems_Admin Net_Tables
begin

text \<open>
  The renewal of device passwords (\<open>db/sqlalchemy/password_renewal_task.py\<close>,
  \<open>routers/smart_ems/password_renewal_task_processor.py\<close> and the routes that read or renew a
  secret): showing a password schedules its renewal for the end of the day, a background task makes
  the renewals that are due, and five failures give one up.  A time is the number of microseconds
  since the epoch, in UTC; the error that a task keeps is the exception itself.
\<close>

section \<open>The table of tasks\<close>

datatype task_status = PENDING | CANCELED | COMPLETED | ERROR

record renewal_task =
  tk_id :: string
  tk_device :: string
  tk_secret :: int
  tk_time :: int
  tk_status :: task_status
  tk_errors :: nat
  tk_latest_error :: "exn option"
  tk_created :: int

definition get_pending_tasks :: "int \<Rightarrow> renewal_task list \<Rightarrow> renewal_task list" where
  "get_pending_tasks scheduled_time = filter (\<lambda>t. tk_status t = PENDING \<and> tk_time t < scheduled_time)"

text \<open>The loaded task writes the columns it changes to its row.\<close>

definition write_task :: "renewal_task \<Rightarrow> (renewal_task \<Rightarrow> renewal_task) \<Rightarrow> renewal_task list \<Rightarrow> renewal_task list" where
  "write_task task f = map (\<lambda>t. if tk_id t = tk_id task then f t else t)"

definition complete_task :: "renewal_task \<Rightarrow> renewal_task list \<Rightarrow> renewal_task list" where
  "complete_task task = write_task task (\<lambda>t. t\<lparr>tk_status := COMPLETED\<rparr>)"

definition cancel_task :: "renewal_task \<Rightarrow> renewal_task list \<Rightarrow> renewal_task list" where
  "cancel_task task = write_task task (\<lambda>t. t\<lparr>tk_status := CANCELED\<rparr>)"

definition update_task_error :: "renewal_task \<Rightarrow> exn \<Rightarrow> renewal_task list \<Rightarrow> renewal_task list" where
  "update_task_error task e =
     (let n = tk_errors task + 1 in
      write_task task (\<lambda>t. t\<lparr>tk_errors := n, tk_latest_error := Some e,
                             tk_status := if 5 \<le> n then ERROR else tk_status t\<rparr>))"

abbreviation waiting_for :: "string \<Rightarrow> renewal_task \<Rightarrow> bool" where
  "waiting_for device t \<equiv> tk_device t = device \<and> tk_status t = PENDING"

definition get_pending_tasks_for_device_count :: "string \<Rightarrow> renewal_task list \<Rightarrow> nat" where
  "get_pending_tasks_for_device_count device tasks = length (filter (waiting_for device) tasks)"

definition cancel_scheduled_tasks_for_device :: "string \<Rightarrow> renewal_task list \<Rightarrow> renewal_task list" where
  "cancel_scheduled_tasks_for_device device =
     map (\<lambda>t. if waiting_for device t then t\<lparr>tk_status := CANCELED\<rparr> else t)"

text \<open>The identifier that Smart EMS gave goes to an \<open>Integer\<close> column that is not null.\<close>

fun secret_column :: "json \<Rightarrow> int res" where
  "secret_column (JInt n) = (if int4 n then Inr n else Inl data_error)"
| "secret_column (JBool b) = Inr (if b then 1 else 0)"
| "secret_column JNull = Inl IntegrityError"
| "secret_column _ = Inl data_error"

definition schedule_task ::
  "int \<Rightarrow> string \<Rightarrow> catalog \<Rightarrow> string \<Rightarrow> json \<Rightarrow> int \<Rightarrow> renewal_task list \<Rightarrow> renewal_task list res" where
  "schedule_task now new_id db device secret_id time tasks =
     bindR (secret_column secret_id) (\<lambda>n.
     bindR (ensure (has_key (devices db) device \<and> new_id \<notin> tk_id ` set tasks) IntegrityError) (\<lambda>_.
     Inr (tasks @ [\<lparr>tk_id = new_id, tk_device = device, tk_secret = n, tk_time = time, tk_status = PENDING,
                     tk_errors = 0, tk_latest_error = None, tk_created = now\<rparr>])))"

definition purge_completed_tasks :: "int \<Rightarrow> renewal_task list \<Rightarrow> renewal_task list" where
  "purge_completed_tasks cutoff = filter (\<lambda>t. \<not> (tk_status t = COMPLETED \<and> tk_created t < cutoff))"

section \<open>Times\<close>

definition second :: int where "second = 1000000"
definition hour :: int where "hour = 3600 * second"
definition day :: int where "day = 24 * hour"

definition hour_of :: "int \<Rightarrow> int" where
  "hour_of now = now mod day div hour"

text \<open>Today at 23:59:59, from 23:00 on tomorrow at that time.\<close>

definition renewal_time :: "int \<Rightarrow> int" where
  "renewal_time now =
     (let today = now - now mod day + (day - second) in if 23 \<le> hour_of now then today + day else today)"

section \<open>The routes\<close>

text \<open>The program's database and its tasks; a deleted device takes its tasks with it.\<close>

record renewal_system =
  rs_world :: world
  rs_tasks :: "renewal_task list"

definition DEVICE_AUTHENTICATION_SECRET_KEY :: string where
  "DEVICE_AUTHENTICATION_SECRET_KEY = ''admin''"

definition authentication_secret :: "remote \<Rightarrow> message \<Rightarrow> string \<Rightarrow> json act" where
  "authentication_secret env missing device =
     bindA (get_device_secret env device DEVICE_AUTHENTICATION_SECRET_KEY) (\<lambda>secret.
     case secret of None \<Rightarrow> raiseA (Api UnmatchedDependency missing 400) | Some s \<Rightarrow> returnA s)"

definition renew_secret :: "remote \<Rightarrow> string \<Rightarrow> unit act" where
  "renew_secret env device =
     bindA (authentication_secret env (Msg ''Device {} does not have a device authentication secret'' [JStr device])
              device) (\<lambda>secret.
     bindA (liftA (dict_get secret ''id'')) (\<lambda>secret_id.
     bindA (force_renew_device_secret env secret_id) (\<lambda>_. returnA ())))"

definition post_smart_ems_device_secret_renew ::
  "remote \<Rightarrow> string \<Rightarrow> renewal_system \<Rightarrow> (unit res \<times> renewal_system) option" where
  "post_smart_ems_device_secret_renew env device s =
     (case renew_secret env device (rs_world s) of
        None \<Rightarrow> None
      | Some (Inl e, w) \<Rightarrow> Some (Inl e, s\<lparr>rs_world := w\<rparr>)
      | Some (Inr _, w) \<Rightarrow>
          Some (Inr (), \<lparr>rs_world = w, rs_tasks = cancel_scheduled_tasks_for_device device (rs_tasks s)\<rparr>))"

definition schedule_smart_ems_device_secret_renew ::
  "int \<Rightarrow> string \<Rightarrow> catalog \<Rightarrow> string \<Rightarrow> json \<Rightarrow> renewal_task list \<Rightarrow> unit res \<times> renewal_task list" where
  "schedule_smart_ems_device_secret_renew now new_id db device secret_id tasks =
     (let pending_count = get_pending_tasks_for_device_count device tasks in
      if 0 < pending_count \<and> hour_of now < 23 then (Inr (), tasks)
      else let tasks = (if 0 < pending_count then cancel_scheduled_tasks_for_device device tasks else tasks) in
        case schedule_task now new_id db device secret_id (renewal_time now) tasks of
          Inl e \<Rightarrow> (Inl e, tasks)
        | Inr tasks \<Rightarrow> (Inr (), tasks))"

definition shown_secret :: "remote \<Rightarrow> string \<Rightarrow> (json \<times> json \<times> bool) act" where
  "shown_secret env device =
     bindA (liftA (validate_and_extract_serial_number device)) (\<lambda>_.
     bindA (authentication_secret env (Msg ''Device Type does not have a device authentication secret'' []) device) (\<lambda>secret.
     bindA (liftA (dict_get secret ''id'')) (\<lambda>secret_id.
     bindA (show_device_secret env secret_id) (\<lambda>device_secret.
     bindA (liftA (dict_get_or secret ''forceRenewal'' (JBool False))) (\<lambda>force_renewal.
     returnA (secret_id, device_secret, truthy force_renewal))))))"

definition secret_value :: "json \<Rightarrow> (json \<times> json) res" where
  "secret_value device_secret =
     bindR (dict_get device_secret ''id'') (\<lambda>i. bindR (dict_get device_secret ''secretValue'') (\<lambda>v. Inr (i, v)))"

definition post_smart_ems_device_secret_request ::
  "remote \<Rightarrow> int \<Rightarrow> string \<Rightarrow> string \<Rightarrow> renewal_system \<Rightarrow> ((json \<times> json) res \<times> renewal_system) option" where
  "post_smart_ems_device_secret_request env now new_id device s =
     (case shown_secret env device (rs_world s) of
        None \<Rightarrow> None
      | Some (Inl e, w) \<Rightarrow> Some (Inl e, s\<lparr>rs_world := w\<rparr>)
      | Some (Inr (secret_id, device_secret, force_renewal), w) \<Rightarrow>
          let (r, tasks) = (if force_renewal then (Inr (), rs_tasks s)
                else schedule_smart_ems_device_secret_renew now new_id (wd_db w) device secret_id (rs_tasks s)) in
          Some (bindR r (\<lambda>_. secret_value device_secret), \<lparr>rs_world = w, rs_tasks = tasks\<rparr>))"

section \<open>The background task\<close>

definition after_attempt :: "renewal_task \<Rightarrow> unit res \<Rightarrow> renewal_task list \<Rightarrow> renewal_task list" where
  "after_attempt task r tasks =
     (case r of Inr _ \<Rightarrow> complete_task task tasks | Inl e \<Rightarrow> update_task_error task e tasks)"

primrec process_tasks :: "remote \<Rightarrow> renewal_task list \<Rightarrow> renewal_system \<Rightarrow> renewal_system option" where
  "process_tasks env [] s = Some s"
| "process_tasks env (task # todo) s =
     (case renew_secret env (tk_device task) (rs_world s) of
        None \<Rightarrow> None
      | Some (r, w) \<Rightarrow> process_tasks env todo \<lparr>rs_world = w, rs_tasks = after_attempt task r (rs_tasks s)\<rparr>)"

text \<open>The tasks due at \<open>now\<close> are attempted; then, at \<open>later\<close>, what was completed and is a year old goes.\<close>

definition process_password_renewal_tasks ::
  "remote \<Rightarrow> int \<Rightarrow> int \<Rightarrow> renewal_system \<Rightarrow> renewal_system option" where
  "process_password_renewal_tasks env now later s =
     map_option (\<lambda>s. s\<lparr>rs_tasks := purge_completed_tasks (later - 365 * day) (rs_tasks s)\<rparr>)
       (process_tasks env (get_pending_tasks now (rs_tasks s)) s)"

section \<open>Runs\<close>

text \<open>What the rest of the program and its surroundings do gives any world.\<close>

datatype renewal_event =
    SecretRequest int string string
  | SecretRenew string
  | RenewalRound int int
  | Elsewhere world

definition forget_devices :: "world \<Rightarrow> renewal_system \<Rightarrow> renewal_system" where
  "forget_devices w s =
     \<lparr>rs_world = w, rs_tasks = filter (\<lambda>t. has_key (devices (wd_db w)) (tk_device t)) (rs_tasks s)\<rparr>"

fun renewal_step :: "remote \<Rightarrow> renewal_event \<Rightarrow> renewal_system \<Rightarrow> renewal_system option" where
  "renewal_step env (SecretRequest now new_id device) s =
     map_option snd (post_smart_ems_device_secret_request env now new_id device s)"
| "renewal_step env (SecretRenew device) s = map_option snd (post_smart_ems_device_secret_renew env device s)"
| "renewal_step env (RenewalRound now later) s = process_password_renewal_tasks env now later s"
| "renewal_step env (Elsewhere w) s = Some (forget_devices w s)"

primrec renewal_run :: "remote \<Rightarrow> renewal_event list \<Rightarrow> renewal_system \<Rightarrow> renewal_system option" where
  "renewal_run env [] s = Some s"
| "renewal_run env (ev # evs) s = Option.bind (renewal_step env ev s) (renewal_run env evs)"

end
