(* ===== verification/Renewal_Properties.thy ===== *)
theory Renewal_Properties
  imports Renewal
begin

text \<open>
  The life of a renewal: a device has at most one that waits, a renewal that has left \<open>PENDING\<close>
  never changes again, and one that is due has left it after five rounds, whatever Smart EMS
  answers.  An event moves each task by \<open>moved\<close>, drops some and may add one; the properties are
  inductions over runs of events with that shape.
\<close>

section \<open>The operations return\<close>

definition returns :: "'a act \<Rightarrow> bool" where
  "returns m = (\<forall>w. m w \<noteq> None)"

lemma returns_basic [intro!]: "returns (returnA x)" "returns (raiseA e)" "returns (liftA r)" "returns (readA f)"
  "returns (ensureA b e)" "returns (send env c)"
  by (auto simp: returns_def send_def Let_def split: option.splits)

lemma returns_bind [intro!]: "returns m \<Longrightarrow> (\<And>x. returns (f x)) \<Longrightarrow> returns (bindA m f)"
  unfolding returns_def bindA_def by (auto split: option.splits sum.splits prod.splits)

lemma returns_option [intro!]: "returns m \<Longrightarrow> (\<And>x. returns (f x)) \<Longrightarrow> returns (case v of None \<Rightarrow> m | Some x \<Rightarrow> f x)"
  by (cases v) simp_all

lemmas secret_defs = get_device_secret_def get_device_secrets_list_def get_device_by_serial_def
  force_renew_device_secret_def show_device_secret_def sems_post_def sems_get_def post_async_def get_async_def

lemma returns_secret [intro!]: "returns (renew_secret env device)" "returns (shown_secret env device)"
  by (auto simp: renew_secret_def shown_secret_def authentication_secret_def secret_defs)

lemma store_secret:
  "stepwise same_store (renew_secret env device)" "stepwise same_store (shown_secret env device)"
  by (auto simp: renew_secret_def shown_secret_def authentication_secret_def secret_defs)

lemma renew_keeps_db: "renew_secret env device w = Some (r, w') \<Longrightarrow> wd_db w' = wd_db w"
  using stepwiseD[OF store_secret(1)] by (auto simp: same_store_def)

lemma show_keeps_db: "shown_secret env device w = Some (r, w') \<Longrightarrow> wd_db w' = wd_db w"
  using stepwiseD[OF store_secret(2)] by (auto simp: same_store_def)

section \<open>How an event moves a task\<close>

definition attempted :: "renewal_task \<Rightarrow> renewal_task \<Rightarrow> bool" where
  "attempted t t' = (t' = t\<lparr>tk_status := COMPLETED\<rparr> \<or>
     (\<exists>e. t' = t\<lparr>tk_errors := tk_errors t + 1, tk_latest_error := Some e,
                 tk_status := if 5 \<le> tk_errors t + 1 then ERROR else tk_status t\<rparr>))"

definition moved :: "renewal_task \<Rightarrow> renewal_task \<Rightarrow> bool" where
  "moved t t' = (t' = t \<or> tk_status t = PENDING \<and> (t' = t\<lparr>tk_status := CANCELED\<rparr> \<or> attempted t t'))"

lemma moved_refl [simp]: "moved t t"
  by (simp add: moved_def)

lemma moved_keeps: "moved t t' \<Longrightarrow> tk_id t' = tk_id t \<and> tk_device t' = tk_device t \<and> tk_time t' = tk_time t"
  by (auto simp: moved_def attempted_def)

lemma moved_pending: "moved t t' \<Longrightarrow> tk_status t' = PENDING \<Longrightarrow> tk_status t = PENDING"
  by (auto simp: moved_def attempted_def)

lemma attempted_pending: "attempted t t' \<Longrightarrow> tk_status t' = PENDING \<Longrightarrow> tk_errors t' = tk_errors t + 1"
  by (auto simp: attempted_def)

lemma moved_errors: "moved t t' \<Longrightarrow> tk_errors t \<le> tk_errors t'"
  by (auto simp: moved_def attempted_def)

section \<open>A round\<close>

lemma after_attempt_map:
  assumes "distinct (map tk_id tasks)" "task \<in> set tasks"
  shows "\<exists>t'. attempted task t' \<and> after_attempt task r tasks = map (\<lambda>t. if t = task then t' else t) tasks"
proof -
  have same: "tk_id t = tk_id task \<longleftrightarrow> t = task" if "t \<in> set tasks" for t
    using assms that by (auto simp: distinct_map inj_on_def)
  show ?thesis
  proof (cases r)
    case (Inl e)
    then show ?thesis
      by (intro exI[of _ "task\<lparr>tk_errors := tk_errors task + 1, tk_latest_error := Some e,
             tk_status := if 5 \<le> tk_errors task + 1 then ERROR else tk_status task\<rparr>"])
         (auto simp: after_attempt_def update_task_error_def write_task_def Let_def attempted_def same)
  next
    case (Inr u)
    then show ?thesis
      by (intro exI[of _ "task\<lparr>tk_status := COMPLETED\<rparr>"])
         (auto simp: after_attempt_def complete_task_def write_task_def attempted_def same)
  qed
qed

lemma process_tasks_map:
  assumes "process_tasks env todo s = Some s'" and "distinct (map tk_id (rs_tasks s))"
    and "set todo \<subseteq> set (rs_tasks s)" and "distinct todo"
  shows "wd_db (rs_world s') = wd_db (rs_world s) \<and>
    (\<exists>f. rs_tasks s' = map f (rs_tasks s) \<and> (\<forall>t. if t \<in> set todo then attempted t (f t) else f t = t))"
  using assms
proof (induction todo arbitrary: s)
  case Nil
  then show ?case by (auto intro!: exI[of _ id])
next
  case (Cons task todo)
  then obtain r w where act: "renew_secret env (tk_device task) (rs_world s) = Some (r, w)"
    and rest: "process_tasks env todo \<lparr>rs_world = w, rs_tasks = after_attempt task r (rs_tasks s)\<rparr> = Some s'"
    by (auto split: option.splits)
  from Cons.prems obtain t' where t': "attempted task t'"
    and after: "after_attempt task r (rs_tasks s) = map (\<lambda>t. if t = task then t' else t) (rs_tasks s)"
    using after_attempt_map by fastforce
  have ids: "map tk_id (after_attempt task r (rs_tasks s)) = map tk_id (rs_tasks s)"
    using t' by (auto simp: after attempted_def)
  have sub: "set todo \<subseteq> set (after_attempt task r (rs_tasks s))"
    using Cons.prems(3,4) by (auto simp: after)
  obtain f where db: "wd_db (rs_world s') = wd_db w"
    and f: "rs_tasks s' = map f (after_attempt task r (rs_tasks s))"
      "\<forall>t. if t \<in> set todo then attempted t (f t) else f t = t"
    using Cons.IH[OF rest] Cons.prems(2,4) ids sub by auto
  have t'_new: "t' \<notin> set todo"
  proof
    assume "t' \<in> set todo"
    moreover have "tk_id t' = tk_id task" using t' by (auto simp: attempted_def)
    ultimately have "t' = task" using Cons.prems(2,3) by (auto simp: distinct_map inj_on_def)
    with \<open>t' \<in> set todo\<close> Cons.prems(4) show False by simp
  qed
  have "rs_tasks s' = map (\<lambda>t. if t = task then t' else f t) (rs_tasks s)"
    using f(2) t'_new by (auto simp: f(1) after)
  moreover have "\<forall>t. if t \<in> set (task # todo) then attempted t (if t = task then t' else f t)
      else (if t = task then t' else f t) = t"
    using f(2) t' by auto
  ultimately show ?case
    using db renew_keeps_db[OF act] by (intro conjI exI[of _ "\<lambda>t. if t = task then t' else f t"]) simp_all
qed

text \<open>Every task that is due is attempted; of the others nothing but what is old and completed goes.\<close>

definition due :: "int \<Rightarrow> renewal_task \<Rightarrow> bool" where
  "due now t = (tk_status t = PENDING \<and> tk_time t < now)"

lemma round_map:
  assumes "process_password_renewal_tasks env now later s = Some s'" and "distinct (map tk_id (rs_tasks s))"
  shows "wd_db (rs_world s') = wd_db (rs_world s) \<and>
    (\<exists>f P. rs_tasks s' = filter P (map f (rs_tasks s)) \<and>
       (\<forall>t \<in> set (rs_tasks s). if due now t then attempted t (f t) else f t = t))"
proof -
  from assms(1) obtain v where v: "process_tasks env (get_pending_tasks now (rs_tasks s)) s = Some v"
    and s': "s' = v\<lparr>rs_tasks := purge_completed_tasks (later - 365 * day) (rs_tasks v)\<rparr>"
    by (auto simp: process_password_renewal_tasks_def)
  have "set (get_pending_tasks now (rs_tasks s)) \<subseteq> set (rs_tasks s)" "distinct (get_pending_tasks now (rs_tasks s))"
    using assms(2) by (auto simp: get_pending_tasks_def distinct_map)
  from process_tasks_map[OF v assms(2) this] obtain f where
    db: "wd_db (rs_world v) = wd_db (rs_world s)" and map: "rs_tasks v = map f (rs_tasks s)"
    and f: "\<forall>t. if t \<in> set (get_pending_tasks now (rs_tasks s)) then attempted t (f t) else f t = t"
    by blast
  have "if due now t then attempted t (f t) else f t = t" if "t \<in> set (rs_tasks s)" for t
    using f[THEN spec, of t] that by (simp add: get_pending_tasks_def due_def split: if_splits)
  moreover have "rs_tasks s' = filter (\<lambda>t. \<not> (tk_status t = COMPLETED \<and> tk_created t < later - 365 * day)) (map f (rs_tasks s))"
    by (simp add: s' map purge_completed_tasks_def)
  moreover have "wd_db (rs_world s') = wd_db (rs_world s)" by (simp add: s' db)
  ultimately show ?thesis by blast
qed

section \<open>The shape of an event\<close>

definition new_task :: "int \<Rightarrow> string \<Rightarrow> string \<Rightarrow> renewal_task \<Rightarrow> bool" where
  "new_task now new_id device t = (tk_id t = new_id \<and> tk_device t = device \<and> tk_status t = PENDING \<and>
     tk_errors t = 0 \<and> tk_time t = renewal_time now)"

text \<open>
  The tasks after an event: those before, each moved and some dropped, and perhaps a new one for a
  device that has none waiting.
\<close>

definition event_shape :: "renewal_event \<Rightarrow> renewal_system \<Rightarrow> renewal_system \<Rightarrow> bool" where
  "event_shape ev s s' = (\<exists>f P new. rs_tasks s' = filter P (map f (rs_tasks s)) @ new \<and>
     (\<forall>t \<in> set (rs_tasks s). moved t (f t)) \<and>
     (\<forall>t \<in> set (rs_tasks s'). has_key (devices (wd_db (rs_world s'))) (tk_device t)) \<and>
     (case ev of RenewalRound now later \<Rightarrow> \<forall>t \<in> set (rs_tasks s). due now t \<longrightarrow> attempted t (f t) | _ \<Rightarrow> True) \<and>
     (new = [] \<or> (\<exists>now new_id device n. ev = SecretRequest now new_id device \<and> new = [n] \<and> new_task now new_id device n \<and>
        new_id \<notin> tk_id ` set (rs_tasks s) \<and> filter (waiting_for device) (map f (rs_tasks s)) = [] \<and> P = (\<lambda>_. True))))"

definition renewals_ok :: "renewal_system \<Rightarrow> bool" where
  "renewals_ok s = (distinct (map tk_id (rs_tasks s)) \<and>
     (\<forall>device. get_pending_tasks_for_device_count device (rs_tasks s) \<le> 1) \<and>
     (\<forall>t \<in> set (rs_tasks s). (tk_status t = ERROR \<longleftrightarrow> tk_errors t = 5) \<and> tk_errors t \<le> 5 \<and>
        has_key (devices (wd_db (rs_world s))) (tk_device t) \<and> tk_time t mod day = day - second))"

lemma cancel_moved: "moved t (if waiting_for device t then t\<lparr>tk_status := CANCELED\<rparr> else t)"
  by (simp add: moved_def)

lemma none_waiting: "filter (waiting_for device) (cancel_scheduled_tasks_for_device device tasks) = []"
  by (induction tasks) (simp_all add: cancel_scheduled_tasks_for_device_def)

lemma scheduled_shape:
  assumes "schedule_smart_ems_device_secret_renew now new_id db device secret_id tasks = (r, tasks')"
  shows "\<exists>f new. tasks' = map f tasks @ new \<and> (\<forall>t. moved t (f t)) \<and>
    (new = [] \<or> (\<exists>n. new = [n] \<and> new_task now new_id device n \<and> has_key (devices db) device \<and>
       new_id \<notin> tk_id ` set tasks \<and> filter (waiting_for device) (map f tasks) = []))"
proof -
  have plan: "\<exists>f new. tasks' = map f tasks @ new \<and> (\<forall>t. moved t (f t)) \<and>
      (new = [] \<or> (\<exists>n. new = [n] \<and> new_task now new_id device n \<and> has_key (devices db) device \<and>
         new_id \<notin> tk_id ` set tasks \<and> filter (waiting_for device) (map f tasks) = []))"
    if f: "us = map f tasks" "\<forall>t. moved t (f t)" "filter (waiting_for device) us = []"
      and sch: "(case schedule_task now new_id db device secret_id (renewal_time now) us of
          Inl e \<Rightarrow> (Inl e, us) | Inr us' \<Rightarrow> (Inr (), us')) = (r, tasks')" for us f
  proof (cases "schedule_task now new_id db device secret_id (renewal_time now) us")
    case (Inl e)
    with f sch show ?thesis by auto
  next
    case (Inr us')
    have "tk_id (f t) = tk_id t" for t using f(2) moved_keeps by blast
    then have "tk_id ` set us = tk_id ` set tasks" by (simp add: f(1) image_image)
    with Inr f sch show ?thesis
      by (intro exI[of _ f]) (auto simp: schedule_task_def new_task_def)
  qed
  show ?thesis
  proof (cases "0 < get_pending_tasks_for_device_count device tasks")
    case True
    show ?thesis
    proof (cases "hour_of now < 23")
      case True
      with assms \<open>0 < get_pending_tasks_for_device_count device tasks\<close> show ?thesis
        by (auto simp: schedule_smart_ems_device_secret_renew_def intro!: exI[of _ id])
    next
      case False
      let ?us = "cancel_scheduled_tasks_for_device device tasks"
      from False assms \<open>0 < get_pending_tasks_for_device_count device tasks\<close>
      have "(case schedule_task now new_id db device secret_id (renewal_time now) ?us of
          Inl e \<Rightarrow> (Inl e, ?us) | Inr us' \<Rightarrow> (Inr (), us')) = (r, tasks')"
        by (simp add: schedule_smart_ems_device_secret_renew_def Let_def cong: sum.case_cong)
      with plan[OF fun_cong[OF cancel_scheduled_tasks_for_device_def] _ none_waiting] cancel_moved
      show ?thesis by blast
    qed
  next
    case False
    with assms show ?thesis
      using plan[of tasks id] by (simp add: schedule_smart_ems_device_secret_renew_def get_pending_tasks_for_device_count_def)
  qed
qed

lemma no_new_shape:
  assumes "rs_tasks s' = filter P (map f (rs_tasks s))" "\<forall>t \<in> set (rs_tasks s). moved t (f t)"
    and "wd_db (rs_world s') = wd_db (rs_world s)" "renewals_ok s"
    and "\<And>now later. ev = RenewalRound now later \<Longrightarrow> \<forall>t \<in> set (rs_tasks s). due now t \<longrightarrow> attempted t (f t)"
  shows "event_shape ev s s'"
  unfolding event_shape_def
proof (intro exI[of _ f] exI[of _ P] exI[of _ "[]"] conjI)
  show "\<forall>t \<in> set (rs_tasks s'). has_key (devices (wd_db (rs_world s'))) (tk_device t)"
    using assms(1,2,3,4) moved_keeps by (fastforce simp: renewals_ok_def)
qed (use assms in \<open>simp_all split: renewal_event.split\<close>)

lemma step_shape:
  assumes step: "renewal_step env ev s = Some s'" and ok: "renewals_ok s"
  shows "event_shape ev s s'"
proof (cases ev)
  case (SecretRequest now new_id device)
  with step obtain r w where act: "shown_secret env device (rs_world s) = Some (r, w)"
    by (auto simp: post_smart_ems_device_secret_request_def split: option.splits)
  have db: "wd_db w = wd_db (rs_world s)" by (rule show_keeps_db[OF act])
  show ?thesis
  proof (cases "\<exists>secret_id device_secret. r = Inr (secret_id, device_secret, False)")
    case True
    then obtain secret_id device_secret where r: "r = Inr (secret_id, device_secret, False)" by blast
    obtain q tasks where sch: "schedule_smart_ems_device_secret_renew now new_id (wd_db w) device secret_id (rs_tasks s) = (q, tasks)"
      by (cases "schedule_smart_ems_device_secret_renew now new_id (wd_db w) device secret_id (rs_tasks s)")
    have s': "s' = \<lparr>rs_world = w, rs_tasks = tasks\<rparr>"
      using step SecretRequest act r sch by (simp add: post_smart_ems_device_secret_request_def)
    from scheduled_shape[OF sch] obtain f new where f: "tasks = map f (rs_tasks s) @ new" "\<forall>t. moved t (f t)"
      and new: "new = [] \<or> (\<exists>n. new = [n] \<and> new_task now new_id device n \<and> has_key (devices (wd_db w)) device \<and>
         new_id \<notin> tk_id ` set (rs_tasks s) \<and> filter (waiting_for device) (map f (rs_tasks s)) = [])"
      by blast
    have "has_key (devices (wd_db w)) (tk_device (f t))" if "t \<in> set (rs_tasks s)" for t
      using ok that f(2)[THEN spec, of t] moved_keeps db by (simp add: renewals_ok_def)
    with f new show ?thesis
      unfolding event_shape_def
      by (intro exI[of _ f] exI[of _ "\<lambda>_. True"] exI[of _ new]) (auto simp: s' SecretRequest new_task_def)
  next
    case False
    then have "s' = s\<lparr>rs_world := w\<rparr>"
      using step SecretRequest act
      by (cases r) (auto simp: post_smart_ems_device_secret_request_def split: prod.splits)
    then show ?thesis
      using no_new_shape[of s' "\<lambda>_. True" id s ev] db ok SecretRequest by simp
  qed
next
  case (SecretRenew device)
  with step obtain r w where act: "renew_secret env device (rs_world s) = Some (r, w)"
    by (auto simp: post_smart_ems_device_secret_renew_def split: option.splits)
  have db: "wd_db w = wd_db (rs_world s)" by (rule renew_keeps_db[OF act])
  show ?thesis
  proof (cases r)
    case (Inl e)
    then show ?thesis
      using no_new_shape[of s' "\<lambda>_. True" id s ev] db ok SecretRenew act step
      by (auto simp: post_smart_ems_device_secret_renew_def)
  next
    case (Inr u)
    then show ?thesis
      using no_new_shape[of s' "\<lambda>_. True" "\<lambda>t. if waiting_for device t then t\<lparr>tk_status := CANCELED\<rparr> else t" s ev]
        db ok SecretRenew act step cancel_moved
      by (auto simp: post_smart_ems_device_secret_renew_def cancel_scheduled_tasks_for_device_def)
  qed
next
  case (RenewalRound now later)
  with step round_map[of env now later s s'] ok obtain f P where db: "wd_db (rs_world s') = wd_db (rs_world s)"
    and tasks: "rs_tasks s' = filter P (map f (rs_tasks s))"
    and f: "\<forall>t \<in> set (rs_tasks s). if due now t then attempted t (f t) else f t = t"
    by (auto simp: renewals_ok_def)
  have "moved t (f t)" if "t \<in> set (rs_tasks s)" for t
    using f that by (cases "due now t") (auto simp: moved_def due_def)
  with f show ?thesis
    by (intro no_new_shape[OF tasks _ db ok]) (auto simp: RenewalRound)
next
  case (Elsewhere w)
  with step show ?thesis
    unfolding event_shape_def
    by (intro exI[of _ id] exI[of _ "\<lambda>t. has_key (devices (wd_db w)) (tk_device t)"] exI[of _ "[]"])
       (auto simp: forget_devices_def)
qed

section \<open>The invariant\<close>

lemma waiting_moved:
  "\<forall>t \<in> set tasks. moved t (f t) \<Longrightarrow>
    length (filter (waiting_for device) (map f tasks)) \<le> length (filter (waiting_for device) tasks)"
proof (induction tasks)
  case (Cons t tasks)
  then show ?case using moved_pending[of t "f t"] moved_keeps[of t "f t"] by auto
qed simp

lemma waiting_dropped:
  "length (filter (waiting_for device) (filter P tasks)) \<le> length (filter (waiting_for device) tasks)"
  by (induction tasks) auto

lemma ids_moved: "\<forall>t \<in> set tasks. moved t (f t) \<Longrightarrow> map tk_id (map f tasks) = map tk_id tasks"
  using moved_keeps by auto

lemma moved_status_ok:
  "moved t t' \<Longrightarrow> (tk_status t = ERROR \<longleftrightarrow> tk_errors t = 5) \<and> tk_errors t \<le> 5 \<Longrightarrow>
    (tk_status t' = ERROR \<longleftrightarrow> tk_errors t' = 5) \<and> tk_errors t' \<le> 5"
  by (auto simp: moved_def attempted_def split: if_splits)

lemma day_length: "day = 86400000000" "second = 1000000"
  by (simp_all add: day_def hour_def second_def)

lemma renewal_time_end: "renewal_time now mod day = day - second"
proof -
  have "(now - now mod day + k) mod day = k mod day" for k
    by (simp add: minus_mod_eq_mult_div)
  from this[of "day - second"] this[of "day - second + day"] show ?thesis
    by (simp add: renewal_time_def Let_def day_length add.assoc)
qed

lemma step_ok:
  assumes step: "renewal_step env ev s = Some s'" and ok: "renewals_ok s"
  shows "renewals_ok s'"
proof -
  from step_shape[OF assms] obtain f P new where tasks: "rs_tasks s' = filter P (map f (rs_tasks s)) @ new"
    and f: "\<forall>t \<in> set (rs_tasks s). moved t (f t)"
    and dev: "\<forall>t \<in> set (rs_tasks s'). has_key (devices (wd_db (rs_world s'))) (tk_device t)"
    and new: "new = [] \<or> (\<exists>now new_id device n. new = [n] \<and> new_task now new_id device n \<and>
        new_id \<notin> tk_id ` set (rs_tasks s) \<and> filter (waiting_for device) (map f (rs_tasks s)) = [] \<and> P = (\<lambda>_. True))"
    unfolding event_shape_def by blast
  have ids: "\<forall>t \<in> set (rs_tasks s). tk_id (f t) = tk_id t" "distinct (map tk_id (map f (rs_tasks s)))"
    using f moved_keeps by blast (metis ids_moved[OF f] ok renewals_ok_def)
  have "distinct (map tk_id (rs_tasks s'))"
    using new ids distinct_map_filter[OF ids(2), of P] by (auto simp: tasks new_task_def intro: rev_image_eqI)
  moreover have "get_pending_tasks_for_device_count device (rs_tasks s') \<le> 1" for device
  proof -
    have "length (filter (waiting_for device) (filter P (map f (rs_tasks s)))) \<le> 1"
      using waiting_dropped[of device P "map f (rs_tasks s)"] waiting_moved[OF f, of device]
        ok[unfolded renewals_ok_def get_pending_tasks_for_device_count_def, THEN conjunct2, THEN conjunct1, THEN spec[of _ device]]
      by linarith
    with new show ?thesis by (auto simp: tasks get_pending_tasks_for_device_count_def new_task_def filter_empty_conv)
  qed
  moreover have "(tk_status t = ERROR \<longleftrightarrow> tk_errors t = 5) \<and> tk_errors t \<le> 5 \<and> tk_time t mod day = day - second"
    if "t \<in> set (rs_tasks s')" for t
  proof -
    from that consider u where "u \<in> set (rs_tasks s)" "t = f u" | "t \<in> set new"
      by (auto simp: tasks)
    then show ?thesis
    proof cases
      case 1
      then show ?thesis
        using f moved_keeps moved_status_ok[of u t] ok by (auto simp: renewals_ok_def)
    next
      case 2
      with new renewal_time_end show ?thesis by (auto simp: new_task_def)
    qed
  qed
  ultimately show ?thesis using dev by (simp add: renewals_ok_def)
qed

lemma run_ok: "renewal_run env evs s = Some s' \<Longrightarrow> renewals_ok s \<Longrightarrow> renewals_ok s'"
  by (induction evs arbitrary: s) (auto simp: bind_eq_Some_conv intro: step_ok)

lemma process_returns: "process_tasks env todo s \<noteq> None"
  using returns_secret(1) by (induction todo arbitrary: s) (auto simp: returns_def split: option.splits)

lemma step_returns: "\<exists>s'. renewal_step env ev s = Some s'"
proof (cases ev)
  case (SecretRequest now new_id device)
  have "shown_secret env device (rs_world s) \<noteq> None" using returns_secret(2) by (auto simp: returns_def)
  then show ?thesis
    by (auto simp: SecretRequest post_smart_ems_device_secret_request_def split: prod.splits sum.splits)
next
  case (SecretRenew device)
  have "renew_secret env device (rs_world s) \<noteq> None" using returns_secret(1) by (auto simp: returns_def)
  then show ?thesis
    by (auto simp: SecretRenew post_smart_ems_device_secret_renew_def split: sum.splits)
next
  case (RenewalRound now later)
  then show ?thesis using process_returns by (auto simp: process_password_renewal_tasks_def)
qed simp

lemma run_returns: "\<exists>s'. renewal_run env evs s = Some s'"
proof (induction evs arbitrary: s)
  case (Cons ev evs)
  obtain u where "renewal_step env ev s = Some u" using step_returns by blast
  with Cons.IH[of u] show ?case by simp
qed simp

section \<open>Renewals settle\<close>

definition round_after :: "int \<Rightarrow> renewal_event \<Rightarrow> bool" where
  "round_after time ev = (case ev of RenewalRound now later \<Rightarrow> time < now | _ \<Rightarrow> False)"

definition reuses :: "string \<Rightarrow> renewal_event \<Rightarrow> bool" where
  "reuses i ev = (case ev of SecretRequest now new_id device \<Rightarrow> new_id = i | _ \<Rightarrow> False)"

text \<open>As long as the task waits it has failed once in every round.\<close>

definition waits_since :: "string \<Rightarrow> int \<Rightarrow> nat \<Rightarrow> renewal_system \<Rightarrow> bool" where
  "waits_since i time n s =
     (\<forall>t \<in> set (rs_tasks s). tk_id t = i \<and> tk_status t = PENDING \<longrightarrow> n \<le> tk_errors t \<and> tk_time t = time)"

lemma step_waits:
  assumes step: "renewal_step env ev s = Some s'" "renewals_ok s" and "\<not> reuses i ev" "waits_since i time n s"
  shows "waits_since i time (if round_after time ev then n + 1 else n) s'"
  unfolding waits_since_def
proof (intro ballI impI)
  fix t'
  assume t': "t' \<in> set (rs_tasks s')" "tk_id t' = i \<and> tk_status t' = PENDING"
  from step_shape[OF step] obtain f P new where tasks: "rs_tasks s' = filter P (map f (rs_tasks s)) @ new"
    and f: "\<forall>t \<in> set (rs_tasks s). moved t (f t)"
    and rnd: "case ev of RenewalRound now later \<Rightarrow> \<forall>t \<in> set (rs_tasks s). due now t \<longrightarrow> attempted t (f t) | _ \<Rightarrow> True"
    and new: "new = [] \<or> (\<exists>now new_id device n. ev = SecretRequest now new_id device \<and> new = [n] \<and> new_task now new_id device n)"
    unfolding event_shape_def by blast
  have "t' \<notin> set new" using new assms(3) t'(2) by (auto simp: reuses_def new_task_def)
  with t' obtain t where t: "t \<in> set (rs_tasks s)" "t' = f t" by (auto simp: tasks)
  then have m: "moved t t'" using f by simp
  have w: "n \<le> tk_errors t" "tk_time t = time"
    using assms(4) t(1) t'(2) moved_pending[OF m] moved_keeps[OF m] by (auto simp: waits_since_def)
  show "(if round_after time ev then n + 1 else n) \<le> tk_errors t' \<and> tk_time t' = time"
  proof (cases "round_after time ev")
    case True
    then have "attempted t t'"
      using rnd t moved_pending[OF m] t'(2) w(2) by (auto simp: round_after_def due_def split: renewal_event.splits)
    from attempted_pending[OF this] t'(2) w moved_keeps[OF m] True show ?thesis by simp
  next
    case False
    with w moved_errors[OF m] moved_keeps[OF m] show ?thesis by simp
  qed
qed

lemma run_waits:
  "renewal_run env evs s = Some s' \<Longrightarrow> renewals_ok s \<Longrightarrow> list_all (\<lambda>ev. \<not> reuses i ev) evs \<Longrightarrow> waits_since i time n s \<Longrightarrow>
    waits_since i time (n + length (filter (round_after time) evs)) s'"
proof (induction evs arbitrary: s n)
  case (Cons ev evs)
  then obtain u where u: "renewal_step env ev s = Some u" "renewal_run env evs u = Some s'"
    by (auto simp: bind_eq_Some_conv)
  have "waits_since i time (if round_after time ev then n + 1 else n) u"
    using step_waits[OF u(1)] Cons.prems by simp
  from Cons.IH[OF u(2) step_ok[OF u(1)] _ this] Cons.prems show ?case by (simp split: if_splits)
qed simp

text \<open>A task that has left \<open>PENDING\<close> never changes again.\<close>

lemma settled_stays:
  assumes "renewal_step env ev s = Some s'" "renewals_ok s" "\<not> reuses (tk_id t) ev"
    and "t \<in> set (rs_tasks s)" "tk_status t \<noteq> PENDING" "t' \<in> set (rs_tasks s')" "tk_id t' = tk_id t"
  shows "t' = t"
proof -
  from step_shape[OF assms(1,2)] obtain f P new where tasks: "rs_tasks s' = filter P (map f (rs_tasks s)) @ new"
    and f: "\<forall>t \<in> set (rs_tasks s). moved t (f t)"
    and new: "new = [] \<or> (\<exists>now new_id device n. ev = SecretRequest now new_id device \<and> new = [n] \<and> new_task now new_id device n)"
    unfolding event_shape_def by blast
  have "t' \<notin> set new" using new assms(3,7) by (auto simp: reuses_def new_task_def)
  with assms(6) obtain u where u: "u \<in> set (rs_tasks s)" "t' = f u" by (auto simp: tasks)
  then have "moved u t'" "tk_id u = tk_id t" using f assms(7) moved_keeps by auto
  moreover from this(2) have "u = t"
    using assms(2,4) u(1) by (auto simp: renewals_ok_def distinct_map inj_on_def)
  ultimately show ?thesis using assms(5) by (simp add: moved_def)
qed


text \<open>
  C40: A renewal that waits settles: every run returns, and if five of its rounds come after the
  time the renewal is planned for, it waits no longer, whatever Smart EMS answers and whatever else
  happens: it has been made, has been given up after five failures, was cancelled, or its device is
  gone.
\<close>

theorem due_renewal_settles:
  assumes ok: "renewals_ok s" and task: "task \<in> set (rs_tasks s)"
    and rounds: "5 \<le> length (filter (round_after (tk_time task)) evs)"
    and ids: "list_all (\<lambda>ev. \<not> reuses (tk_id task) ev) evs"
  shows "\<exists>s'. renewal_run env evs s = Some s' \<and>
    (\<forall>t \<in> set (rs_tasks s'). tk_id t = tk_id task \<longrightarrow> tk_status t \<in> {CANCELED, COMPLETED, ERROR})"
proof -
  obtain s' where run: "renewal_run env evs s = Some s'" using run_returns by blast
  have "waits_since (tk_id task) (tk_time task) 0 s"
    using ok task by (auto simp: waits_since_def renewals_ok_def distinct_map inj_on_def)
  from run_waits[OF run ok ids this] rounds have waits: "waits_since (tk_id task) (tk_time task) 5 s'"
    by (fastforce simp: waits_since_def)
  have "tk_status t \<noteq> PENDING" if "t \<in> set (rs_tasks s')" "tk_id t = tk_id task" for t
    using waits run_ok[OF run ok] that by (force simp: waits_since_def renewals_ok_def)
  then have "\<forall>t \<in> set (rs_tasks s'). tk_id t = tk_id task \<longrightarrow> tk_status t \<in> {CANCELED, COMPLETED, ERROR}"
    by (metis insert_iff task_status.exhaust)
  with run show ?thesis by blast
qed

section \<open>Concrete runs\<close>

text \<open>A Smart EMS that knows the device \<open>1\<close> and shows its password, but fails to renew it.\<close>

definition renewal_answers :: "((http_verb \<times> string) \<times> (nat \<times> json)) list" where
  "renewal_answers =
     [((HttpPost, ''/web/api/device/list''), (200, JObj [(''results'', JList [JObj
          [(''id'', JStr ''d''), (''firmwareVersion1'', JStr ''1.6''), (''deviceType'', JObj [(''name'', JStr ''Edge gateway'')])]])])),
      ((HttpPost, ''/web/api/devicesecret/d/list''), (200, JObj [(''results'', JList [JObj
          [(''id'', JInt 3), (''deviceTypeSecret'', JObj [(''name'', JStr ''admin'')])]])])),
      ((HttpGet, ''/web/api/devicesecret/3/show''), (200, JObj [(''id'', JInt 3), (''secretValue'', JStr ''p'')])),
      ((HttpGet, ''/web/api/devicesecret/3/enable/force/renewal''), (500, JNull))]"

definition renewal_remote :: remote where
  "renewal_remote =
     \<lparr>rm_answer = (\<lambda>_ c. map_option (\<lambda>(status, v). \<lparr>ha_status = status, ha_text = [], ha_json = Some v, ha_headers = []\<rparr>)
        (map_of renewal_answers (hc_verb c, hc_url c))),
      rm_hub = [], rm_sems = [], rm_sems_user = JNull, rm_sems_password = JNull, rm_sas = None, rm_identity = None,
      rm_template = [], rm_repr = (\<lambda>_. []), rm_loads = (\<lambda>_. None), rm_yaml = (\<lambda>_. None), rm_days = (\<lambda>_. None),
      rm_seconds = (\<lambda>_. None)\<rparr>"

definition renewal_world :: world where
  "renewal_world = \<lparr>wd_calls = [], wd_sems = \<lparr>ss_token = JStr ''s'', ss_refresh_token = JNull, ss_init_done = True\<rparr>,
     wd_db = \<lparr>device_types = [], devices = [(''1'', \<lparr>dv_type_id = ''default'', dv_data = []\<rparr>)], endpoint_types = [],
       endpoints = [], service_types = [], services = []\<rparr>,
     wd_snapshot = None, wd_vars = []\<rparr>"

definition tasks_after :: "renewal_event list \<Rightarrow> (string \<times> task_status \<times> nat \<times> int) list option" where
  "tasks_after evs = map_option (\<lambda>s. map (\<lambda>t. (tk_id t, tk_status t, tk_errors t, tk_time t)) (rs_tasks s))
     (renewal_run renewal_remote evs \<lparr>rs_world = renewal_world, rs_tasks = []\<rparr>)"

lemma requested_twice:
  "tasks_after [SecretRequest 0 ''t1'' ''1'', SecretRequest 5 ''t2'' ''1''] = Some [(''t1'', PENDING, 0, 86399000000)]"
  by code_simp

lemma given_up:
  "tasks_after (SecretRequest 0 ''t1'' ''1'' # replicate 6 (RenewalRound 86400000000 86400000000)) =
     Some [(''t1'', ERROR, 5, 86399000000)]"
  by code_simp


definition waiting_task :: renewal_task where
  "waiting_task = \<lparr>tk_id = ''t1'', tk_device = ''1'', tk_secret = 3, tk_time = 86399000000, tk_status = PENDING,
     tk_errors = 0, tk_latest_error = None, tk_created = 0\<rparr>"

definition five_rounds :: "renewal_event list" where
  "five_rounds = replicate 5 (RenewalRound 86400000000 86400000000)"

theorem due_renewal_settles_witness:
  "\<exists>s'. renewal_run renewal_remote five_rounds \<lparr>rs_world = renewal_world, rs_tasks = [waiting_task]\<rparr> = Some s' \<and>
     (\<forall>t \<in> set (rs_tasks s'). tk_id t = ''t1'' \<longrightarrow> tk_status t \<in> {CANCELED, COMPLETED, ERROR})"
proof -
  let ?s = "\<lparr>rs_world = renewal_world, rs_tasks = [waiting_task]\<rparr>"
  have "renewals_ok ?s"
    by (simp add: renewals_ok_def get_pending_tasks_for_device_count_def waiting_task_def renewal_world_def has_key_def day_length)
  moreover have "5 \<le> length (filter (round_after (tk_time waiting_task)) five_rounds)"
    "list_all (\<lambda>ev. \<not> reuses (tk_id waiting_task) ev) five_rounds"
    by (simp_all add: five_rounds_def round_after_def reuses_def waiting_task_def numeral_eq_Suc)
  ultimately have "\<exists>s'. renewal_run renewal_remote five_rounds ?s = Some s' \<and>
     (\<forall>t \<in> set (rs_tasks s'). tk_id t = tk_id waiting_task \<longrightarrow> tk_status t \<in> {CANCELED, COMPLETED, ERROR})"
    by (intro due_renewal_settles) simp_all
  then show ?thesis by (simp add: waiting_task_def)
qed

end
