(* ===== verification/Compose.thy ===== *)
theory Compose
  imports Sems_Admin
begin

text \<open>
  Compose deployments (\<open>routers/compose_deployments/\<close>, \<open>db/sqlalchemy/compose.py\<close>): stacks of
  containers for all devices, built from a list of services, and the one that is active.  No two
  stacks may publish the same host port.  YAML and \<open>json.dumps\<close> are the parameters \<open>yaml\<close> and
  \<open>dumps\<close>, the hexadecimal text of each \<open>uuid4\<close> comes from a list.  The routes ask for
  \<open>platform.config.read\<close> and \<open>platform.config.write\<close>; a route is modelled from that check on.
  The filters by prefix and landing page of the repository, which no route uses, are left out; so is
  the answer 409 to a name that another request inserts at the same time.
\<close>

section \<open>Requests\<close>

record service_config =
  sc_name :: string
  sc_image :: string
  sc_http_port :: int
  sc_exposed_ports :: "string list"
  sc_env :: "string list"
  sc_volumes :: "string list"
  sc_tile_enabled :: bool
  sc_tile_title :: string
  sc_tile_description :: string
  sc_tile_group :: string
  sc_tile_icon :: string

record compose_request =
  cr_description :: "string option"
  cr_services :: "service_config list"

text \<open>The pattern of a port: up to five digits without a leading zero, at most 65535.\<close>

definition port_text :: "string \<Rightarrow> bool" where
  "port_text s = (s \<noteq> [] \<and> hd s \<noteq> CHR ''0'' \<and> list_all is_digit s \<and> int (length s) \<le> 5 \<and> int (nat_of_digits s) \<le> 65535)"

definition protocol_text :: "string \<Rightarrow> bool" where
  "protocol_text s = (s \<in> {''tcp'', ''udp''})"

definition port_mapping :: "string \<Rightarrow> bool" where
  "port_mapping s =
     (case split_on CHR '':'' s of
        [host, container] \<Rightarrow> port_text host \<and>
          (case split_on CHR ''/'' container of
             [port] \<Rightarrow> port_text port
           | [port, protocol] \<Rightarrow> port_text port \<and> protocol_text protocol
           | _ \<Rightarrow> False)
      | _ \<Rightarrow> False)"

definition service_config_ok :: "service_config \<Rightarrow> bool" where
  "service_config_ok s = (1 \<le> sc_http_port s \<and> sc_http_port s \<le> 65535 \<and> list_all port_mapping (sc_exposed_ports s))"

definition compose_request_ok :: "compose_request \<Rightarrow> bool" where
  "compose_request_ok req = list_all service_config_ok (cr_services req)"

section \<open>Building a stack\<close>

definition build_labels :: "service_config \<Rightarrow> string list" where
  "build_labels s =
     [''traefik.enable=true'',
      ''traefik.http.routers.'' @ sc_name s @ ''.rule=PathPrefix(`/'' @ sc_name s @ ''`)'',
      ''traefik.http.routers.'' @ sc_name s @ ''.entrypoints=websecure'',
      ''traefik.http.routers.'' @ sc_name s @ ''.tls=true'',
      ''traefik.http.middlewares.'' @ sc_name s @ ''-strip.stripprefix.prefixes=/'' @ sc_name s,
      ''traefik.http.routers.'' @ sc_name s @ ''.middlewares='' @ sc_name s @ ''-strip'',
      ''traefik.http.services.'' @ sc_name s @ ''.loadbalancer.server.port='' @ int_text (sc_http_port s)] @
     (if sc_tile_enabled s then
        [''tile=true'', ''tileTitle='' @ sc_tile_title s, ''tileDescription='' @ sc_tile_description s,
         ''tileGroup='' @ sc_tile_group s, ''tileIcon='' @ sc_tile_icon s, ''baseURL=/'' @ sc_name s]
      else []) @
     [''sealmanLocalCompose=true'']"

definition strings :: "string list \<Rightarrow> json" where
  "strings xs = JList (map JStr xs)"

definition given :: "string \<Rightarrow> string list \<Rightarrow> json dict" where
  "given key xs = (if xs = [] then [] else [(key, strings xs)])"

definition build_service :: "service_config \<Rightarrow> string \<Rightarrow> json" where
  "build_service s hex =
     JObj ([(''image'', JStr (sc_image s)), (''container_name'', JStr (sc_name s @ ''-'' @ hex)),
            (''labels'', strings (build_labels s)), (''networks'', strings [''landing''])] @
           given ''ports'' (sc_exposed_ports s) @ given ''environment'' (sc_env s) @ given ''volumes'' (sc_volumes s))"

text \<open>A service takes the place of an earlier one with its name.\<close>

definition compose_services :: "service_config list \<Rightarrow> string list \<Rightarrow> json dict" where
  "compose_services configs hexes =
     fold (\<lambda>(s, hex). dset (sc_name s) (build_service s hex)) (zip configs hexes) []"

definition build_compose :: "string \<Rightarrow> service_config list \<Rightarrow> string list \<Rightarrow> json" where
  "build_compose name configs hexes =
     JObj [(''version'', JStr ''3.9''), (''name'', JStr name), (''services'', JObj (compose_services configs hexes)),
           (''networks'', JObj [(''landing'', JObj [(''external'', JBool True), (''name'', JStr ''landing'')])])]"

section \<open>The repository\<close>

record deployment =
  dm_description :: "string option"
  dm_request :: compose_request
  dm_content :: json
  dm_sems_compose :: json
  dm_exposed_ports :: "int list"
  dm_landing_page :: bool

record compose_db =
  cm_rows :: "deployment dict"
  cm_active :: "string option"

definition occupied_port :: "service_config \<Rightarrow> int \<Rightarrow> exn" where
  "occupied_port service port =
     ValueError (Msg ''Service <{}> tries to expose a port <{}> which is already occupied'' [JStr (sc_name service), JInt port])"

definition expose :: "int list \<Rightarrow> service_config \<times> string \<Rightarrow> int list res" where
  "expose exposed_ports = (\<lambda>(service, port_exposing).
     case py_int (hd (split_on CHR '':'' port_exposing)) of
       None \<Rightarrow> Inl (ValueError (Msg ''invalid literal for int()'' []))
     | Some port \<Rightarrow> if port \<in> set exposed_ports then Inl (occupied_port service port) else Inr (exposed_ports @ [port]))"

definition exposings :: "compose_request \<Rightarrow> (service_config \<times> string) list" where
  "exposings req = concat (map (\<lambda>s. map (Pair s) (sc_exposed_ports s)) (cr_services req))"

definition get_exposed_ports_from_request :: "compose_request \<Rightarrow> int list res" where
  "get_exposed_ports_from_request req = foldR expose [] (exposings req)"

definition get_all_exposed_ports_from_db :: "string option \<Rightarrow> compose_db \<Rightarrow> int list \<times> string list" where
  "get_all_exposed_ports_from_db exclude_name db =
     (let rows = filter (\<lambda>(name, row). (case exclude_name of Some n \<Rightarrow> n = [] \<or> name \<noteq> n | None \<Rightarrow> True) \<and>
                                       dm_exposed_ports row \<noteq> []) (cm_rows db) in
      (concat (map (\<lambda>(_, row). dm_exposed_ports row) rows), map fst rows))"

text \<open>The order of \<open>list(set)\<close> is not modelled: the ports are kept in the order of the request.\<close>

definition handle_exposed_ports_on_request ::
  "compose_request \<Rightarrow> string option \<Rightarrow> compose_db \<Rightarrow> int list res" where
  "handle_exposed_ports_on_request req exclude_name db =
     bindR (get_exposed_ports_from_request req) (\<lambda>new_ports.
     let (existing_ports, names) = get_all_exposed_ports_from_db exclude_name db;
         conflicts = filter (\<lambda>p. p \<in> set existing_ports) new_ports in
     bindR (ensure (conflicts = []) (HTTPException 422 (Msg ''Requested ports {} conflicting on ports {} with existing port exposing introduced by deployments: {}''
              [JList (map JInt new_ports), JList (map JInt conflicts), strings names]))) (\<lambda>_.
     Inr new_ports))"

definition gen_sems_compose :: "(json \<Rightarrow> string) \<Rightarrow> string \<Rightarrow> json \<Rightarrow> json" where
  "gen_sems_compose yaml name compose = JObj [(name, JStr (yaml compose))]"

definition create_or_update ::
  "(json \<Rightarrow> string) \<Rightarrow> string \<Rightarrow> compose_request \<Rightarrow> json \<Rightarrow> bool \<Rightarrow> string option \<Rightarrow> compose_db \<Rightarrow> compose_db res" where
  "create_or_update yaml name request content landing_page description db =
     bindR (handle_exposed_ports_on_request request (if has_key (cm_rows db) name then Some name else None) db) (\<lambda>ports.
     Inr (db\<lparr>cm_rows := dset name \<lparr>dm_description = description, dm_request = request, dm_content = content,
                dm_sems_compose = gen_sems_compose yaml name content, dm_exposed_ports = ports,
                dm_landing_page = landing_page\<rparr> (cm_rows db)\<rparr>))"

definition get_stack :: "string \<Rightarrow> compose_db \<Rightarrow> deployment option" where
  "get_stack name db = map_of (cm_rows db) name"

text \<open>The row of the active deployment goes with its deployment.\<close>

definition delete_stack :: "string \<Rightarrow> compose_db \<Rightarrow> bool \<times> compose_db" where
  "delete_stack name db =
     (has_key (cm_rows db) name,
      \<lparr>cm_rows = dpop name (cm_rows db), cm_active = (if cm_active db = Some name then None else cm_active db)\<rparr>)"

definition list_stacks :: "compose_db \<Rightarrow> (string \<times> string option \<times> bool) list" where
  "list_stacks db = map (\<lambda>(name, row). (name, dm_description row, dm_landing_page row)) (cm_rows db)"

definition set_active :: "string \<Rightarrow> compose_db \<Rightarrow> compose_db res" where
  "set_active name db = bindR (ensure (has_key (cm_rows db) name) IntegrityError) (\<lambda>_. Inr (db\<lparr>cm_active := Some name\<rparr>))"

definition delete_active :: "compose_db \<Rightarrow> bool \<times> compose_db" where
  "delete_active db = (cm_active db \<noteq> None, db\<lparr>cm_active := None\<rparr>)"

section \<open>The routes\<close>

definition deployment_missing :: exn where
  "deployment_missing = HTTPException 404 (Msg ''Deployment not found'' [])"

datatype deployment_view =
    WholeDeployment string deployment
  | SemsCompose json
  | ComposeContent json
  | RequestOnly compose_request

definition get_deployment :: "string \<Rightarrow> string option \<Rightarrow> compose_db \<Rightarrow> deployment_view res" where
  "get_deployment name view db =
     (case get_stack name db of
        None \<Rightarrow> Inl deployment_missing
      | Some row \<Rightarrow> Inr (
          if view = Some ''sems'' then SemsCompose (dm_sems_compose row)
          else if view = Some ''compose'' then ComposeContent (dm_content row)
          else if view = Some ''request'' then RequestOnly (dm_request row)
          else WholeDeployment name row))"

definition put_deployment ::
  "(json \<Rightarrow> string) \<Rightarrow> string list \<Rightarrow> string \<Rightarrow> compose_request \<Rightarrow> compose_db \<Rightarrow> (json \<times> compose_db) res" where
  "put_deployment yaml hexes name req db =
     (let compose = build_compose name (cr_services req) hexes in
      bindR (create_or_update yaml name req compose False (cr_description req) db) (\<lambda>db'. Inr (compose, db')))"

definition delete_deployment :: "string \<Rightarrow> compose_db \<Rightarrow> unit res \<times> compose_db" where
  "delete_deployment name db =
     (let (deleted, db') = delete_stack name db in
      (ensure deleted (HTTPException 404 (Msg ''Deployment {} not found'' [JStr name])), db'))"

text \<open>Smart EMS is told first, then the database.\<close>

definition set_active_deployment ::
  "remote \<Rightarrow> (json \<Rightarrow> string) \<Rightarrow> string \<Rightarrow> world \<times> compose_db \<Rightarrow> (unit res \<times> world \<times> compose_db) option" where
  "set_active_deployment env dumps name = (\<lambda>(w, db).
     case get_stack name db of
       None \<Rightarrow> Some (Inl deployment_missing, w, db)
     | Some row \<Rightarrow>
         if \<not> truthy (dm_sems_compose row) then
           Some (Inl (HTTPException 422 (Msg ''Deployment has no SEMS compose'' [])), w, db)
         else case set_variable_for_all_devices env ''compose_deployment'' (dumps (dm_sems_compose row)) w of
             None \<Rightarrow> None
           | Some (Inl e, w') \<Rightarrow> Some (Inl e, w', db)
           | Some (Inr _, w') \<Rightarrow>
               (case set_active name db of Inl e \<Rightarrow> Some (Inl e, w', db) | Inr db' \<Rightarrow> Some (Inr (), w', db')))"

text \<open>Here the database comes first: it has committed when Smart EMS is told.\<close>

definition delete_active_deployment ::
  "remote \<Rightarrow> (json \<Rightarrow> string) \<Rightarrow> world \<times> compose_db \<Rightarrow> (unit res \<times> world \<times> compose_db) option" where
  "delete_active_deployment env dumps = (\<lambda>(w, db).
     let (deleted, db') = delete_active db in
     if \<not> deleted then Some (Inl (HTTPException 404 (Msg ''No active deployment found'' [])), w, db')
     else map_option (\<lambda>(r, w'). (map_sum id (\<lambda>_. ()) r, w', db'))
       (set_variable_for_all_devices env ''compose_deployment'' (dumps (JObj [])) w))"

end
