(* ===== verification/Compose_Properties.thy ===== *)
theory Compose_Properties
  imports Compose
begin

text \<open>
  No host port is published twice: neither by two services of a stack nor by two stored stacks, in
  every state that the routes can reach; and the active deployment is a stored one.
\<close>

section \<open>Reading a port\<close>

lemma dropWhile_hd: "s \<noteq> [] \<Longrightarrow> \<not> P (hd s) \<Longrightarrow> dropWhile P s = s"
  by (cases s) simp_all

lemma strip_free: "s \<noteq> [] \<Longrightarrow> \<not> P (hd s) \<Longrightarrow> \<not> P (last s) \<Longrightarrow> strip_chars P s = s"
  by (simp add: strip_chars_def rstrip_chars_def dropWhile_hd hd_rev)

lemma digit_no_space: "is_digit c \<Longrightarrow> \<not> is_space c"
  by (auto simp: is_digit_def is_space_def)

text \<open>A numeral that starts with a digit has no sign.\<close>

lemma digit_numeral:
  assumes "str_strip s = c # t" "is_digit c"
  shows "py_int s = map_option int (unsigned_int (c # t))"
proof (cases c)
  case (Char b0 b1 b2 b3 b4 b5 b6 b7)
  with assms show ?thesis
    by (cases b0; cases b1; cases b2; cases b3) (simp_all add: is_digit_bits py_int_def)
qed

lemma py_int_digits:
  assumes "s \<noteq> []" "list_all is_digit s" "int (length s) \<le> 4300"
  shows "py_int s = Some (int (nat_of_digits s))"
proof -
  have "is_digit (hd s)" "is_digit (last s)" using assms by (simp_all add: list_all_iff)
  then have strip: "str_strip s = s" using assms(1) by (simp add: str_strip_def strip_free digit_no_space)
  have "CHR ''_'' \<notin> set s" using assms(2) by (auto simp: list_all_iff is_digit_def)
  then have "unsigned_int s = Some (nat_of_digits s)" using assms by (simp add: unsigned_int_def split_on_free)
  moreover obtain c t where s: "s = c # t" using assms(1) by (cases s) auto
  moreover have "is_digit c" using assms(2) by (simp add: s)
  ultimately show ?thesis using digit_numeral[of s c t] strip by simp
qed

lemma digits_from: "a \<le> foldl (\<lambda>n c. 10 * n + digit_value c) a s"
proof (induction s arbitrary: a)
  case (Cons c s)
  have "a \<le> 10 * a + digit_value c" by simp
  also have "\<dots> \<le> foldl (\<lambda>n c. 10 * n + digit_value c) (10 * a + digit_value c) s" by (rule Cons)
  finally show ?case by simp
qed simp

lemma port_text_positive: "port_text s \<Longrightarrow> 1 \<le> nat_of_digits s"
proof -
  assume s: "port_text s"
  then obtain c t where "s = c # t" by (cases s) (auto simp: port_text_def)
  with s have c: "is_digit c" "c \<noteq> CHR ''0''" by (auto simp: port_text_def)
  have "of_char (CHR ''0'') = (48 :: nat)" by simp
  with c(2) have "of_char c \<noteq> (48 :: nat)" by (metis of_char_eq_iff)
  with c(1) have "1 \<le> digit_value c" unfolding is_digit_def digit_value_def by arith
  also have "\<dots> \<le> nat_of_digits s" using digits_from[of "digit_value c" t] by (simp add: nat_of_digits_def \<open>s = c # t\<close>)
  finally show ?thesis .
qed

definition host_port :: "string \<Rightarrow> int" where
  "host_port m = int (nat_of_digits (hd (split_on CHR '':'' m)))"

lemma host_port_read:
  assumes "port_mapping m"
  shows "py_int (hd (split_on CHR '':'' m)) = Some (host_port m) \<and> 1 \<le> host_port m \<and> host_port m \<le> 65535"
proof -
  from assms have "port_text (hd (split_on CHR '':'' m))"
    by (auto simp: port_mapping_def split: list.splits)
  with port_text_positive[OF this] show ?thesis
    using py_int_digits by (simp add: host_port_def port_text_def)
qed

definition published_ports :: "compose_request \<Rightarrow> int list" where
  "published_ports req = map (\<lambda>(s, m). host_port m) (exposings req)"

lemma expose_mapping:
  "port_mapping m \<Longrightarrow> expose ports (s, m) =
     (if host_port m \<in> set ports then Inl (occupied_port s (host_port m)) else Inr (ports @ [host_port m]))"
  using host_port_read[of m] by (simp add: expose_def)

lemma expose_all:
  "foldR expose ports xs = Inr ports' \<Longrightarrow> \<forall>(s, m) \<in> set xs. port_mapping m \<Longrightarrow> distinct ports \<Longrightarrow>
    ports' = ports @ map (\<lambda>(s, m). host_port m) xs \<and> distinct ports'"
proof (induction xs arbitrary: ports)
  case (Cons x xs)
  obtain s m where x: "x = (s, m)" by (cases x)
  with Cons.prems have "port_mapping m" by simp
  with Cons.prems(1,3) x have rest: "foldR expose (ports @ [host_port m]) xs = Inr ports'" "distinct (ports @ [host_port m])"
    by (simp_all add: expose_mapping split: if_splits)
  have "\<forall>(s, m) \<in> set xs. port_mapping m" using Cons.prems(2) by simp
  from Cons.IH[OF rest(1) this rest(2)]
  show ?case unfolding x list.map prod.case append_assoc append_Cons append_Nil .
qed simp

lemma exposed_ports:
  assumes "get_exposed_ports_from_request req = Inr ports" "compose_request_ok req"
  shows "ports = published_ports req \<and> distinct ports \<and> (\<forall>p \<in> set ports. 1 \<le> p \<and> p \<le> 65535)"
proof -
  have m: "\<forall>(s, m) \<in> set (exposings req). port_mapping m"
    using assms(2) by (fastforce simp: exposings_def compose_request_ok_def service_config_ok_def list_all_iff)
  have p: "ports = published_ports req \<and> distinct ports"
    using expose_all[OF assms(1)[unfolded get_exposed_ports_from_request_def] m]
    unfolding published_ports_def append_Nil distinct.simps by blast
  moreover have "\<forall>p \<in> set (published_ports req). 1 \<le> p \<and> p \<le> 65535"
    using m host_port_read by (fastforce simp: published_ports_def)
  ultimately show ?thesis by blast
qed

section \<open>The invariant\<close>

definition stack_ok :: "deployment \<Rightarrow> bool" where
  "stack_ok row = (dm_exposed_ports row = published_ports (dm_request row) \<and> distinct (dm_exposed_ports row) \<and>
     (\<forall>p \<in> set (dm_exposed_ports row). 1 \<le> p \<and> p \<le> 65535))"

definition compose_ok :: "compose_db \<Rightarrow> bool" where
  "compose_ok db = (wf_dict (cm_rows db) \<and> (\<forall>name row. map_of (cm_rows db) name = Some row \<longrightarrow> stack_ok row) \<and>
     (\<forall>m n r q. map_of (cm_rows db) m = Some r \<longrightarrow> map_of (cm_rows db) n = Some q \<longrightarrow> m \<noteq> n \<longrightarrow>
        set (dm_exposed_ports r) \<inter> set (dm_exposed_ports q) = {}) \<and>
     (\<forall>name. cm_active db = Some name \<longrightarrow> has_key (cm_rows db) name))"

lemma compose_okD:
  assumes "compose_ok db"
  shows "wf_dict (cm_rows db)" "map_of (cm_rows db) name = Some row \<Longrightarrow> stack_ok row"
    "map_of (cm_rows db) m = Some r \<Longrightarrow> map_of (cm_rows db) n = Some q \<Longrightarrow> m \<noteq> n \<Longrightarrow>
       set (dm_exposed_ports r) \<inter> set (dm_exposed_ports q) = {}"
    "cm_active db = Some name \<Longrightarrow> has_key (cm_rows db) name"
  using assms unfolding compose_ok_def by blast+

lemma create_or_update_ok:
  assumes upd: "create_or_update yaml name req content landing description db = Inr db'"
    and req: "compose_request_ok req" and ok: "compose_ok db"
  shows "compose_ok db'"
proof -
  let ?ex = "if has_key (cm_rows db) name then Some name else None"
  from upd obtain ports where h: "handle_exposed_ports_on_request req ?ex db = Inr ports"
    and db': "db' = db\<lparr>cm_rows := dset name \<lparr>dm_description = description, dm_request = req, dm_content = content,
        dm_sems_compose = gen_sems_compose yaml name content, dm_exposed_ports = ports, dm_landing_page = landing\<rparr> (cm_rows db)\<rparr>"
    by (auto simp: create_or_update_def)
  from h have e: "get_exposed_ports_from_request req = Inr ports"
    and free: "\<forall>p \<in> set ports. p \<notin> set (fst (get_all_exposed_ports_from_db ?ex db))"
    by (auto simp: handle_exposed_ports_on_request_def Let_def case_prod_unfold filter_empty_conv)
  have others: "set (dm_exposed_ports q) \<inter> set ports = {}" if q: "map_of (cm_rows db) n = Some q" "n \<noteq> name" for n q
  proof -
    have "set (dm_exposed_ports q) \<subseteq> set (fst (get_all_exposed_ports_from_db ?ex db))"
      using map_of_mem[OF q(1)] q(2) by (fastforce simp: get_all_exposed_ports_from_db_def Let_def)
    with free show ?thesis by blast
  qed
  have rows: "u = name \<and> dm_exposed_ports v = ports \<and> dm_request v = req \<or> u \<noteq> name \<and> map_of (cm_rows db) u = Some v"
    if "map_of (cm_rows db') u = Some v" for u v
    using that by (auto simp: db' split: if_splits)
  show ?thesis
    unfolding compose_ok_def
  proof (intro conjI allI impI)
    show "wf_dict (cm_rows db')" using compose_okD(1)[OF ok] by (simp add: db')
    show "has_key (cm_rows db') n" if "cm_active db' = Some n" for n
      using compose_okD(4)[OF ok] that by (auto simp: db' has_key_def)
    show "stack_ok v" if "map_of (cm_rows db') u = Some v" for u v
      using rows[OF that] exposed_ports[OF e req] compose_okD(2)[OF ok] by (auto simp: stack_ok_def)
    fix m n r q
    assume r: "map_of (cm_rows db') m = Some r" and q: "map_of (cm_rows db') n = Some q" and "m \<noteq> n"
    then consider "dm_exposed_ports r = ports" "n \<noteq> name" "map_of (cm_rows db) n = Some q"
      | "dm_exposed_ports q = ports" "m \<noteq> name" "map_of (cm_rows db) m = Some r"
      | "map_of (cm_rows db) m = Some r" "map_of (cm_rows db) n = Some q"
      using rows[OF r] rows[OF q] by blast
    then show "set (dm_exposed_ports r) \<inter> set (dm_exposed_ports q) = {}"
    proof cases
      case 1
      with others[OF 1(3,2)] show ?thesis by blast
    next
      case 2
      with others[OF 2(3,2)] show ?thesis by blast
    next
      case 3
      then show ?thesis using compose_okD(3)[OF ok] \<open>m \<noteq> n\<close> by blast
    qed
  qed
qed

lemma delete_stack_ok:
  assumes ok: "compose_ok db"
  shows "compose_ok (snd (delete_stack name db))"
proof -
  have sub: "map_of (dpop name (cm_rows db)) u = Some v \<Longrightarrow> map_of (cm_rows db) u = Some v" for u v
    by (simp split: if_splits)
  show ?thesis
    unfolding compose_ok_def delete_stack_def snd_conv compose_db.simps
  proof (intro conjI allI impI)
    show "wf_dict (dpop name (cm_rows db))" using compose_okD(1)[OF ok] by simp
    show "has_key (dpop name (cm_rows db)) n" if "(if cm_active db = Some name then None else cm_active db) = Some n" for n
      using compose_okD(4)[OF ok] that by (auto simp: has_key_def split: if_splits)
    show "stack_ok v" if "map_of (dpop name (cm_rows db)) u = Some v" for u v
      by (rule compose_okD(2)[OF ok sub[OF that]])
  qed (use compose_okD(3)[OF ok] sub in blast)
qed

lemma set_active_ok:
  assumes "set_active name db = Inr db'" "compose_ok db"
  shows "compose_ok db'"
proof -
  have db': "has_key (cm_rows db) name" "db' = db\<lparr>cm_active := Some name\<rparr>"
    using assms(1) by (auto simp: set_active_def)
  show ?thesis
    using assms(2) db'(1) unfolding compose_ok_def db'(2) compose_db.simps by simp
qed

lemma delete_active_ok: "compose_ok db \<Longrightarrow> compose_ok (snd (delete_active db))"
  unfolding compose_ok_def delete_active_def by simp

section \<open>The routes\<close>

datatype compose_event =
    PutStack "string list" string compose_request
  | DropStack string
  | Activate string
  | Deactivate

fun compose_step ::
  "remote \<Rightarrow> (json \<Rightarrow> string) \<Rightarrow> (json \<Rightarrow> string) \<Rightarrow> compose_event \<Rightarrow> world \<times> compose_db \<Rightarrow> (world \<times> compose_db) option" where
  "compose_step env yaml dumps (PutStack hexes name req) (w, db) =
     Some (w, case put_deployment yaml hexes name req db of Inl _ \<Rightarrow> db | Inr (_, db') \<Rightarrow> db')"
| "compose_step env yaml dumps (DropStack name) (w, db) = Some (w, snd (delete_deployment name db))"
| "compose_step env yaml dumps (Activate name) s = map_option snd (set_active_deployment env dumps name s)"
| "compose_step env yaml dumps Deactivate s = map_option snd (delete_active_deployment env dumps s)"

primrec compose_run ::
  "remote \<Rightarrow> (json \<Rightarrow> string) \<Rightarrow> (json \<Rightarrow> string) \<Rightarrow> compose_event list \<Rightarrow> world \<times> compose_db \<Rightarrow> (world \<times> compose_db) option" where
  "compose_run env yaml dumps [] s = Some s"
| "compose_run env yaml dumps (ev # evs) s = Option.bind (compose_step env yaml dumps ev s) (compose_run env yaml dumps evs)"

fun valid_event :: "compose_event \<Rightarrow> bool" where
  "valid_event (PutStack hexes name req) = compose_request_ok req"
| "valid_event _ = True"

lemma compose_step_ok:
  assumes step: "compose_step env yaml dumps ev (w, db) = Some (w', db')" and "valid_event ev" and ok: "compose_ok db"
  shows "compose_ok db'"
proof (cases ev)
  case (PutStack hexes name req)
  with assms create_or_update_ok show ?thesis
    by (auto simp: put_deployment_def Let_def split: sum.splits)
next
  case (DropStack name)
  with step delete_stack_ok[OF ok, of name] show ?thesis
    by (auto simp: delete_deployment_def case_prod_unfold Let_def)
next
  case (Activate name)
  with step ok set_active_ok show ?thesis
    by (auto simp: set_active_deployment_def split: option.splits sum.splits if_splits)
next
  case Deactivate
  with step delete_active_ok[OF ok] show ?thesis
    by (auto simp: delete_active_deployment_def case_prod_unfold Let_def split: if_splits)
qed

lemma compose_run_ok:
  "compose_run env yaml dumps evs (w, db) = Some (w', db') \<Longrightarrow> list_all valid_event evs \<Longrightarrow> compose_ok db \<Longrightarrow> compose_ok db'"
  by (induction evs arbitrary: w db) (auto simp: bind_eq_Some_conv intro: compose_step_ok)

text \<open>
  C33: Whatever stacks are put, replaced, deleted, activated and deactivated, in whatever order and
  however Smart EMS answers, every host port is published at most once: the ports that the services
  of a stored stack publish are distinct numbers from 1 to 65535, no other stored stack publishes
  one of them, and the active deployment is stored.
\<close>

theorem published_ports_exclusive:
  assumes "compose_run env yaml dumps evs (w, \<lparr>cm_rows = [], cm_active = None\<rparr>) = Some (w', db)" "list_all valid_event evs"
  shows "(\<forall>name row. get_stack name db = Some row \<longrightarrow>
      distinct (published_ports (dm_request row)) \<and> (\<forall>p \<in> set (published_ports (dm_request row)). 1 \<le> p \<and> p \<le> 65535) \<and>
      (\<forall>other row'. other \<noteq> name \<and> get_stack other db = Some row' \<longrightarrow>
         set (published_ports (dm_request row)) \<inter> set (published_ports (dm_request row')) = {})) \<and>
    (\<forall>name. cm_active db = Some name \<longrightarrow> get_stack name db \<noteq> None)"
proof -
  have "compose_ok \<lparr>cm_rows = [], cm_active = None\<rparr>" by (simp add: compose_ok_def)
  from compose_run_ok[OF assms this] have ok: "compose_ok db" .
  have row: "dm_exposed_ports row = published_ports (dm_request row) \<and> distinct (dm_exposed_ports row) \<and>
      (\<forall>p \<in> set (dm_exposed_ports row). 1 \<le> p \<and> p \<le> 65535)" if "get_stack name db = Some row" for name row
    using compose_okD(2)[OF ok that[unfolded get_stack_def]] unfolding stack_ok_def .
  have "set (dm_exposed_ports row) \<inter> set (dm_exposed_ports row') = {}"
    if "get_stack name db = Some row" "get_stack other db = Some row'" "other \<noteq> name" for name row other row'
    using compose_okD(3)[OF ok that(1,2)[unfolded get_stack_def]] that(3) by blast
  moreover have "get_stack name db \<noteq> None" if "cm_active db = Some name" for name
    using compose_okD(4)[OF ok that] by (simp add: get_stack_def has_key_def)
  ultimately show ?thesis using row by metis
qed

definition port_service :: "string \<Rightarrow> string list \<Rightarrow> service_config" where
  "port_service name ports = \<lparr>sc_name = name, sc_image = ''i'', sc_http_port = 80, sc_exposed_ports = ports, sc_env = [],
     sc_volumes = [], sc_tile_enabled = False, sc_tile_title = [], sc_tile_description = [], sc_tile_group = [], sc_tile_icon = []\<rparr>"

definition port_request :: "string list \<Rightarrow> compose_request" where
  "port_request ports = \<lparr>cr_description = None, cr_services = [port_service ''web'' ports]\<rparr>"

text \<open>The second stack wants a port of the first one and is refused, the third is stored.\<close>

definition sample_puts :: "compose_event list" where
  "sample_puts = [PutStack [''0''] ''a'' (port_request [''8:1/tcp'']), PutStack [''1''] ''b'' (port_request [''8:2'']),
     PutStack [''2''] ''c'' (port_request [''9:1''])]"

definition sample_stacks :: "remote \<Rightarrow> world \<Rightarrow> compose_db option" where
  "sample_stacks env w = map_option snd (compose_run env (\<lambda>_. []) (\<lambda>_. []) sample_puts (w, \<lparr>cm_rows = [], cm_active = None\<rparr>))"

lemma sample_puts_stored:
  "map_option (\<lambda>db. map (\<lambda>(n, row). (n, dm_exposed_ports row)) (cm_rows db)) (sample_stacks env w) =
     Some [(''a'', [8]), (''c'', [9])]"
  "list_all valid_event sample_puts"
  by code_simp+

theorem published_ports_exclusive_witness:
  "\<forall>env w. \<exists>w' db. compose_run env (\<lambda>_. []) (\<lambda>_. []) sample_puts (w, \<lparr>cm_rows = [], cm_active = None\<rparr>) = Some (w', db) \<and>
     (\<exists>r r'. get_stack ''a'' db = Some r \<and> get_stack ''c'' db = Some r' \<and>
        set (published_ports (dm_request r)) \<inter> set (published_ports (dm_request r')) = {})"
proof (intro allI)
  fix env :: remote and w :: world
  let ?run = "compose_run env (\<lambda>_. []) (\<lambda>_. []) sample_puts (w, \<lparr>cm_rows = [], cm_active = None\<rparr>)"
  obtain w' db where run: "?run = Some (w', db)"
    using sample_puts_stored(1)[of env w] unfolding sample_stacks_def by (cases ?run) auto
  have "map fst (cm_rows db) = [''a'', ''c'']"
    using sample_puts_stored(1)[of env w] unfolding sample_stacks_def run by (auto simp: map_eq_Cons_conv)
  then have "fst ` set (cm_rows db) = {''a'', ''c''}"
    unfolding set_map[symmetric] by (simp only: list.set)
  then have "get_stack ''a'' db \<noteq> None" "get_stack ''c'' db \<noteq> None"
    by (simp_all add: get_stack_def map_of_eq_None_iff)
  then obtain r r' where r: "get_stack ''a'' db = Some r" "get_stack ''c'' db = Some r'" by blast
  have "''c'' \<noteq> ''a''" by simp
  with r(2) have other: "''c'' \<noteq> ''a'' \<and> get_stack ''c'' db = Some r'" by (rule conjI[rotated])
  have "set (published_ports (dm_request r)) \<inter> set (published_ports (dm_request r')) = {}"
    by (rule published_ports_exclusive[OF run sample_puts_stored(2), THEN conjunct1, THEN spec[of _ "''a''"],
          THEN spec[of _ r], THEN mp, OF r(1), THEN conjunct2, THEN conjunct2, THEN spec[of _ "''c''"],
          THEN spec[of _ r'], THEN mp, OF other])
  then show "\<exists>w' db. ?run = Some (w', db) \<and> (\<exists>r r'. get_stack ''a'' db = Some r \<and> get_stack ''c'' db = Some r' \<and>
      set (published_ports (dm_request r)) \<inter> set (published_ports (dm_request r')) = {})"
    by (intro exI[of _ w'] exI[of _ db] conjI run exI[of _ r] exI[of _ r'] r)
qed

end
